(* ===== verification/Prelude.thy ===== *)
theory Prelude
  imports Complex_Main "HOL-Library.List_Lexorder" "HOL-Library.Char_ord"
begin

text \<open>
  Shared vocabulary of the development: a state-and-exception monad for the asynchronous
  TypeScript code (every \<open>await\<close> is sequenced, a thrown error keeps the effects made so
  far), the preservation calculus for invariants over that monad, and the JavaScript
  string helpers the sources use.  Strings are \<open>char list\<close>s; the sources only compare,
  slice and concatenate them, and every literal they use is ASCII.
\<close>

named_theorems keeps_intros "preservation rules for the state-and-exception monad"
named_theorems run_simps "evaluation rules for the state-and-exception monad"
named_theorems row_simps "facts on table rows"

section \<open>State and exceptions\<close>

type_synonym ('s, 'e, 'a) M = "'s \<Rightarrow> ('e + 'a) \<times> 's"

definition ret :: "'a \<Rightarrow> ('s, 'e, 'a) M" where
  "ret x = (\<lambda>s. (Inr x, s))"

definition throwM :: "'e \<Rightarrow> ('s, 'e, 'a) M" where
  "throwM e = (\<lambda>s. (Inl e, s))"

definition bindM :: "('s, 'e, 'a) M \<Rightarrow> ('a \<Rightarrow> ('s, 'e, 'b) M) \<Rightarrow> ('s, 'e, 'b) M" where
  "bindM m f = (\<lambda>s. case m s of (Inl e, s') \<Rightarrow> (Inl e, s') | (Inr x, s') \<Rightarrow> f x s')"

definition catchM :: "('s, 'e, 'a) M \<Rightarrow> ('e \<Rightarrow> ('s, 'e, 'a) M) \<Rightarrow> ('s, 'e, 'a) M" where
  "catchM m h = (\<lambda>s. case m s of (Inl e, s') \<Rightarrow> h e s' | (Inr x, s') \<Rightarrow> (Inr x, s'))"

definition readM :: "('s \<Rightarrow> 'a) \<Rightarrow> ('s, 'e, 'a) M" where
  "readM f = (\<lambda>s. (Inr (f s), s))"

definition modifyM :: "('s \<Rightarrow> 's) \<Rightarrow> ('s, 'e, unit) M" where
  "modifyM f = (\<lambda>s. (Inr (), f s))"

text \<open>\<open>for (const x of xs) acc = await body(acc, x)\<close>: stops at the first thrown error.\<close>

fun foldM :: "('b \<Rightarrow> 'a \<Rightarrow> ('s, 'e, 'b) M) \<Rightarrow> 'b \<Rightarrow> 'a list \<Rightarrow> ('s, 'e, 'b) M" where
  "foldM f b [] = ret b"
| "foldM f b (x # xs) = bindM (f b x) (\<lambda>b'. foldM f b' xs)"

text \<open>\<open>try { await m } catch { }\<close>: an error is dropped, its effects stay.\<close>

definition tryM :: "('s, 'e, unit) M \<Rightarrow> ('s, 'e, unit) M" where
  "tryM m = catchM m (\<lambda>_. ret ())"

lemma ret_run [run_simps]: "ret x s = (Inr x, s)"
  by (simp add: ret_def)

lemma throwM_run [run_simps]: "throwM e s = (Inl e, s)"
  by (simp add: throwM_def)

lemma readM_run [run_simps]: "readM f s = (Inr (f s), s)"
  by (simp add: readM_def)

lemma modifyM_run [run_simps]: "modifyM f s = (Inr (), f s)"
  by (simp add: modifyM_def)

lemma bindM_run [run_simps]:
  "bindM m f s = (case m s of (Inl e, s') \<Rightarrow> (Inl e, s') | (Inr x, s') \<Rightarrow> f x s')"
  by (simp add: bindM_def)

lemma catchM_run [run_simps]:
  "catchM m h s = (case m s of (Inl e, s') \<Rightarrow> h e s' | (Inr x, s') \<Rightarrow> (Inr x, s'))"
  by (simp add: catchM_def)

lemma tryM_run [run_simps]: "tryM m s = (Inr (), snd (m s))"
  by (simp add: tryM_def catchM_def ret_def split: prod.splits sum.splits)

lemma bindM_Inr_iff:
  "bindM m f s = (Inr y, t) \<longleftrightarrow> (\<exists>x s'. m s = (Inr x, s') \<and> f x s' = (Inr y, t))"
  by (auto simp: bindM_def split: prod.splits sum.splits)

lemma bindM_InrE:
  assumes "bindM m f s = (Inr y, t)"
  obtains x s' where "m s = (Inr x, s')" and "f x s' = (Inr y, t)"
  using assms by (auto simp: bindM_Inr_iff)

subsection \<open>Invariants: preserved whether the computation returns or throws\<close>

definition keeps :: "('s \<Rightarrow> bool) \<Rightarrow> ('s, 'e, 'a) M \<Rightarrow> bool" where
  "keeps I m \<longleftrightarrow> (\<forall>s. I s \<longrightarrow> I (snd (m s)))"

lemma keepsI: "(\<And>s. I s \<Longrightarrow> I (snd (m s))) \<Longrightarrow> keeps I m"
  by (simp add: keeps_def)

lemma keepsD: "keeps I m \<Longrightarrow> I s \<Longrightarrow> I (snd (m s))"
  by (simp add: keeps_def)

lemma keepsD_eq: "keeps I m \<Longrightarrow> m s = (r, t) \<Longrightarrow> I s \<Longrightarrow> I t"
  by (auto simp: keeps_def dest: spec [of _ s])

lemma keeps_ret [keeps_intros]: "keeps I (ret x)"
  by (simp add: keeps_def ret_def)

lemma keeps_throwM [keeps_intros]: "keeps I (throwM e)"
  by (simp add: keeps_def throwM_def)

lemma keeps_readM [keeps_intros]: "keeps I (readM f)"
  by (simp add: keeps_def readM_def)

lemma keeps_bindM [keeps_intros]:
  "keeps I m \<Longrightarrow> (\<And>x. keeps I (f x)) \<Longrightarrow> keeps I (bindM m f)"
  by (auto simp: keeps_def bindM_def split: prod.splits sum.splits)

lemma keeps_catchM [keeps_intros]:
  "keeps I m \<Longrightarrow> (\<And>e. keeps I (h e)) \<Longrightarrow> keeps I (catchM m h)"
  by (auto simp: keeps_def catchM_def split: prod.splits sum.splits)

lemma keeps_tryM [keeps_intros]: "keeps I m \<Longrightarrow> keeps I (tryM m)"
  by (auto simp: keeps_def tryM_run)

lemma keeps_foldM [keeps_intros]: "(\<And>b x. keeps I (f b x)) \<Longrightarrow> keeps I (foldM f b xs)"
  by (induction xs arbitrary: b) (auto intro: keeps_intros)

lemma keeps_if [keeps_intros]:
  "(c \<Longrightarrow> keeps I m) \<Longrightarrow> (\<not> c \<Longrightarrow> keeps I n) \<Longrightarrow> keeps I (if c then m else n)"
  by simp

lemma keeps_case_option [keeps_intros]:
  "(x = None \<Longrightarrow> keeps I m) \<Longrightarrow> (\<And>y. x = Some y \<Longrightarrow> keeps I (f y)) \<Longrightarrow>
   keeps I (case x of None \<Rightarrow> m | Some y \<Rightarrow> f y)"
  by (simp split: option.split)

lemma keeps_case_sum [keeps_intros]:
  "(\<And>a. x = Inl a \<Longrightarrow> keeps I (f a)) \<Longrightarrow> (\<And>b. x = Inr b \<Longrightarrow> keeps I (g b)) \<Longrightarrow>
   keeps I (case x of Inl a \<Rightarrow> f a | Inr b \<Rightarrow> g b)"
  by (simp split: sum.split)

lemma keeps_case_prod [keeps_intros]:
  "(\<And>a b. x = (a, b) \<Longrightarrow> keeps I (f a b)) \<Longrightarrow> keeps I (case x of (a, b) \<Rightarrow> f a b)"
  by (simp split: prod.split)

lemma keeps_Let [keeps_intros]: "(\<And>x. x = e \<Longrightarrow> keeps I (f x)) \<Longrightarrow> keeps I (Let e f)"
  by (simp add: Let_def)

lemma keeps_conj:
  "keeps I m \<Longrightarrow> keeps J m \<Longrightarrow> keeps (\<lambda>s. I s \<and> J s) m"
  by (simp add: keeps_def)

lemma keeps_ex:
  assumes "\<And>x. keeps (P x) m"
  shows "keeps (\<lambda>s. \<exists>x. P x s) m"
proof (rule keepsI)
  fix s assume "\<exists>x. P x s"
  then obtain x where "P x s" ..
  then have "P x (snd (m s))" by (rule keepsD [OF assms])
  then show "\<exists>x. P x (snd (m s))" ..
qed

lemma keeps_pure: "keeps P m \<Longrightarrow> keeps (\<lambda>s. P s \<and> A) m"
  by (simp add: keeps_def)

subsection \<open>Triples with a normal and an exceptional postcondition\<close>

definition triple ::
  "('s \<Rightarrow> bool) \<Rightarrow> ('s, 'e, 'a) M \<Rightarrow> ('a \<Rightarrow> 's \<Rightarrow> bool) \<Rightarrow> ('e \<Rightarrow> 's \<Rightarrow> bool) \<Rightarrow> bool" where
  "triple P m Q E \<longleftrightarrow>
     (\<forall>s. P s \<longrightarrow> (case m s of (Inr x, s') \<Rightarrow> Q x s' | (Inl e, s') \<Rightarrow> E e s'))"

lemma triple_bindM:
  assumes "triple P m R E" and "\<And>x. triple (R x) (f x) Q E"
  shows "triple P (bindM m f) Q E"
  unfolding triple_def
proof (intro allI impI)
  fix s assume "P s"
  with assms(1) have m: "case m s of (Inr x, s') \<Rightarrow> R x s' | (Inl e, s') \<Rightarrow> E e s'"
    by (simp add: triple_def)
  obtain r s' where ms: "m s = (r, s')" by fastforce
  show "case bindM m f s of (Inr x, s') \<Rightarrow> Q x s' | (Inl e, s') \<Rightarrow> E e s'"
    using m assms(2) ms by (cases r) (auto simp: bindM_def triple_def)
qed

lemma triple_ret: "triple (Q x) (ret x) Q E"
  by (simp add: triple_def ret_def)

lemma triple_throwM: "triple (E e) (throwM e) Q E"
  by (simp add: triple_def throwM_def)

lemma triple_weaken:
  "triple P m Q E \<Longrightarrow> (\<And>s. P' s \<Longrightarrow> P s) \<Longrightarrow> (\<And>x s. Q x s \<Longrightarrow> Q' x s) \<Longrightarrow>
   (\<And>e s. E e s \<Longrightarrow> E' e s) \<Longrightarrow> triple P' m Q' E'"
  by (force simp: triple_def split: prod.splits sum.splits)

lemma triple_keeps: "keeps I m \<Longrightarrow> triple I m (\<lambda>_. I) (\<lambda>_. I)"
  by (auto simp: triple_def keeps_def split: prod.splits sum.splits)

lemma triple_pure: "(A \<Longrightarrow> triple P m Q E) \<Longrightarrow> triple (\<lambda>s. P s \<and> A) m Q E"
  by (simp add: triple_def)

lemma triple_fact: "(\<And>s. P s \<Longrightarrow> A) \<Longrightarrow> (A \<Longrightarrow> triple P m Q E) \<Longrightarrow> triple P m Q E"
  by (auto simp: triple_def)

lemma tripleD:
  assumes "triple P m Q E" and "P s"
  obtains x s' where "m s = (Inr x, s')" "Q x s'" | e s' where "m s = (Inl e, s')" "E e s'"
proof -
  have "case m s of (Inr x, s') \<Rightarrow> Q x s' | (Inl e, s') \<Rightarrow> E e s'" using assms by (simp add: triple_def)
  moreover obtain r s' where "m s = (r, s')" by fastforce
  ultimately show ?thesis using that by (cases r) auto
qed

lemma triple_run:
  assumes "\<And>s. P s \<Longrightarrow> \<exists>x s'. m s = (Inr x, s') \<and> Q x s'"
  shows "triple P m Q E"
  unfolding triple_def using assms by fastforce

lemma triple_if: "(c \<Longrightarrow> triple P m Q E) \<Longrightarrow> (\<not> c \<Longrightarrow> triple P n Q E) \<Longrightarrow> triple P (if c then m else n) Q E"
  by simp

lemma triple_option:
  "(x = None \<Longrightarrow> triple P m Q E) \<Longrightarrow> (\<And>y. x = Some y \<Longrightarrow> triple P (f y) Q E) \<Longrightarrow>
   triple P (case x of None \<Rightarrow> m | Some y \<Rightarrow> f y) Q E"
  by (simp split: option.split)

lemma triple_prod: "(\<And>a b. x = (a, b) \<Longrightarrow> triple P (f a b) Q E) \<Longrightarrow> triple P (case x of (a, b) \<Rightarrow> f a b) Q E"
  by (simp split: prod.split)

lemma triple_throw: "(\<And>s. P s \<Longrightarrow> E e s) \<Longrightarrow> triple P (throwM e) Q E"
  by (simp add: triple_def throwM_def)

lemma triple_return: "(\<And>s. P s \<Longrightarrow> Q x s) \<Longrightarrow> triple P (ret x) Q E"
  by (simp add: triple_def ret_def)

lemma triple_step:
  assumes "keeps I m" and "\<And>e s. I s \<Longrightarrow> E e s" and "\<And>x. triple I (f x) Q E"
  shows "triple I (bindM m f) Q E"
  by (rule triple_bindM [OF triple_weaken [OF triple_keeps [OF assms(1)]] assms(3)]) (use assms(2) in auto)

lemma triple_seq:
  assumes "triple P m R E'" and "\<And>e s. E' e s \<Longrightarrow> E e s" and "\<And>x. triple (R x) (f x) Q E"
  shows "triple P (bindM m f) Q E"
  by (rule triple_bindM [OF triple_weaken [OF assms(1)] assms(3)]) (use assms(2) in auto)

lemma triple_ex:
  assumes "\<And>x. triple (P x) m Q E"
  shows "triple (\<lambda>s. \<exists>x. P x s) m Q E"
  unfolding triple_def
proof (intro allI impI)
  fix s assume "\<exists>x. P x s"
  then obtain x where "P x s" ..
  with assms [of x] show "case m s of (Inr x, s') \<Rightarrow> Q x s' | (Inl e, s') \<Rightarrow> E e s'"
    by (simp add: triple_def)
qed

lemma triple_foldM:
  "(\<And>b x. x \<in> set xs \<Longrightarrow> triple P (f b x) (\<lambda>_. P) E) \<Longrightarrow> triple P (foldM f b xs) (\<lambda>_. P) E"
  by (induction xs arbitrary: b) (auto intro: triple_return triple_bindM)

lemma triple_catchM:
  assumes "triple P m Q R" and "\<And>e. triple (R e) (h e) Q E"
  shows "triple P (catchM m h) Q E"
  unfolding triple_def
proof (intro allI impI)
  fix s assume "P s"
  show "case catchM m h s of (Inr x, s') \<Rightarrow> Q x s' | (Inl e, s') \<Rightarrow> E e s'"
  proof (rule tripleD [OF assms(1) \<open>P s\<close>])
    fix x s' assume "m s = (Inr x, s')" "Q x s'"
    then show ?thesis by (simp add: catchM_def)
  next
    fix e s' assume m: "m s = (Inl e, s')" "R e s'"
    then show ?thesis using assms(2) [of e] by (simp add: catchM_def triple_def)
  qed
qed

section \<open>Lists as tables\<close>

definition unique_on :: "('r \<Rightarrow> bool) \<Rightarrow> ('r \<Rightarrow> 'k) \<Rightarrow> 'r list \<Rightarrow> bool" where
  "unique_on p k t \<longleftrightarrow> distinct (map k (filter p t))"

lemma unique_onD:
  assumes "unique_on p k t" and "r \<in> set t" and "r' \<in> set t" and "p r" and "p r'" and "k r = k r'"
  shows "r = r'"
  using assms by (auto simp: unique_on_def distinct_map inj_on_def)

lemma unique_on_find:
  assumes "unique_on p k t" and "r \<in> set t" and "p r"
  shows "find (\<lambda>x. p x \<and> k x = k r) t = Some r"
  using assms
proof (induction t)
  case Nil
  then show ?case by simp
next
  case (Cons x xs)
  show ?case
  proof (cases "p x \<and> k x = k r")
    case True
    have "x = r" by (rule unique_onD [OF Cons.prems(1)]) (use True Cons.prems in auto)
    with True show ?thesis by simp
  next
    case False
    then have "r \<in> set xs" and "unique_on p k xs"
      using Cons.prems by (auto simp: unique_on_def split: if_splits)
    with Cons.IH Cons.prems(3) False show ?thesis by auto
  qed
qed

lemma find_Some_D: "find p xs = Some x \<Longrightarrow> x \<in> set xs \<and> p x"
  by (auto simp: find_Some_iff)

lemma map_update_key:
  "(\<And>r. k (f r) = k r) \<Longrightarrow> map k (map (\<lambda>r. if q r then f r else r) t) = map k t"
  by (induction t) auto

lemma image_update_key:
  "(\<And>r. k (f r) = k r) \<Longrightarrow> k ` set (map (\<lambda>r. if q r then f r else r) t) = k ` set t"
  by (metis map_update_key list.set_map)

text \<open>Sequencing of calls that throw or answer, without state.\<close>

definition bindE :: "'e + 'a \<Rightarrow> ('a \<Rightarrow> 'e + 'b) \<Rightarrow> 'e + 'b" where
  "bindE r f = (case r of Inl e \<Rightarrow> Inl e | Inr x \<Rightarrow> f x)"

lemma bindE_Inr: "bindE r f = Inr y \<longleftrightarrow> (\<exists>x. r = Inr x \<and> f x = Inr y)"
  by (cases r) (auto simp: bindE_def)

section \<open>JavaScript string helpers\<close>

definition startsWith :: "string \<Rightarrow> string \<Rightarrow> bool" where
  "startsWith s p \<longleftrightarrow> take (length p) s = p"

definition endsWith :: "string \<Rightarrow> string \<Rightarrow> bool" where
  "endsWith s p \<longleftrightarrow> length p \<le> length s \<and> drop (length s - length p) s = p"

fun includesStr :: "string \<Rightarrow> string \<Rightarrow> bool" where
  "includesStr [] p = (p = [])"
| "includesStr (c # cs) p = (take (length p) (c # cs) = p \<or> includesStr cs p)"

text \<open>\<open>s.split(c)\<close> for a one-character separator: always at least one segment.\<close>

fun split_on :: "char \<Rightarrow> string \<Rightarrow> string list" where
  "split_on c [] = [[]]"
| "split_on c (x # xs) =
     (if x = c then [] # split_on c xs
      else (case split_on c xs of [] \<Rightarrow> [[x]] | seg # segs \<Rightarrow> (x # seg) # segs))"

fun join_with :: "string \<Rightarrow> string list \<Rightarrow> string" where
  "join_with sep [] = []"
| "join_with sep [x] = x"
| "join_with sep (x # y # ys) = x @ sep @ join_with sep (y # ys)"

definition toLower :: "char \<Rightarrow> char" where
  "toLower c =
     (let n = (of_char c :: nat) in if 65 \<le> n \<and> n \<le> 90 then char_of (n + 32) else c)"

definition toLowerCase :: "string \<Rightarrow> string" where
  "toLowerCase s = map toLower s"

lemma startsWith_append [simp]: "startsWith (p @ s) p"
  by (simp add: startsWith_def)

lemma startsWith_iff: "startsWith s p \<longleftrightarrow> (\<exists>r. s = p @ r)"
  by (metis append_eq_conv_conj append_take_drop_id startsWith_def)

lemma includesStr_iff: "includesStr s p \<longleftrightarrow> (\<exists>u v. s = u @ p @ v)"
proof (induction s)
  case Nil
  then show ?case by simp
next
  case (Cons c cs)
  show ?case
  proof
    assume "includesStr (c # cs) p"
    then consider "take (length p) (c # cs) = p" | "includesStr cs p" by auto
    then show "\<exists>u v. c # cs = u @ p @ v"
    proof cases
      case 1
      then have "c # cs = [] @ p @ drop (length p) (c # cs)" by (metis append_Nil append_take_drop_id)
      then show ?thesis by blast
    next
      case 2
      with Cons.IH show ?thesis by (metis append_Cons)
    qed
  next
    assume "\<exists>u v. c # cs = u @ p @ v"
    then obtain u v where e: "c # cs = u @ p @ v" by blast
    show "includesStr (c # cs) p"
    proof (cases u)
      case Nil
      with e have "take (length p) (c # cs) = p" by simp
      then show ?thesis by simp
    next
      case (Cons a list)
      with e Cons.IH show ?thesis by auto
    qed
  qed
qed

lemma split_on_not_Nil [simp]: "split_on c s \<noteq> []"
  by (induction s) (auto split: list.splits)

lemma join_split [simp]: "join_with [c] (split_on c s) = s"
proof (induction s)
  case Nil
  then show ?case by simp
next
  case (Cons x xs)
  then show ?case
    by (cases "split_on c xs") (auto, metis join_with.simps(2,3) list.exhaust append_Cons)+
qed

lemma split_on_no_sep: "c \<notin> set s \<Longrightarrow> split_on c s = [s]"
  by (induction s) auto

lemma split_on_append_sep:
  "c \<notin> set s \<Longrightarrow> split_on c (s @ c # t) = s # split_on c t"
  by (induction s) auto

lemma split_on_segments: "seg \<in> set (split_on c s) \<Longrightarrow> c \<notin> set seg"
  by (induction s arbitrary: seg) (auto split: if_splits list.splits)

lemma split_join:
  "ss \<noteq> [] \<Longrightarrow> (\<And>s. s \<in> set ss \<Longrightarrow> c \<notin> set s) \<Longrightarrow> split_on c (join_with [c] ss) = ss"
  by (induction "[c]" ss rule: join_with.induct) (auto simp: split_on_no_sep split_on_append_sep)

lemma length_toLowerCase [simp]: "length (toLowerCase s) = length s"
  by (simp add: toLowerCase_def)

end
