(* ===== verification/Js_Date.thy ===== *)
theory Js_Date
  imports Prelude
begin

text \<open>
  The part of ECMAScript's \<open>Date\<close> the sources use: \<open>toISOString\<close>, \<open>Date.parse\<close> on the
  strings \<open>toISOString\<close> emits (any other spelling parses to NaN here, \<open>None\<close>), the UTC
  year and month of a time value and \<open>Date.UTC\<close> of a first of the month.  A time value is
  an \<open>int\<close>, milliseconds since the epoch.  The results are the round trip and the fact the
  storage layer rests on: comparing two stored timestamps as strings, which is what every
  SQL \<open>ORDER BY\<close>, \<open><=\<close> and \<open>>=\<close> does, compares the instants, as long as both years have
  four digits.
\<close>

section \<open>Calendar arithmetic (ECMAScript 21.4.1)\<close>

definition msPerDay :: int where
  "msPerDay = 86400000"

definition dayFromYear :: "int \<Rightarrow> int" where
  "dayFromYear y = 365 * (y - 1970) + (y - 1969) div 4 - (y - 1901) div 100 + (y - 1601) div 400"

definition leapYear :: "int \<Rightarrow> bool" where
  "leapYear y \<longleftrightarrow> y mod 4 = 0 \<and> (y mod 100 \<noteq> 0 \<or> y mod 400 = 0)"

definition leapDay :: "int \<Rightarrow> int" where
  "leapDay y = (if leapYear y then 1 else 0)"

text \<open>The year of a day number: an estimate that is at most one off, then corrected.\<close>

definition yearOfDay :: "int \<Rightarrow> int" where
  "yearOfDay d =
     (let y = 1970 + (d * 400) div 146097
      in if d < dayFromYear y then y - 1 else if dayFromYear (y + 1) \<le> d then y + 1 else y)"

definition daysBeforeMonth :: "int \<Rightarrow> int \<Rightarrow> int" where
  "daysBeforeMonth l m =
     (if m < 1 then 0 else if m < 2 then 31 else if m < 3 then 59 + l else if m < 4 then 90 + l
      else if m < 5 then 120 + l else if m < 6 then 151 + l else if m < 7 then 181 + l
      else if m < 8 then 212 + l else if m < 9 then 243 + l else if m < 10 then 273 + l
      else if m < 11 then 304 + l else if m < 12 then 334 + l else 365 + l)"

definition monthOfDay :: "int \<Rightarrow> int \<Rightarrow> int" where
  "monthOfDay l d =
     (if d < 31 then 0 else if d < 59 + l then 1 else if d < 90 + l then 2 else if d < 120 + l then 3
      else if d < 151 + l then 4 else if d < 181 + l then 5 else if d < 212 + l then 6
      else if d < 243 + l then 7 else if d < 273 + l then 8 else if d < 304 + l then 9
      else if d < 334 + l then 10 else 11)"

definition getUTCFullYear :: "int \<Rightarrow> int" where
  "getUTCFullYear t = yearOfDay (t div msPerDay)"

definition dayWithinYear :: "int \<Rightarrow> int" where
  "dayWithinYear t = t div msPerDay - dayFromYear (getUTCFullYear t)"

text \<open>Months count from 0, as in JavaScript.\<close>

definition getUTCMonth :: "int \<Rightarrow> int" where
  "getUTCMonth t = monthOfDay (leapDay (getUTCFullYear t)) (dayWithinYear t)"

definition getUTCDate :: "int \<Rightarrow> int" where
  "getUTCDate t =
     dayWithinYear t - daysBeforeMonth (leapDay (getUTCFullYear t)) (getUTCMonth t) + 1"

text \<open>\<open>Date.UTC(y, m, 1, 0, 0, 0, 0)\<close>: a month of 12 rolls over into January.\<close>

definition dateUTC_month :: "int \<Rightarrow> int \<Rightarrow> int" where
  "dateUTC_month y m =
     (let y' = y + m div 12; m' = m mod 12
      in (dayFromYear y' + daysBeforeMonth (leapDay y') m') * msPerDay)"

lemma div_step:
  fixes k n :: int
  assumes "0 < n"
  shows "(k + 1) div n = k div n + (if (k + 1) mod n = 0 then 1 else 0)"
proof (cases "k mod n = n - 1")
  case True
  have e: "k + 1 = (k div n + 1) * n"
    using div_mult_mod_eq [of k n] True by (simp add: algebra_simps)
  show ?thesis using assms unfolding e by simp
next
  case False
  have b: "0 \<le> k mod n" "k mod n < n" using assms by simp_all
  have "(k + 1) div n = k div n"
    by (rule int_div_pos_eq [where r = "k mod n + 1"]) (use b False in auto)
  moreover have "(k + 1) mod n = k mod n + 1"
    by (rule int_mod_pos_eq [where q = "k div n"]) (use b False in auto)
  ultimately show ?thesis using b by simp
qed

lemma mod_shift:
  fixes y :: int
  shows "(y - 1969 + 1) mod 4 = y mod 4" "(y - 1901 + 1) mod 100 = y mod 100"
    "(y - 1601 + 1) mod 400 = y mod 400"
proof -
  have e: "y - 1969 + 1 = y + 4 * (- 492)" "y - 1901 + 1 = y + 100 * (- 19)" "y - 1601 + 1 = y + 400 * (- 4)"
    by simp_all
  show "(y - 1969 + 1) mod 4 = y mod 4" unfolding e(1) by (rule mod_mult_self2)
  show "(y - 1901 + 1) mod 100 = y mod 100" unfolding e(2) by (rule mod_mult_self2)
  show "(y - 1601 + 1) mod 400 = y mod 400" unfolding e(3) by (rule mod_mult_self2)
qed

lemma gregorian_step:
  fixes a b c z :: int
  assumes "P100 \<Longrightarrow> P4" and "P400 \<Longrightarrow> P100"
  shows "365 * (z + 1) + (a + (if P4 then 1 else 0)) - (b + (if P100 then 1 else 0)) + (c + (if P400 then 1 else 0))
    = 365 * z + a - b + c + 365 + (if P4 \<and> (\<not> P100 \<or> P400) then 1 else 0)"
proof -
  consider "\<not> P4" "\<not> P100" "\<not> P400" | "P4" "\<not> P100" "\<not> P400" | "P4" "P100" "\<not> P400" | "P4" "P100" "P400"
    using assms by blast
  then show ?thesis by cases simp_all
qed

lemma dayFromYear_step: "dayFromYear (y + 1) = dayFromYear y + 365 + leapDay y"
proof -
  have i: "y mod 100 = 0 \<Longrightarrow> y mod 4 = 0" "y mod 400 = 0 \<Longrightarrow> y mod 100 = 0"
    using dvd_trans [of 4 100 y] dvd_trans [of 100 400 y] by (simp_all add: mod_eq_0_iff_dvd)
  have s: "y + 1 - k = y - k + 1" for k by simp
  show ?thesis
    unfolding dayFromYear_def leapDay_def leapYear_def s
      div_step [of 4, OF zero_less_numeral] div_step [of 100, OF zero_less_numeral]
      div_step [of 400, OF zero_less_numeral] mod_shift
    by (rule gregorian_step) (fact i)+
qed

lemma leapDay_cases: "leapDay y = 0 \<or> leapDay y = 1"
  by (simp add: leapDay_def)

lemma dayFromYear_less: "dayFromYear y < dayFromYear (y + 1)"
  using leapDay_cases [of y] by (auto simp: dayFromYear_step)

lemma dayFromYear_strict_mono: "y < y' \<Longrightarrow> dayFromYear (y + 1) \<le> dayFromYear y'"
proof (induction "nat (y' - (y + 1))" arbitrary: y')
  case 0
  then have "y' = y + 1" by simp
  then show ?case by simp
next
  case (Suc n)
  then have "n = nat ((y' - 1) - (y + 1))" and "y < y' - 1" by auto
  then have "dayFromYear (y + 1) \<le> dayFromYear (y' - 1)" by (rule Suc.hyps(1))
  also have "\<dots> \<le> dayFromYear y'" using dayFromYear_less [of "y' - 1"] by simp
  finally show ?case .
qed

lemma yearOfDay_bounds:
  "dayFromYear (yearOfDay d) \<le> d \<and> d < dayFromYear (yearOfDay d + 1)"
proof -
  define n where "n = (d * 400) div 146097"
  have n: "146097 * n \<le> d * 400" "d * 400 < 146097 * n + 146097"
    by (simp_all add: n_def)
  have dfy: "dayFromYear (1970 + k) = 365 * k + (k + 1) div 4 - (k + 69) div 100 + (k + 369) div 400" for k
    by (simp add: dayFromYear_def algebra_simps)
  have q: "n' * (k div n') \<le> k \<and> k < n' * (k div n') + n'" if "0 < n'" for k n' :: int
    using that by (simp add: mult_div_mod_eq [symmetric] minus_mod_eq_mult_div [symmetric])
  have lin: "4 * a \<le> k + 1 \<Longrightarrow> k + 69 < 100 * b + 100 \<Longrightarrow> 400 * c \<le> k + 369 \<Longrightarrow>
      400 * (365 * k + a - b + c) \<le> 146097 * k + 589"
    "k + 1 < 4 * a + 4 \<Longrightarrow> 100 * b \<le> k + 69 \<Longrightarrow> k + 369 < 400 * c + 400 \<Longrightarrow>
      146097 * k - 507 < 400 * (365 * k + a - b + c)" for k a b c :: int
    by simp_all
  have lo: "400 * dayFromYear (1970 + k) \<le> 146097 * k + 589" for k
    unfolding dfy by (rule lin(1)) (use q in auto)
  have hi: "146097 * k - 507 < 400 * dayFromYear (1970 + k)" for k
    unfolding dfy by (rule lin(2)) (use q in auto)
  have below: "dayFromYear (1970 + n - 1) \<le> d" using lo [of "n - 1"] n by (simp add: algebra_simps)
  have above: "d < dayFromYear (1970 + n + 1 + 1)"
    using hi [of "n + 2"] n by (simp add: algebra_simps)
  show ?thesis
    unfolding yearOfDay_def Let_def n_def [symmetric]
    using below above by (auto simp: algebra_simps)
qed

lemma daysBeforeMonth_12 [simp]: "daysBeforeMonth l 12 = 365 + l"
  by (simp add: daysBeforeMonth_def)

lemma monthOfDay_range: "0 \<le> monthOfDay l d \<and> monthOfDay l d \<le> 11"
  by (simp add: monthOfDay_def)

lemma monthOfDay_bounds:
  assumes "l = 0 \<or> l = 1" and "0 \<le> d" and "d < 365 + l"
  shows "daysBeforeMonth l (monthOfDay l d) \<le> d \<and> d < daysBeforeMonth l (monthOfDay l d + 1)
    \<and> d - daysBeforeMonth l (monthOfDay l d) < 31"
  using assms by (auto simp: monthOfDay_def daysBeforeMonth_def)

lemma daysBeforeMonth_mono:
  assumes "l = 0 \<or> l = 1" and "m \<le> m'"
  shows "daysBeforeMonth l m \<le> daysBeforeMonth l m'"
  using assms by (auto simp: daysBeforeMonth_def)

lemma getUTCFullYear_bounds:
  "dayFromYear (getUTCFullYear t) \<le> t div msPerDay \<and> t div msPerDay < dayFromYear (getUTCFullYear t + 1)"
  by (simp add: getUTCFullYear_def yearOfDay_bounds)

lemma dayWithinYear_bounds:
  "0 \<le> dayWithinYear t \<and> dayWithinYear t < 365 + leapDay (getUTCFullYear t)"
  using getUTCFullYear_bounds [of t] by (simp add: dayWithinYear_def dayFromYear_step)

lemmas getUTCMonth_bounds =
  monthOfDay_bounds [OF leapDay_cases dayWithinYear_bounds [THEN conjunct1]
    dayWithinYear_bounds [THEN conjunct2], folded getUTCMonth_def]

lemma getUTCMonth_range: "0 \<le> getUTCMonth t \<and> getUTCMonth t \<le> 11"
  by (simp add: getUTCMonth_def monthOfDay_range)

lemma getUTCDate_range: "1 \<le> getUTCDate t \<and> getUTCDate t \<le> 31"
  using getUTCMonth_bounds [of t] by (simp add: getUTCDate_def)

text \<open>A time value is rebuilt from its calendar fields.\<close>

lemma time_value_fields:
  "t = (dayFromYear (getUTCFullYear t) + daysBeforeMonth (leapDay (getUTCFullYear t)) (getUTCMonth t)
        + (getUTCDate t - 1)) * msPerDay + t mod msPerDay"
  by (simp add: getUTCDate_def dayWithinYear_def)

section \<open>Decimal fields\<close>

definition digitChar :: "nat \<Rightarrow> char" where
  "digitChar d = char_of (48 + d)"

definition digitVal :: "char \<Rightarrow> nat option" where
  "digitVal c = (let n = (of_char c :: nat) in if 48 \<le> n \<and> n \<le> 57 then Some (n - 48) else None)"

text \<open>The last \<open>w\<close> decimal digits of \<open>n\<close>, zero padded.\<close>

fun pad :: "nat \<Rightarrow> nat \<Rightarrow> string" where
  "pad 0 n = []"
| "pad (Suc w) n = pad w (n div 10) @ [digitChar (n mod 10)]"

fun digitsVal :: "nat \<Rightarrow> string \<Rightarrow> nat option" where
  "digitsVal acc [] = Some acc"
| "digitsVal acc (c # cs) =
     (case digitVal c of None \<Rightarrow> None | Some d \<Rightarrow> digitsVal (10 * acc + d) cs)"

lemma of_char_digitChar: "d < 10 \<Longrightarrow> (of_char (digitChar d) :: nat) = 48 + d"
  by (simp add: digitChar_def)

lemma digitVal_digitChar [simp]: "d < 10 \<Longrightarrow> digitVal (digitChar d) = Some d"
  by (simp add: digitVal_def of_char_digitChar)

lemma length_pad [simp]: "length (pad w n) = w"
  by (induction w arbitrary: n) auto

lemma digitsVal_append:
  "digitsVal acc (s @ t) = (case digitsVal acc s of None \<Rightarrow> None | Some v \<Rightarrow> digitsVal v t)"
  by (induction s arbitrary: acc) (auto split: option.splits)

lemma digitsVal_pad: "n < 10 ^ w \<Longrightarrow> digitsVal acc (pad w n) = Some (acc * 10 ^ w + n)"
proof (induction w arbitrary: acc n)
  case 0
  then show ?case by simp
next
  case (Suc w)
  then have "n div 10 < 10 ^ w" by (simp add: div_less_iff_less_mult)
  then have "digitsVal acc (pad w (n div 10)) = Some (acc * 10 ^ w + n div 10)" by (rule Suc.IH)
  then show ?case by (simp add: digitsVal_append algebra_simps)
qed

lemma digitChar_less: "d < 10 \<Longrightarrow> e < 10 \<Longrightarrow> digitChar d < digitChar e \<longleftrightarrow> d < e"
  by (simp add: less_char_def of_char_digitChar)

lemma append_less_append:
  fixes u v :: "'a :: linorder list"
  assumes "length u = length v"
  shows "u @ x < v @ y \<longleftrightarrow> u < v \<or> (u = v \<and> x < y)"
  using assms
proof (induction u v rule: list_induct2)
  case Nil
  then show ?case by simp
next
  case (Cons a u b v)
  then show ?case by (simp, blast)
qed

lemma pad_eq: "n < 10 ^ w \<Longrightarrow> m < 10 ^ w \<Longrightarrow> pad w n = pad w m \<longleftrightarrow> n = m"
  by (metis add_0 digitsVal_pad mult_0 option.inject)

lemma positional_less:
  fixes a b c d k :: nat
  assumes "b < k" and "d < k"
  shows "a * k + b < c * k + d \<longleftrightarrow> a < c \<or> (a = c \<and> b < d)"
proof (cases a c rule: linorder_cases)
  case less
  then have "a * k + k \<le> c * k" by (metis Suc_leI add.commute mult_Suc mult_le_mono1)
  with less assms show ?thesis by linarith
next
  case equal
  then show ?thesis by simp
next
  case greater
  then have "c * k + k \<le> a * k" by (metis Suc_leI add.commute mult_Suc mult_le_mono1)
  with greater assms show ?thesis by linarith
qed

lemma pad_less: "n < 10 ^ w \<Longrightarrow> m < 10 ^ w \<Longrightarrow> pad w n < pad w m \<longleftrightarrow> n < m"
proof (induction w arbitrary: n m)
  case 0
  then show ?case by simp
next
  case (Suc w)
  then have d: "n div 10 < 10 ^ w" "m div 10 < 10 ^ w" by (simp_all add: div_less_iff_less_mult)
  have "pad (Suc w) n < pad (Suc w) m \<longleftrightarrow>
      n div 10 < m div 10 \<or> (n div 10 = m div 10 \<and> n mod 10 < m mod 10)"
    using Suc.IH [OF d] pad_eq [OF d] by (simp add: append_less_append digitChar_less)
  also have "\<dots> \<longleftrightarrow> n < m"
    using positional_less [of "n mod 10" 10 "m mod 10" "n div 10" "m div 10"] by simp
  finally show ?case .
qed

section \<open>toISOString and Date.parse\<close>

definition isoYear :: "int \<Rightarrow> string" where
  "isoYear y =
     (if 0 \<le> y \<and> y \<le> 9999 then pad 4 (nat y)
      else (if y < 0 then CHR ''-'' else CHR ''+'') # pad 6 (nat \<bar>y\<bar>))"

text \<open>The time of day \<open>HH:mm:ss.sss\<close> of a millisecond count within the day.\<close>

definition isoClock :: "nat \<Rightarrow> string" where
  "isoClock ms =
     pad 2 (ms div 3600000) @ '':'' @ pad 2 (ms div 60000 mod 60) @ '':''
     @ pad 2 (ms div 1000 mod 60) @ ''.'' @ pad 3 (ms mod 1000)"

definition toISOString :: "int \<Rightarrow> string" where
  "toISOString t =
     isoYear (getUTCFullYear t) @ ''-'' @ pad 2 (nat (getUTCMonth t + 1)) @ ''-''
     @ pad 2 (nat (getUTCDate t)) @ ''T'' @ isoClock (nat (t mod msPerDay)) @ ''Z''"

text \<open>
  \<open>Date.parse\<close> on \<open>(YYYY | (+|-)YYYYYY)-MM-DDTHH:mm:ss.sssZ\<close>; \<open>None\<close> is NaN.
\<close>

definition field2 :: "string \<Rightarrow> nat \<Rightarrow> nat option" where
  "field2 s i = digitsVal 0 (take 2 (drop i s))"

definition parseTail :: "int \<Rightarrow> string \<Rightarrow> int option" where
  "parseTail y s =
     (if length s \<noteq> 20 \<or> s ! 0 \<noteq> CHR ''-'' \<or> s ! 3 \<noteq> CHR ''-'' \<or> s ! 6 \<noteq> CHR ''T''
         \<or> s ! 9 \<noteq> CHR '':'' \<or> s ! 12 \<noteq> CHR '':'' \<or> s ! 15 \<noteq> CHR ''.'' \<or> s ! 19 \<noteq> CHR ''Z''
      then None
      else case (field2 s 1, field2 s 4, field2 s 7, field2 s 10, field2 s 13,
                 digitsVal 0 (take 3 (drop 16 s))) of
        (Some mo, Some da, Some h, Some mi, Some se, Some ms) \<Rightarrow>
          if 1 \<le> mo \<and> mo \<le> 12 \<and> 1 \<le> da \<and> da \<le> 31 \<and> mi < 60 \<and> se < 60
             \<and> (h < 24 \<or> (h = 24 \<and> mi = 0 \<and> se = 0 \<and> ms = 0))
          then Some ((dayFromYear y + daysBeforeMonth (leapDay y) (int mo - 1) + (int da - 1)) * msPerDay
                     + int (h * 3600000 + mi * 60000 + se * 1000 + ms))
          else None
      | _ \<Rightarrow> None)"

definition dateParse :: "string \<Rightarrow> int option" where
  "dateParse s =
     (case s of [] \<Rightarrow> None
      | c # cs \<Rightarrow>
        if c = CHR ''+'' \<or> c = CHR ''-'' then
          (case digitsVal 0 (take 6 cs) of None \<Rightarrow> None
           | Some n \<Rightarrow> if c = CHR ''-'' \<and> n = 0 then None
                     else parseTail (if c = CHR ''-'' then - int n else int n) (drop 6 cs))
        else
          (case digitsVal 0 (take 4 s) of None \<Rightarrow> None | Some n \<Rightarrow> parseTail (int n) (drop 4 s)))"

definition iso_range :: "int \<Rightarrow> bool" where
  "iso_range t \<longleftrightarrow> 0 \<le> getUTCFullYear t \<and> getUTCFullYear t \<le> 9999"

lemma digitsVal_pad2: "n < 100 \<Longrightarrow> digitsVal 0 (pad 2 n) = Some n"
  using digitsVal_pad [of n 2 0] by simp

lemma digitsVal_pad3: "n < 1000 \<Longrightarrow> digitsVal 0 (pad 3 n) = Some n"
  using digitsVal_pad [of n 3 0] by simp

lemma digitsVal_pad4: "n < 10000 \<Longrightarrow> digitsVal 0 (pad 4 n) = Some n"
  using digitsVal_pad [of n 4 0] by simp

lemma parseTail_fields:
  assumes "1 \<le> mo" "mo \<le> 12" "1 \<le> da" "da \<le> 31" "h < 24" "mi < 60" "se < 60" "ms < 1000"
  shows "parseTail y (''-'' @ pad 2 mo @ ''-'' @ pad 2 da @ ''T'' @ pad 2 h @ '':'' @ pad 2 mi @ '':''
      @ pad 2 se @ ''.'' @ pad 3 ms @ ''Z'')
    = Some ((dayFromYear y + daysBeforeMonth (leapDay y) (int mo - 1) + (int da - 1)) * msPerDay
        + int (h * 3600000 + mi * 60000 + se * 1000 + ms))" (is "parseTail y ?s = _")
proof -
  have f: "field2 ?s 1 = Some mo" "field2 ?s 4 = Some da" "field2 ?s 7 = Some h" "field2 ?s 10 = Some mi"
    "field2 ?s 13 = Some se" "digitsVal 0 (take 3 (drop 16 ?s)) = Some ms"
    using digitsVal_pad2 [of mo] digitsVal_pad2 [of da] digitsVal_pad2 [of h] digitsVal_pad2 [of mi]
      digitsVal_pad2 [of se] digitsVal_pad3 [of ms] assms
    by (simp_all add: field2_def)
  have n: "length ?s = 20" "?s ! 0 = CHR ''-''" "?s ! 3 = CHR ''-''" "?s ! 6 = CHR ''T''" "?s ! 9 = CHR '':''"
    "?s ! 12 = CHR '':''" "?s ! 15 = CHR ''.''" "?s ! 19 = CHR ''Z''"
    by (simp_all add: nth_append)
  show ?thesis
    unfolding parseTail_def f n using assms by simp
qed

lemma pad_Cons: "\<exists>d cs. d < 10 \<and> pad (Suc w) n = digitChar d # cs"
proof (induction w arbitrary: n)
  case 0
  have "pad (Suc 0) n = [digitChar (n mod 10)]" by simp
  then show ?case by (metis mod_less_divisor zero_less_numeral)
next
  case (Suc w)
  then obtain d cs where "d < 10" "pad (Suc w) (n div 10) = digitChar d # cs" by blast
  then have "pad (Suc (Suc w)) n = digitChar d # (cs @ [digitChar (n mod 10)])"
    by (simp only: pad.simps(2) [of "Suc w"] append_Cons)
  with \<open>d < 10\<close> show ?case by blast
qed

lemma digitChar_not_sign: "d < 10 \<Longrightarrow> digitChar d \<noteq> CHR ''+'' \<and> digitChar d \<noteq> CHR ''-''"
  using digitVal_digitChar [of d] by (auto simp: digitVal_def)

lemma dateParse_year4: "n < 10000 \<Longrightarrow> dateParse (pad 4 n @ s) = parseTail (int n) s"
proof -
  assume n: "n < 10000"
  obtain d cs where d: "d < 10" "pad 4 n = digitChar d # cs" using pad_Cons [of 3 n] by auto
  have t: "take 4 (pad 4 n @ s) = pad 4 n" "drop 4 (pad 4 n @ s) = s" by simp_all
  have "dateParse (pad 4 n @ s) =
      (case digitsVal 0 (take 4 (pad 4 n @ s)) of None \<Rightarrow> None
       | Some k \<Rightarrow> parseTail (int k) (drop 4 (pad 4 n @ s)))"
    unfolding dateParse_def using d digitChar_not_sign [OF d(1)] by simp
  then show ?thesis unfolding t using digitsVal_pad4 [OF n] by simp
qed

lemma clock_fields:
  fixes ms :: nat
  shows "ms div 3600000 * 3600000 + ms div 60000 mod 60 * 60000 + ms div 1000 mod 60 * 1000 + ms mod 1000 = ms"
proof -
  have a: "ms div 60000 = ms div 1000 div 60" "ms div 3600000 = ms div 1000 div 60 div 60"
    by (simp_all add: div_mult2_eq [symmetric])
  have lin: "m = k * 1000 + r \<Longrightarrow> k = j * 60 + q \<Longrightarrow> j = i * 60 + p \<Longrightarrow>
      i * 3600000 + p * 60000 + q * 1000 + r = m" for m k r j q i p :: nat
    by simp
  show ?thesis unfolding a by (rule lin) (rule div_mult_mod_eq [symmetric])+
qed

lemma clock_bounds:
  fixes ms :: nat
  assumes "ms < 86400000"
  shows "ms div 3600000 < 24" "ms div 60000 mod 60 < 60" "ms div 1000 mod 60 < 60" "ms mod 1000 < 1000"
  using assms by (simp_all add: div_less_iff_less_mult)

lemma day_ms_bounds: "0 \<le> t mod msPerDay \<and> nat (t mod msPerDay) < 86400000"
  by (simp add: msPerDay_def nat_less_iff)

lemma dateParse_toISOString:
  assumes "iso_range t"
  shows "dateParse (toISOString t) = Some t"
proof -
  define y where "y = nat (getUTCFullYear t)"
  define ms where "ms = nat (t mod msPerDay)"
  have y: "getUTCFullYear t = int y" "y < 10000" "isoYear (int y) = pad 4 y"
    using assms by (auto simp: iso_range_def y_def isoYear_def)
  have ms: "ms < 86400000" "t mod msPerDay = int ms" using day_ms_bounds [of t] by (simp_all add: ms_def)
  have f: "1 \<le> nat (getUTCMonth t + 1)" "nat (getUTCMonth t + 1) \<le> 12"
    "1 \<le> nat (getUTCDate t)" "nat (getUTCDate t) \<le> 31"
    "int (nat (getUTCMonth t + 1)) - 1 = getUTCMonth t" "int (nat (getUTCDate t)) = getUTCDate t"
    using getUTCMonth_range [of t] getUTCDate_range [of t] by auto
  have c: "(ms div 3600000) * 3600000 + (ms div 60000 mod 60) * 60000 + (ms div 1000 mod 60) * 1000 + ms mod 1000 = ms"
    by (rule clock_fields)
  have "dateParse (toISOString t) =
      Some ((dayFromYear (int y) + daysBeforeMonth (leapDay (int y)) (int (nat (getUTCMonth t + 1)) - 1)
        + (int (nat (getUTCDate t)) - 1)) * msPerDay + int ms)"
    unfolding toISOString_def y dateParse_year4 [OF y(2)] isoClock_def ms_def [symmetric] append_assoc
    unfolding parseTail_fields [OF f(1-4) clock_bounds [OF ms(1)]] c ..
  also have "\<dots> = Some t"
    using time_value_fields [of t, symmetric] unfolding f y ms by simp
  finally show ?thesis .
qed

section \<open>String order of ISO timestamps\<close>

lemma clock_string_less:
  assumes "h < h' \<or> (h = h' \<and> (mi < mi' \<or> (mi = mi' \<and> (se < se' \<or> (se = se' \<and> ms < ms')))))"
    and "h < 24" "h' < 24" "mi < 60" "mi' < 60" "se < 60" "se' < 60" "ms < 1000" "ms' < 1000"
  shows "pad 2 h @ '':'' @ pad 2 mi @ '':'' @ pad 2 se @ ''.'' @ pad 3 ms
    < pad 2 h' @ '':'' @ pad 2 mi' @ '':'' @ pad 2 se' @ ''.'' @ pad 3 ms'"
proof -
  have "pad 2 h < pad 2 h' \<longleftrightarrow> h < h'" "pad 2 mi < pad 2 mi' \<longleftrightarrow> mi < mi'" "pad 2 se < pad 2 se' \<longleftrightarrow> se < se'"
    "pad 3 ms < pad 3 ms' \<longleftrightarrow> ms < ms'"
    by (rule pad_less; use assms in simp)+
  with assms(1) show ?thesis
    by (elim disjE conjE) (simp_all add: append_less_append)
qed

lemma split_less:
  fixes n n' k :: nat
  assumes "0 < k"
  shows "n < n' \<longleftrightarrow> n div k < n' div k \<or> (n div k = n' div k \<and> n mod k < n' mod k)"
  using positional_less [of "n mod k" k "n' mod k" "n div k" "n' div k"] assms by simp

lemma isoClock_less:
  assumes "m < m'" and "m' < 86400000"
  shows "isoClock m < isoClock m'"
proof -
  have d: "n div 60000 = n div 1000 div 60" "n div 3600000 = n div 1000 div 60 div 60" for n :: nat
    by (simp_all add: div_mult2_eq [symmetric])
  have m: "m < 86400000" using assms by (rule order_less_trans)
  have "m div 3600000 < m' div 3600000 \<or> (m div 3600000 = m' div 3600000 \<and>
      (m div 60000 mod 60 < m' div 60000 mod 60 \<or> (m div 60000 mod 60 = m' div 60000 mod 60 \<and>
      (m div 1000 mod 60 < m' div 1000 mod 60 \<or> (m div 1000 mod 60 = m' div 1000 mod 60 \<and>
       m mod 1000 < m' mod 1000)))))"
    using assms(1) split_less [of 1000 m m', OF zero_less_numeral]
      split_less [of 60 "m div 1000" "m' div 1000", OF zero_less_numeral]
      split_less [of 60 "m div 1000 div 60" "m' div 1000 div 60", OF zero_less_numeral]
    unfolding d by metis
  then show ?thesis
    unfolding isoClock_def by (rule clock_string_less) (rule clock_bounds [OF m] clock_bounds [OF assms(2)])+
qed

lemma length_isoClock [simp]: "length (isoClock m) = 12"
  by (simp add: isoClock_def)

lemma getUTCFullYear_mono:
  assumes "t div msPerDay \<le> t' div msPerDay"
  shows "getUTCFullYear t \<le> getUTCFullYear t'"
proof (rule ccontr)
  assume "\<not> ?thesis"
  then have "dayFromYear (getUTCFullYear t' + 1) \<le> dayFromYear (getUTCFullYear t)"
    by (intro dayFromYear_strict_mono) simp
  with getUTCFullYear_bounds [of t] getUTCFullYear_bounds [of t'] assms show False by linarith
qed

lemma getUTCMonth_mono:
  assumes "getUTCFullYear t = getUTCFullYear t'" and "dayWithinYear t \<le> dayWithinYear t'"
  shows "getUTCMonth t \<le> getUTCMonth t'"
proof (rule ccontr)
  assume "\<not> ?thesis"
  then have "daysBeforeMonth (leapDay (getUTCFullYear t)) (getUTCMonth t' + 1)
      \<le> daysBeforeMonth (leapDay (getUTCFullYear t)) (getUTCMonth t)"
    by (intro daysBeforeMonth_mono leapDay_cases) simp
  with getUTCMonth_bounds [of t] getUTCMonth_bounds [of t'] assms show False by simp
qed

lemma calendar_less:
  assumes "t < t'"
  shows "getUTCFullYear t < getUTCFullYear t' \<or> (getUTCFullYear t = getUTCFullYear t' \<and>
    (getUTCMonth t < getUTCMonth t' \<or> (getUTCMonth t = getUTCMonth t' \<and>
    (getUTCDate t < getUTCDate t' \<or> (getUTCDate t = getUTCDate t' \<and> t mod msPerDay < t' mod msPerDay)))))"
proof (cases "t div msPerDay = t' div msPerDay")
  case True
  then have "getUTCFullYear t = getUTCFullYear t'" by (simp add: getUTCFullYear_def)
  moreover from this True have "dayWithinYear t = dayWithinYear t'" by (simp add: dayWithinYear_def)
  moreover have "t mod msPerDay < t' mod msPerDay"
    using assms True by (metis add_less_cancel_left div_mult_mod_eq)
  ultimately show ?thesis by (simp add: getUTCMonth_def getUTCDate_def)
next
  case False
  have "t div msPerDay \<le> t' div msPerDay" using assms by (intro zdiv_mono1) (simp_all add: msPerDay_def)
  with False have lt: "t div msPerDay < t' div msPerDay" by simp
  show ?thesis
  proof (cases "getUTCFullYear t = getUTCFullYear t'")
    case True
    with lt have d: "dayWithinYear t < dayWithinYear t'" by (simp add: dayWithinYear_def)
    then have "getUTCMonth t \<le> getUTCMonth t'" using getUTCMonth_mono [OF True] by simp
    with d True show ?thesis by (auto simp: getUTCDate_def)
  next
    case False
    with getUTCFullYear_mono [of t t'] lt show ?thesis by simp
  qed
qed

lemma toISOString_strict_mono:
  assumes "t < t'" and "iso_range t" and "iso_range t'"
  shows "toISOString t < toISOString t'"
proof -
  have y: "isoYear (getUTCFullYear u) = pad 4 (nat (getUTCFullYear u)) \<and> nat (getUTCFullYear u) < 10000"
    if "iso_range u" for u
    using that by (auto simp: iso_range_def isoYear_def)
  have Y: "pad 4 (nat (getUTCFullYear t)) < pad 4 (nat (getUTCFullYear t')) \<longleftrightarrow> getUTCFullYear t < getUTCFullYear t'"
    using pad_less [of "nat (getUTCFullYear t)" 4 "nat (getUTCFullYear t')"] y [OF assms(2)] y [OF assms(3)]
      assms(2,3) by (auto simp: iso_range_def)
  have two: "pad 2 (nat i) < pad 2 (nat j) \<longleftrightarrow> i < j" if "0 \<le> i" "i < 100" "0 \<le> j" "j < 100" for i j
    using pad_less [of "nat i" 2 "nat j"] that by auto
  have Mo: "pad 2 (nat (getUTCMonth t + 1)) < pad 2 (nat (getUTCMonth t' + 1)) \<longleftrightarrow> getUTCMonth t < getUTCMonth t'"
    using two [of "getUTCMonth t + 1" "getUTCMonth t' + 1"] getUTCMonth_range [of t] getUTCMonth_range [of t'] by auto
  have D: "pad 2 (nat (getUTCDate t)) < pad 2 (nat (getUTCDate t')) \<longleftrightarrow> getUTCDate t < getUTCDate t'"
    using two [of "getUTCDate t" "getUTCDate t'"] getUTCDate_range [of t] getUTCDate_range [of t'] by simp
  have C: "isoClock (nat (t mod msPerDay)) < isoClock (nat (t' mod msPerDay))"
    if "t mod msPerDay < t' mod msPerDay"
    using that day_ms_bounds [of t] day_ms_bounds [of t'] by (intro isoClock_less) auto
  show ?thesis
    unfolding toISOString_def y [OF assms(2), THEN conjunct1] y [OF assms(3), THEN conjunct1]
    using calendar_less [OF assms(1)] Y Mo D C
    by (elim disjE conjE) (simp_all add: append_less_append)
qed

lemma toISOString_less_iff:
  assumes "iso_range t" and "iso_range t'"
  shows "toISOString t < toISOString t' \<longleftrightarrow> t < t'"
  using toISOString_strict_mono [of t t'] toISOString_strict_mono [of t' t] assms
  by (metis less_asym less_linear order.irrefl)

lemma toISOString_le_iff:
  assumes "iso_range t" and "iso_range t'"
  shows "toISOString t \<le> toISOString t' \<longleftrightarrow> t \<le> t'"
  using toISOString_less_iff [OF assms(2,1)] by (simp add: linorder_not_less [symmetric])

section \<open>Evaluation\<close>

lemma digitChar_simps [simp]:
  "digitChar 0 = CHR ''0''" "digitChar 1 = CHR ''1''" "digitChar (Suc 0) = CHR ''1''" "digitChar 2 = CHR ''2''"
  "digitChar 3 = CHR ''3''" "digitChar 4 = CHR ''4''" "digitChar 5 = CHR ''5''" "digitChar 6 = CHR ''6''"
  "digitChar 7 = CHR ''7''" "digitChar 8 = CHR ''8''" "digitChar 9 = CHR ''9''"
  by (simp_all add: digitChar_def char_of_eq_iff)

lemma pad_numeral: "pad (numeral k) n = pad (pred_numeral k) (n div 10) @ [digitChar (n mod 10)]"
  by (subst numeral_eq_Suc) (rule pad.simps(2))

lemmas date_eval =
  toISOString_def isoYear_def isoClock_def getUTCFullYear_def yearOfDay_def dayFromYear_def
  msPerDay_def Let_def getUTCMonth_def dayWithinYear_def monthOfDay_def leapDay_def leapYear_def
  getUTCDate_def daysBeforeMonth_def pad_numeral

end
