(* ===== verification/Types.thy ===== *)
theory Types
  imports Js_Date
begin

text \<open>
  The entities of \<open>host/src/control-plane/types.ts\<close> and \<open>storage/driver.ts\<close>, one record per
  interface with the fields in source order, and the errors the control plane throws.  A
  column of type \<open>string | null\<close> is a \<open>string option\<close>; the JSON columns hold the decoded
  value, since the repositories only write \<open>JSON.stringify\<close> of a value and only read its
  \<open>JSON.parse\<close>.
\<close>

section \<open>JSON values\<close>

datatype json =
    JNull
  | JBool bool
  | JNum rat
  | JStr string
  | JArr "json list"
  | JObj "(string \<times> json) list"

text \<open>Property access \<open>o[k]\<close> on a decoded object; \<open>None\<close> is \<open>undefined\<close>.\<close>

fun jget :: "json \<Rightarrow> string \<Rightarrow> json option" where
  "jget (JObj kvs) k = map_of kvs k"
| "jget _ k = None"

section \<open>Errors\<close>

text \<open>
  \<open>SqliteErr code message\<close> is what \<open>node:sqlite\<close> throws (\<open>errcode\<close> and \<open>message\<close>);
  \<open>StorageConflictError\<close> and \<open>StorageNotFoundError\<close> are the two classes of \<open>driver.ts\<close>;
  \<open>JsError\<close> is a plain \<open>new Error(message)\<close>; the two deploy errors are those of
  \<open>deploy/executor.ts\<close>; \<open>HttpError status message code\<close> is that of \<open>http/errors.ts\<close>;
  \<open>NamedError name message\<close> is any of the other error classes, which add nothing but a \<open>name\<close>;
  \<open>CloudBackendError code message\<close> is that of \<open>cloud/types.ts\<close>.
\<close>

datatype err =
    SqliteErr nat string
  | StorageConflictError string
  | StorageNotFoundError string string
  | JsError string
  | DeployBlockedError string
  | DeployHealthFailedError string
  | HttpError nat string string
  | NamedError string string
  | CloudBackendError string string

fun err_message :: "err \<Rightarrow> string" where
  "err_message (SqliteErr c m) = m"
| "err_message (StorageConflictError d) = d"
| "err_message (StorageNotFoundError entity i) = entity @ '' not found: '' @ i"
| "err_message (JsError m) = m"
| "err_message (DeployBlockedError m) = m"
| "err_message (DeployHealthFailedError m) = m"
| "err_message (HttpError status m code) = m"
| "err_message (NamedError n m) = m"
| "err_message (CloudBackendError code m) = m"

fun err_name :: "err \<Rightarrow> string" where
  "err_name (SqliteErr c m) = ''Error''"
| "err_name (StorageConflictError d) = ''StorageConflictError''"
| "err_name (StorageNotFoundError entity i) = ''StorageNotFoundError''"
| "err_name (JsError m) = ''Error''"
| "err_name (DeployBlockedError m) = ''DeployBlockedError''"
| "err_name (DeployHealthFailedError m) = ''DeployHealthFailedError''"
| "err_name (HttpError status m code) = ''HttpError''"
| "err_name (NamedError n m) = n"
| "err_name (CloudBackendError code m) = ''CloudBackendError''"

section \<open>Tenancy\<close>

datatype orgTier = Free | Paid

record org =
  o_id :: string
  o_name :: string
  o_tier :: orgTier
  o_createdAt :: string
  o_updatedAt :: string
  o_deletedAt :: "string option"

record apiKey =
  ak_id :: string
  ak_orgId :: string
  ak_prefix :: string
  ak_hash :: string
  ak_name :: string
  ak_expiresAt :: "string option"
  ak_createdAt :: string
  ak_updatedAt :: string
  ak_deletedAt :: "string option"

section \<open>Products and releases\<close>

record product =
  p_id :: string
  p_orgId :: string
  p_name :: string
  p_repoUrl :: string
  p_buildYamlPath :: string
  p_createdAt :: string
  p_updatedAt :: string
  p_deletedAt :: "string option"

datatype releaseStatus = RBuilding | RReady | RFailed

record release =
  r_id :: string
  r_orgId :: string
  r_productId :: string
  r_tag :: string
  r_commitSha :: string
  r_manifestSha256 :: "string option"
  r_signedBy :: "string option"
  r_signatureB64 :: "string option"
  r_builtAt :: "string option"
  r_builtByRunnerId :: "string option"
  r_status :: releaseStatus
  r_buildYamlJson :: "string option"
  r_createdAt :: string
  r_updatedAt :: string
  r_deletedAt :: "string option"

fun releaseStatus_text :: "releaseStatus \<Rightarrow> string" where
  "releaseStatus_text RBuilding = ''building''"
| "releaseStatus_text RReady = ''ready''"
| "releaseStatus_text RFailed = ''failed''"

datatype artifactKind = ABlob | AImageRef

record artifact =
  af_id :: string
  af_releaseId :: string
  af_component :: string
  af_kind :: artifactKind
  af_sha256 :: "string option"
  af_sizeBytes :: "int option"
  af_blobUri :: "string option"
  af_imageRef :: "string option"
  af_createdAt :: string
  af_updatedAt :: string
  af_deletedAt :: "string option"

section \<open>Targets and deployments\<close>

datatype targetKind =
    VmTest | VmDemo | DockerTest | DockerDemo | K8sTest | K8sDemo | CloudVm | CloudStack

fun targetKind_text :: "targetKind \<Rightarrow> string" where
  "targetKind_text VmTest = ''vm_test''"
| "targetKind_text VmDemo = ''vm_demo''"
| "targetKind_text DockerTest = ''docker_test''"
| "targetKind_text DockerDemo = ''docker_demo''"
| "targetKind_text K8sTest = ''k8s_test''"
| "targetKind_text K8sDemo = ''k8s_demo''"
| "targetKind_text CloudVm = ''cloud_vm''"
| "targetKind_text CloudStack = ''cloud_stack''"

record target =
  t_id :: string
  t_orgId :: string
  t_name :: string
  t_kind :: targetKind
  t_connection :: json
  t_createdAt :: string
  t_updatedAt :: string
  t_deletedAt :: "string option"

datatype deploymentStatus = DPending | DDeploying | DActive | DFailed | DSuperseded | DRolledBack

record healthSummary =
  s_total :: nat
  s_pass :: nat
  s_fail :: nat
  s_degraded :: nat
  s_lastCheckedAt :: "string option"

record deployment =
  d_id :: string
  d_orgId :: string
  d_releaseId :: string
  d_targetId :: string
  d_status :: deploymentStatus
  d_startedAt :: "string option"
  d_completedAt :: "string option"
  d_previousDeploymentId :: "string option"
  d_healthSummary :: "healthSummary option"
  d_createdAt :: string
  d_updatedAt :: string
  d_deletedAt :: "string option"

datatype healthStatus = HPass | HFail | HDegraded

record healthCheck =
  hc_id :: string
  hc_deploymentId :: string
  hc_probeName :: string
  hc_status :: healthStatus
  hc_latencyMs :: "int option"
  hc_detail :: "string option"
  hc_checkedAt :: string
  hc_createdAt :: string
  hc_updatedAt :: string
  hc_deletedAt :: "string option"

section \<open>Scenarios and runs\<close>

datatype scenarioSource = SDisk | SDb | SGitops

record scenario =
  sc_id :: string
  sc_orgId :: string
  sc_path :: string
  sc_scenarioHash :: string
  sc_name :: string
  sc_tags :: "string list"
  sc_source :: scenarioSource
  sc_createdAt :: string
  sc_updatedAt :: string
  sc_deletedAt :: "string option"

datatype runTriggeredBy = TCli | TApi | TDeployment | TSchedule

record run =
  rn_id :: string
  rn_orgId :: string
  rn_scenarioId :: string
  rn_targetId :: "string option"
  rn_triggeredBy :: runTriggeredBy
  rn_envelopeBlobUri :: "string option"
  rn_result :: "string option"
  rn_startedAt :: "string option"
  rn_completedAt :: "string option"
  rn_createdAt :: string
  rn_updatedAt :: string
  rn_deletedAt :: "string option"

section \<open>Promotion policies and approvals\<close>

datatype promotionGateKind = GAuto | GManual | GTimeDelay

record promotionPolicy =
  pp_id :: string
  pp_orgId :: string
  pp_productId :: string
  pp_sourceTargetId :: "string option"
  pp_destTargetId :: string
  pp_gateKind :: promotionGateKind
  pp_gateConfig :: json
  pp_active :: bool
  pp_description :: "string option"
  pp_createdAt :: string
  pp_updatedAt :: string
  pp_deletedAt :: "string option"

datatype approvalStatus = APending | AApproved | ARejected | AAutoApproved

record approval =
  ap_id :: string
  ap_orgId :: string
  ap_policyId :: string
  ap_releaseId :: string
  ap_destTargetId :: string
  ap_status :: approvalStatus
  ap_autoApproveAt :: "string option"
  ap_decidedBy :: "string option"
  ap_decidedAt :: "string option"
  ap_reason :: "string option"
  ap_deployAttemptedAt :: "string option"
  ap_deployOutcome :: "string option"
  ap_deployDeploymentId :: "string option"
  ap_requiresHealthGate :: bool
  ap_createdAt :: string
  ap_updatedAt :: string
  ap_deletedAt :: "string option"

section \<open>Webhooks, schedules, jobs and runners\<close>

datatype webhookKind = WGeneric | WSlack | WEmail

record webhookSubscription =
  wh_id :: string
  wh_orgId :: string
  wh_kind :: webhookKind
  wh_url :: string
  wh_secretHmacKey :: "string option"
  wh_eventKinds :: "string list"
  wh_active :: bool
  wh_description :: "string option"
  wh_createdAt :: string
  wh_updatedAt :: string
  wh_deletedAt :: "string option"

record healthSchedule =
  hs_id :: string
  hs_orgId :: string
  hs_targetId :: string
  hs_intervalSeconds :: int
  hs_probeNames :: "string list"
  hs_lastRunAt :: "string option"
  hs_active :: bool
  hs_createdAt :: string
  hs_updatedAt :: string
  hs_deletedAt :: "string option"

datatype jobStatus = JPending | JClaimed | JRunning | JSucceeded | JFailed

record job =
  j_id :: string
  j_orgId :: string
  j_kind :: string
  j_input :: json
  j_status :: jobStatus
  j_result :: "json option"
  j_error :: "string option"
  j_claimedBy :: "string option"
  j_claimedAt :: "string option"
  j_startedAt :: "string option"
  j_completedAt :: "string option"
  j_createdAt :: string
  j_updatedAt :: string
  j_deletedAt :: "string option"

record runner =
  rr_id :: string
  rr_orgId :: string
  rr_name :: string
  rr_lastSeenAt :: string
  rr_registeredAt :: string
  rr_meta :: "json option"
  rr_createdAt :: string
  rr_updatedAt :: string
  rr_deletedAt :: "string option"

section \<open>Audit log\<close>

record auditLogEntry =
  al_id :: string
  al_orgId :: string
  al_actor :: string
  al_action :: string
  al_entityType :: string
  al_entityId :: string
  al_detail :: "json option"
  al_at :: string
  al_createdAt :: string

section \<open>Cloud cost guardrails\<close>

record cloudOrgBudget =
  cb_orgId :: string
  cb_monthlyCentsLimit :: int
  cb_softWarnPct :: int
  cb_createdAt :: string
  cb_updatedAt :: string

record cloudOrgUsage =
  cu_id :: string
  cu_orgId :: string
  cu_backend :: string
  cu_instanceId :: string
  cu_instanceType :: string
  cu_region :: string
  cu_startedAt :: string
  cu_terminatedAt :: "string option"
  cu_estimatedCents :: int

record cloudOrgCredential =
  cc_id :: string
  cc_orgId :: string
  cc_backend :: string
  cc_ciphertextB64 :: string
  cc_encryptionMethod :: string
  cc_redactedHint :: string
  cc_createdAt :: string
  cc_updatedAt :: string

section \<open>Signing catalogue\<close>

datatype signingAlgorithm = Ed25519 | EcdsaP256Sha256 | MlDsa65

datatype pairRole = Classical | PostQuantum

record signingProviderKey =
  sk_id :: string
  sk_orgId :: string
  sk_provider :: string
  sk_keyId :: string
  sk_algorithm :: signingAlgorithm
  sk_fingerprint :: string
  sk_publicKeyB64 :: string
  sk_pairId :: "string option"
  sk_pairRole :: "pairRole option"
  sk_hybridAlias :: "string option"
  sk_label :: "string option"
  sk_addedBy :: string
  sk_addedAt :: string
  sk_revokedAt :: "string option"
  sk_revokedBy :: "string option"
  sk_revokeReason :: "string option"
  sk_rotatedTo :: "string option"
  sk_createdAt :: string
  sk_updatedAt :: string
  sk_deletedAt :: "string option"

record signingNonce =
  sn_orgId :: string
  sn_actorCn :: string
  sn_nonce :: string
  sn_requestedAt :: string
  sn_fingerprint :: "string option"

end
