(* ===== verification/Sql.thy ===== *)
theory Sql
  imports Types
begin

text \<open>
  The database underneath \<open>storage/sqlite.ts\<close>: every table of the migrated schema as the list
  of its rows in insertion order, and the statements the repositories prepare as functions
  over a table.  A statement checks the table's declared constraints (primary keys, partial
  unique indexes, foreign keys, \<open>CHECK\<close>s) on the table it would leave behind and throws
  SQLite's error instead when one fails; any statement may also fail with a driver error.

  What the sources do not determine is a field of the world: the ids the \<open>ulid\<close> package
  returns, the readings of the clock, which statements fail, and the text SQLite gives a
  constraint violation.  \<open>ORDER BY\<close> is a stable sort, so rows with equal keys come in
  insertion order.
\<close>

section \<open>The world\<close>

datatype violation = UniqueViolation string | ForeignKeyViolation | CheckViolation string

record world =
  ulids :: "nat \<Rightarrow> string"
  clocks :: "nat \<Rightarrow> int"
  faults :: "nat \<Rightarrow> (nat \<times> string) option"
  violationMsg :: "violation \<Rightarrow> string"
  ulidN :: nat
  clockN :: nat
  stmtN :: nat
  orgs :: "org list"
  apiKeys :: "apiKey list"
  products :: "product list"
  releases :: "release list"
  artifacts :: "artifact list"
  auditLog :: "auditLogEntry list"
  targets :: "target list"
  deployments :: "deployment list"
  healthChecks :: "healthCheck list"
  scenarios :: "scenario list"
  runs :: "run list"
  jobs :: "job list"
  cloudBudgets :: "cloudOrgBudget list"
  cloudUsage :: "cloudOrgUsage list"
  cloudCredentials :: "cloudOrgCredential list"
  healthSchedules :: "healthSchedule list"
  webhookSubscriptions :: "webhookSubscription list"
  promotionPolicies :: "promotionPolicy list"
  approvals :: "approval list"
  runners :: "runner list"
  signingProviderKeys :: "signingProviderKey list"
  signingNonces :: "signingNonce list"

type_synonym ('z, 'a) DB = "('z world_scheme, err, 'a) M"

text \<open>\<open>ids.ts\<close>.\<close>

definition newId :: "('z, string) DB" where
  "newId = (\<lambda>w. (Inr (ulids w (ulidN w)), w\<lparr>ulidN := Suc (ulidN w)\<rparr>))"

definition dateNow :: "('z, int) DB" where
  "dateNow = (\<lambda>w. (Inr (clocks w (clockN w)), w\<lparr>clockN := Suc (clockN w)\<rparr>))"

definition nowIso :: "('z, string) DB" where
  "nowIso = bindM dateNow (\<lambda>t. ret (toISOString t))"

text \<open>\<open>new Date(ms).toISOString()\<close> throws beyond 8.64e15 milliseconds from the epoch.\<close>

definition isoDate :: "int \<Rightarrow> ('s, err, string) M" where
  "isoDate ms = (if \<bar>ms\<bar> \<le> 8640000000000000 then ret (toISOString ms)
     else throwM (NamedError ''RangeError'' ''Invalid time value''))"

section \<open>Statements\<close>

text \<open>A statement that may fail before it does anything.\<close>

definition stmt :: "('z, 'a) DB \<Rightarrow> ('z, 'a) DB" where
  "stmt m = (\<lambda>w. case faults w (stmtN w) of
       Some (c, msg) \<Rightarrow> (Inl (SqliteErr c msg), w\<lparr>stmtN := Suc (stmtN w)\<rparr>)
     | None \<Rightarrow> m (w\<lparr>stmtN := Suc (stmtN w)\<rparr>))"

text \<open>SQLite's extended result codes for the constraint failures (primary code 19).\<close>

fun violationCode :: "violation \<Rightarrow> nat" where
  "violationCode (UniqueViolation c) = 2067"
| "violationCode ForeignKeyViolation = 787"
| "violationCode (CheckViolation c) = 275"

text \<open>The constraints of a table: the first one that fails, in the order SQLite checks them.\<close>

definition firstViolation :: "(bool \<times> violation) list \<Rightarrow> violation option" where
  "firstViolation cs = map_option snd (find (\<lambda>c. \<not> fst c) cs)"

definition constrained ::
  "('z world_scheme \<Rightarrow> 'r list \<Rightarrow> violation option) \<Rightarrow> (('r list \<Rightarrow> 'r list) \<Rightarrow> 'z world_scheme \<Rightarrow> 'z world_scheme)
    \<Rightarrow> 'r list \<Rightarrow> 'a \<Rightarrow> ('z, 'a) DB" where
  "constrained chk upd t x = (\<lambda>w. case chk w t of
       Some v \<Rightarrow> (Inl (SqliteErr (violationCode v) (violationMsg w v)), w)
     | None \<Rightarrow> (Inr x, upd (\<lambda>_. t) w))"

definition insertInto where
  "insertInto get upd chk r = stmt (\<lambda>w. constrained chk upd (get w @ [r]) () w)"

text \<open>\<open>UPDATE ... WHERE p\<close>; the result is \<open>changes\<close>.\<close>

definition updateWhere where
  "updateWhere get upd chk p f = stmt (\<lambda>w.
     constrained chk upd (map (\<lambda>r. if p r then f r else r) (get w)) (length (filter p (get w))) w)"

definition deleteWhere ::
  "('z world_scheme \<Rightarrow> 'r list) \<Rightarrow> (('r list \<Rightarrow> 'r list) \<Rightarrow> 'z world_scheme \<Rightarrow> 'z world_scheme)
    \<Rightarrow> ('r \<Rightarrow> bool) \<Rightarrow> ('z, nat) DB" where
  "deleteWhere get upd p = stmt (\<lambda>w.
     (Inr (length (filter p (get w))), upd (\<lambda>_. filter (\<lambda>r. \<not> p r) (get w)) w))"

text \<open>\<open>SELECT * ... .get()\<close> and \<open>.all()\<close>.\<close>

definition selectOne :: "('z world_scheme \<Rightarrow> 'r list) \<Rightarrow> ('r \<Rightarrow> bool) \<Rightarrow> ('z, 'r option) DB" where
  "selectOne get p = stmt (readM (\<lambda>w. find p (get w)))"

definition selectAll ::
  "('z world_scheme \<Rightarrow> 'r list) \<Rightarrow> ('r \<Rightarrow> bool) \<Rightarrow> ('r list \<Rightarrow> 'r list) \<Rightarrow> ('z, 'r list) DB" where
  "selectAll get p ord = stmt (readM (\<lambda>w. ord (filter p (get w))))"

definition orderBy :: "('r \<Rightarrow> 'k :: linorder) \<Rightarrow> 'r list \<Rightarrow> 'r list" where
  "orderBy k t = sort_key k t"

definition orderByDesc :: "('r \<Rightarrow> 'k :: linorder) \<Rightarrow> 'r list \<Rightarrow> 'r list" where
  "orderByDesc k t = rev (sort_key k (rev t))"

text \<open>\<open>LIMIT n\<close>: a negative limit is no limit.\<close>

definition limitTo :: "int \<Rightarrow> 'r list \<Rightarrow> 'r list" where
  "limitTo n t = (if n < 0 then t else take (nat n) t)"

text \<open>\<open>mapSqliteError\<close> of \<open>sqlite.ts\<close>: constraint failures become \<open>StorageConflictError\<close>.\<close>

fun mapSqliteError :: "err \<Rightarrow> err" where
  "mapSqliteError (SqliteErr c m) = (if c mod 256 = 19 then StorageConflictError m else SqliteErr c m)"
| "mapSqliteError e = e"

definition mappingErrors :: "('z, 'a) DB \<Rightarrow> ('z, 'a) DB" where
  "mappingErrors m = catchM m (\<lambda>e. throwM (mapSqliteError e))"

text \<open>
  \<open>runInTransaction\<close> of \<open>sqlite.ts\<close>.  \<open>ROLLBACK\<close> puts every table back and leaves the clock,
  the id source and the statement counter where they are; a failing \<open>ROLLBACK\<close> is swallowed.
\<close>

definition rollbackTo :: "'z world_scheme \<Rightarrow> ('z, unit) DB" where
  "rollbackTo w0 = stmt (modifyM (\<lambda>w. w0\<lparr>ulidN := ulidN w, clockN := clockN w, stmtN := stmtN w,
     world.more := world.more w\<rparr>))"

definition runInTransaction :: "('z, 'a) DB \<Rightarrow> ('z, 'a) DB" where
  "runInTransaction fn =
     bindM (stmt (ret ())) (\<lambda>_.
     bindM (readM id) (\<lambda>w0.
       catchM (bindM fn (\<lambda>result. bindM (stmt (ret ())) (\<lambda>_. ret result)))
         (\<lambda>e. bindM (tryM (rollbackTo w0)) (\<lambda>_. throwM e))))"

end
