(* ===== verification/Schema.thy ===== *)
theory Schema
  imports Sql
begin

text \<open>
  The constraints of \<open>storage/migrations/*.sql\<close>, table by table, the invariant \<open>db_ok\<close> that all
  of them hold, and the interface every repository relies on: the locale \<open>table\<close> (what reading
  a table returns after a statement, and that statements keep \<open>db_ok\<close>) with its extension
  \<open>soft_table\<close> for tables with a \<open>deleted_at\<close> column.  Both are interpreted below on every table
  of the schema.  The enumerated \<open>CHECK (status IN ...)\<close> constraints are the datatypes of
  \<open>Types\<close>.
\<close>

section \<open>Constraints\<close>

definition refs :: "('r \<Rightarrow> string) \<Rightarrow> 'r list \<Rightarrow> string list \<Rightarrow> bool" where
  "refs f t parents \<longleftrightarrow> list_all (\<lambda>r. f r \<in> set parents) t"

definition refsNullable :: "('r \<Rightarrow> string option) \<Rightarrow> 'r list \<Rightarrow> string list \<Rightarrow> bool" where
  "refsNullable f t parents \<longleftrightarrow>
     list_all (\<lambda>r. case f r of None \<Rightarrow> True | Some i \<Rightarrow> i \<in> set parents) t"

abbreviation anyRow :: "'r \<Rightarrow> bool" where
  "anyRow \<equiv> \<lambda>_. True"

definition orgs_chk :: "'z world_scheme \<Rightarrow> org list \<Rightarrow> violation option" where
  "orgs_chk w t = firstViolation
     [(unique_on anyRow o_id t, UniqueViolation ''org.id''),
      (unique_on (\<lambda>r. o_deletedAt r = None) o_name t, UniqueViolation ''org.name'')]"

definition apiKeys_chk :: "'z world_scheme \<Rightarrow> apiKey list \<Rightarrow> violation option" where
  "apiKeys_chk w t = firstViolation
     [(unique_on anyRow ak_id t, UniqueViolation ''api_key.id''),
      (unique_on (\<lambda>r. ak_deletedAt r = None) ak_prefix t, UniqueViolation ''api_key.prefix''),
      (refs ak_orgId t (map o_id (orgs w)), ForeignKeyViolation)]"

definition products_chk :: "'z world_scheme \<Rightarrow> product list \<Rightarrow> violation option" where
  "products_chk w t = firstViolation
     [(unique_on anyRow p_id t, UniqueViolation ''product.id''),
      (unique_on (\<lambda>r. p_deletedAt r = None) (\<lambda>r. (p_orgId r, p_name r)) t,
         UniqueViolation ''product.org_id, product.name''),
      (refs p_orgId t (map o_id (orgs w)), ForeignKeyViolation)]"

definition releases_chk :: "'z world_scheme \<Rightarrow> release list \<Rightarrow> violation option" where
  "releases_chk w t = firstViolation
     [(unique_on anyRow r_id t, UniqueViolation ''release.id''),
      (unique_on (\<lambda>r. r_deletedAt r = None) (\<lambda>r. (r_productId r, r_tag r)) t,
         UniqueViolation ''release.product_id, release.tag''),
      (refs r_orgId t (map o_id (orgs w)), ForeignKeyViolation),
      (refs r_productId t (map p_id (products w)), ForeignKeyViolation)]"

definition artifacts_chk :: "'z world_scheme \<Rightarrow> artifact list \<Rightarrow> violation option" where
  "artifacts_chk w t = firstViolation
     [(unique_on anyRow af_id t, UniqueViolation ''artifact.id''),
      (refs af_releaseId t (map r_id (releases w)), ForeignKeyViolation)]"

definition auditLog_chk :: "'z world_scheme \<Rightarrow> auditLogEntry list \<Rightarrow> violation option" where
  "auditLog_chk w t = firstViolation
     [(unique_on anyRow al_id t, UniqueViolation ''audit_log.id''),
      (refs al_orgId t (map o_id (orgs w)), ForeignKeyViolation)]"

definition targets_chk :: "'z world_scheme \<Rightarrow> target list \<Rightarrow> violation option" where
  "targets_chk w t = firstViolation
     [(unique_on anyRow t_id t, UniqueViolation ''target.id''),
      (unique_on (\<lambda>r. t_deletedAt r = None) (\<lambda>r. (t_orgId r, t_name r)) t,
         UniqueViolation ''target.org_id, target.name''),
      (refs t_orgId t (map o_id (orgs w)), ForeignKeyViolation)]"

text \<open>\<open>deployment_target_active_unique\<close>: one live active deployment per target.\<close>

definition deployments_chk :: "'z world_scheme \<Rightarrow> deployment list \<Rightarrow> violation option" where
  "deployments_chk w t = firstViolation
     [(unique_on anyRow d_id t, UniqueViolation ''deployment.id''),
      (unique_on (\<lambda>r. d_status r = DActive \<and> d_deletedAt r = None) d_targetId t,
         UniqueViolation ''deployment.target_id''),
      (refs d_orgId t (map o_id (orgs w)), ForeignKeyViolation),
      (refs d_releaseId t (map r_id (releases w)), ForeignKeyViolation),
      (refs d_targetId t (map t_id (targets w)), ForeignKeyViolation),
      (refsNullable d_previousDeploymentId t (map d_id t), ForeignKeyViolation)]"

definition healthChecks_chk :: "'z world_scheme \<Rightarrow> healthCheck list \<Rightarrow> violation option" where
  "healthChecks_chk w t = firstViolation
     [(unique_on anyRow hc_id t, UniqueViolation ''health_check.id''),
      (refs hc_deploymentId t (map d_id (deployments w)), ForeignKeyViolation)]"

definition scenarios_chk :: "'z world_scheme \<Rightarrow> scenario list \<Rightarrow> violation option" where
  "scenarios_chk w t = firstViolation
     [(unique_on anyRow sc_id t, UniqueViolation ''scenario.id''),
      (unique_on (\<lambda>r. sc_deletedAt r = None) (\<lambda>r. (sc_orgId r, sc_path r)) t,
         UniqueViolation ''scenario.org_id, scenario.path''),
      (refs sc_orgId t (map o_id (orgs w)), ForeignKeyViolation)]"

definition runs_chk :: "'z world_scheme \<Rightarrow> run list \<Rightarrow> violation option" where
  "runs_chk w t = firstViolation
     [(unique_on anyRow rn_id t, UniqueViolation ''run.id''),
      (refs rn_orgId t (map o_id (orgs w)), ForeignKeyViolation),
      (refs rn_scenarioId t (map sc_id (scenarios w)), ForeignKeyViolation),
      (refsNullable rn_targetId t (map t_id (targets w)), ForeignKeyViolation)]"

definition jobs_chk :: "'z world_scheme \<Rightarrow> job list \<Rightarrow> violation option" where
  "jobs_chk w t = firstViolation
     [(unique_on anyRow j_id t, UniqueViolation ''job.id''),
      (refs j_orgId t (map o_id (orgs w)), ForeignKeyViolation)]"

definition cloudBudgets_chk :: "'z world_scheme \<Rightarrow> cloudOrgBudget list \<Rightarrow> violation option" where
  "cloudBudgets_chk w t = firstViolation
     [(list_all (\<lambda>r. 0 < cb_monthlyCentsLimit r) t, CheckViolation ''monthly_cents_limit > 0''),
      (list_all (\<lambda>r. 1 \<le> cb_softWarnPct r \<and> cb_softWarnPct r \<le> 100) t,
         CheckViolation ''soft_warn_pct BETWEEN 1 AND 100''),
      (unique_on anyRow cb_orgId t, UniqueViolation ''cloud_org_budget.org_id'')]"

definition cloudUsage_chk :: "'z world_scheme \<Rightarrow> cloudOrgUsage list \<Rightarrow> violation option" where
  "cloudUsage_chk w t = firstViolation
     [(list_all (\<lambda>r. 0 \<le> cu_estimatedCents r) t, CheckViolation ''estimated_cents >= 0''),
      (unique_on anyRow cu_id t, UniqueViolation ''cloud_org_usage.id''),
      (unique_on anyRow (\<lambda>r. (cu_orgId r, cu_instanceId r)) t,
         UniqueViolation ''cloud_org_usage.org_id, cloud_org_usage.instance_id'')]"

definition cloudCredentials_chk :: "'z world_scheme \<Rightarrow> cloudOrgCredential list \<Rightarrow> violation option" where
  "cloudCredentials_chk w t = firstViolation
     [(unique_on anyRow cc_id t, UniqueViolation ''cloud_org_credential.id''),
      (unique_on anyRow (\<lambda>r. (cc_orgId r, cc_backend r)) t,
         UniqueViolation ''cloud_org_credential.org_id, cloud_org_credential.backend'')]"

definition healthSchedules_chk :: "'z world_scheme \<Rightarrow> healthSchedule list \<Rightarrow> violation option" where
  "healthSchedules_chk w t = firstViolation
     [(list_all (\<lambda>r. 60 \<le> hs_intervalSeconds r) t, CheckViolation ''interval_seconds >= 60''),
      (unique_on anyRow hs_id t, UniqueViolation ''health_schedule.id''),
      (refs hs_orgId t (map o_id (orgs w)), ForeignKeyViolation),
      (refs hs_targetId t (map t_id (targets w)), ForeignKeyViolation)]"

definition webhookSubscriptions_chk :: "'z world_scheme \<Rightarrow> webhookSubscription list \<Rightarrow> violation option" where
  "webhookSubscriptions_chk w t = firstViolation
     [(unique_on anyRow wh_id t, UniqueViolation ''webhook_subscription.id''),
      (refs wh_orgId t (map o_id (orgs w)), ForeignKeyViolation)]"

definition promotionPolicies_chk :: "'z world_scheme \<Rightarrow> promotionPolicy list \<Rightarrow> violation option" where
  "promotionPolicies_chk w t = firstViolation
     [(unique_on anyRow pp_id t, UniqueViolation ''promotion_policy.id''),
      (refs pp_orgId t (map o_id (orgs w)), ForeignKeyViolation),
      (refs pp_productId t (map p_id (products w)), ForeignKeyViolation),
      (refsNullable pp_sourceTargetId t (map t_id (targets w)), ForeignKeyViolation),
      (refs pp_destTargetId t (map t_id (targets w)), ForeignKeyViolation)]"

text \<open>\<open>approval_release_dest_unique\<close>: the idempotency index of the promotion listener.\<close>

definition approval_indexed :: "approval \<Rightarrow> bool" where
  "approval_indexed a \<longleftrightarrow>
     ap_deletedAt a = None \<and> (ap_status a = APending \<or> ap_deployAttemptedAt a \<noteq> None)"

definition approvals_chk :: "'z world_scheme \<Rightarrow> approval list \<Rightarrow> violation option" where
  "approvals_chk w t = firstViolation
     [(unique_on anyRow ap_id t, UniqueViolation ''approval.id''),
      (unique_on approval_indexed (\<lambda>r. (ap_releaseId r, ap_destTargetId r)) t,
         UniqueViolation ''approval.release_id, approval.dest_target_id''),
      (refs ap_orgId t (map o_id (orgs w)), ForeignKeyViolation),
      (refs ap_policyId t (map pp_id (promotionPolicies w)), ForeignKeyViolation),
      (refs ap_releaseId t (map r_id (releases w)), ForeignKeyViolation),
      (refs ap_destTargetId t (map t_id (targets w)), ForeignKeyViolation)]"

definition runners_chk :: "'z world_scheme \<Rightarrow> runner list \<Rightarrow> violation option" where
  "runners_chk w t = firstViolation
     [(unique_on anyRow rr_id t, UniqueViolation ''runner.id''),
      (unique_on (\<lambda>r. rr_deletedAt r = None) (\<lambda>r. (rr_orgId r, rr_name r)) t,
         UniqueViolation ''runner.org_id, runner.name''),
      (refs rr_orgId t (map o_id (orgs w)), ForeignKeyViolation)]"

definition signingProviderKeys_chk :: "'z world_scheme \<Rightarrow> signingProviderKey list \<Rightarrow> violation option" where
  "signingProviderKeys_chk w t = firstViolation
     [(unique_on anyRow sk_id t, UniqueViolation ''signing_provider_key.id''),
      (unique_on (\<lambda>r. sk_deletedAt r = None) (\<lambda>r. (sk_orgId r, sk_fingerprint r)) t,
         UniqueViolation ''signing_provider_key.org_id, signing_provider_key.fingerprint''),
      (refs sk_orgId t (map o_id (orgs w)), ForeignKeyViolation)]"

definition nonceKey :: "signingNonce \<Rightarrow> string \<times> string \<times> string" where
  "nonceKey r = (sn_orgId r, sn_actorCn r, sn_nonce r)"

definition signingNonces_chk :: "'z world_scheme \<Rightarrow> signingNonce list \<Rightarrow> violation option" where
  "signingNonces_chk w t = firstViolation
     [(unique_on anyRow nonceKey t,
         UniqueViolation ''signing_nonce.org_id, signing_nonce.actor_cn, signing_nonce.nonce'')]"

lemmas chk_defs =
  orgs_chk_def apiKeys_chk_def products_chk_def releases_chk_def artifacts_chk_def
  auditLog_chk_def targets_chk_def deployments_chk_def healthChecks_chk_def scenarios_chk_def
  runs_chk_def jobs_chk_def cloudBudgets_chk_def cloudUsage_chk_def cloudCredentials_chk_def
  healthSchedules_chk_def webhookSubscriptions_chk_def promotionPolicies_chk_def
  approvals_chk_def runners_chk_def signingProviderKeys_chk_def signingNonces_chk_def

section \<open>The schema invariant\<close>

definition db_ok :: "'z world_scheme \<Rightarrow> bool" where
  "db_ok w \<longleftrightarrow>
     orgs_chk w (orgs w) = None \<and> apiKeys_chk w (apiKeys w) = None \<and>
     products_chk w (products w) = None \<and> releases_chk w (releases w) = None \<and>
     artifacts_chk w (artifacts w) = None \<and> auditLog_chk w (auditLog w) = None \<and>
     targets_chk w (targets w) = None \<and> deployments_chk w (deployments w) = None \<and>
     healthChecks_chk w (healthChecks w) = None \<and> scenarios_chk w (scenarios w) = None \<and>
     runs_chk w (runs w) = None \<and> jobs_chk w (jobs w) = None \<and>
     cloudBudgets_chk w (cloudBudgets w) = None \<and> cloudUsage_chk w (cloudUsage w) = None \<and>
     cloudCredentials_chk w (cloudCredentials w) = None \<and>
     healthSchedules_chk w (healthSchedules w) = None \<and>
     webhookSubscriptions_chk w (webhookSubscriptions w) = None \<and>
     promotionPolicies_chk w (promotionPolicies w) = None \<and>
     approvals_chk w (approvals w) = None \<and> runners_chk w (runners w) = None \<and>
     signingProviderKeys_chk w (signingProviderKeys w) = None \<and>
     signingNonces_chk w (signingNonces w) = None"

lemma firstViolation_None [simp]:
  "firstViolation [] = None"
  "firstViolation (c # cs) = None \<longleftrightarrow> fst c \<and> firstViolation cs = None"
  by (simp_all add: firstViolation_def)

lemma refs_mono: "refs f t ps \<Longrightarrow> set ps \<subseteq> set qs \<Longrightarrow> refs f t qs"
  by (auto simp: refs_def list_all_iff)

lemma refsNullable_mono: "refsNullable f t ps \<Longrightarrow> set ps \<subseteq> set qs \<Longrightarrow> refsNullable f t qs"
  by (auto simp: refsNullable_def list_all_iff split: option.splits)

text \<open>
  Replacing one table by a table that meets its constraints and keeps every key keeps the
  whole schema: foreign keys into the table stay valid.
\<close>

lemma db_ok_orgs:
  assumes "db_ok w" and "orgs_chk w t = None" and "o_id ` set (orgs w) \<subseteq> o_id ` set t"
  shows "db_ok (orgs_update (\<lambda>_. t) w)"
proof -
  have m: "refs f u (map o_id (orgs w)) \<Longrightarrow> refs f u (map o_id t)" for f :: "'b \<Rightarrow> string" and u
    by (erule refs_mono) (use assms(3) in simp)
  show ?thesis using assms(1,2) by (simp add: db_ok_def chk_defs m)
qed

lemma db_ok_apiKeys:
  assumes "db_ok w" and "apiKeys_chk w t = None" and "ak_id ` set (apiKeys w) \<subseteq> ak_id ` set t"
  shows "db_ok (apiKeys_update (\<lambda>_. t) w)"
  using assms(1,2) by (simp add: db_ok_def chk_defs)

lemma db_ok_products:
  assumes "db_ok w" and "products_chk w t = None" and "p_id ` set (products w) \<subseteq> p_id ` set t"
  shows "db_ok (products_update (\<lambda>_. t) w)"
proof -
  have m: "refs f u (map p_id (products w)) \<Longrightarrow> refs f u (map p_id t)" for f :: "'b \<Rightarrow> string" and u
    by (erule refs_mono) (use assms(3) in simp)
  show ?thesis using assms(1,2) by (simp add: db_ok_def chk_defs m)
qed

lemma db_ok_releases:
  assumes "db_ok w" and "releases_chk w t = None" and "r_id ` set (releases w) \<subseteq> r_id ` set t"
  shows "db_ok (releases_update (\<lambda>_. t) w)"
proof -
  have m: "refs f u (map r_id (releases w)) \<Longrightarrow> refs f u (map r_id t)" for f :: "'b \<Rightarrow> string" and u
    by (erule refs_mono) (use assms(3) in simp)
  show ?thesis using assms(1,2) by (simp add: db_ok_def chk_defs m)
qed

lemma db_ok_artifacts:
  assumes "db_ok w" and "artifacts_chk w t = None" and "af_id ` set (artifacts w) \<subseteq> af_id ` set t"
  shows "db_ok (artifacts_update (\<lambda>_. t) w)"
  using assms(1,2) by (simp add: db_ok_def chk_defs)

lemma db_ok_auditLog:
  assumes "db_ok w" and "auditLog_chk w t = None" and "al_id ` set (auditLog w) \<subseteq> al_id ` set t"
  shows "db_ok (auditLog_update (\<lambda>_. t) w)"
  using assms(1,2) by (simp add: db_ok_def chk_defs)

lemma db_ok_targets:
  assumes "db_ok w" and "targets_chk w t = None" and "t_id ` set (targets w) \<subseteq> t_id ` set t"
  shows "db_ok (targets_update (\<lambda>_. t) w)"
proof -
  have m: "refs f u (map t_id (targets w)) \<Longrightarrow> refs f u (map t_id t)" for f :: "'b \<Rightarrow> string" and u
    by (erule refs_mono) (use assms(3) in simp)
  have n: "refsNullable f u (map t_id (targets w)) \<Longrightarrow> refsNullable f u (map t_id t)" for f :: "'b \<Rightarrow> string option" and u
    by (erule refsNullable_mono) (use assms(3) in simp)
  show ?thesis using assms(1,2) by (simp add: db_ok_def chk_defs m n)
qed

lemma db_ok_deployments:
  assumes "db_ok w" and "deployments_chk w t = None" and "d_id ` set (deployments w) \<subseteq> d_id ` set t"
  shows "db_ok (deployments_update (\<lambda>_. t) w)"
proof -
  have m: "refs f u (map d_id (deployments w)) \<Longrightarrow> refs f u (map d_id t)" for f :: "'b \<Rightarrow> string" and u
    by (erule refs_mono) (use assms(3) in simp)
  show ?thesis using assms(1,2) by (simp add: db_ok_def chk_defs m)
qed

lemma db_ok_healthChecks:
  assumes "db_ok w" and "healthChecks_chk w t = None" and "hc_id ` set (healthChecks w) \<subseteq> hc_id ` set t"
  shows "db_ok (healthChecks_update (\<lambda>_. t) w)"
  using assms(1,2) by (simp add: db_ok_def chk_defs)

lemma db_ok_scenarios:
  assumes "db_ok w" and "scenarios_chk w t = None" and "sc_id ` set (scenarios w) \<subseteq> sc_id ` set t"
  shows "db_ok (scenarios_update (\<lambda>_. t) w)"
proof -
  have m: "refs f u (map sc_id (scenarios w)) \<Longrightarrow> refs f u (map sc_id t)" for f :: "'b \<Rightarrow> string" and u
    by (erule refs_mono) (use assms(3) in simp)
  show ?thesis using assms(1,2) by (simp add: db_ok_def chk_defs m)
qed

lemma db_ok_runs:
  assumes "db_ok w" and "runs_chk w t = None" and "rn_id ` set (runs w) \<subseteq> rn_id ` set t"
  shows "db_ok (runs_update (\<lambda>_. t) w)"
  using assms(1,2) by (simp add: db_ok_def chk_defs)

lemma db_ok_jobs:
  assumes "db_ok w" and "jobs_chk w t = None" and "j_id ` set (jobs w) \<subseteq> j_id ` set t"
  shows "db_ok (jobs_update (\<lambda>_. t) w)"
  using assms(1,2) by (simp add: db_ok_def chk_defs)

lemma db_ok_cloudBudgets:
  assumes "db_ok w" and "cloudBudgets_chk w t = None" and "cb_orgId ` set (cloudBudgets w) \<subseteq> cb_orgId ` set t"
  shows "db_ok (cloudBudgets_update (\<lambda>_. t) w)"
  using assms(1,2) by (simp add: db_ok_def chk_defs)

lemma db_ok_cloudUsage:
  assumes "db_ok w" and "cloudUsage_chk w t = None" and "cu_id ` set (cloudUsage w) \<subseteq> cu_id ` set t"
  shows "db_ok (cloudUsage_update (\<lambda>_. t) w)"
  using assms(1,2) by (simp add: db_ok_def chk_defs)

lemma db_ok_cloudCredentials:
  assumes "db_ok w" and "cloudCredentials_chk w t = None" and "cc_id ` set (cloudCredentials w) \<subseteq> cc_id ` set t"
  shows "db_ok (cloudCredentials_update (\<lambda>_. t) w)"
  using assms(1,2) by (simp add: db_ok_def chk_defs)

lemma db_ok_healthSchedules:
  assumes "db_ok w" and "healthSchedules_chk w t = None" and "hs_id ` set (healthSchedules w) \<subseteq> hs_id ` set t"
  shows "db_ok (healthSchedules_update (\<lambda>_. t) w)"
  using assms(1,2) by (simp add: db_ok_def chk_defs)

lemma db_ok_webhookSubscriptions:
  assumes "db_ok w" and "webhookSubscriptions_chk w t = None" and "wh_id ` set (webhookSubscriptions w) \<subseteq> wh_id ` set t"
  shows "db_ok (webhookSubscriptions_update (\<lambda>_. t) w)"
  using assms(1,2) by (simp add: db_ok_def chk_defs)

lemma db_ok_promotionPolicies:
  assumes "db_ok w" and "promotionPolicies_chk w t = None" and "pp_id ` set (promotionPolicies w) \<subseteq> pp_id ` set t"
  shows "db_ok (promotionPolicies_update (\<lambda>_. t) w)"
proof -
  have m: "refs f u (map pp_id (promotionPolicies w)) \<Longrightarrow> refs f u (map pp_id t)" for f :: "'b \<Rightarrow> string" and u
    by (erule refs_mono) (use assms(3) in simp)
  show ?thesis using assms(1,2) by (simp add: db_ok_def chk_defs m)
qed

lemma db_ok_approvals:
  assumes "db_ok w" and "approvals_chk w t = None" and "ap_id ` set (approvals w) \<subseteq> ap_id ` set t"
  shows "db_ok (approvals_update (\<lambda>_. t) w)"
  using assms(1,2) by (simp add: db_ok_def chk_defs)

lemma db_ok_runners:
  assumes "db_ok w" and "runners_chk w t = None" and "rr_id ` set (runners w) \<subseteq> rr_id ` set t"
  shows "db_ok (runners_update (\<lambda>_. t) w)"
  using assms(1,2) by (simp add: db_ok_def chk_defs)

lemma db_ok_signingProviderKeys:
  assumes "db_ok w" and "signingProviderKeys_chk w t = None" and "sk_id ` set (signingProviderKeys w) \<subseteq> sk_id ` set t"
  shows "db_ok (signingProviderKeys_update (\<lambda>_. t) w)"
  using assms(1,2) by (simp add: db_ok_def chk_defs)

lemma db_ok_signingNonces:
  assumes "db_ok w" and "signingNonces_chk w t = None" and "nonceKey ` set (signingNonces w) \<subseteq> nonceKey ` set t"
  shows "db_ok (signingNonces_update (\<lambda>_. t) w)"
  using assms(1,2) by (simp add: db_ok_def chk_defs)

lemma db_ok_env [simp]:
  "db_ok (w\<lparr>stmtN := n\<rparr>) = db_ok w" "db_ok (w\<lparr>ulidN := n\<rparr>) = db_ok w"
  "db_ok (w\<lparr>clockN := n\<rparr>) = db_ok w"
  by (simp_all add: db_ok_def chk_defs)

section \<open>The table interface\<close>

lemma keeps_stmt [keeps_intros]:
  assumes "keeps db_ok m"
  shows "keeps db_ok (stmt m)"
proof (rule keepsI)
  fix w :: "'a world_scheme"
  assume "db_ok w"
  then show "db_ok (snd (stmt m w))"
    using keepsD [OF assms, of "w\<lparr>stmtN := Suc (stmtN w)\<rparr>"] by (auto simp: stmt_def split: option.splits)
qed

lemma keeps_newId [keeps_intros]: "keeps db_ok newId"
  by (simp add: keeps_def newId_def)

lemma keeps_dateNow [keeps_intros]: "keeps db_ok dateNow"
  by (simp add: keeps_def dateNow_def)

lemma keeps_nowIso [keeps_intros]: "keeps db_ok nowIso"
  unfolding nowIso_def by (intro keeps_intros)

lemma keeps_mappingErrors [keeps_intros]: "keeps db_ok m \<Longrightarrow> keeps db_ok (mappingErrors m)"
  unfolding mappingErrors_def by (intro keeps_intros)

lemma keeps_selectOne [keeps_intros]: "keeps db_ok (selectOne get p)"
  unfolding selectOne_def by (intro keeps_intros)

lemma keeps_selectAll [keeps_intros]: "keeps db_ok (selectAll get p ord)"
  unfolding selectAll_def by (intro keeps_intros)

locale table =
  fixes get :: "'z world_scheme \<Rightarrow> 'r list"
    and upd :: "('r list \<Rightarrow> 'r list) \<Rightarrow> 'z world_scheme \<Rightarrow> 'z world_scheme"
    and chk :: "'z world_scheme \<Rightarrow> 'r list \<Rightarrow> violation option"
    and rid :: "'r \<Rightarrow> 'k"
  assumes get_upd: "get (upd f w) = f (get w)"
    and get_env: "get (w\<lparr>stmtN := n\<rparr>) = get w" "get (w\<lparr>ulidN := n\<rparr>) = get w" "get (w\<lparr>clockN := n\<rparr>) = get w"
    and chk_env: "chk (w\<lparr>stmtN := n\<rparr>) t = chk w t" "chk (w\<lparr>ulidN := n\<rparr>) t = chk w t"
      "chk (w\<lparr>clockN := n\<rparr>) t = chk w t"
    and upd_ok: "db_ok w \<Longrightarrow> chk w t = None \<Longrightarrow> rid ` set (get w) \<subseteq> rid ` set t \<Longrightarrow> db_ok (upd (\<lambda>_. t) w)"
    and chk_unique: "chk w t = None \<Longrightarrow> unique_on anyRow rid t"
    and ok_chk: "db_ok w \<Longrightarrow> chk w (get w) = None"
begin

lemma keeps_constrained:
  "db_ok w \<Longrightarrow> rid ` set (get w) \<subseteq> rid ` set t \<Longrightarrow> db_ok (snd (constrained chk upd t x w))"
  by (auto simp: constrained_def upd_ok split: option.split)

lemma keeps_insertInto: "keeps db_ok (insertInto get upd chk r)"
  unfolding insertInto_def by (intro keeps_stmt keepsI keeps_constrained) auto

lemma keeps_updateWhere:
  assumes "\<And>r. rid (f r) = rid r"
  shows "keeps db_ok (updateWhere get upd chk p f)"
  unfolding updateWhere_def
proof (intro keeps_stmt keepsI keeps_constrained)
  fix w :: "'z world_scheme"
  show "rid ` set (get w) \<subseteq> rid ` set (map (\<lambda>r. if p r then f r else r) (get w))"
    using image_update_key [of rid f p "get w", OF assms] by simp
qed

lemma insertInto_Inr:
  assumes "insertInto get upd chk r w = (Inr u, w')"
  shows "get w' = get w @ [r]" "chk w (get w @ [r]) = None"
    "w' = upd (\<lambda>_. get w @ [r]) (w\<lparr>stmtN := Suc (stmtN w)\<rparr>)"
  using assms
  by (auto simp: insertInto_def stmt_def constrained_def get_env chk_env get_upd split: option.splits)

lemma updateWhere_Inr:
  assumes "updateWhere get upd chk p f w = (Inr n, w')"
  shows "get w' = map (\<lambda>r. if p r then f r else r) (get w)" "n = length (filter p (get w))"
    "chk w (map (\<lambda>r. if p r then f r else r) (get w)) = None"
    "w' = upd (\<lambda>_. map (\<lambda>r. if p r then f r else r) (get w)) (w\<lparr>stmtN := Suc (stmtN w)\<rparr>)"
  using assms
  by (auto simp: updateWhere_def stmt_def constrained_def get_env chk_env get_upd split: option.splits)

text \<open>A failed statement changes no table.\<close>

lemma insertInto_Inl:
  "insertInto get upd chk r w = (Inl e, w') \<Longrightarrow> w' = w\<lparr>stmtN := Suc (stmtN w)\<rparr>"
  by (auto simp: insertInto_def stmt_def constrained_def split: option.splits)

lemma updateWhere_Inl:
  "updateWhere get upd chk p f w = (Inl e, w') \<Longrightarrow> w' = w\<lparr>stmtN := Suc (stmtN w)\<rparr>"
  by (auto simp: updateWhere_def stmt_def constrained_def split: option.splits)

lemma key_unique:
  assumes "db_ok w" and "r \<in> set (get w)" and "r' \<in> set (get w)" and "rid r = rid r'"
  shows "r = r'"
  using unique_onD [OF chk_unique [OF ok_chk [OF assms(1)]]] assms by simp

end

interpretation orgs: table orgs orgs_update orgs_chk o_id
  by unfold_locales (simp_all add: db_ok_orgs chk_defs, simp add: db_ok_def chk_defs)

interpretation apiKeys: table apiKeys apiKeys_update apiKeys_chk ak_id
  by unfold_locales (simp_all add: db_ok_apiKeys chk_defs, simp add: db_ok_def chk_defs)

interpretation products: table products products_update products_chk p_id
  by unfold_locales (simp_all add: db_ok_products chk_defs, simp add: db_ok_def chk_defs)

interpretation releases: table releases releases_update releases_chk r_id
  by unfold_locales (simp_all add: db_ok_releases chk_defs, simp add: db_ok_def chk_defs)

interpretation artifacts: table artifacts artifacts_update artifacts_chk af_id
  by unfold_locales (simp_all add: db_ok_artifacts chk_defs, simp add: db_ok_def chk_defs)

interpretation auditLog: table auditLog auditLog_update auditLog_chk al_id
  by unfold_locales (simp_all add: db_ok_auditLog chk_defs, simp add: db_ok_def chk_defs)

interpretation targets: table targets targets_update targets_chk t_id
  by unfold_locales (simp_all add: db_ok_targets chk_defs, simp add: db_ok_def chk_defs)

interpretation deployments: table deployments deployments_update deployments_chk d_id
  by unfold_locales (simp_all add: db_ok_deployments chk_defs, simp add: db_ok_def chk_defs)

interpretation healthChecks: table healthChecks healthChecks_update healthChecks_chk hc_id
  by unfold_locales (simp_all add: db_ok_healthChecks chk_defs, simp add: db_ok_def chk_defs)

interpretation scenarios: table scenarios scenarios_update scenarios_chk sc_id
  by unfold_locales (simp_all add: db_ok_scenarios chk_defs, simp add: db_ok_def chk_defs)

interpretation runs: table runs runs_update runs_chk rn_id
  by unfold_locales (simp_all add: db_ok_runs chk_defs, simp add: db_ok_def chk_defs)

interpretation jobs: table jobs jobs_update jobs_chk j_id
  by unfold_locales (simp_all add: db_ok_jobs chk_defs, simp add: db_ok_def chk_defs)

interpretation cloudBudgets: table cloudBudgets cloudBudgets_update cloudBudgets_chk cb_orgId
  by unfold_locales (simp_all add: db_ok_cloudBudgets chk_defs, simp add: db_ok_def chk_defs)

interpretation cloudUsage: table cloudUsage cloudUsage_update cloudUsage_chk cu_id
  by unfold_locales (simp_all add: db_ok_cloudUsage chk_defs, simp add: db_ok_def chk_defs)

interpretation cloudCredentials: table cloudCredentials cloudCredentials_update cloudCredentials_chk cc_id
  by unfold_locales (simp_all add: db_ok_cloudCredentials chk_defs, simp add: db_ok_def chk_defs)

interpretation healthSchedules: table healthSchedules healthSchedules_update healthSchedules_chk hs_id
  by unfold_locales (simp_all add: db_ok_healthSchedules chk_defs, simp add: db_ok_def chk_defs)

interpretation webhookSubscriptions: table webhookSubscriptions webhookSubscriptions_update webhookSubscriptions_chk wh_id
  by unfold_locales (simp_all add: db_ok_webhookSubscriptions chk_defs, simp add: db_ok_def chk_defs)

interpretation promotionPolicies: table promotionPolicies promotionPolicies_update promotionPolicies_chk pp_id
  by unfold_locales (simp_all add: db_ok_promotionPolicies chk_defs, simp add: db_ok_def chk_defs)

interpretation approvals: table approvals approvals_update approvals_chk ap_id
  by unfold_locales (simp_all add: db_ok_approvals chk_defs, simp add: db_ok_def chk_defs)

interpretation runners: table runners runners_update runners_chk rr_id
  by unfold_locales (simp_all add: db_ok_runners chk_defs, simp add: db_ok_def chk_defs)

interpretation signingProviderKeys: table signingProviderKeys signingProviderKeys_update signingProviderKeys_chk sk_id
  by unfold_locales (simp_all add: db_ok_signingProviderKeys chk_defs, simp add: db_ok_def chk_defs)

interpretation signingNonces: table signingNonces signingNonces_update signingNonces_chk nonceKey
  by unfold_locales (simp_all add: db_ok_signingNonces chk_defs, simp add: db_ok_def chk_defs)

lemmas table_keeps [keeps_intros] =
  orgs.keeps_insertInto orgs.keeps_updateWhere
  apiKeys.keeps_insertInto apiKeys.keeps_updateWhere
  products.keeps_insertInto products.keeps_updateWhere
  releases.keeps_insertInto releases.keeps_updateWhere
  artifacts.keeps_insertInto artifacts.keeps_updateWhere
  auditLog.keeps_insertInto auditLog.keeps_updateWhere
  targets.keeps_insertInto targets.keeps_updateWhere
  deployments.keeps_insertInto deployments.keeps_updateWhere
  healthChecks.keeps_insertInto healthChecks.keeps_updateWhere
  scenarios.keeps_insertInto scenarios.keeps_updateWhere
  runs.keeps_insertInto runs.keeps_updateWhere
  jobs.keeps_insertInto jobs.keeps_updateWhere
  cloudBudgets.keeps_insertInto cloudBudgets.keeps_updateWhere
  cloudUsage.keeps_insertInto cloudUsage.keeps_updateWhere
  cloudCredentials.keeps_insertInto cloudCredentials.keeps_updateWhere
  healthSchedules.keeps_insertInto healthSchedules.keeps_updateWhere
  webhookSubscriptions.keeps_insertInto webhookSubscriptions.keeps_updateWhere
  promotionPolicies.keeps_insertInto promotionPolicies.keeps_updateWhere
  approvals.keeps_insertInto approvals.keeps_updateWhere
  runners.keeps_insertInto runners.keeps_updateWhere
  signingProviderKeys.keeps_insertInto signingProviderKeys.keeps_updateWhere
  signingNonces.keeps_insertInto signingNonces.keeps_updateWhere

end
