(* ===== verification/Repo_Base.thy ===== *)
theory Repo_Base
  imports Schema
begin

text \<open>
  The four shapes the repositories of \<open>storage/sqlite.ts\<close> share, as operations over a table
  (\<open>create\<close>, \<open>get\<close>, \<open>update\<close> by id, \<open>softDelete\<close>), and the contract of a table with a
  \<open>deleted_at\<close> column, the locale \<open>soft_table\<close>.  It is interpreted at the end on every such table of
  the schema; the repositories' own theories rest on its facts.
\<close>

section \<open>Shared shapes\<close>

text \<open>\<open>a ?? b\<close>, for a \<open>b\<close> that is never null and for a nullable \<open>b\<close>.\<close>

definition orElse :: "'a option \<Rightarrow> 'a \<Rightarrow> 'a" where
  "orElse a b = (case a of None \<Rightarrow> b | Some x \<Rightarrow> x)"

definition orElseNull :: "'a option \<Rightarrow> 'a option \<Rightarrow> 'a option" where
  "orElseNull a b = (case a of None \<Rightarrow> b | Some x \<Rightarrow> Some x)"

lemma orElse_simps [simp]: "orElse None b = b" "orElse (Some x) b = x"
  by (simp_all add: orElse_def)

lemma orElseNull_simps [simp]: "orElseNull None b = b" "orElseNull (Some x) b = Some x"
  by (simp_all add: orElseNull_def)

text \<open>\<open>create\<close>: a fresh id, the current time, one \<open>INSERT\<close>, and the row is the result.\<close>

definition createRow where
  "createRow get upd chk mk =
     bindM nowIso (\<lambda>now. bindM newId (\<lambda>i.
     bindM (mappingErrors (insertInto get upd chk (mk now i))) (\<lambda>_. ret (mk now i))))"

definition getLive :: "('z world_scheme \<Rightarrow> 'r list) \<Rightarrow> ('r \<Rightarrow> string) \<Rightarrow> ('r \<Rightarrow> string option) \<Rightarrow> string \<Rightarrow> ('z, 'r option) DB" where
  "getLive get rid del i = selectOne get (\<lambda>r. rid r = i \<and> del r = None)"

text \<open>
  \<open>update\<close>: read the live row, compute the bound columns from it and the patch
  (\<open>f now existing\<close> writes them into a row), one \<open>UPDATE ... WHERE id = @id\<close>.
\<close>

definition patchRow where
  "patchRow get upd chk rid del entity i f =
     bindM (getLive get rid del i) (\<lambda>existing. case existing of
         None \<Rightarrow> throwM (StorageNotFoundError entity i)
       | Some ex \<Rightarrow>
           bindM nowIso (\<lambda>now.
           bindM (mappingErrors (updateWhere get upd chk (\<lambda>r. rid r = rid ex) (f now ex))) (\<lambda>_.
           ret (f now ex ex))))"

definition softDeleteRow where
  "softDeleteRow get upd chk rid del mark entity i =
     bindM nowIso (\<lambda>now.
     bindM (updateWhere get upd chk (\<lambda>r. rid r = i \<and> del r = None) (mark now)) (\<lambda>changes.
     if changes = 0 then throwM (StorageNotFoundError entity i) else ret ()))"

text \<open>No statement fails for a reason outside the database's content.\<close>

definition quiet :: "'z world_scheme \<Rightarrow> bool" where
  "quiet w \<longleftrightarrow> (\<forall>n. faults w n = None)"

lemma nowIso_run [run_simps]:
  "nowIso w = (Inr (toISOString (clocks w (clockN w))), w\<lparr>clockN := Suc (clockN w)\<rparr>)"
  by (simp add: nowIso_def dateNow_def bindM_def ret_def)

lemma newId_run [run_simps]: "newId w = (Inr (ulids w (ulidN w)), w\<lparr>ulidN := Suc (ulidN w)\<rparr>)"
  by (simp add: newId_def)

lemmas prim_run = ret_run throwM_run readM_run modifyM_run nowIso_run newId_run

lemma stmt_quiet: "quiet w \<Longrightarrow> stmt m w = m (w\<lparr>stmtN := Suc (stmtN w)\<rparr>)"
  by (simp add: stmt_def quiet_def)

lemma quiet_env [simp]:
  "quiet (w\<lparr>stmtN := n\<rparr>) = quiet w" "quiet (w\<lparr>ulidN := n\<rparr>) = quiet w" "quiet (w\<lparr>clockN := n\<rparr>) = quiet w"
  by (simp_all add: quiet_def)

lemma quiet_tables [simp]:
  "quiet (orgs_update f1 w) = quiet w"
  "quiet (apiKeys_update f2 w) = quiet w"
  "quiet (products_update f3 w) = quiet w"
  "quiet (releases_update f4 w) = quiet w"
  "quiet (artifacts_update f5 w) = quiet w"
  "quiet (auditLog_update f6 w) = quiet w"
  "quiet (targets_update f7 w) = quiet w"
  "quiet (deployments_update f8 w) = quiet w"
  "quiet (healthChecks_update f9 w) = quiet w"
  "quiet (scenarios_update f10 w) = quiet w"
  "quiet (runs_update f11 w) = quiet w"
  "quiet (jobs_update f12 w) = quiet w"
  "quiet (cloudBudgets_update f13 w) = quiet w"
  "quiet (cloudUsage_update f14 w) = quiet w"
  "quiet (cloudCredentials_update f15 w) = quiet w"
  "quiet (healthSchedules_update f16 w) = quiet w"
  "quiet (webhookSubscriptions_update f17 w) = quiet w"
  "quiet (promotionPolicies_update f18 w) = quiet w"
  "quiet (approvals_update f19 w) = quiet w"
  "quiet (runners_update f20 w) = quiet w"
  "quiet (signingProviderKeys_update f21 w) = quiet w"
  "quiet (signingNonces_update f22 w) = quiet w"
  by (simp_all add: quiet_def)

lemma mappingErrors_Inr: "mappingErrors m w = (Inr x, w') \<longleftrightarrow> m w = (Inr x, w')"
  by (auto simp: mappingErrors_def catchM_def throwM_def split: prod.splits sum.splits)

section \<open>Evaluation on a quiet database\<close>

abbreviation tick :: "'z world_scheme \<Rightarrow> 'z world_scheme" where
  "tick w \<equiv> w\<lparr>stmtN := Suc (stmtN w)\<rparr>"

lemma selectAll_quiet:
  "quiet w \<Longrightarrow> selectAll get p ord w = (Inr (ord (filter p (get (tick w)))), tick w)"
  by (simp add: selectAll_def stmt_quiet readM_run)

lemma selectOne_quiet:
  "quiet w \<Longrightarrow> selectOne get p w = (Inr (find p (get (tick w))), tick w)"
  by (simp add: selectOne_def stmt_quiet readM_run)

lemma updateWhere_quiet:
  assumes "quiet w" and "chk (tick w) (map (\<lambda>r. if p r then f r else r) (get (tick w))) = None"
  shows "updateWhere get upd chk p f w = (Inr (length (filter p (get (tick w)))),
    upd (\<lambda>_. map (\<lambda>r. if p r then f r else r) (get (tick w))) (tick w))"
  using assms by (simp add: updateWhere_def stmt_quiet constrained_def)

lemma insertInto_quiet:
  assumes "quiet w" and "chk (tick w) (get (tick w) @ [r]) = None"
  shows "insertInto get upd chk r w = (Inr (), upd (\<lambda>_. get (tick w) @ [r]) (tick w))"
  using assms by (simp add: insertInto_def stmt_quiet constrained_def)

lemma bindM_Inr: "m w = (Inr x, w') \<Longrightarrow> bindM m f w = f x w'"
  by (simp add: bindM_def)

lemma bindM_Inl: "m w = (Inl e, w') \<Longrightarrow> bindM m f w = (Inl e, w')"
  by (simp add: bindM_def)

lemma runInTransaction_quiet:
  assumes "quiet w" and "fn (tick w) = (Inr x, w')" and "quiet w'"
  shows "runInTransaction fn w = (Inr x, tick w')"
  using assms by (simp add: runInTransaction_def bindM_def catchM_def readM_def stmt_quiet ret_def)

section \<open>Uniqueness under updates\<close>

lemma unique_on_shrink:
  assumes "\<And>r. k (f r) = k r" and "\<And>r. P (f r) \<Longrightarrow> P r" and "unique_on P k t"
  shows "unique_on P k (map (\<lambda>r. if p r then f r else r) t)"
  using assms(3)
proof (induction t)
  case Nil
  then show ?case by (simp add: unique_on_def)
next
  case (Cons x xs)
  have sub: "k ` {r \<in> set (map (\<lambda>r. if p r then f r else r) xs). P r} \<subseteq> k ` {r \<in> set xs. P r}"
    using assms(1,2) by (auto simp: image_iff)
  from Cons show ?case
    using sub assms(1,2) by (auto simp: unique_on_def split: if_splits)
qed

lemma refs_update:
  "(\<And>r. g (f r) = g r) \<Longrightarrow> refs g (map (\<lambda>r. if p r then f r else r) t) ps \<longleftrightarrow> refs g t ps"
  by (induction t) (auto simp: refs_def)

lemma refsNullable_update:
  "(\<And>r. g (f r) = g r) \<Longrightarrow> refsNullable g (map (\<lambda>r. if p r then f r else r) t) ps \<longleftrightarrow> refsNullable g t ps"
  by (induction t) (auto simp: refsNullable_def)

lemma list_all_update:
  "(\<And>r. P (f r) = P r) \<Longrightarrow> list_all P (map (\<lambda>r. if p r then f r else r) t) \<longleftrightarrow> list_all P t"
  by (induction t) auto

lemma filter_untouched:
  assumes "\<And>r. q r \<Longrightarrow> \<not> p r" and "\<And>r. p r \<Longrightarrow> \<not> q (f r)"
  shows "filter q (map (\<lambda>r. if p r then f r else r) t) = filter q t"
  using assms by (induction t) auto

lemmas update_simps = refs_update refsNullable_update list_all_update

section \<open>Creation and update on any table\<close>

context table
begin

lemma keeps_createRow: "keeps db_ok (createRow get upd chk mk)"
  unfolding createRow_def by (intro keeps_intros keeps_insertInto)

lemma keeps_patchRow:
  "(\<And>now ex r. rid (f now ex r) = rid r) \<Longrightarrow> keeps db_ok (patchRow get upd chk key del entity i f)"
  unfolding patchRow_def getLive_def by (intro keeps_intros keeps_updateWhere)

text \<open>A created row is in the table, at its end, under the id \<open>create\<close> returned.\<close>

lemma createRow_Inr:
  assumes "createRow get upd chk mk w = (Inr r, w')"
  shows "get w' = get w @ [r]" "r = mk (toISOString (clocks w (clockN w))) (ulids w (ulidN w))"
  using assms
  by (auto simp: createRow_def bindM_Inr_iff mappingErrors_Inr prim_run get_env dest!: insertInto_Inr(1))

text \<open>On a quiet database \<open>create\<close> fails only on a constraint, and \<open>update\<close> only on a missing row or one.\<close>

lemma createRow_quiet:
  fixes mk
  assumes "quiet w"
  defines "row \<equiv> mk (toISOString (clocks w (clockN w))) (ulids w (ulidN w))"
    and "w1 \<equiv> w\<lparr>clockN := Suc (clockN w), ulidN := Suc (ulidN w), stmtN := Suc (stmtN w)\<rparr>"
  shows "createRow get upd chk mk w = (case chk w (get w @ [row]) of
      None \<Rightarrow> (Inr row, upd (\<lambda>_. get w @ [row]) w1)
    | Some v \<Rightarrow> (Inl (StorageConflictError (violationMsg w v)), w1))"
proof -
  have c: "violationCode v mod 256 = 19" for v by (cases v) simp_all
  let ?w = "w\<lparr>clockN := Suc (clockN w), ulidN := Suc (ulidN w)\<rparr>"
  have "insertInto get upd chk row ?w = (case chk w (get w @ [row]) of
      None \<Rightarrow> (Inr (), upd (\<lambda>_. get w @ [row]) w1)
    | Some v \<Rightarrow> (Inl (SqliteErr (violationCode v) (violationMsg w v)), w1))"
    using assms(1)
    by (simp add: insertInto_def stmt_quiet constrained_def get_env chk_env w1_def split: option.split)
  then show ?thesis
    by (simp add: createRow_def bindM_def nowIso_run newId_run mappingErrors_def catchM_def throwM_def ret_def
      row_def [symmetric] c split: option.split)
qed

lemma patchRow_quiet:
  fixes key del f
  assumes "quiet w" and "find (\<lambda>r. key r = i \<and> del r = None) (get w) = Some ex"
  defines "now \<equiv> toISOString (clocks w (clockN w))"
  defines "t \<equiv> map (\<lambda>r. if key r = i then f now ex r else r) (get w)"
  assumes "chk w t = None"
  shows "patchRow get upd chk key del entity i f w =
    (Inr (f now ex ex), upd (\<lambda>_. t) (w\<lparr>clockN := Suc (clockN w), stmtN := Suc (Suc (stmtN w))\<rparr>))"
proof -
  have k: "key ex = i" using assms(2) by (auto dest: find_Some_D)
  let ?w = "w\<lparr>stmtN := Suc (stmtN w), clockN := Suc (clockN w)\<rparr>"
  have sel: "getLive get key del i w = (Inr (Some ex), tick w)"
    using assms(1,2) by (simp add: getLive_def selectOne_quiet get_env)
  have upd: "updateWhere get upd chk (\<lambda>r. key r = i) (f now ex) ?w =
      (Inr (length (filter (\<lambda>r. key r = i) (get w))), upd (\<lambda>_. t) (w\<lparr>clockN := Suc (clockN w), stmtN := Suc (Suc (stmtN w))\<rparr>))"
    using assms(1,5) by (subst updateWhere_quiet) (simp_all add: get_env chk_env t_def)
  show ?thesis
    by (simp add: patchRow_def bindM_def sel nowIso_run k now_def [symmetric] upd mappingErrors_def catchM_def ret_def)
qed

lemma patchRow_missing:
  "quiet w \<Longrightarrow> find (\<lambda>r. key r = i \<and> del r = None) (get w) = None \<Longrightarrow>
   patchRow get upd chk key del entity i f w = (Inl (StorageNotFoundError entity i), tick w)"
  by (simp add: patchRow_def getLive_def bindM_def selectOne_quiet get_env throwM_def)

text \<open>A successful \<open>update\<close> rewrites the rows with that id, from the live row it read.\<close>

lemma patchRow_Inr:
  assumes "patchRow get upd chk key del entity i f w = (Inr x, w')"
  obtains ex where "find (\<lambda>r. key r = i \<and> del r = None) (get w) = Some ex"
    and "x = f (toISOString (clocks w (clockN w))) ex ex"
    and "get w' = map (\<lambda>r. if key r = i then f (toISOString (clocks w (clockN w))) ex r else r) (get w)"
    and "chk w (get w') = None"
proof -
  have sel: "s = w\<lparr>stmtN := Suc (stmtN w)\<rparr> \<and> e = find (\<lambda>r. key r = i \<and> del r = None) (get w)"
    if "getLive get key del i w = (Inr e, s)" for e s
    using that by (auto simp: getLive_def selectOne_def stmt_def readM_run get_env split: option.splits)
  from assms obtain e s where g: "getLive get key del i w = (Inr e, s)"
    and r: "(case e of None \<Rightarrow> throwM (StorageNotFoundError entity i)
       | Some ex \<Rightarrow>
           bindM nowIso (\<lambda>now.
           bindM (mappingErrors (updateWhere get upd chk (\<lambda>r. key r = key ex) (f now ex))) (\<lambda>_.
           ret (f now ex ex)))) s = (Inr x, w')"
    unfolding patchRow_def by (rule bindM_InrE)
  from r obtain ex where ex: "e = Some ex" by (cases e) (auto simp: prim_run)
  with sel [OF g] have f: "find (\<lambda>r. key r = i \<and> del r = None) (get w) = Some ex" by simp
  then have k: "key ex = i" by (auto dest: find_Some_D)
  let ?now = "toISOString (clocks w (clockN w))"
  from r [unfolded ex] sel [OF g] k obtain n where
    u: "updateWhere get upd chk (\<lambda>r. key r = i) (f ?now ex) (s\<lparr>clockN := Suc (clockN w)\<rparr>) = (Inr n, w')"
    and x: "x = f ?now ex ex"
    by (auto simp: bindM_Inr_iff mappingErrors_Inr prim_run)
  show ?thesis
    using that [OF f x] updateWhere_Inr(1,3) [OF u] sel [OF g] by (simp add: get_env chk_env)
qed

end

section \<open>Tables with soft deletion\<close>

locale soft_table = table get upd chk rid
  for get :: "'z world_scheme \<Rightarrow> 'r list" and upd and chk and rid :: "'r \<Rightarrow> string" +
  fixes del :: "'r \<Rightarrow> string option"
    and mark :: "string \<Rightarrow> 'r \<Rightarrow> 'r"
  assumes mark_rid: "rid (mark now r) = rid r"
    and mark_del: "del (mark now r) = Some now"
    and mark_chk: "chk w t = None \<Longrightarrow> chk w (map (\<lambda>r. if p r then mark now r else r) t) = None"
    and upd_faults: "faults (upd g w) = faults w"
begin

lemma keeps_softDeleteRow: "keeps db_ok (softDeleteRow get upd chk rid del mark entity i)"
  unfolding softDeleteRow_def by (intro keeps_intros keeps_updateWhere mark_rid)

lemma getLive_quiet:
  "quiet w \<Longrightarrow> getLive get rid del i w
     = (Inr (find (\<lambda>r. rid r = i \<and> del r = None) (get w)), w\<lparr>stmtN := Suc (stmtN w)\<rparr>)"
  by (simp add: getLive_def selectOne_def stmt_quiet readM_run get_env)

text \<open>\<open>softDelete\<close> on a quiet database: every outcome.\<close>

lemma softDeleteRow_quiet:
  fixes i
  assumes "quiet w" and "db_ok w"
  defines "now \<equiv> toISOString (clocks w (clockN w))"
  defines "t \<equiv> map (\<lambda>r. if rid r = i \<and> del r = None then mark now r else r) (get w)"
  defines "w1 \<equiv> upd (\<lambda>_. t) (w\<lparr>clockN := Suc (clockN w), stmtN := Suc (stmtN w)\<rparr>)"
  shows "softDeleteRow get upd chk rid del mark entity i w =
    (if \<exists>r \<in> set (get w). rid r = i \<and> del r = None then (Inr (), w1)
     else (Inl (StorageNotFoundError entity i), w1))"
proof -
  have c: "chk w t = None" unfolding t_def by (intro mark_chk ok_chk assms(2))
  have "updateWhere get upd chk (\<lambda>r. rid r = i \<and> del r = None) (mark now) (w\<lparr>clockN := Suc (clockN w)\<rparr>)
      = (Inr (length (filter (\<lambda>r. rid r = i \<and> del r = None) (get w))), w1)"
    using assms(1) c
    by (simp add: updateWhere_def stmt_quiet constrained_def get_env chk_env t_def w1_def)
  then show ?thesis
    by (auto simp: softDeleteRow_def run_simps now_def [symmetric] filter_empty_conv)
qed

text \<open>
  After \<open>softDelete i\<close> the row is out of every \<open>deleted_at IS NULL\<close> query, the other rows are
  untouched, and the row itself is kept with its id.
\<close>

lemma softDelete_hides:
  assumes "softDeleteRow get upd chk rid del mark entity i w = (Inr (), w')"
  shows "find (\<lambda>r. rid r = i \<and> del r = None) (get w') = None"
    and "filter (\<lambda>r. rid r \<noteq> i) (get w') = filter (\<lambda>r. rid r \<noteq> i) (get w)"
    and "map rid (get w') = map rid (get w)"
proof -
  define now where "now = toISOString (clocks w (clockN w))"
  have e: "get w' = map (\<lambda>r. if rid r = i \<and> del r = None then mark now r else r) (get w)"
    using assms
    by (auto simp: softDeleteRow_def bindM_Inr_iff prim_run get_env now_def split: if_splits dest!: updateWhere_Inr(1))
  show "find (\<lambda>r. rid r = i \<and> del r = None) (get w') = None"
    unfolding e by (auto simp: find_None_iff mark_del)
  show "filter (\<lambda>r. rid r \<noteq> i) (get w') = filter (\<lambda>r. rid r \<noteq> i) (get w)"
    unfolding e by (rule filter_untouched) (auto simp: mark_rid)
  show "map rid (get w') = map rid (get w)"
    unfolding e by (rule map_update_key) (rule mark_rid)
qed

end

interpretation orgs: soft_table orgs orgs_update orgs_chk o_id o_deletedAt
    "\<lambda>now r. r\<lparr>o_deletedAt := Some now, o_updatedAt := now\<rparr>"
  by unfold_locales (auto simp: orgs_chk_def update_simps intro!: unique_on_shrink)

interpretation apiKeys: soft_table apiKeys apiKeys_update apiKeys_chk ak_id ak_deletedAt
    "\<lambda>now r. r\<lparr>ak_deletedAt := Some now, ak_updatedAt := now\<rparr>"
  by unfold_locales (auto simp: apiKeys_chk_def update_simps intro!: unique_on_shrink)

interpretation products: soft_table products products_update products_chk p_id p_deletedAt
    "\<lambda>now r. r\<lparr>p_deletedAt := Some now, p_updatedAt := now\<rparr>"
  by unfold_locales (auto simp: products_chk_def update_simps intro!: unique_on_shrink)

interpretation releases: soft_table releases releases_update releases_chk r_id r_deletedAt
    "\<lambda>now r. r\<lparr>r_deletedAt := Some now, r_updatedAt := now\<rparr>"
  by unfold_locales (auto simp: releases_chk_def update_simps intro!: unique_on_shrink)

interpretation artifacts: soft_table artifacts artifacts_update artifacts_chk af_id af_deletedAt
    "\<lambda>now r. r\<lparr>af_deletedAt := Some now, af_updatedAt := now\<rparr>"
  by unfold_locales (auto simp: artifacts_chk_def update_simps intro!: unique_on_shrink)

interpretation targets: soft_table targets targets_update targets_chk t_id t_deletedAt
    "\<lambda>now r. r\<lparr>t_deletedAt := Some now, t_updatedAt := now\<rparr>"
  by unfold_locales (auto simp: targets_chk_def update_simps intro!: unique_on_shrink)

interpretation scenarios: soft_table scenarios scenarios_update scenarios_chk sc_id sc_deletedAt
    "\<lambda>now r. r\<lparr>sc_deletedAt := Some now, sc_updatedAt := now\<rparr>"
  by unfold_locales (auto simp: scenarios_chk_def update_simps intro!: unique_on_shrink)

interpretation healthSchedules: soft_table healthSchedules healthSchedules_update healthSchedules_chk hs_id hs_deletedAt
    "\<lambda>now r. r\<lparr>hs_deletedAt := Some now, hs_updatedAt := now\<rparr>"
  by unfold_locales (auto simp: healthSchedules_chk_def update_simps intro!: unique_on_shrink)

interpretation webhookSubscriptions: soft_table webhookSubscriptions webhookSubscriptions_update webhookSubscriptions_chk wh_id wh_deletedAt
    "\<lambda>now r. r\<lparr>wh_deletedAt := Some now, wh_updatedAt := now\<rparr>"
  by unfold_locales (auto simp: webhookSubscriptions_chk_def update_simps intro!: unique_on_shrink)

interpretation promotionPolicies: soft_table promotionPolicies promotionPolicies_update promotionPolicies_chk pp_id pp_deletedAt
    "\<lambda>now r. r\<lparr>pp_deletedAt := Some now, pp_updatedAt := now\<rparr>"
  by unfold_locales (auto simp: promotionPolicies_chk_def update_simps intro!: unique_on_shrink)

interpretation approvals: soft_table approvals approvals_update approvals_chk ap_id ap_deletedAt
    "\<lambda>now r. r\<lparr>ap_deletedAt := Some now, ap_updatedAt := now\<rparr>"
  by unfold_locales (auto simp: approvals_chk_def approval_indexed_def update_simps intro!: unique_on_shrink)

interpretation runners: soft_table runners runners_update runners_chk rr_id rr_deletedAt
    "\<lambda>now r. r\<lparr>rr_deletedAt := Some now, rr_updatedAt := now\<rparr>"
  by unfold_locales (auto simp: runners_chk_def update_simps intro!: unique_on_shrink)

lemmas row_keeps [keeps_intros] =
  orgs.keeps_createRow orgs.keeps_patchRow
  apiKeys.keeps_createRow apiKeys.keeps_patchRow
  products.keeps_createRow products.keeps_patchRow
  releases.keeps_createRow releases.keeps_patchRow
  artifacts.keeps_createRow artifacts.keeps_patchRow
  auditLog.keeps_createRow auditLog.keeps_patchRow
  targets.keeps_createRow targets.keeps_patchRow
  deployments.keeps_createRow deployments.keeps_patchRow
  healthChecks.keeps_createRow healthChecks.keeps_patchRow
  scenarios.keeps_createRow scenarios.keeps_patchRow
  runs.keeps_createRow runs.keeps_patchRow
  jobs.keeps_createRow jobs.keeps_patchRow
  cloudBudgets.keeps_createRow cloudBudgets.keeps_patchRow
  cloudUsage.keeps_createRow cloudUsage.keeps_patchRow
  cloudCredentials.keeps_createRow cloudCredentials.keeps_patchRow
  healthSchedules.keeps_createRow healthSchedules.keeps_patchRow
  webhookSubscriptions.keeps_createRow webhookSubscriptions.keeps_patchRow
  promotionPolicies.keeps_createRow promotionPolicies.keeps_patchRow
  approvals.keeps_createRow approvals.keeps_patchRow
  runners.keeps_createRow runners.keeps_patchRow
  signingProviderKeys.keeps_createRow signingProviderKeys.keeps_patchRow
  signingNonces.keeps_createRow signingNonces.keeps_patchRow

lemmas soft_keeps [keeps_intros] =
  orgs.keeps_softDeleteRow
  apiKeys.keeps_softDeleteRow
  products.keeps_softDeleteRow
  releases.keeps_softDeleteRow
  artifacts.keeps_softDeleteRow
  targets.keeps_softDeleteRow
  scenarios.keeps_softDeleteRow
  healthSchedules.keeps_softDeleteRow
  webhookSubscriptions.keeps_softDeleteRow
  promotionPolicies.keeps_softDeleteRow
  approvals.keeps_softDeleteRow
  runners.keeps_softDeleteRow

lemma keeps_getLive [keeps_intros]: "keeps db_ok (getLive get rid del i)"
  unfolding getLive_def by (rule keeps_selectOne)

end
