(* ===== verification/Repos_Catalog.thy ===== *)
theory Repos_Catalog
  imports Repo_Base
begin

text \<open>
  The catalogue repositories of \<open>storage/sqlite.ts\<close>: organisations, API keys, products,
  releases, artifacts, the audit log, scenarios and runs.  One definition per method; an
  optional argument or patch field is an \<open>option\<close>.
\<close>

text \<open>JavaScript's truthiness of \<open>string | undefined\<close>: the empty string is falsy.\<close>

definition truthy :: "string option \<Rightarrow> bool" where
  "truthy s \<longleftrightarrow> (case s of None \<Rightarrow> False | Some x \<Rightarrow> x \<noteq> [])"

section \<open>SqliteOrgRepo\<close>

definition org_create :: "string \<Rightarrow> orgTier option \<Rightarrow> ('z, org) DB" where
  "org_create name tier = createRow orgs orgs_update orgs_chk (\<lambda>now i.
     \<lparr>o_id = i, o_name = name, o_tier = orElse tier Free, o_createdAt = now, o_updatedAt = now,
      o_deletedAt = None\<rparr>)"

definition org_get :: "string \<Rightarrow> ('z, org option) DB" where
  "org_get i = getLive orgs o_id o_deletedAt i"

definition org_getByName :: "string \<Rightarrow> ('z, org option) DB" where
  "org_getByName name = selectOne orgs (\<lambda>r. o_name r = name \<and> o_deletedAt r = None)"

definition org_list :: "('z, org list) DB" where
  "org_list = selectAll orgs (\<lambda>r. o_deletedAt r = None) (orderBy o_createdAt)"

definition org_update :: "string \<Rightarrow> string option \<Rightarrow> orgTier option \<Rightarrow> ('z, org) DB" where
  "org_update i pname ptier = patchRow orgs orgs_update orgs_chk o_id o_deletedAt ''org'' i
     (\<lambda>now ex r. r\<lparr>o_name := orElse pname (o_name ex), o_tier := orElse ptier (o_tier ex),
        o_updatedAt := now\<rparr>)"

definition org_softDelete :: "string \<Rightarrow> ('z, unit) DB" where
  "org_softDelete i = softDeleteRow orgs orgs_update orgs_chk o_id o_deletedAt
     (\<lambda>now r. r\<lparr>o_deletedAt := Some now, o_updatedAt := now\<rparr>) ''org'' i"

section \<open>SqliteApiKeyRepo\<close>

definition apiKey_create ::
  "string \<Rightarrow> string \<Rightarrow> string \<Rightarrow> string \<Rightarrow> string option \<Rightarrow> ('z, apiKey) DB" where
  "apiKey_create orgId name prefix hash expiresAt = createRow apiKeys apiKeys_update apiKeys_chk (\<lambda>now i.
     \<lparr>ak_id = i, ak_orgId = orgId, ak_prefix = prefix, ak_hash = hash, ak_name = name,
      ak_expiresAt = expiresAt, ak_createdAt = now, ak_updatedAt = now, ak_deletedAt = None\<rparr>)"

definition apiKey_get :: "string \<Rightarrow> ('z, apiKey option) DB" where
  "apiKey_get i = getLive apiKeys ak_id ak_deletedAt i"

definition apiKey_getByPrefix :: "string \<Rightarrow> ('z, apiKey option) DB" where
  "apiKey_getByPrefix prefix = selectOne apiKeys (\<lambda>r. ak_prefix r = prefix \<and> ak_deletedAt r = None)"

definition apiKey_listForOrg :: "string \<Rightarrow> ('z, apiKey list) DB" where
  "apiKey_listForOrg orgId =
     selectAll apiKeys (\<lambda>r. ak_orgId r = orgId \<and> ak_deletedAt r = None) (orderBy ak_createdAt)"

definition apiKey_softDelete :: "string \<Rightarrow> ('z, unit) DB" where
  "apiKey_softDelete i = softDeleteRow apiKeys apiKeys_update apiKeys_chk ak_id ak_deletedAt
     (\<lambda>now r. r\<lparr>ak_deletedAt := Some now, ak_updatedAt := now\<rparr>) ''api_key'' i"

section \<open>SqliteProductRepo\<close>

definition product_create ::
  "string \<Rightarrow> string \<Rightarrow> string \<Rightarrow> string option \<Rightarrow> ('z, product) DB" where
  "product_create orgId name repoUrl buildYamlPath = createRow products products_update products_chk (\<lambda>now i.
     \<lparr>p_id = i, p_orgId = orgId, p_name = name, p_repoUrl = repoUrl,
      p_buildYamlPath = orElse buildYamlPath ''signalman.build.yaml'',
      p_createdAt = now, p_updatedAt = now, p_deletedAt = None\<rparr>)"

definition product_get :: "string \<Rightarrow> ('z, product option) DB" where
  "product_get i = getLive products p_id p_deletedAt i"

definition product_getByName :: "string \<Rightarrow> string \<Rightarrow> ('z, product option) DB" where
  "product_getByName orgId name =
     selectOne products (\<lambda>r. p_orgId r = orgId \<and> p_name r = name \<and> p_deletedAt r = None)"

definition product_listForOrg :: "string \<Rightarrow> ('z, product list) DB" where
  "product_listForOrg orgId =
     selectAll products (\<lambda>r. p_orgId r = orgId \<and> p_deletedAt r = None) (orderBy p_name)"

definition product_update ::
  "string \<Rightarrow> string option \<Rightarrow> string option \<Rightarrow> string option \<Rightarrow> ('z, product) DB" where
  "product_update i pname prepoUrl pbuildYamlPath =
     patchRow products products_update products_chk p_id p_deletedAt ''product'' i
     (\<lambda>now ex r. r\<lparr>p_name := orElse pname (p_name ex), p_repoUrl := orElse prepoUrl (p_repoUrl ex),
        p_buildYamlPath := orElse pbuildYamlPath (p_buildYamlPath ex), p_updatedAt := now\<rparr>)"

definition product_softDelete :: "string \<Rightarrow> ('z, unit) DB" where
  "product_softDelete i = softDeleteRow products products_update products_chk p_id p_deletedAt
     (\<lambda>now r. r\<lparr>p_deletedAt := Some now, p_updatedAt := now\<rparr>) ''product'' i"

section \<open>SqliteReleaseRepo\<close>

definition release_create ::
  "string \<Rightarrow> string \<Rightarrow> string \<Rightarrow> string \<Rightarrow> releaseStatus option \<Rightarrow> ('z, release) DB" where
  "release_create orgId productId tag commitSha status =
     createRow releases releases_update releases_chk (\<lambda>now i.
     \<lparr>r_id = i, r_orgId = orgId, r_productId = productId, r_tag = tag, r_commitSha = commitSha,
      r_manifestSha256 = None, r_signedBy = None, r_signatureB64 = None, r_builtAt = None,
      r_builtByRunnerId = None, r_status = orElse status RBuilding, r_buildYamlJson = None,
      r_createdAt = now, r_updatedAt = now, r_deletedAt = None\<rparr>)"

definition release_get :: "string \<Rightarrow> ('z, release option) DB" where
  "release_get i = getLive releases r_id r_deletedAt i"

definition release_getByTag :: "string \<Rightarrow> string \<Rightarrow> ('z, release option) DB" where
  "release_getByTag productId tag =
     selectOne releases (\<lambda>r. r_productId r = productId \<and> r_tag r = tag \<and> r_deletedAt r = None)"

definition release_listForProduct :: "string \<Rightarrow> releaseStatus option \<Rightarrow> ('z, release list) DB" where
  "release_listForProduct productId status =
     (case status of
        Some s \<Rightarrow> selectAll releases (\<lambda>r. r_productId r = productId \<and> r_status r = s \<and> r_deletedAt r = None)
                   (orderByDesc r_createdAt)
      | None \<Rightarrow> selectAll releases (\<lambda>r. r_productId r = productId \<and> r_deletedAt r = None)
                   (orderByDesc r_createdAt))"

record releasePatch =
  rp_manifestSha256 :: "string option"
  rp_signedBy :: "string option"
  rp_signatureB64 :: "string option"
  rp_builtAt :: "string option"
  rp_builtByRunnerId :: "string option"
  rp_status :: "releaseStatus option"
  rp_buildYamlJson :: "string option"

definition release_update :: "string \<Rightarrow> releasePatch \<Rightarrow> ('z, release) DB" where
  "release_update i patch =
     patchRow releases releases_update releases_chk r_id r_deletedAt ''release'' i
     (\<lambda>now ex r. r\<lparr>
        r_manifestSha256 := orElseNull (rp_manifestSha256 patch) (r_manifestSha256 ex),
        r_signedBy := orElseNull (rp_signedBy patch) (r_signedBy ex),
        r_signatureB64 := orElseNull (rp_signatureB64 patch) (r_signatureB64 ex),
        r_builtAt := orElseNull (rp_builtAt patch) (r_builtAt ex),
        r_builtByRunnerId := orElseNull (rp_builtByRunnerId patch) (r_builtByRunnerId ex),
        r_status := orElse (rp_status patch) (r_status ex),
        r_buildYamlJson := orElseNull (rp_buildYamlJson patch) (r_buildYamlJson ex),
        r_updatedAt := now\<rparr>)"

definition release_softDelete :: "string \<Rightarrow> ('z, unit) DB" where
  "release_softDelete i = softDeleteRow releases releases_update releases_chk r_id r_deletedAt
     (\<lambda>now r. r\<lparr>r_deletedAt := Some now, r_updatedAt := now\<rparr>) ''release'' i"

section \<open>SqliteArtifactRepo\<close>

definition artifact_create ::
  "string \<Rightarrow> string \<Rightarrow> artifactKind \<Rightarrow> string option \<Rightarrow> int option \<Rightarrow> string option \<Rightarrow> string option
    \<Rightarrow> ('z, artifact) DB" where
  "artifact_create releaseId component kind sha256 sizeBytes blobUri imageRef =
     createRow artifacts artifacts_update artifacts_chk (\<lambda>now i.
     \<lparr>af_id = i, af_releaseId = releaseId, af_component = component, af_kind = kind,
      af_sha256 = sha256, af_sizeBytes = sizeBytes, af_blobUri = blobUri, af_imageRef = imageRef,
      af_createdAt = now, af_updatedAt = now, af_deletedAt = None\<rparr>)"

definition artifact_get :: "string \<Rightarrow> ('z, artifact option) DB" where
  "artifact_get i = getLive artifacts af_id af_deletedAt i"

definition artifact_listForRelease :: "string \<Rightarrow> ('z, artifact list) DB" where
  "artifact_listForRelease releaseId =
     selectAll artifacts (\<lambda>r. af_releaseId r = releaseId \<and> af_deletedAt r = None) (orderBy af_component)"

definition artifact_softDelete :: "string \<Rightarrow> ('z, unit) DB" where
  "artifact_softDelete i = softDeleteRow artifacts artifacts_update artifacts_chk af_id af_deletedAt
     (\<lambda>now r. r\<lparr>af_deletedAt := Some now, af_updatedAt := now\<rparr>) ''artifact'' i"

section \<open>SqliteAuditLogRepo\<close>

definition audit_append ::
  "string \<Rightarrow> string \<Rightarrow> string \<Rightarrow> string \<Rightarrow> string \<Rightarrow> json option \<Rightarrow> ('z, auditLogEntry) DB" where
  "audit_append orgId actor action entityType entityId detail =
     createRow auditLog auditLog_update auditLog_chk (\<lambda>now i.
     \<lparr>al_id = i, al_orgId = orgId, al_actor = actor, al_action = action, al_entityType = entityType,
      al_entityId = entityId, al_detail = detail, al_at = now, al_createdAt = now\<rparr>)"

definition audit_listForOrg ::
  "string \<Rightarrow> int option \<Rightarrow> string option \<Rightarrow> string option \<Rightarrow> ('z, auditLogEntry list) DB" where
  "audit_listForOrg orgId limit entityType entityId =
     (let n = orElse limit 100; sel = (\<lambda>p. selectAll auditLog p (limitTo n \<circ> orderByDesc al_at)) in
      if truthy entityType \<and> truthy entityId then
        sel (\<lambda>r. al_orgId r = orgId \<and> al_entityType r = the entityType \<and> al_entityId r = the entityId)
      else if truthy entityType then
        sel (\<lambda>r. al_orgId r = orgId \<and> al_entityType r = the entityType)
      else sel (\<lambda>r. al_orgId r = orgId))"

section \<open>SqliteScenarioRepo\<close>

definition scenario_get :: "string \<Rightarrow> ('z, scenario option) DB" where
  "scenario_get i = getLive scenarios sc_id sc_deletedAt i"

definition scenario_getByPath :: "string \<Rightarrow> string \<Rightarrow> ('z, scenario option) DB" where
  "scenario_getByPath orgId p =
     selectOne scenarios (\<lambda>r. sc_orgId r = orgId \<and> sc_path r = p \<and> sc_deletedAt r = None)"

definition scenario_upsertFromDisk ::
  "string \<Rightarrow> string \<Rightarrow> string \<Rightarrow> string \<Rightarrow> string list \<Rightarrow> ('z, scenario) DB" where
  "scenario_upsertFromDisk orgId p hash name tags =
     bindM (scenario_getByPath orgId p) (\<lambda>existing. case existing of
       Some ex \<Rightarrow>
         bindM nowIso (\<lambda>now.
         let f = (\<lambda>r. r\<lparr>sc_scenarioHash := hash, sc_name := name, sc_tags := tags, sc_updatedAt := now\<rparr>) in
         bindM (mappingErrors (updateWhere scenarios scenarios_update scenarios_chk
           (\<lambda>r. sc_id r = sc_id ex) f)) (\<lambda>_. ret (f ex)))
     | None \<Rightarrow>
         createRow scenarios scenarios_update scenarios_chk (\<lambda>now i.
           \<lparr>sc_id = i, sc_orgId = orgId, sc_path = p, sc_scenarioHash = hash, sc_name = name,
            sc_tags = tags, sc_source = SDisk, sc_createdAt = now, sc_updatedAt = now,
            sc_deletedAt = None\<rparr>))"

definition scenario_listForOrg :: "string \<Rightarrow> ('z, scenario list) DB" where
  "scenario_listForOrg orgId =
     selectAll scenarios (\<lambda>r. sc_orgId r = orgId \<and> sc_deletedAt r = None) (orderBy sc_path)"

definition scenario_softDelete :: "string \<Rightarrow> ('z, unit) DB" where
  "scenario_softDelete i = softDeleteRow scenarios scenarios_update scenarios_chk sc_id sc_deletedAt
     (\<lambda>now r. r\<lparr>sc_deletedAt := Some now, sc_updatedAt := now\<rparr>) ''scenario'' i"

section \<open>SqliteRunRepo\<close>

definition run_create ::
  "string \<Rightarrow> string \<Rightarrow> string option \<Rightarrow> runTriggeredBy \<Rightarrow> ('z, run) DB" where
  "run_create orgId scenarioId targetId triggeredBy = createRow runs runs_update runs_chk (\<lambda>now i.
     \<lparr>rn_id = i, rn_orgId = orgId, rn_scenarioId = scenarioId, rn_targetId = targetId,
      rn_triggeredBy = triggeredBy, rn_envelopeBlobUri = None, rn_result = None, rn_startedAt = None,
      rn_completedAt = None, rn_createdAt = now, rn_updatedAt = now, rn_deletedAt = None\<rparr>)"

definition run_get :: "string \<Rightarrow> ('z, run option) DB" where
  "run_get i = getLive runs rn_id rn_deletedAt i"

definition run_listForScenario :: "string \<Rightarrow> int option \<Rightarrow> ('z, run list) DB" where
  "run_listForScenario scenarioId limit =
     selectAll runs (\<lambda>r. rn_scenarioId r = scenarioId \<and> rn_deletedAt r = None)
       (limitTo (orElse limit 50) \<circ> orderByDesc rn_createdAt)"

definition run_update ::
  "string \<Rightarrow> string option \<Rightarrow> string option \<Rightarrow> string option \<Rightarrow> string option \<Rightarrow> ('z, run) DB" where
  "run_update i penvelope presult pstartedAt pcompletedAt =
     patchRow runs runs_update runs_chk rn_id rn_deletedAt ''run'' i
     (\<lambda>now ex r. r\<lparr>
        rn_envelopeBlobUri := orElseNull penvelope (rn_envelopeBlobUri ex),
        rn_result := orElseNull presult (rn_result ex),
        rn_startedAt := orElseNull pstartedAt (rn_startedAt ex),
        rn_completedAt := orElseNull pcompletedAt (rn_completedAt ex),
        rn_updatedAt := now\<rparr>)"

end
