(* ===== verification/Repos_Deploy.thy ===== *)
theory Repos_Deploy
  imports Repos_Catalog
begin

text \<open>
  The deployment-side repositories of \<open>storage/sqlite.ts\<close>: targets, deployments, health checks,
  health schedules, webhook subscriptions, promotion policies and approvals.  A patch field
  the source tests with \<open>!== undefined\<close> and whose column is nullable is an \<open>option option\<close>: \<open>None\<close>
  is \<open>undefined\<close>, \<open>Some None\<close> is \<open>null\<close>.
\<close>

section \<open>SqliteTargetRepo\<close>

definition target_create :: "string \<Rightarrow> string \<Rightarrow> targetKind \<Rightarrow> json \<Rightarrow> ('z, target) DB" where
  "target_create orgId name kind connection = createRow targets targets_update targets_chk (\<lambda>now i.
     \<lparr>t_id = i, t_orgId = orgId, t_name = name, t_kind = kind, t_connection = connection,
      t_createdAt = now, t_updatedAt = now, t_deletedAt = None\<rparr>)"

definition target_get :: "string \<Rightarrow> ('z, target option) DB" where
  "target_get i = getLive targets t_id t_deletedAt i"

definition target_getByName :: "string \<Rightarrow> string \<Rightarrow> ('z, target option) DB" where
  "target_getByName orgId name =
     selectOne targets (\<lambda>r. t_orgId r = orgId \<and> t_name r = name \<and> t_deletedAt r = None)"

definition target_listForOrg :: "string \<Rightarrow> ('z, target list) DB" where
  "target_listForOrg orgId =
     selectAll targets (\<lambda>r. t_orgId r = orgId \<and> t_deletedAt r = None) (orderBy t_name)"

definition target_update :: "string \<Rightarrow> string option \<Rightarrow> json option \<Rightarrow> ('z, target) DB" where
  "target_update i pname pconnection =
     patchRow targets targets_update targets_chk t_id t_deletedAt ''target'' i
     (\<lambda>now ex r. r\<lparr>t_name := orElse pname (t_name ex),
        t_connection := orElse pconnection (t_connection ex), t_updatedAt := now\<rparr>)"

definition target_softDelete :: "string \<Rightarrow> ('z, unit) DB" where
  "target_softDelete i = softDeleteRow targets targets_update targets_chk t_id t_deletedAt
     (\<lambda>now r. r\<lparr>t_deletedAt := Some now, t_updatedAt := now\<rparr>) ''target'' i"

section \<open>SqliteDeploymentRepo\<close>

definition deployment_create ::
  "string \<Rightarrow> string \<Rightarrow> string \<Rightarrow> string option \<Rightarrow> ('z, deployment) DB" where
  "deployment_create orgId releaseId targetId previousDeploymentId =
     createRow deployments deployments_update deployments_chk (\<lambda>now i.
     \<lparr>d_id = i, d_orgId = orgId, d_releaseId = releaseId, d_targetId = targetId, d_status = DPending,
      d_startedAt = None, d_completedAt = None, d_previousDeploymentId = previousDeploymentId,
      d_healthSummary = None, d_createdAt = now, d_updatedAt = now, d_deletedAt = None\<rparr>)"

definition deployment_get :: "string \<Rightarrow> ('z, deployment option) DB" where
  "deployment_get i = getLive deployments d_id d_deletedAt i"

definition deployment_getActiveForTarget :: "string \<Rightarrow> ('z, deployment option) DB" where
  "deployment_getActiveForTarget targetId =
     selectOne deployments (\<lambda>r. d_targetId r = targetId \<and> d_status r = DActive \<and> d_deletedAt r = None)"

definition deployment_listForTarget :: "string \<Rightarrow> int option \<Rightarrow> ('z, deployment list) DB" where
  "deployment_listForTarget targetId limit =
     selectAll deployments (\<lambda>r. d_targetId r = targetId \<and> d_deletedAt r = None)
       (limitTo (orElse limit 100) \<circ> orderByDesc d_createdAt)"

record deploymentPatch =
  dp_status :: "deploymentStatus option"
  dp_startedAt :: "string option"
  dp_completedAt :: "string option"
  dp_healthSummary :: "healthSummary option option"

definition deployment_patch :: "deploymentPatch \<Rightarrow> string \<Rightarrow> deployment \<Rightarrow> deployment \<Rightarrow> deployment" where
  "deployment_patch patch now ex r = r\<lparr>
     d_status := orElse (dp_status patch) (d_status ex),
     d_startedAt := orElseNull (dp_startedAt patch) (d_startedAt ex),
     d_completedAt := orElseNull (dp_completedAt patch) (d_completedAt ex),
     d_healthSummary := orElse (dp_healthSummary patch) (d_healthSummary ex),
     d_updatedAt := now\<rparr>"

definition deployment_update :: "string \<Rightarrow> deploymentPatch \<Rightarrow> ('z, deployment) DB" where
  "deployment_update i patch =
     patchRow deployments deployments_update deployments_chk d_id d_deletedAt ''deployment'' i
       (deployment_patch patch)"

section \<open>SqliteHealthCheckRepo\<close>

definition healthCheck_append ::
  "string \<Rightarrow> string \<Rightarrow> healthStatus \<Rightarrow> int option \<Rightarrow> string option \<Rightarrow> ('z, healthCheck) DB" where
  "healthCheck_append deploymentId probeName status latencyMs detail =
     createRow healthChecks healthChecks_update healthChecks_chk (\<lambda>now i.
     \<lparr>hc_id = i, hc_deploymentId = deploymentId, hc_probeName = probeName, hc_status = status,
      hc_latencyMs = latencyMs, hc_detail = detail, hc_checkedAt = now, hc_createdAt = now,
      hc_updatedAt = now, hc_deletedAt = None\<rparr>)"

definition healthCheck_listForDeployment ::
  "string \<Rightarrow> string option \<Rightarrow> int option \<Rightarrow> ('z, healthCheck list) DB" where
  "healthCheck_listForDeployment deploymentId since limit =
     (let ord = limitTo (orElse limit 100) \<circ> orderByDesc hc_checkedAt in
      if truthy since then
        selectAll healthChecks (\<lambda>r. hc_deploymentId r = deploymentId \<and> hc_checkedAt r \<ge> the since
           \<and> hc_deletedAt r = None) ord
      else selectAll healthChecks (\<lambda>r. hc_deploymentId r = deploymentId \<and> hc_deletedAt r = None) ord)"

section \<open>SqliteHealthScheduleRepo\<close>

definition schedule_create ::
  "string \<Rightarrow> string \<Rightarrow> int \<Rightarrow> string list \<Rightarrow> bool option \<Rightarrow> ('z, healthSchedule) DB" where
  "schedule_create orgId targetId intervalSeconds probeNames active =
     createRow healthSchedules healthSchedules_update healthSchedules_chk (\<lambda>now i.
     \<lparr>hs_id = i, hs_orgId = orgId, hs_targetId = targetId, hs_intervalSeconds = intervalSeconds,
      hs_probeNames = probeNames, hs_lastRunAt = None, hs_active = (active \<noteq> Some False),
      hs_createdAt = now, hs_updatedAt = now, hs_deletedAt = None\<rparr>)"

definition schedule_get :: "string \<Rightarrow> ('z, healthSchedule option) DB" where
  "schedule_get i = getLive healthSchedules hs_id hs_deletedAt i"

definition schedule_listForOrg :: "string \<Rightarrow> ('z, healthSchedule list) DB" where
  "schedule_listForOrg orgId =
     selectAll healthSchedules (\<lambda>r. hs_orgId r = orgId \<and> hs_deletedAt r = None) (orderBy hs_createdAt)"

definition schedule_listForTarget :: "string \<Rightarrow> ('z, healthSchedule list) DB" where
  "schedule_listForTarget targetId =
     selectAll healthSchedules (\<lambda>r. hs_targetId r = targetId \<and> hs_deletedAt r = None) (orderBy hs_createdAt)"

definition schedule_listActive :: "string option \<Rightarrow> ('z, healthSchedule list) DB" where
  "schedule_listActive orgId =
     (if truthy orgId then
        selectAll healthSchedules (\<lambda>r. hs_orgId r = the orgId \<and> hs_active r \<and> hs_deletedAt r = None)
          (orderBy hs_createdAt)
      else selectAll healthSchedules (\<lambda>r. hs_active r \<and> hs_deletedAt r = None) (orderBy hs_createdAt))"

record schedulePatch =
  hp_intervalSeconds :: "int option"
  hp_probeNames :: "string list option"
  hp_active :: "bool option"
  hp_lastRunAt :: "string option option"

definition schedule_update :: "string \<Rightarrow> schedulePatch \<Rightarrow> ('z, healthSchedule) DB" where
  "schedule_update i patch =
     patchRow healthSchedules healthSchedules_update healthSchedules_chk hs_id hs_deletedAt ''health_schedule'' i
     (\<lambda>now ex r. r\<lparr>
        hs_intervalSeconds := orElse (hp_intervalSeconds patch) (hs_intervalSeconds ex),
        hs_probeNames := orElse (hp_probeNames patch) (hs_probeNames ex),
        hs_lastRunAt := orElse (hp_lastRunAt patch) (hs_lastRunAt ex),
        hs_active := orElse (hp_active patch) (hs_active ex),
        hs_updatedAt := now\<rparr>)"

definition schedule_softDelete :: "string \<Rightarrow> ('z, unit) DB" where
  "schedule_softDelete i =
     softDeleteRow healthSchedules healthSchedules_update healthSchedules_chk hs_id hs_deletedAt
     (\<lambda>now r. r\<lparr>hs_deletedAt := Some now, hs_updatedAt := now\<rparr>) ''health_schedule'' i"

section \<open>SqliteWebhookSubscriptionRepo\<close>

definition webhook_create ::
  "string \<Rightarrow> webhookKind \<Rightarrow> string \<Rightarrow> string option \<Rightarrow> string list option \<Rightarrow> bool option \<Rightarrow> string option
    \<Rightarrow> ('z, webhookSubscription) DB" where
  "webhook_create orgId kind url secretHmacKey eventKinds active description =
     createRow webhookSubscriptions webhookSubscriptions_update webhookSubscriptions_chk (\<lambda>now i.
     \<lparr>wh_id = i, wh_orgId = orgId, wh_kind = kind, wh_url = url, wh_secretHmacKey = secretHmacKey,
      wh_eventKinds = orElse eventKinds [], wh_active = (active \<noteq> Some False),
      wh_description = description, wh_createdAt = now, wh_updatedAt = now, wh_deletedAt = None\<rparr>)"

definition webhook_get :: "string \<Rightarrow> ('z, webhookSubscription option) DB" where
  "webhook_get i = getLive webhookSubscriptions wh_id wh_deletedAt i"

definition webhook_listForOrg :: "string \<Rightarrow> ('z, webhookSubscription list) DB" where
  "webhook_listForOrg orgId =
     selectAll webhookSubscriptions (\<lambda>r. wh_orgId r = orgId \<and> wh_deletedAt r = None) (orderBy wh_createdAt)"

definition webhook_listActive :: "string option \<Rightarrow> ('z, webhookSubscription list) DB" where
  "webhook_listActive orgId =
     (if truthy orgId then
        selectAll webhookSubscriptions (\<lambda>r. wh_orgId r = the orgId \<and> wh_active r \<and> wh_deletedAt r = None)
          (orderBy wh_createdAt)
      else selectAll webhookSubscriptions (\<lambda>r. wh_active r \<and> wh_deletedAt r = None) (orderBy wh_createdAt))"

record webhookPatch =
  wp_url :: "string option"
  wp_secretHmacKey :: "string option option"
  wp_eventKinds :: "string list option"
  wp_active :: "bool option"
  wp_description :: "string option option"

definition webhook_update :: "string \<Rightarrow> webhookPatch \<Rightarrow> ('z, webhookSubscription) DB" where
  "webhook_update i patch =
     patchRow webhookSubscriptions webhookSubscriptions_update webhookSubscriptions_chk wh_id wh_deletedAt
       ''webhook_subscription'' i
     (\<lambda>now ex r. r\<lparr>
        wh_url := orElse (wp_url patch) (wh_url ex),
        wh_secretHmacKey := orElse (wp_secretHmacKey patch) (wh_secretHmacKey ex),
        wh_eventKinds := orElse (wp_eventKinds patch) (wh_eventKinds ex),
        wh_active := orElse (wp_active patch) (wh_active ex),
        wh_description := orElse (wp_description patch) (wh_description ex),
        wh_updatedAt := now\<rparr>)"

definition webhook_softDelete :: "string \<Rightarrow> ('z, unit) DB" where
  "webhook_softDelete i =
     softDeleteRow webhookSubscriptions webhookSubscriptions_update webhookSubscriptions_chk wh_id wh_deletedAt
     (\<lambda>now r. r\<lparr>wh_deletedAt := Some now, wh_updatedAt := now\<rparr>) ''webhook_subscription'' i"

section \<open>SqlitePromotionPolicyRepo\<close>

definition policy_create ::
  "string \<Rightarrow> string \<Rightarrow> string option \<Rightarrow> string \<Rightarrow> promotionGateKind \<Rightarrow> json option \<Rightarrow> bool option
    \<Rightarrow> string option \<Rightarrow> ('z, promotionPolicy) DB" where
  "policy_create orgId productId sourceTargetId destTargetId gateKind gateConfig active description =
     createRow promotionPolicies promotionPolicies_update promotionPolicies_chk (\<lambda>now i.
     \<lparr>pp_id = i, pp_orgId = orgId, pp_productId = productId, pp_sourceTargetId = sourceTargetId,
      pp_destTargetId = destTargetId, pp_gateKind = gateKind,
      pp_gateConfig = orElse gateConfig (JObj []), pp_active = (active \<noteq> Some False),
      pp_description = description, pp_createdAt = now, pp_updatedAt = now, pp_deletedAt = None\<rparr>)"

definition policy_get :: "string \<Rightarrow> ('z, promotionPolicy option) DB" where
  "policy_get i = getLive promotionPolicies pp_id pp_deletedAt i"

definition policy_listForOrg :: "string \<Rightarrow> ('z, promotionPolicy list) DB" where
  "policy_listForOrg orgId =
     selectAll promotionPolicies (\<lambda>r. pp_orgId r = orgId \<and> pp_deletedAt r = None) (orderBy pp_createdAt)"

definition policy_listMatchingForProduct ::
  "string \<Rightarrow> string option \<Rightarrow> ('z, promotionPolicy list) DB" where
  "policy_listMatchingForProduct productId sourceTargetId =
     (case sourceTargetId of
        None \<Rightarrow> selectAll promotionPolicies (\<lambda>r. pp_productId r = productId \<and> pp_sourceTargetId r = None
                  \<and> pp_active r \<and> pp_deletedAt r = None) (orderBy pp_createdAt)
      | Some s \<Rightarrow> selectAll promotionPolicies (\<lambda>r. pp_productId r = productId \<and> pp_sourceTargetId r = Some s
                  \<and> pp_active r \<and> pp_deletedAt r = None) (orderBy pp_createdAt))"

record policyPatch =
  up_gateKind :: "promotionGateKind option"
  up_gateConfig :: "json option"
  up_active :: "bool option"
  up_description :: "string option option"
  up_destTargetId :: "string option"
  up_sourceTargetId :: "string option option"

definition policy_update :: "string \<Rightarrow> policyPatch \<Rightarrow> ('z, promotionPolicy) DB" where
  "policy_update i patch =
     patchRow promotionPolicies promotionPolicies_update promotionPolicies_chk pp_id pp_deletedAt
       ''promotion_policy'' i
     (\<lambda>now ex r. r\<lparr>
        pp_gateKind := orElse (up_gateKind patch) (pp_gateKind ex),
        pp_gateConfig := orElse (up_gateConfig patch) (pp_gateConfig ex),
        pp_active := orElse (up_active patch) (pp_active ex),
        pp_description := orElse (up_description patch) (pp_description ex),
        pp_destTargetId := orElse (up_destTargetId patch) (pp_destTargetId ex),
        pp_sourceTargetId := orElse (up_sourceTargetId patch) (pp_sourceTargetId ex),
        pp_updatedAt := now\<rparr>)"

definition policy_softDelete :: "string \<Rightarrow> ('z, unit) DB" where
  "policy_softDelete i =
     softDeleteRow promotionPolicies promotionPolicies_update promotionPolicies_chk pp_id pp_deletedAt
     (\<lambda>now r. r\<lparr>pp_deletedAt := Some now, pp_updatedAt := now\<rparr>) ''promotion_policy'' i"

section \<open>SqliteApprovalRepo\<close>

definition approval_create ::
  "string \<Rightarrow> string \<Rightarrow> string \<Rightarrow> string \<Rightarrow> approvalStatus \<Rightarrow> string option \<Rightarrow> bool option \<Rightarrow> ('z, approval) DB" where
  "approval_create orgId policyId releaseId destTargetId status autoApproveAt requiresHealthGate =
     createRow approvals approvals_update approvals_chk (\<lambda>now i.
     \<lparr>ap_id = i, ap_orgId = orgId, ap_policyId = policyId, ap_releaseId = releaseId,
      ap_destTargetId = destTargetId, ap_status = status, ap_autoApproveAt = autoApproveAt,
      ap_decidedBy = None, ap_decidedAt = None, ap_reason = None, ap_deployAttemptedAt = None,
      ap_deployOutcome = None, ap_deployDeploymentId = None,
      ap_requiresHealthGate = (requiresHealthGate = Some True),
      ap_createdAt = now, ap_updatedAt = now, ap_deletedAt = None\<rparr>)"

definition approval_get :: "string \<Rightarrow> ('z, approval option) DB" where
  "approval_get i = getLive approvals ap_id ap_deletedAt i"

definition firstRow :: "'r list \<Rightarrow> 'r option" where
  "firstRow t = (case t of [] \<Rightarrow> None | r # _ \<Rightarrow> Some r)"

definition approval_getForReleaseAndTarget :: "string \<Rightarrow> string \<Rightarrow> ('z, approval option) DB" where
  "approval_getForReleaseAndTarget releaseId destTargetId =
     bindM (selectAll approvals (\<lambda>r. ap_releaseId r = releaseId \<and> ap_destTargetId r = destTargetId
        \<and> ap_deletedAt r = None) (limitTo 1 \<circ> orderByDesc ap_createdAt)) (\<lambda>rows. ret (firstRow rows))"

definition approval_listForOrg ::
  "string \<Rightarrow> approvalStatus option \<Rightarrow> int option \<Rightarrow> ('z, approval list) DB" where
  "approval_listForOrg orgId status limit =
     (let ord = limitTo (orElse limit 100) \<circ> orderByDesc ap_createdAt in
      case status of
        Some s \<Rightarrow> selectAll approvals (\<lambda>r. ap_orgId r = orgId \<and> ap_status r = s \<and> ap_deletedAt r = None) ord
      | None \<Rightarrow> selectAll approvals (\<lambda>r. ap_orgId r = orgId \<and> ap_deletedAt r = None) ord)"

definition due_for_auto_approve :: "string \<Rightarrow> approval \<Rightarrow> bool" where
  "due_for_auto_approve now r \<longleftrightarrow> ap_status r = APending \<and>
     (case ap_autoApproveAt r of None \<Rightarrow> False | Some t \<Rightarrow> t \<le> now) \<and> ap_deletedAt r = None"

definition approval_listPendingAutoApprove :: "string \<Rightarrow> ('z, approval list) DB" where
  "approval_listPendingAutoApprove now =
     selectAll approvals (due_for_auto_approve now) (orderBy (\<lambda>r. the (ap_autoApproveAt r)))"

definition approval_listPendingHealthGated :: "('z, approval list) DB" where
  "approval_listPendingHealthGated =
     selectAll approvals (\<lambda>r. ap_status r = APending \<and> ap_requiresHealthGate r \<and> ap_deletedAt r = None)
       (orderBy ap_createdAt)"

record approvalPatch =
  xp_status :: "approvalStatus option"
  xp_decidedBy :: "string option option"
  xp_decidedAt :: "string option option"
  xp_reason :: "string option option"
  xp_deployAttemptedAt :: "string option option"
  xp_deployOutcome :: "string option option"
  xp_deployDeploymentId :: "string option option"

definition noPatch :: approvalPatch where
  "noPatch = \<lparr>xp_status = None, xp_decidedBy = None, xp_decidedAt = None, xp_reason = None,
     xp_deployAttemptedAt = None, xp_deployOutcome = None, xp_deployDeploymentId = None\<rparr>"

definition approval_patch :: "approvalPatch \<Rightarrow> string \<Rightarrow> approval \<Rightarrow> approval \<Rightarrow> approval" where
  "approval_patch patch now ex r = r\<lparr>
     ap_status := orElse (xp_status patch) (ap_status ex),
     ap_decidedBy := orElse (xp_decidedBy patch) (ap_decidedBy ex),
     ap_decidedAt := orElse (xp_decidedAt patch) (ap_decidedAt ex),
     ap_reason := orElse (xp_reason patch) (ap_reason ex),
     ap_deployAttemptedAt := orElse (xp_deployAttemptedAt patch) (ap_deployAttemptedAt ex),
     ap_deployOutcome := orElse (xp_deployOutcome patch) (ap_deployOutcome ex),
     ap_deployDeploymentId := orElse (xp_deployDeploymentId patch) (ap_deployDeploymentId ex),
     ap_updatedAt := now\<rparr>"

text \<open>
  The object \<open>update\<close> returns is built from the bound columns and a list of existing ones that
  leaves \<open>requires_health_gate\<close> out, so the mapper coerces it to false.
\<close>

definition approval_update :: "string \<Rightarrow> approvalPatch \<Rightarrow> ('z, approval) DB" where
  "approval_update i patch =
     bindM (patchRow approvals approvals_update approvals_chk ap_id ap_deletedAt ''approval'' i
       (approval_patch patch)) (\<lambda>a. ret (a\<lparr>ap_requiresHealthGate := False\<rparr>))"

definition approval_softDelete :: "string \<Rightarrow> ('z, unit) DB" where
  "approval_softDelete i = softDeleteRow approvals approvals_update approvals_chk ap_id ap_deletedAt
     (\<lambda>now r. r\<lparr>ap_deletedAt := Some now, ap_updatedAt := now\<rparr>) ''approval'' i"

end
