(* ===== verification/Repos_Ops.thy ===== *)
theory Repos_Ops
  imports Repos_Deploy
begin

text \<open>
  The operational repositories of \<open>storage/sqlite.ts\<close>: the job queue, registered runners, cloud
  budgets, usage and credentials, the signing-key catalogue and the nonce ledger.
\<close>

section \<open>SqliteJobRepo\<close>

definition job_create :: "string \<Rightarrow> string \<Rightarrow> json option \<Rightarrow> ('z, job) DB" where
  "job_create orgId kind input = createRow jobs jobs_update jobs_chk (\<lambda>now i.
     \<lparr>j_id = i, j_orgId = orgId, j_kind = kind, j_input = orElse input (JObj []), j_status = JPending,
      j_result = None, j_error = None, j_claimedBy = None, j_claimedAt = None, j_startedAt = None,
      j_completedAt = None, j_createdAt = now, j_updatedAt = now, j_deletedAt = None\<rparr>)"

definition job_get :: "string \<Rightarrow> ('z, job option) DB" where
  "job_get i = getLive jobs j_id j_deletedAt i"

definition job_listForOrg :: "string \<Rightarrow> int option \<Rightarrow> jobStatus option \<Rightarrow> ('z, job list) DB" where
  "job_listForOrg orgId limit status =
     (let ord = limitTo (orElse limit 50) \<circ> orderByDesc j_createdAt in
      case status of
        Some s \<Rightarrow> selectAll jobs (\<lambda>r. j_orgId r = orgId \<and> j_status r = s \<and> j_deletedAt r = None) ord
      | None \<Rightarrow> selectAll jobs (\<lambda>r. j_orgId r = orgId \<and> j_deletedAt r = None) ord)"

definition claimable :: "string \<Rightarrow> job \<Rightarrow> bool" where
  "claimable orgId r \<longleftrightarrow> j_orgId r = orgId \<and> j_status r = JPending \<and> j_deletedAt r = None"

definition markClaimed :: "string \<Rightarrow> string \<Rightarrow> job \<Rightarrow> job" where
  "markClaimed claimedBy now r = r\<lparr>j_status := JClaimed, j_claimedBy := Some claimedBy,
     j_claimedAt := Some now, j_updatedAt := now\<rparr>"

definition job_claimNext :: "string \<Rightarrow> string \<Rightarrow> ('z, job option) DB" where
  "job_claimNext orgId claimedBy = runInTransaction (
     bindM (selectAll jobs (claimable orgId) (limitTo 1 \<circ> orderBy j_createdAt)) (\<lambda>rows.
     case firstRow rows of
       None \<Rightarrow> ret None
     | Some pending \<Rightarrow>
         bindM nowIso (\<lambda>now.
         bindM (updateWhere jobs jobs_update jobs_chk (\<lambda>r. j_id r = j_id pending \<and> j_status r = JPending)
                  (markClaimed claimedBy now)) (\<lambda>changes.
         ret (if changes = 0 then None else Some (markClaimed claimedBy now pending))))))"

record jobPatch =
  jp_status :: "jobStatus option"
  jp_result :: "json option option"
  jp_error :: "string option option"
  jp_startedAt :: "string option option"
  jp_completedAt :: "string option option"

definition job_patch :: "jobPatch \<Rightarrow> string \<Rightarrow> job \<Rightarrow> job \<Rightarrow> job" where
  "job_patch patch now ex r = r\<lparr>
     j_status := orElse (jp_status patch) (j_status ex),
     j_result := orElse (jp_result patch) (j_result ex),
     j_error := orElse (jp_error patch) (j_error ex),
     j_startedAt := orElse (jp_startedAt patch) (j_startedAt ex),
     j_completedAt := orElse (jp_completedAt patch) (j_completedAt ex),
     j_updatedAt := now\<rparr>"

definition job_update :: "string \<Rightarrow> jobPatch \<Rightarrow> ('z, job) DB" where
  "job_update i patch = patchRow jobs jobs_update jobs_chk j_id j_deletedAt ''job'' i (job_patch patch)"

section \<open>SqliteRunnerRepo\<close>

text \<open>\<open>meta\<close> is \<open>Record | null | undefined\<close>: \<open>None\<close> is \<open>undefined\<close>, \<open>Some None\<close> is \<open>null\<close>.\<close>

definition runner_heartbeat :: "string \<Rightarrow> string \<Rightarrow> json option option \<Rightarrow> ('z, runner) DB" where
  "runner_heartbeat orgId name meta =
     bindM nowIso (\<lambda>now.
     bindM (selectAll runners (\<lambda>r. rr_orgId r = orgId \<and> rr_name r = name)
       (limitTo 1 \<circ> orderByDesc (\<lambda>r. rr_deletedAt r = None) \<circ> orderByDesc rr_lastSeenAt)) (\<lambda>rows.
     let metaJson = map_option (\<lambda>m. orElse m (JObj [])) meta in
     case firstRow rows of
       Some ex \<Rightarrow>
         if rr_deletedAt ex = None then
           let f = (\<lambda>r. r\<lparr>rr_lastSeenAt := now, rr_meta := orElseNull metaJson (rr_meta ex),
                         rr_updatedAt := now\<rparr>) in
           bindM (updateWhere runners runners_update runners_chk (\<lambda>r. rr_id r = rr_id ex) f) (\<lambda>_. ret (f ex))
         else
           let f = (\<lambda>r. r\<lparr>rr_lastSeenAt := now, rr_registeredAt := now, rr_meta := metaJson,
                         rr_updatedAt := now, rr_deletedAt := None\<rparr>) in
           bindM (updateWhere runners runners_update runners_chk (\<lambda>r. rr_id r = rr_id ex) f) (\<lambda>_. ret (f ex))
     | None \<Rightarrow>
         bindM newId (\<lambda>i.
         let row = \<lparr>rr_id = i, rr_orgId = orgId, rr_name = name, rr_lastSeenAt = now,
                    rr_registeredAt = now, rr_meta = metaJson, rr_createdAt = now, rr_updatedAt = now,
                    rr_deletedAt = None\<rparr> in
         bindM (mappingErrors (insertInto runners runners_update runners_chk row)) (\<lambda>_. ret row))))"

definition runner_get :: "string \<Rightarrow> ('z, runner option) DB" where
  "runner_get i = getLive runners rr_id rr_deletedAt i"

definition runner_getByName :: "string \<Rightarrow> string \<Rightarrow> ('z, runner option) DB" where
  "runner_getByName orgId name =
     selectOne runners (\<lambda>r. rr_orgId r = orgId \<and> rr_name r = name \<and> rr_deletedAt r = None)"

definition runner_listForOrg :: "string \<Rightarrow> ('z, runner list) DB" where
  "runner_listForOrg orgId =
     selectAll runners (\<lambda>r. rr_orgId r = orgId \<and> rr_deletedAt r = None) (orderByDesc rr_lastSeenAt)"

definition runner_softDelete :: "string \<Rightarrow> ('z, unit) DB" where
  "runner_softDelete i = softDeleteRow runners runners_update runners_chk rr_id rr_deletedAt
     (\<lambda>now r. r\<lparr>rr_deletedAt := Some now, rr_updatedAt := now\<rparr>) ''runner'' i"

section \<open>SqliteCloudBudgetRepo\<close>

definition budget_get :: "string \<Rightarrow> ('z, cloudOrgBudget option) DB" where
  "budget_get orgId = selectOne cloudBudgets (\<lambda>r. cb_orgId r = orgId)"

definition budget_upsert :: "string \<Rightarrow> int \<Rightarrow> int option \<Rightarrow> ('z, cloudOrgBudget) DB" where
  "budget_upsert orgId monthlyCentsLimit softWarnPct =
     bindM nowIso (\<lambda>now.
     let row = \<lparr>cb_orgId = orgId, cb_monthlyCentsLimit = monthlyCentsLimit,
                cb_softWarnPct = orElse softWarnPct 80, cb_createdAt = now, cb_updatedAt = now\<rparr> in
     bindM (budget_get orgId) (\<lambda>existing. mappingErrors (case existing of
       Some ex \<Rightarrow>
         bindM (updateWhere cloudBudgets cloudBudgets_update cloudBudgets_chk (\<lambda>r. cb_orgId r = orgId)
           (\<lambda>r. r\<lparr>cb_monthlyCentsLimit := cb_monthlyCentsLimit row, cb_softWarnPct := cb_softWarnPct row,
                 cb_updatedAt := now\<rparr>)) (\<lambda>_. ret (row\<lparr>cb_createdAt := cb_createdAt ex\<rparr>))
     | None \<Rightarrow>
         bindM (insertInto cloudBudgets cloudBudgets_update cloudBudgets_chk row) (\<lambda>_. ret row))))"

definition budget_remove :: "string \<Rightarrow> ('z, unit) DB" where
  "budget_remove orgId =
     bindM (deleteWhere cloudBudgets cloudBudgets_update (\<lambda>r. cb_orgId r = orgId)) (\<lambda>_. ret ())"

section \<open>SqliteCloudUsageRepo\<close>

definition usage_recordStart ::
  "string \<Rightarrow> string \<Rightarrow> string \<Rightarrow> string \<Rightarrow> string \<Rightarrow> string \<Rightarrow> int \<Rightarrow> ('z, cloudOrgUsage) DB" where
  "usage_recordStart orgId backend instanceId instanceType region startedAt estimatedCents =
     bindM newId (\<lambda>i.
     let row = \<lparr>cu_id = i, cu_orgId = orgId, cu_backend = backend, cu_instanceId = instanceId,
                cu_instanceType = instanceType, cu_region = region, cu_startedAt = startedAt,
                cu_terminatedAt = None, cu_estimatedCents = estimatedCents\<rparr> in
     bindM (mappingErrors (insertInto cloudUsage cloudUsage_update cloudUsage_chk row)) (\<lambda>_. ret row))"

definition usage_recordTerminate :: "string \<Rightarrow> string \<Rightarrow> string \<Rightarrow> ('z, unit) DB" where
  "usage_recordTerminate orgId instanceId terminatedAt =
     bindM (updateWhere cloudUsage cloudUsage_update cloudUsage_chk
       (\<lambda>r. cu_orgId r = orgId \<and> cu_instanceId r = instanceId \<and> cu_terminatedAt r = None)
       (\<lambda>r. r\<lparr>cu_terminatedAt := Some terminatedAt\<rparr>)) (\<lambda>_. ret ())"

definition usage_sumForRange :: "string \<Rightarrow> string \<Rightarrow> string \<Rightarrow> ('z, int) DB" where
  "usage_sumForRange orgId startedAtFrom startedAtTo = stmt (readM (\<lambda>w.
     sum_list (map cu_estimatedCents (filter (\<lambda>r. cu_orgId r = orgId \<and> cu_startedAt r \<ge> startedAtFrom
       \<and> cu_startedAt r < startedAtTo) (cloudUsage w)))))"

definition usage_listForOrg ::
  "string \<Rightarrow> string option \<Rightarrow> string option \<Rightarrow> ('z, cloudOrgUsage list) DB" where
  "usage_listForOrg orgId startedAtFrom startedAtTo =
     selectAll cloudUsage (\<lambda>r. cu_orgId r = orgId
       \<and> (truthy startedAtFrom \<longrightarrow> cu_startedAt r \<ge> the startedAtFrom)
       \<and> (truthy startedAtTo \<longrightarrow> cu_startedAt r < the startedAtTo)) (orderBy cu_startedAt)"

section \<open>SqliteCloudCredentialsRepo\<close>

definition credential_get :: "string \<Rightarrow> string \<Rightarrow> ('z, cloudOrgCredential option) DB" where
  "credential_get orgId backend = selectOne cloudCredentials (\<lambda>r. cc_orgId r = orgId \<and> cc_backend r = backend)"

definition credential_upsert ::
  "string \<Rightarrow> string \<Rightarrow> string \<Rightarrow> string \<Rightarrow> string \<Rightarrow> ('z, cloudOrgCredential) DB" where
  "credential_upsert orgId backend ciphertextB64 encryptionMethod redactedHint =
     bindM nowIso (\<lambda>now.
     bindM (credential_get orgId backend) (\<lambda>existing. mappingErrors (case existing of
       Some ex \<Rightarrow>
         let f = (\<lambda>r. r\<lparr>cc_ciphertextB64 := ciphertextB64, cc_encryptionMethod := encryptionMethod,
                       cc_redactedHint := redactedHint, cc_updatedAt := now\<rparr>) in
         bindM (updateWhere cloudCredentials cloudCredentials_update cloudCredentials_chk
           (\<lambda>r. cc_id r = cc_id ex) f) (\<lambda>_. ret (f ex))
     | None \<Rightarrow>
         bindM newId (\<lambda>i.
         let row = \<lparr>cc_id = i, cc_orgId = orgId, cc_backend = backend, cc_ciphertextB64 = ciphertextB64,
                    cc_encryptionMethod = encryptionMethod, cc_redactedHint = redactedHint,
                    cc_createdAt = now, cc_updatedAt = now\<rparr> in
         bindM (insertInto cloudCredentials cloudCredentials_update cloudCredentials_chk row) (\<lambda>_. ret row)))))"

definition credential_remove :: "string \<Rightarrow> string \<Rightarrow> ('z, unit) DB" where
  "credential_remove orgId backend =
     bindM (deleteWhere cloudCredentials cloudCredentials_update
       (\<lambda>r. cc_orgId r = orgId \<and> cc_backend r = backend)) (\<lambda>_. ret ())"

definition credential_listForOrg :: "string \<Rightarrow> ('z, cloudOrgCredential list) DB" where
  "credential_listForOrg orgId = selectAll cloudCredentials (\<lambda>r. cc_orgId r = orgId) (orderBy cc_backend)"

section \<open>SqliteSigningProviderKeyRepo\<close>

record signingKeyInput =
  ki_orgId :: string
  ki_provider :: string
  ki_keyId :: string
  ki_algorithm :: signingAlgorithm
  ki_fingerprint :: string
  ki_publicKeyB64 :: string
  ki_pairId :: "string option"
  ki_pairRole :: "pairRole option"
  ki_hybridAlias :: "string option"
  ki_label :: "string option"
  ki_addedBy :: string

definition signingKey_insert :: "signingKeyInput \<Rightarrow> ('z, signingProviderKey) DB" where
  "signingKey_insert input =
     bindM nowIso (\<lambda>now. bindM newId (\<lambda>i.
     let row = \<lparr>sk_id = i, sk_orgId = ki_orgId input, sk_provider = ki_provider input,
                sk_keyId = ki_keyId input, sk_algorithm = ki_algorithm input,
                sk_fingerprint = ki_fingerprint input, sk_publicKeyB64 = ki_publicKeyB64 input,
                sk_pairId = ki_pairId input, sk_pairRole = ki_pairRole input,
                sk_hybridAlias = ki_hybridAlias input, sk_label = ki_label input,
                sk_addedBy = ki_addedBy input, sk_addedAt = now, sk_revokedAt = None,
                sk_revokedBy = None, sk_revokeReason = None, sk_rotatedTo = None,
                sk_createdAt = now, sk_updatedAt = now, sk_deletedAt = None\<rparr> in
     bindM (catchM (insertInto signingProviderKeys signingProviderKeys_update signingProviderKeys_chk row)
       (\<lambda>e. if includesStr (err_message e) ''UNIQUE'' \<or> includesStr (err_message e) ''unique''
            then throwM (StorageConflictError (''signing key fingerprint '' @ ki_fingerprint input
                   @ '' already registered for org '' @ ki_orgId input))
            else throwM e)) (\<lambda>_. ret row)))"

definition signingKey_getByFingerprint :: "string \<Rightarrow> string \<Rightarrow> ('z, signingProviderKey option) DB" where
  "signingKey_getByFingerprint orgId fingerprint =
     selectOne signingProviderKeys (\<lambda>r. sk_orgId r = orgId \<and> sk_fingerprint r = fingerprint
       \<and> sk_deletedAt r = None)"

text \<open>\<open>ORDER BY pair_role\<close>: NULL first, then \<open>'classical'\<close> before \<open>'post-quantum'\<close>.\<close>

fun pairRoleRank :: "pairRole option \<Rightarrow> nat" where
  "pairRoleRank None = 0"
| "pairRoleRank (Some Classical) = 1"
| "pairRoleRank (Some PostQuantum) = 2"

definition signingKey_getByAlias :: "string \<Rightarrow> string \<Rightarrow> ('z, signingProviderKey list) DB" where
  "signingKey_getByAlias orgId keyId =
     selectAll signingProviderKeys (\<lambda>r. sk_orgId r = orgId \<and> sk_keyId r = keyId \<and> sk_deletedAt r = None)
       (orderBy (\<lambda>r. pairRoleRank (sk_pairRole r)) \<circ> orderBy sk_addedAt)"

definition signingKey_list :: "string \<Rightarrow> string option \<Rightarrow> bool \<Rightarrow> ('z, signingProviderKey list) DB" where
  "signingKey_list orgId provider includeRevoked =
     selectAll signingProviderKeys (\<lambda>r. sk_orgId r = orgId \<and> sk_deletedAt r = None
       \<and> (truthy provider \<longrightarrow> sk_provider r = the provider)
       \<and> (\<not> includeRevoked \<longrightarrow> sk_revokedAt r = None)) (orderByDesc sk_addedAt)"

definition signingKey_revoke :: "string \<Rightarrow> string \<Rightarrow> string \<Rightarrow> string \<Rightarrow> ('z, unit) DB" where
  "signingKey_revoke orgId fingerprint revokedBy reason =
     bindM nowIso (\<lambda>now.
     bindM (updateWhere signingProviderKeys signingProviderKeys_update signingProviderKeys_chk
       (\<lambda>r. sk_orgId r = orgId \<and> sk_fingerprint r = fingerprint \<and> sk_deletedAt r = None \<and> sk_revokedAt r = None)
       (\<lambda>r. r\<lparr>sk_revokedAt := Some now, sk_revokedBy := Some revokedBy, sk_revokeReason := Some reason,
             sk_updatedAt := now\<rparr>)) (\<lambda>_. ret ()))"

definition signingKey_recordRotation :: "string \<Rightarrow> string \<Rightarrow> string \<Rightarrow> ('z, unit) DB" where
  "signingKey_recordRotation orgId oldFingerprint newFingerprint =
     bindM nowIso (\<lambda>now.
     bindM (selectOne signingProviderKeys (\<lambda>r. sk_orgId r = orgId \<and> sk_fingerprint r = newFingerprint
       \<and> sk_deletedAt r = None)) (\<lambda>newRow. case newRow of
       None \<Rightarrow> throwM (StorageNotFoundError ''signing_provider_key''
                 (''new fingerprint '' @ newFingerprint @ '' not in catalog''))
     | Some n \<Rightarrow>
         bindM (updateWhere signingProviderKeys signingProviderKeys_update signingProviderKeys_chk
           (\<lambda>r. sk_orgId r = orgId \<and> sk_fingerprint r = oldFingerprint \<and> sk_deletedAt r = None)
           (\<lambda>r. r\<lparr>sk_rotatedTo := Some (sk_id n), sk_updatedAt := now\<rparr>)) (\<lambda>_. ret ())))"

section \<open>SqliteSigningNonceRepo\<close>

definition nonce_insert :: "signingNonce \<Rightarrow> ('z, unit) DB" where
  "nonce_insert input =
     catchM (insertInto signingNonces signingNonces_update signingNonces_chk input)
       (\<lambda>e. if includesStr (err_message e) ''UNIQUE'' \<or> includesStr (err_message e) ''unique''
               \<or> includesStr (err_message e) ''PRIMARY''
            then throwM (StorageConflictError (''signing nonce already used: org='' @ sn_orgId input
                   @ '' actor='' @ sn_actorCn input @ '' nonce='' @ sn_nonce input))
            else throwM e)"

definition nonce_exists :: "string \<Rightarrow> string \<Rightarrow> string \<Rightarrow> ('z, bool) DB" where
  "nonce_exists orgId actorCn nonce =
     bindM (selectOne signingNonces (\<lambda>r. sn_orgId r = orgId \<and> sn_actorCn r = actorCn \<and> sn_nonce r = nonce))
       (\<lambda>row. ret (row \<noteq> None))"

definition nonce_sweepOlderThan :: "string \<Rightarrow> ('z, nat) DB" where
  "nonce_sweepOlderThan cutoffIso =
     deleteWhere signingNonces signingNonces_update (\<lambda>r. sn_requestedAt r < cutoffIso)"

end
