(* ===== verification/Store.thy ===== *)
theory Store
  imports Repos_Ops
begin

text \<open>
  The storage driver as a transition system: one step per state-changing repository method,
  whether it returns or throws.  Every step keeps the schema invariant, so every state reached
  from an empty migrated database satisfies it; the properties of single repositories follow.
\<close>

section \<open>Methods keep the schema\<close>

lemma unique_on_filter: "unique_on p k t \<Longrightarrow> unique_on p k (filter q t)"
  by (induction t) (auto simp: unique_on_def)

lemma list_all_filter: "list_all p t \<Longrightarrow> list_all p (filter q t)"
  by (auto simp: list_all_iff)

lemma keeps_deleteBudgets [keeps_intros]: "keeps db_ok (deleteWhere cloudBudgets cloudBudgets_update p)"
  unfolding deleteWhere_def
  by (intro keeps_stmt keepsI) (simp add: db_ok_def chk_defs unique_on_filter list_all_filter)

lemma keeps_deleteCredentials [keeps_intros]:
  "keeps db_ok (deleteWhere cloudCredentials cloudCredentials_update p)"
  unfolding deleteWhere_def
  by (intro keeps_stmt keepsI) (simp add: db_ok_def chk_defs unique_on_filter list_all_filter)

lemma keeps_deleteNonces [keeps_intros]: "keeps db_ok (deleteWhere signingNonces signingNonces_update p)"
  unfolding deleteWhere_def
  by (intro keeps_stmt keepsI) (simp add: db_ok_def chk_defs unique_on_filter list_all_filter)

lemma db_ok_more [simp]: "db_ok (w\<lparr>world.more := m\<rparr>) = db_ok w"
  by (simp add: db_ok_def chk_defs)

lemma keeps_runInTransaction [keeps_intros]:
  assumes "keeps db_ok fn"
  shows "keeps db_ok (runInTransaction fn)"
proof (rule keepsI)
  fix w :: "'a world_scheme"
  assume ok: "db_ok w"
  have r: "db_ok w0 \<Longrightarrow> keeps db_ok (rollbackTo w0)" for w0 :: "'a world_scheme"
    unfolding rollbackTo_def by (intro keeps_intros) (simp add: keeps_def modifyM_def)
  have c: "keeps db_ok (catchM (bindM fn (\<lambda>result. bindM (stmt (ret ())) (\<lambda>_. ret result)))
      (\<lambda>e. bindM (tryM (rollbackTo w0)) (\<lambda>_. throwM e)))" if "db_ok w0" for w0
    by (intro keeps_intros assms r that)
  have "keeps db_ok (stmt (ret ()) :: ('a, unit) DB)" by (intro keeps_intros)
  then show "db_ok (snd (runInTransaction fn w))"
    using ok keepsD [OF c] unfolding runInTransaction_def
    by (auto simp: bindM_def readM_def dest: keepsD_eq split: prod.splits sum.splits)
qed

lemmas key_defs = nonceKey_def markClaimed_def job_patch_def approval_patch_def deployment_patch_def

lemma keeps_org [keeps_intros]:
  "keeps db_ok (org_create name tier)"
  "keeps db_ok (org_update i pname ptier)"
  "keeps db_ok (org_softDelete i)"
  unfolding org_create_def org_update_def org_softDelete_def
  by (intro keeps_intros; simp add: key_defs)+

lemma keeps_apiKey [keeps_intros]:
  "keeps db_ok (apiKey_create orgId name prefix hash expiresAt)"
  "keeps db_ok (apiKey_softDelete i)"
  unfolding apiKey_create_def apiKey_softDelete_def
  by (intro keeps_intros; simp add: key_defs)+

lemma keeps_product [keeps_intros]:
  "keeps db_ok (product_create orgId name repoUrl buildYamlPath)"
  "keeps db_ok (product_update i pname prepoUrl pbuildYamlPath)"
  "keeps db_ok (product_softDelete i)"
  unfolding product_create_def product_update_def product_softDelete_def
  by (intro keeps_intros; simp add: key_defs)+

lemma keeps_release [keeps_intros]:
  "keeps db_ok (release_create orgId productId tag commitSha status)"
  "keeps db_ok (release_update i patch)"
  "keeps db_ok (release_softDelete i)"
  unfolding release_create_def release_update_def release_softDelete_def
  by (intro keeps_intros; simp add: key_defs)+

lemma keeps_artifact [keeps_intros]:
  "keeps db_ok (artifact_create releaseId component kind sha256 sizeBytes blobUri imageRef)"
  "keeps db_ok (artifact_softDelete i)"
  unfolding artifact_create_def artifact_softDelete_def
  by (intro keeps_intros; simp add: key_defs)+

lemma keeps_audit [keeps_intros]:
  "keeps db_ok (audit_append orgId actor action entityType entityId detail)"
  unfolding audit_append_def
  by (intro keeps_intros; simp add: key_defs)+

lemma keeps_scenario [keeps_intros]:
  "keeps db_ok (scenario_upsertFromDisk orgId p hash name tags)"
  "keeps db_ok (scenario_softDelete i)"
  unfolding scenario_upsertFromDisk_def scenario_softDelete_def scenario_getByPath_def
  by (intro keeps_intros; simp add: key_defs)+

lemma keeps_run [keeps_intros]:
  "keeps db_ok (run_create orgId scenarioId targetId triggeredBy)"
  "keeps db_ok (run_update i penvelope presult pstartedAt pcompletedAt)"
  unfolding run_create_def run_update_def
  by (intro keeps_intros; simp add: key_defs)+

lemma keeps_target [keeps_intros]:
  "keeps db_ok (target_create orgId name kind connection)"
  "keeps db_ok (target_update i pname pconnection)"
  "keeps db_ok (target_softDelete i)"
  unfolding target_create_def target_update_def target_softDelete_def
  by (intro keeps_intros; simp add: key_defs)+

lemma keeps_deployment [keeps_intros]:
  "keeps db_ok (deployment_create orgId releaseId targetId previousDeploymentId)"
  "keeps db_ok (deployment_update i patch)"
  unfolding deployment_create_def deployment_update_def
  by (intro keeps_intros; simp add: key_defs)+

lemma keeps_healthCheck [keeps_intros]:
  "keeps db_ok (healthCheck_append deploymentId probeName status latencyMs detail)"
  unfolding healthCheck_append_def
  by (intro keeps_intros; simp add: key_defs)+

lemma keeps_schedule [keeps_intros]:
  "keeps db_ok (schedule_create orgId targetId intervalSeconds probeNames active)"
  "keeps db_ok (schedule_update i patch)"
  "keeps db_ok (schedule_softDelete i)"
  unfolding schedule_create_def schedule_update_def schedule_softDelete_def
  by (intro keeps_intros; simp add: key_defs)+

lemma keeps_webhook [keeps_intros]:
  "keeps db_ok (webhook_create orgId kind url secretHmacKey eventKinds active description)"
  "keeps db_ok (webhook_update i patch)"
  "keeps db_ok (webhook_softDelete i)"
  unfolding webhook_create_def webhook_update_def webhook_softDelete_def
  by (intro keeps_intros; simp add: key_defs)+

lemma keeps_policy [keeps_intros]:
  "keeps db_ok (policy_create orgId productId sourceTargetId destTargetId gateKind gateConfig active description)"
  "keeps db_ok (policy_update i patch)"
  "keeps db_ok (policy_softDelete i)"
  unfolding policy_create_def policy_update_def policy_softDelete_def
  by (intro keeps_intros; simp add: key_defs)+

lemma keeps_approval [keeps_intros]:
  "keeps db_ok (approval_create orgId policyId releaseId destTargetId status autoApproveAt requiresHealthGate)"
  "keeps db_ok (approval_update i patch)"
  "keeps db_ok (approval_softDelete i)"
  unfolding approval_create_def approval_update_def approval_softDelete_def
  by (intro keeps_intros; simp add: key_defs)+

lemma keeps_job [keeps_intros]:
  "keeps db_ok (job_create orgId kind input)"
  "keeps db_ok (job_claimNext orgId claimedBy)"
  "keeps db_ok (job_update i patch)"
  unfolding job_create_def job_claimNext_def job_update_def
  by (intro keeps_intros; simp add: key_defs)+

lemma keeps_runner [keeps_intros]:
  "keeps db_ok (runner_heartbeat orgId name meta)"
  "keeps db_ok (runner_softDelete i)"
  unfolding runner_heartbeat_def runner_softDelete_def
  by (intro keeps_intros; simp add: key_defs)+

lemma keeps_budget [keeps_intros]:
  "keeps db_ok (budget_upsert orgId monthlyCentsLimit softWarnPct)"
  "keeps db_ok (budget_remove orgId)"
  unfolding budget_upsert_def budget_remove_def budget_get_def
  by (intro keeps_intros; simp add: key_defs)+

lemma keeps_usage [keeps_intros]:
  "keeps db_ok (usage_recordStart orgId backend instanceId instanceType region startedAt estimatedCents)"
  "keeps db_ok (usage_recordTerminate orgId instanceId terminatedAt)"
  unfolding usage_recordStart_def usage_recordTerminate_def
  by (intro keeps_intros; simp add: key_defs)+

lemma keeps_credential [keeps_intros]:
  "keeps db_ok (credential_upsert orgId backend ciphertextB64 encryptionMethod redactedHint)"
  "keeps db_ok (credential_remove orgId backend)"
  unfolding credential_upsert_def credential_remove_def credential_get_def
  by (intro keeps_intros; simp add: key_defs)+

lemma keeps_signingKey [keeps_intros]:
  "keeps db_ok (signingKey_insert input)"
  "keeps db_ok (signingKey_revoke orgId fingerprint revokedBy reason)"
  "keeps db_ok (signingKey_recordRotation orgId oldFingerprint newFingerprint)"
  unfolding signingKey_insert_def signingKey_revoke_def signingKey_recordRotation_def
  by (intro keeps_intros; simp add: key_defs)+

lemma keeps_nonce [keeps_intros]:
  "keeps db_ok (nonce_insert input)"
  "keeps db_ok (nonce_sweepOlderThan cutoffIso)"
  unfolding nonce_insert_def nonce_sweepOlderThan_def
  by (intro keeps_intros; simp add: key_defs)+

section \<open>Reachable databases\<close>

text \<open>One rule per state-changing method of the driver.\<close>

inductive store_step :: "'z world_scheme \<Rightarrow> 'z world_scheme \<Rightarrow> bool" where
  "store_step w (snd (org_create name tier w))"
| "store_step w (snd (org_update i pname ptier w))"
| "store_step w (snd (org_softDelete i w))"
| "store_step w (snd (apiKey_create orgId name prefix hash expiresAt w))"
| "store_step w (snd (apiKey_softDelete i w))"
| "store_step w (snd (product_create orgId name repoUrl buildYamlPath w))"
| "store_step w (snd (product_update i pname prepoUrl pbuildYamlPath w))"
| "store_step w (snd (product_softDelete i w))"
| "store_step w (snd (release_create orgId productId tag commitSha status w))"
| "store_step w (snd (release_update i patch w))"
| "store_step w (snd (release_softDelete i w))"
| "store_step w (snd (artifact_create releaseId component kind sha256 sizeBytes blobUri imageRef w))"
| "store_step w (snd (artifact_softDelete i w))"
| "store_step w (snd (audit_append orgId actor action entityType entityId detail w))"
| "store_step w (snd (scenario_upsertFromDisk orgId p hash name tags w))"
| "store_step w (snd (scenario_softDelete i w))"
| "store_step w (snd (run_create orgId scenarioId targetId triggeredBy w))"
| "store_step w (snd (run_update i penvelope presult pstartedAt pcompletedAt w))"
| "store_step w (snd (target_create orgId name kind connection w))"
| "store_step w (snd (target_update i pname pconnection w))"
| "store_step w (snd (target_softDelete i w))"
| "store_step w (snd (deployment_create orgId releaseId targetId previousDeploymentId w))"
| "store_step w (snd (deployment_update i patch w))"
| "store_step w (snd (healthCheck_append deploymentId probeName status latencyMs detail w))"
| "store_step w (snd (schedule_create orgId targetId intervalSeconds probeNames active w))"
| "store_step w (snd (schedule_update i patch w))"
| "store_step w (snd (schedule_softDelete i w))"
| "store_step w (snd (webhook_create orgId kind url secretHmacKey eventKinds active description w))"
| "store_step w (snd (webhook_update i patch w))"
| "store_step w (snd (webhook_softDelete i w))"
| "store_step w (snd (policy_create orgId productId sourceTargetId destTargetId gateKind gateConfig active description w))"
| "store_step w (snd (policy_update i patch w))"
| "store_step w (snd (policy_softDelete i w))"
| "store_step w (snd (approval_create orgId policyId releaseId destTargetId status autoApproveAt requiresHealthGate w))"
| "store_step w (snd (approval_update i patch w))"
| "store_step w (snd (approval_softDelete i w))"
| "store_step w (snd (job_create orgId kind input w))"
| "store_step w (snd (job_claimNext orgId claimedBy w))"
| "store_step w (snd (job_update i patch w))"
| "store_step w (snd (runner_heartbeat orgId name meta w))"
| "store_step w (snd (runner_softDelete i w))"
| "store_step w (snd (budget_upsert orgId monthlyCentsLimit softWarnPct w))"
| "store_step w (snd (budget_remove orgId w))"
| "store_step w (snd (usage_recordStart orgId backend instanceId instanceType region startedAt estimatedCents w))"
| "store_step w (snd (usage_recordTerminate orgId instanceId terminatedAt w))"
| "store_step w (snd (credential_upsert orgId backend ciphertextB64 encryptionMethod redactedHint w))"
| "store_step w (snd (credential_remove orgId backend w))"
| "store_step w (snd (signingKey_insert input w))"
| "store_step w (snd (signingKey_revoke orgId fingerprint revokedBy reason w))"
| "store_step w (snd (signingKey_recordRotation orgId oldFingerprint newFingerprint w))"
| "store_step w (snd (nonce_insert input w))"
| "store_step w (snd (nonce_sweepOlderThan cutoffIso w))"

inductive_cases store_stepE: "store_step w w'"

text \<open>A freshly migrated database: every table empty.\<close>

definition empty_db :: "'z world_scheme \<Rightarrow> bool" where
  "empty_db w \<longleftrightarrow>
     orgs w = [] \<and> apiKeys w = [] \<and> products w = [] \<and> releases w = [] \<and> artifacts w = [] \<and>
     auditLog w = [] \<and> targets w = [] \<and> deployments w = [] \<and> healthChecks w = [] \<and>
     scenarios w = [] \<and> runs w = [] \<and> jobs w = [] \<and> cloudBudgets w = [] \<and> cloudUsage w = [] \<and>
     cloudCredentials w = [] \<and> healthSchedules w = [] \<and> webhookSubscriptions w = [] \<and>
     promotionPolicies w = [] \<and> approvals w = [] \<and> runners w = [] \<and>
     signingProviderKeys w = [] \<and> signingNonces w = []"

inductive reachable :: "'z world_scheme \<Rightarrow> bool" where
  start: "empty_db w \<Longrightarrow> reachable w"
| step: "reachable w \<Longrightarrow> store_step w w' \<Longrightarrow> reachable w'"

lemma db_ok_empty: "empty_db w \<Longrightarrow> db_ok w"
  by (simp add: empty_db_def db_ok_def chk_defs unique_on_def refs_def refsNullable_def)

lemma store_step_ok: "store_step w w' \<Longrightarrow> db_ok w \<Longrightarrow> db_ok w'"
  by (erule store_step.cases; hypsubst; rule keepsD; (assumption | rule keeps_intros))

lemma reachable_ok: "reachable w \<Longrightarrow> db_ok w"
  by (induction rule: reachable.induct) (auto simp: db_ok_empty store_step_ok)

section \<open>Concrete databases\<close>

text \<open>A freshly migrated database with a clock that advances one second per reading.\<close>

definition freshWorld :: world where
  "freshWorld = \<lparr>ulids = (\<lambda>n. pad 4 n), clocks = (\<lambda>n. 1700000000000 + 1000 * int n), faults = (\<lambda>_. None),
     violationMsg = (\<lambda>v. case v of UniqueViolation c \<Rightarrow> ''UNIQUE constraint failed: '' @ c
        | ForeignKeyViolation \<Rightarrow> ''FOREIGN KEY constraint failed''
        | CheckViolation c \<Rightarrow> ''CHECK constraint failed: '' @ c),
     ulidN = 0, clockN = 0, stmtN = 0, orgs = [], apiKeys = [], products = [], releases = [],
     artifacts = [], auditLog = [], targets = [], deployments = [], healthChecks = [], scenarios = [],
     runs = [], jobs = [], cloudBudgets = [], cloudUsage = [], cloudCredentials = [],
     healthSchedules = [], webhookSubscriptions = [], promotionPolicies = [], approvals = [],
     runners = [], signingProviderKeys = [], signingNonces = []\<rparr>"

lemma quiet_freshWorld [simp]: "quiet freshWorld"
  by (simp add: quiet_def freshWorld_def)

lemma empty_freshWorld [simp]: "empty_db freshWorld"
  by (simp add: empty_db_def freshWorld_def)

definition acme :: org where
  "acme = \<lparr>o_id = ''o1'', o_name = ''acme'', o_tier = Free, o_createdAt = ''2023-11-14T22:13:20.000Z'',
     o_updatedAt = ''2023-11-14T22:13:20.000Z'', o_deletedAt = None\<rparr>"

definition orgWorld :: world where
  "orgWorld = freshWorld\<lparr>orgs := [acme]\<rparr>"

lemmas world_eval =
  orgWorld_def freshWorld_def acme_def db_ok_def chk_defs unique_on_def refs_def refsNullable_def quiet_def

lemma orgWorld_ok [simp]: "db_ok orgWorld" "quiet orgWorld"
  by (simp_all add: world_eval)

end
