(* ===== verification/Job_Queue.thy ===== *)
theory Job_Queue
  imports Store
begin

text \<open>
  The job queue on a quiet database: what \<open>claimNext\<close> does on every branch, and that successive
  claims hand out the pending jobs of an organisation oldest first, each to exactly one worker.
\<close>

section \<open>One claim\<close>

definition pendingQueue :: "string \<Rightarrow> 'z world_scheme \<Rightarrow> job list" where
  "pendingQueue orgId w = sort_key j_createdAt (filter (claimable orgId) (jobs w))"

text \<open>The world after a claim that found \<open>p\<close>: \<open>BEGIN\<close>, \<open>SELECT\<close>, \<open>UPDATE\<close>, \<open>COMMIT\<close>.\<close>

definition claimedWorld :: "string \<Rightarrow> job \<Rightarrow> 'z world_scheme \<Rightarrow> 'z world_scheme" where
  "claimedWorld by p w = w\<lparr>stmtN := stmtN w + 4, clockN := Suc (clockN w),
     jobs := map (\<lambda>r. if j_id r = j_id p \<and> j_status r = JPending
                     then markClaimed by (toISOString (clocks w (clockN w))) r else r) (jobs w)\<rparr>"

lemma jobs_chk_claim:
  "jobs_chk w t = None \<Longrightarrow> jobs_chk w (map (\<lambda>r. if p r then markClaimed by now r else r) t) = None"
  by (auto simp: jobs_chk_def markClaimed_def update_simps intro!: unique_on_shrink)

lemma limitTo_1: "limitTo 1 t = take 1 t"
  by (simp add: limitTo_def)

lemma claimNext_quiet:
  assumes "quiet w" and "db_ok w"
  shows "job_claimNext orgId by w = (case pendingQueue orgId w of
      [] \<Rightarrow> (Inr None, w\<lparr>stmtN := stmtN w + 3\<rparr>)
    | p # _ \<Rightarrow> (Inr (Some (markClaimed by (toISOString (clocks w (clockN w))) p)), claimedWorld by p w))"
proof -
  have ok: "jobs_chk w (map (\<lambda>r. if p r then markClaimed by' now r else r) (jobs w)) = None" for p by' now
    using assms(2) by (intro jobs_chk_claim jobs.ok_chk)
  let ?sel = "selectAll jobs (claimable orgId) (limitTo 1 \<circ> orderBy j_createdAt)"
  have sel: "?sel (tick w) = (Inr (take 1 (pendingQueue orgId w)), tick (tick w))"
    using assms(1) by (simp add: selectAll_quiet limitTo_1 orderBy_def pendingQueue_def)
  show ?thesis
  proof (cases "pendingQueue orgId w")
    case Nil
    then show ?thesis
      unfolding job_claimNext_def using assms(1)
      by (subst runInTransaction_quiet [where x = None and w' = "tick (tick w)"])
        (simp_all add: bindM_def sel firstRow_def ret_run)
  next
    case (Cons p q)
    let ?now = "toISOString (clocks w (clockN w))"
    let ?w = "w\<lparr>stmtN := Suc (Suc (stmtN w)), clockN := Suc (clockN w)\<rparr>"
    let ?w' = "(claimedWorld by p w)\<lparr>stmtN := stmtN w + 3\<rparr>"
    have "p \<in> set (pendingQueue orgId w)" using Cons by simp
    then have "p \<in> set (jobs w)" "claimable orgId p" by (simp_all add: pendingQueue_def)
    then have n: "length (filter (\<lambda>r. j_id r = j_id p \<and> j_status r = JPending) (jobs w)) \<noteq> 0"
      by (auto simp: filter_empty_conv claimable_def)
    have upd: "updateWhere jobs jobs_update jobs_chk (\<lambda>r. j_id r = j_id p \<and> j_status r = JPending)
        (markClaimed by ?now) ?w
      = (Inr (length (filter (\<lambda>r. j_id r = j_id p \<and> j_status r = JPending) (jobs w))), ?w')"
      using assms(1) ok by (subst updateWhere_quiet) (simp_all add: jobs.chk_env claimedWorld_def)
    have now: "nowIso (w\<lparr>stmtN := Suc (Suc (stmtN w))\<rparr>) = (Inr ?now, ?w)" by (simp add: nowIso_run)
    show ?thesis
      unfolding job_claimNext_def using assms(1) n
      by (subst runInTransaction_quiet [where x = "Some (markClaimed by ?now p)" and w' = ?w'])
        (simp_all add: bindM_def sel Cons firstRow_def now upd ret_run
          claimedWorld_def)
  qed
qed

section \<open>Successive claims\<close>

text \<open>Workers \<open>ws\<close> claim one after the other.\<close>

primrec claimAll :: "string \<Rightarrow> string list \<Rightarrow> ('z, job option list) DB" where
  "claimAll orgId [] = ret []"
| "claimAll orgId (b # bs) =
     bindM (job_claimNext orgId b) (\<lambda>r. bindM (claimAll orgId bs) (\<lambda>rs. ret (r # rs)))"

lemma pendingQueue_claimed:
  assumes "db_ok w" and "pendingQueue orgId w = p # q"
  shows "pendingQueue orgId (claimedWorld by p w) = q"
proof -
  let ?f = "markClaimed by (toISOString (clocks w (clockN w)))"
  have d: "distinct (map j_id (jobs w))"
    using jobs.chk_unique [OF jobs.ok_chk [OF assms(1)]] by (simp add: unique_on_def)
  have "filter (claimable orgId) (map (\<lambda>r. if j_id r = j_id p \<and> j_status r = JPending then ?f r else r) t)
      = filter (\<lambda>r. j_id r \<noteq> j_id p) (filter (claimable orgId) t)" for t
    by (induction t) (auto simp: claimable_def markClaimed_def)
  then have "pendingQueue orgId (claimedWorld by p w) = filter (\<lambda>r. j_id r \<noteq> j_id p) (pendingQueue orgId w)"
    by (simp add: pendingQueue_def claimedWorld_def filter_sort)
  moreover have "distinct (map j_id (pendingQueue orgId w))"
    using d by (simp add: pendingQueue_def distinct_map_filter distinct_map inj_on_def)
  ultimately show ?thesis
    using assms(2) by (simp add: filter_id_conv) (metis image_eqI)
qed

lemma claimedWorld_env [simp]:
  "quiet (claimedWorld by p w) = quiet w" "clocks (claimedWorld by p w) = clocks w"
  "clockN (claimedWorld by p w) = Suc (clockN w)"
  by (simp_all add: claimedWorld_def)

lemma markClaimed_id [simp]: "j_id (markClaimed by now r) = j_id r"
  by (simp add: markClaimed_def)

lemma claimedWorld_ok:
  assumes "db_ok w"
  shows "db_ok (claimedWorld by p w)"
proof -
  let ?w = "w\<lparr>stmtN := stmtN w + 4, clockN := Suc (clockN w)\<rparr>"
  have ok: "db_ok ?w" using assms by simp
  have "db_ok (jobs_update (\<lambda>_. map (\<lambda>r. if j_id r = j_id p \<and> j_status r = JPending
      then markClaimed by (toISOString (clocks w (clockN w))) r else r) (jobs ?w)) ?w)"
    using ok jobs_chk_claim [OF jobs.ok_chk [OF ok]]
    by (intro db_ok_jobs) (simp_all only: image_update_key [of j_id] markClaimed_id subset_refl)
  then show ?thesis by (simp add: claimedWorld_def)
qed

lemma claimAll_quiet:
  assumes "quiet w" and "db_ok w"
  shows "\<exists>rs w'. claimAll orgId ws w = (Inr rs, w') \<and> length rs = length ws \<and>
    (\<forall>i < length ws. rs ! i =
      (if i < length (pendingQueue orgId w)
       then Some (markClaimed (ws ! i) (toISOString (clocks w (clockN w + i))) (pendingQueue orgId w ! i))
       else None))"
  using assms
proof (induction ws arbitrary: w)
  case Nil
  then show ?case by (simp add: ret_run)
next
  case (Cons b bs)
  show ?case
  proof (cases "pendingQueue orgId w")
    case Nil
    then have c: "job_claimNext orgId b w = (Inr None, w\<lparr>stmtN := stmtN w + 3\<rparr>)"
      using claimNext_quiet [OF Cons.prems] by simp
    have q: "pendingQueue orgId (w\<lparr>stmtN := stmtN w + 3\<rparr>) = []"
      using Nil by (simp add: pendingQueue_def)
    from Cons.IH [of "w\<lparr>stmtN := stmtN w + 3\<rparr>"] Cons.prems obtain rs w' where
      "claimAll orgId bs (w\<lparr>stmtN := stmtN w + 3\<rparr>) = (Inr rs, w')" "length rs = length bs"
      "\<forall>i < length bs. rs ! i = None"
      unfolding q by auto
    with c Nil show ?thesis by (auto simp: bindM_def ret_def nth_Cons split: nat.split)
  next
    case (Cons p q)
    let ?w = "claimedWorld b p w"
    have c: "job_claimNext orgId b w = (Inr (Some (markClaimed b (toISOString (clocks w (clockN w))) p)), ?w)"
      using claimNext_quiet [OF Cons.prems] Cons by simp
    have q: "pendingQueue orgId ?w = q" by (rule pendingQueue_claimed [OF Cons.prems(2) Cons])
    from Cons.IH [OF _ claimedWorld_ok [OF Cons.prems(2)], of b p] Cons.prems(1) obtain rs w' where
      "claimAll orgId bs ?w = (Inr rs, w')" "length rs = length bs"
      "\<forall>i < length bs. rs ! i = (if i < length q
         then Some (markClaimed (bs ! i) (toISOString (clocks w (Suc (clockN w + i)))) (q ! i)) else None)"
      unfolding q by auto
    with c Cons show ?thesis by (auto simp: bindM_def ret_def nth_Cons split: nat.split)
  qed
qed

text \<open>
  C10. Successive claims drain the queue first-in first-out and never hand a job out twice: on a
  quiet database, when workers \<open>ws\<close> claim one after the other for an organisation, the \<open>i\<close>-th worker
  receives the \<open>i\<close>-th oldest pending job of that organisation, marked as claimed by that worker at
  the time of its call, and a worker past the end of the queue receives null; the queue holds
  pairwise different jobs ordered by creation time.
\<close>

theorem claims_drain_fifo:
  fixes orgId :: string
  assumes "quiet w" and "db_ok w"
  defines "q \<equiv> pendingQueue orgId w"
  shows "\<exists>rs w'. claimAll orgId ws w = (Inr rs, w') \<and> length rs = length ws \<and>
    (\<forall>i < length ws. rs ! i =
      (if i < length q then Some (markClaimed (ws ! i) (toISOString (clocks w (clockN w + i))) (q ! i)) else None)) \<and>
    distinct (map j_id q) \<and> sorted (map j_createdAt q) \<and>
    set q = {j \<in> set (jobs w). j_orgId j = orgId \<and> j_status j = JPending \<and> j_deletedAt j = None}"
proof -
  have "distinct (map j_id (jobs w))"
    using jobs.chk_unique [OF jobs.ok_chk [OF assms(2)]] by (simp add: unique_on_def)
  then have "distinct (map j_id q)"
    by (simp add: q_def pendingQueue_def distinct_map inj_on_def)
  moreover have "sorted (map j_createdAt q)" by (simp add: q_def pendingQueue_def)
  moreover have "set q = {j \<in> set (jobs w). j_orgId j = orgId \<and> j_status j = JPending \<and> j_deletedAt j = None}"
    by (auto simp: q_def pendingQueue_def claimable_def)
  ultimately show ?thesis
    using claimAll_quiet [OF assms(1,2), of orgId ws] unfolding q_def by blast
qed

definition sampleJob :: "string \<Rightarrow> string \<Rightarrow> job" where
  "sampleJob i created = \<lparr>j_id = i, j_orgId = ''o1'', j_kind = ''noop'', j_input = JObj [], j_status = JPending,
     j_result = None, j_error = None, j_claimedBy = None, j_claimedAt = None, j_startedAt = None,
     j_completedAt = None, j_createdAt = created, j_updatedAt = created, j_deletedAt = None\<rparr>"

theorem claims_drain_fifo_witness:
  "\<exists>j w'. claimAll ''o1'' [''a'', ''b'']
     (orgWorld\<lparr>jobs := [sampleJob ''j2'' ''2023-11-14T22:13:21.000Z'']\<rparr>) = (Inr [Some j, None], w')
     \<and> j_id j = ''j2'' \<and> j_claimedBy j = Some ''a''"
proof -
  let ?w = "orgWorld\<lparr>jobs := [sampleJob ''j2'' ''2023-11-14T22:13:21.000Z'']\<rparr>"
  have h: "quiet ?w" "db_ok ?w" by (simp_all add: world_eval sampleJob_def)
  have q: "pendingQueue ''o1'' ?w = [sampleJob ''j2'' ''2023-11-14T22:13:21.000Z'']"
    by (simp add: pendingQueue_def claimable_def sampleJob_def)
  from claims_drain_fifo [OF h, of "''o1''" "[''a'', ''b'']"] obtain rs w' where
    rs: "claimAll ''o1'' [''a'', ''b''] ?w = (Inr rs, w')" "length rs = 2"
      "rs ! 0 = Some (markClaimed ''a'' (toISOString (clocks ?w (clockN ?w))) (sampleJob ''j2'' ''2023-11-14T22:13:21.000Z''))"
      "rs ! 1 = None"
    unfolding q by (auto simp: less_Suc_eq)
  then obtain a b where "rs = [a, b]" by (metis One_nat_def Suc_1 length_0_conv length_Suc_conv)
  with rs show ?thesis by (auto simp: markClaimed_def sampleJob_def)
qed

end
