(* ===== verification/Js.thy ===== *)
theory Js
  imports Js_Date
begin

text \<open>
  The numeric text functions of JavaScript the sources use: template-literal printing of an
  integer, \<open>String.prototype.trim\<close>, and \<open>parseInt(s, 10)\<close>, with the round trip between printing
  and parsing.
\<close>

function showNat :: "nat \<Rightarrow> string" where
  "showNat n = (if n < 10 then [digitChar n] else showNat (n div 10) @ [digitChar (n mod 10)])"
  by pat_completeness auto

termination showNat
  by (relation "measure id") auto

declare showNat.simps [simp del]

definition showInt :: "int \<Rightarrow> string" where
  "showInt i = (if i < 0 then CHR ''-'' # showNat (nat (- i)) else showNat (nat i))"

text \<open>An em dash, in UTF-8.\<close>

definition emDash :: string where
  "emDash = [CHR 0xE2, CHR 0x80, CHR 0x94]"

text \<open>White space among 8-bit characters: TAB, LF, VT, FF, CR, space and NBSP.\<close>

definition jsSpace :: "char \<Rightarrow> bool" where
  "jsSpace c \<longleftrightarrow> (let n = (of_char c :: nat) in (9 \<le> n \<and> n \<le> 13) \<or> n = 32 \<or> n = 160)"

definition trimStart :: "string \<Rightarrow> string" where
  "trimStart s = dropWhile jsSpace s"

definition trim :: "string \<Rightarrow> string" where
  "trim s = rev (dropWhile jsSpace (rev (trimStart s)))"

definition isDigit :: "char \<Rightarrow> bool" where
  "isDigit c \<longleftrightarrow> digitVal c \<noteq> None"

definition parseDigits :: "string \<Rightarrow> int option" where
  "parseDigits s =
     (let ds = takeWhile isDigit s in if ds = [] then None else map_option int (digitsVal 0 ds))"

text \<open>\<open>parseInt(s, 10)\<close>; \<open>None\<close> is NaN.\<close>

definition parseInt10 :: "string \<Rightarrow> int option" where
  "parseInt10 s =
     (case trimStart s of
        [] \<Rightarrow> None
      | c # cs \<Rightarrow> if c = CHR ''-'' then map_option uminus (parseDigits cs)
                 else if c = CHR ''+'' then parseDigits cs
                 else parseDigits (c # cs))"

lemma isDigit_digitChar [simp]: "d < 10 \<Longrightarrow> isDigit (digitChar d)"
  by (simp add: isDigit_def)

lemma digitVal_bounds: "digitVal c = Some d \<Longrightarrow> d < 10"
  by (auto simp: digitVal_def Let_def split: if_splits)

lemma isDigit_not_space: "isDigit c \<Longrightarrow> \<not> jsSpace c"
  by (auto simp: isDigit_def digitVal_def jsSpace_def Let_def split: if_splits)

lemma isDigit_not_sign: "isDigit c \<Longrightarrow> c \<noteq> CHR ''-'' \<and> c \<noteq> CHR ''+''"
  by (auto simp: isDigit_def digitVal_def Let_def split: if_splits)

lemma showNat_digits: "list_all isDigit (showNat n) \<and> showNat n \<noteq> []"
proof (induction n rule: showNat.induct)
  case (1 n)
  show ?case
  proof (cases "n < 10")
    case True
    then show ?thesis by (simp add: showNat.simps [of n])
  next
    case False
    with 1 show ?thesis by (simp add: showNat.simps [of n])
  qed
qed

lemma digitsVal_showNat: "digitsVal 0 (showNat n) = Some n"
proof (induction n rule: showNat.induct)
  case (1 n)
  show ?case
  proof (cases "n < 10")
    case True
    then show ?thesis by (simp add: showNat.simps [of n])
  next
    case False
    with 1 show ?thesis by (simp add: showNat.simps [of n] digitsVal_append)
  qed
qed

lemma takeWhile_all: "list_all p s \<Longrightarrow> takeWhile p s = s"
  by (auto simp: list_all_iff)

lemma parseDigits_showNat: "parseDigits (showNat n) = Some (int n)"
  using showNat_digits [of n] by (simp add: parseDigits_def takeWhile_all digitsVal_showNat)

lemma parseInt10_showInt: "parseInt10 (showInt i) = Some i"
proof (cases "i < 0")
  case True
  then show ?thesis
    by (simp add: parseInt10_def showInt_def trimStart_def jsSpace_def parseDigits_showNat)
next
  case False
  obtain c cs where s: "showNat (nat i) = c # cs" using showNat_digits [of "nat i"] by (cases "showNat (nat i)") auto
  then have "isDigit c" using showNat_digits [of "nat i"] by simp
  then have "trimStart (c # cs) = c # cs" "c \<noteq> CHR ''-''" "c \<noteq> CHR ''+''"
    using isDigit_not_space isDigit_not_sign by (auto simp: trimStart_def)
  then show ?thesis
    using False parseDigits_showNat [of "nat i"] by (simp add: parseInt10_def showInt_def s)
qed

lemma showInt_inj: "showInt i = showInt j \<longleftrightarrow> i = j"
  by (metis option.inject parseInt10_showInt)

section \<open>Number of a text\<close>

text \<open>\<open>Number(s)\<close> for a text; \<open>None\<close> is NaN or an infinity.  Numbers are exact.\<close>

definition hexVal :: "char \<Rightarrow> nat option" where
  "hexVal c = (let n = (of_char c :: nat) in
     if 48 \<le> n \<and> n \<le> 57 then Some (n - 48)
     else if 65 \<le> n \<and> n \<le> 70 then Some (n - 55)
     else if 97 \<le> n \<and> n \<le> 102 then Some (n - 87) else None)"

fun baseVal :: "nat \<Rightarrow> string \<Rightarrow> nat option" where
  "baseVal b [] = Some 0"
| "baseVal b s = (let c = last s in
     case (if b \<le> 10 then digitVal c else hexVal c) of
       None \<Rightarrow> None
     | Some d \<Rightarrow> if d < b then map_option (\<lambda>n. n * b + d) (baseVal b (butlast s)) else None)"

definition digitsOrNone :: "string \<Rightarrow> nat option" where
  "digitsOrNone s = (if s = [] then None else baseVal 10 s)"

definition exponentOf :: "string \<Rightarrow> int option" where
  "exponentOf s = (case s of
       c # cs \<Rightarrow> if c = CHR ''+'' then map_option int (digitsOrNone cs)
                else if c = CHR ''-'' then map_option (\<lambda>n. - int n) (digitsOrNone cs)
                else map_option int (digitsOrNone s)
     | [] \<Rightarrow> None)"

definition powTen :: "int \<Rightarrow> rat" where
  "powTen k = (if 0 \<le> k then 10 ^ nat k else 1 / 10 ^ nat (- k))"

definition decimalText :: "string \<Rightarrow> rat option" where
  "decimalText s =
     (let isE = (\<lambda>c. c = CHR ''e'' \<or> c = CHR ''E'');
          mant = takeWhile (\<lambda>c. \<not> isE c) s; rest = dropWhile (\<lambda>c. \<not> isE c) s;
          whole = takeWhile (\<lambda>c. c \<noteq> CHR ''.'') mant; frac = drop 1 (dropWhile (\<lambda>c. c \<noteq> CHR ''.'') mant) in
      if whole = [] \<and> frac = [] then None
      else case (baseVal 10 (whole @ frac), if rest = [] then Some 0 else exponentOf (drop 1 rest)) of
        (Some n, Some e) \<Rightarrow> Some (of_nat n * powTen (e - int (length frac)))
      | _ \<Rightarrow> None)"

definition numberText :: "string \<Rightarrow> rat option" where
  "numberText s0 =
     (let s = trim s0 in
      if s = [] then Some 0
      else if toLowerCase (take 2 s) = ''0x'' then (if drop 2 s = [] then None else map_option of_nat (baseVal 16 (drop 2 s)))
      else if toLowerCase (take 2 s) = ''0o'' then (if drop 2 s = [] then None else map_option of_nat (baseVal 8 (drop 2 s)))
      else if toLowerCase (take 2 s) = ''0b'' then (if drop 2 s = [] then None else map_option of_nat (baseVal 2 (drop 2 s)))
      else if take 1 s = ''-'' then map_option uminus (decimalText (drop 1 s))
      else if take 1 s = ''+'' then decimalText (drop 1 s)
      else decimalText s)"


lemma baseVal_showNat: "baseVal 10 (showNat n) = Some n"
proof (induction n rule: showNat.induct)
  case (1 n)
  have last: "xs \<noteq> [] \<Longrightarrow> baseVal 10 xs = (case digitVal (last xs) of None \<Rightarrow> None
      | Some d \<Rightarrow> if d < 10 then map_option (\<lambda>n. n * 10 + d) (baseVal 10 (butlast xs)) else None)" for xs
    by (cases xs) (auto simp: Let_def)
  have step: "baseVal 10 (s @ [digitChar d]) = map_option (\<lambda>n. n * 10 + d) (baseVal 10 s)" if "d < 10" for s d
    using that by (subst last) simp_all
  show ?case
  proof (cases "n < 10")
    case True
    then show ?thesis using step [of n "[]"] by (subst showNat.simps) simp
  next
    case False
    then show ?thesis using 1 by (subst showNat.simps) (simp add: step)
  qed
qed

lemma digit_plain:
  assumes "isDigit c"
  shows "c \<noteq> CHR ''.''" "c \<noteq> CHR ''e''" "c \<noteq> CHR ''E''" "toLower c = c" "c \<noteq> CHR ''x''" "c \<noteq> CHR ''o''" "c \<noteq> CHR ''b''"
  using assms by (auto simp: isDigit_def digitVal_def toLowerCase_def toLower_def Let_def split: if_splits)

lemma decimalText_digits:
  assumes "list_all isDigit s" and "s \<noteq> []"
  shows "decimalText s = map_option of_nat (baseVal 10 s)"
proof -
  have t: "takeWhile (\<lambda>c. c \<noteq> CHR ''.'') s = s" "takeWhile (\<lambda>c. \<not> (c = CHR ''e'' \<or> c = CHR ''E'')) s = s"
    "dropWhile (\<lambda>c. c \<noteq> CHR ''.'') s = []" "dropWhile (\<lambda>c. \<not> (c = CHR ''e'' \<or> c = CHR ''E'')) s = []"
    using assms(1) by (auto simp: list_all_iff takeWhile_eq_all_conv dropWhile_eq_Nil_conv dest: digit_plain)
  show ?thesis
    unfolding decimalText_def Let_def t using assms(2) by (simp add: powTen_def split: option.split)
qed

lemma decimalText_showNat: "decimalText (showNat n) = Some (of_nat n)"
  using decimalText_digits [of "showNat n"] showNat_digits [of n] by (simp add: baseVal_showNat)

lemma trim_plain:
  assumes "s \<noteq> []" and "\<not> jsSpace (hd s)" and "\<not> jsSpace (last s)"
  shows "trim s = s"
proof -
  have "dropWhile jsSpace (rev s) = rev s" using assms by (simp add: dropWhile_eq_self_iff hd_rev)
  moreover have "dropWhile jsSpace s = s" using assms by (simp add: dropWhile_eq_self_iff)
  ultimately show ?thesis by (simp add: trim_def trimStart_def)
qed

lemma last_showNat_plain: "\<not> jsSpace (last (showNat n))"
  using showNat_digits [of n] isDigit_not_space last_in_set [of "showNat n"] by (auto simp: list_all_iff)

lemma numberText_showNat: "numberText (showNat n) = Some (of_nat n)"
proof -
  obtain c cs where s: "showNat n = c # cs" and d: "isDigit c" "list_all isDigit cs"
    using showNat_digits [of n] by (cases "showNat n") auto
  have t: "trim (c # cs) = c # cs"
    using trim_plain [of "c # cs"] last_showNat_plain [of n] d isDigit_not_space unfolding s by simp
  have p: "toLowerCase (take 2 (c # cs)) \<noteq> ''0x''" "toLowerCase (take 2 (c # cs)) \<noteq> ''0o''" "toLowerCase (take 2 (c # cs)) \<noteq> ''0b''"
    using d by (cases cs; simp add: toLowerCase_def digit_plain)+
  show ?thesis
    unfolding s numberText_def Let_def t if_not_P [OF p(1)] if_not_P [OF p(2)] if_not_P [OF p(3)]
    using decimalText_showNat [of n, unfolded s] isDigit_not_sign [OF d(1)] by simp
qed

lemma numberText_showInt: "numberText (showInt i) = Some (of_int i)"
proof (cases "i < 0")
  case False
  then show ?thesis by (simp add: showInt_def numberText_showNat)
next
  case True
  let ?s = "CHR ''-'' # showNat (nat (- i))"
  have "trim ?s = ?s"
    using last_showNat_plain [of "nat (- i)"] showNat_digits [of "nat (- i)"] by (intro trim_plain) (auto simp: jsSpace_def)
  then show ?thesis using True
    by (simp add: numberText_def showInt_def Let_def decimalText_showNat toLowerCase_def toLower_def)
qed

end
