(* ===== verification/Probes.thy ===== *)
theory Probes
  imports Store Js
begin

text \<open>
  The deploy backend as an interface (\<open>deploy/backend.ts\<close>) and the probe runner
  (\<open>probes/runner.ts\<close>) on top of it.  The hypervisor behind the backend is outside the
  repository's TypeScript, so a backend is a record of functions, each answering from the whole
  history of calls made so far; the world of a deployment extends the storage world with that
  history.  Strings are byte strings, so the ellipsis \<open>truncate\<close> appends is its UTF-8 encoding.
\<close>

section \<open>DeployBackend\<close>

text \<open>A file on the host, by what was written to it.\<close>

datatype hostFile = BlobFile string | JsonFile json

datatype bcall =
    ResolveVm json
  | CreateCheckpoint string string
  | RestoreCheckpoint string
  | DeleteCheckpoint string
  | CopyFileToVM string hostFile string
  | IsVmReachable string
  | ExecuteInGuest string string "string list option" int

record execResult =
  exitCode :: int
  stdout :: string
  stderr :: string

text \<open>Every method may reject with an \<open>Error\<close>; \<open>Inl\<close> carries its message.\<close>

record backend =
  b_resolveVm :: "bcall list \<Rightarrow> json \<Rightarrow> string + string \<times> string"
  b_createCheckpoint :: "bcall list \<Rightarrow> string \<Rightarrow> string \<Rightarrow> string + string"
  b_restoreCheckpoint :: "bcall list \<Rightarrow> string \<Rightarrow> string + unit"
  b_deleteCheckpoint :: "bcall list \<Rightarrow> string \<Rightarrow> string + unit"
  b_copyFileToVM :: "bcall list \<Rightarrow> string \<Rightarrow> hostFile \<Rightarrow> string \<Rightarrow> string + unit"
  b_isVmReachable :: "bcall list \<Rightarrow> string \<Rightarrow> string + bool \<times> string option"
  b_executeInGuest :: "bcall list \<Rightarrow> string \<Rightarrow> string \<Rightarrow> string list option \<Rightarrow> int \<Rightarrow> string + execResult"

record dworld = world +
  calls :: "bcall list"

type_synonym ('z, 'a) DM = "('z dworld_scheme, err, 'a) M"

definition callBackend :: "bcall \<Rightarrow> (bcall list \<Rightarrow> string + 'a) \<Rightarrow> ('z, 'a) DM" where
  "callBackend c f = (\<lambda>w. (case f (calls w) of Inl m \<Rightarrow> Inl (JsError m) | Inr x \<Rightarrow> Inr x,
     w\<lparr>calls := calls w @ [c]\<rparr>))"

definition executeInGuest ::
  "backend \<Rightarrow> string \<Rightarrow> string \<Rightarrow> string list option \<Rightarrow> int \<Rightarrow> ('z, execResult) DM" where
  "executeInGuest b handle command args timeoutMs =
     callBackend (ExecuteInGuest handle command args timeoutMs)
       (\<lambda>h. b_executeInGuest b h handle command args timeoutMs)"

section \<open>Probes\<close>

datatype probe =
    CommandProbe string string "string list option" "int option" "string option" "string option" "int option"
  | HttpProbe string string "int option" "string option" "int option"
  | FileProbe string string

fun probe_name :: "probe \<Rightarrow> string" where
  "probe_name (CommandProbe name _ _ _ _ _ _) = name"
| "probe_name (HttpProbe name _ _ _ _) = name"
| "probe_name (FileProbe name _) = name"

record probeResult =
  pr_name :: string
  pr_status :: healthStatus
  pr_latencyMs :: int
  pr_detail :: string

definition DEFAULT_TIMEOUT_MS :: int where
  "DEFAULT_TIMEOUT_MS = 30000"

definition ellipsis :: string where
  "ellipsis = [CHR 0xE2, CHR 0x80, CHR 0xA6]"

definition truncate :: "string \<Rightarrow> nat \<Rightarrow> string" where
  "truncate s n = (if length s \<le> n then s else take n s @ ellipsis)"

text \<open>A PowerShell single-quoted literal: every single quote is doubled.\<close>

definition quotePs :: "string \<Rightarrow> string" where
  "quotePs s = [CHR 0x27] @ concat (map (\<lambda>c. if c = CHR 0x27 then [c, c] else [c]) s) @ [CHR 0x27]"

text \<open>The truthiness test of \<open>x && !s.includes(x)\<close> on an optional string.\<close>

definition missing :: "string option \<Rightarrow> string \<Rightarrow> bool" where
  "missing want s \<longleftrightarrow> (case want of None \<Rightarrow> False | Some x \<Rightarrow> x \<noteq> [] \<and> \<not> includesStr s x)"

definition finishProbe :: "string \<Rightarrow> int \<Rightarrow> healthStatus \<Rightarrow> string \<Rightarrow> ('z, probeResult) DM" where
  "finishProbe name start status detail =
     bindM dateNow (\<lambda>now. ret \<lparr>pr_name = name, pr_status = status, pr_latencyMs = now - start,
       pr_detail = detail\<rparr>)"

definition matcherVerdict ::
  "execResult \<Rightarrow> int \<Rightarrow> string option \<Rightarrow> string option \<Rightarrow> healthStatus \<times> string" where
  "matcherVerdict result expectExit expectStdout expectStderr =
     (if exitCode result \<noteq> expectExit then
        (HFail, ''exit='' @ showInt (exitCode result) @ '', expected '' @ showInt expectExit
           @ (if stderr result \<noteq> [] then ''; stderr: '' @ truncate (stderr result) 200 else []))
      else if missing expectStdout (stdout result) then
        (HFail, ''stdout did not contain '' @ [CHR 0x27] @ truncate (the expectStdout) 80 @ [CHR 0x27])
      else if missing expectStderr (stderr result) then
        (HFail, ''stderr did not contain '' @ [CHR 0x27] @ truncate (the expectStderr) 80 @ [CHR 0x27])
      else (HPass, ''exit='' @ showInt (exitCode result)))"

definition evaluateMatchers ::
  "string \<Rightarrow> int \<Rightarrow> execResult \<Rightarrow> int \<Rightarrow> string option \<Rightarrow> string option \<Rightarrow> ('z, probeResult) DM" where
  "evaluateMatchers name start result expectExit expectStdout expectStderr =
     (let v = matcherVerdict result expectExit expectStdout expectStderr
      in finishProbe name start (fst v) (snd v))"

text \<open>\<open>Math.ceil(ms / 1000)\<close>.\<close>

definition ceilSeconds :: "int \<Rightarrow> int" where
  "ceilSeconds ms = - ((- ms) div 1000)"

definition httpScript :: "string \<Rightarrow> int \<Rightarrow> string" where
  "httpScript url timeoutMs =
     ''try { $resp = Invoke-WebRequest -UseBasicParsing -Uri '' @ quotePs url @ '' -TimeoutSec ''
     @ showInt (ceilSeconds timeoutMs)
     @ ''; Write-Output $resp.StatusCode; [Console]::Error.Write($resp.Content) ''
     @ ''} catch { Write-Error $_.Exception.Message; exit 1 }''"

definition httpVerdict :: "execResult \<Rightarrow> int \<Rightarrow> string option \<Rightarrow> healthStatus \<times> string" where
  "httpVerdict result expectStatus expectBody =
     (if exitCode result \<noteq> 0 then
        (HFail, ''Invoke-WebRequest failed: ''
           @ (if trim (stderr result) \<noteq> [] then trim (stderr result) else ''non-zero exit''))
      else case parseInt10 (trim (stdout result)) of
        None \<Rightarrow> (HFail, ''could not parse HTTP status from probe output: '' @ take 200 (stdout result))
      | Some status \<Rightarrow>
          if status \<noteq> expectStatus then
            (HFail, ''expected HTTP '' @ showInt expectStatus @ '', got '' @ showInt status)
          else if missing expectBody (stderr result) then
            (HFail, ''body did not contain '' @ [CHR 0x27] @ truncate (the expectBody) 80 @ [CHR 0x27])
          else (HPass, ''status='' @ showInt status))"

definition fileCommand :: "string \<Rightarrow> string" where
  "fileCommand path = ''if exist '' @ [CHR 0x22] @ path @ [CHR 0x22] @ '' (exit 0) else (exit 1)''"

fun runProbeKind :: "backend \<Rightarrow> string \<Rightarrow> int \<Rightarrow> probe \<Rightarrow> ('z, probeResult) DM" where
  "runProbeKind b handle start (CommandProbe name command args expectExit out err timeout) =
     bindM (executeInGuest b handle command args (orElse timeout DEFAULT_TIMEOUT_MS)) (\<lambda>result.
     evaluateMatchers name start result (orElse expectExit 0) out err)"
| "runProbeKind b handle start (HttpProbe name url expectStatus expectBody timeout) =
     bindM (executeInGuest b handle ''powershell.exe''
       (Some [''-NoProfile'', ''-NonInteractive'', ''-Command'', httpScript url (orElse timeout DEFAULT_TIMEOUT_MS)])
       (orElse timeout DEFAULT_TIMEOUT_MS)) (\<lambda>result.
     let v = httpVerdict result (orElse expectStatus 200) expectBody
     in finishProbe name start (fst v) (snd v))"
| "runProbeKind b handle start (FileProbe name path) =
     (if CHR 0x22 \<in> set path then
        finishProbe name start HFail (''file_in_guest path may not contain a double-quote: '' @ path)
      else
        bindM (executeInGuest b handle ''cmd.exe'' (Some [''/c'', fileCommand path]) DEFAULT_TIMEOUT_MS) (\<lambda>result.
        if exitCode result = 0 then finishProbe name start HPass ''present''
        else finishProbe name start HFail ''missing''))"

definition runProbe :: "backend \<Rightarrow> string \<Rightarrow> probe \<Rightarrow> ('z, probeResult) DM" where
  "runProbe b handle probe =
     bindM dateNow (\<lambda>start.
     catchM (runProbeKind b handle start probe)
       (\<lambda>e. finishProbe (probe_name probe) start HFail (''probe execution threw: '' @ err_message e)))"

fun runProbes :: "backend \<Rightarrow> string \<Rightarrow> probe list \<Rightarrow> ('z, probeResult list) DM" where
  "runProbes b handle [] = ret []"
| "runProbes b handle (p # ps) =
     bindM (runProbe b handle p) (\<lambda>r. bindM (runProbes b handle ps) (\<lambda>rs. ret (r # rs)))"

section \<open>What a probe decides\<close>

text \<open>\<open>s\<close> contains the wanted text, when one is wanted.\<close>

definition wanted :: "string option \<Rightarrow> string \<Rightarrow> bool" where
  "wanted want s \<longleftrightarrow> (\<forall>x. want = Some x \<longrightarrow> (\<exists>u v. s = u @ x @ v))"

lemma missing_iff: "missing want s \<longleftrightarrow> \<not> wanted want s"
  by (auto simp: missing_def wanted_def includesStr_iff split: option.splits) (metis append_Nil)

text \<open>
  The specification of a probe: what the guest must answer for it to pass, given the calls made
  so far.
\<close>

fun probe_passes :: "backend \<Rightarrow> bcall list \<Rightarrow> string \<Rightarrow> probe \<Rightarrow> bool" where
  "probe_passes b h handle (CommandProbe name command args expectExit out err timeout) =
     (case b_executeInGuest b h handle command args (orElse timeout DEFAULT_TIMEOUT_MS) of
        Inl _ \<Rightarrow> False
      | Inr r \<Rightarrow> exitCode r = orElse expectExit 0 \<and> wanted out (stdout r) \<and> wanted err (stderr r))"
| "probe_passes b h handle (HttpProbe name url expectStatus expectBody timeout) =
     (case b_executeInGuest b h handle ''powershell.exe''
         (Some [''-NoProfile'', ''-NonInteractive'', ''-Command'', httpScript url (orElse timeout DEFAULT_TIMEOUT_MS)])
         (orElse timeout DEFAULT_TIMEOUT_MS) of
        Inl _ \<Rightarrow> False
      | Inr r \<Rightarrow> exitCode r = 0 \<and> parseInt10 (trim (stdout r)) = Some (orElse expectStatus 200) \<and>
                 wanted expectBody (stderr r))"
| "probe_passes b h handle (FileProbe name path) =
     (CHR 0x22 \<notin> set path \<and>
      (case b_executeInGuest b h handle ''cmd.exe'' (Some [''/c'', fileCommand path]) DEFAULT_TIMEOUT_MS of
         Inl _ \<Rightarrow> False | Inr r \<Rightarrow> exitCode r = 0))"

lemma dateNow_run: "dateNow w = (Inr (clocks w (clockN w)), w\<lparr>clockN := Suc (clockN w)\<rparr>)"
  by (simp add: dateNow_def)

lemma finishProbe_run:
  "finishProbe name start status detail w =
    (Inr \<lparr>pr_name = name, pr_status = status, pr_latencyMs = clocks w (clockN w) - start, pr_detail = detail\<rparr>,
     w\<lparr>clockN := Suc (clockN w)\<rparr>)"
  by (simp add: finishProbe_def bindM_def dateNow_run ret_def)

lemma matcherVerdict_pass:
  "fst (matcherVerdict r e out err) = (if exitCode r = e \<and> wanted out (stdout r) \<and> wanted err (stderr r) then HPass else HFail)"
  by (simp add: matcherVerdict_def missing_iff)

lemma httpVerdict_pass:
  "fst (httpVerdict r e body) =
    (if exitCode r = 0 \<and> parseInt10 (trim (stdout r)) = Some e \<and> wanted body (stderr r) then HPass else HFail)"
  by (auto simp: httpVerdict_def missing_iff split: option.splits)

fun probeCalls :: "string \<Rightarrow> probe \<Rightarrow> bcall list" where
  "probeCalls handle (CommandProbe name command args expectExit out err timeout) =
     [ExecuteInGuest handle command args (orElse timeout DEFAULT_TIMEOUT_MS)]"
| "probeCalls handle (HttpProbe name url expectStatus expectBody timeout) =
     [ExecuteInGuest handle ''powershell.exe''
       (Some [''-NoProfile'', ''-NonInteractive'', ''-Command'', httpScript url (orElse timeout DEFAULT_TIMEOUT_MS)])
       (orElse timeout DEFAULT_TIMEOUT_MS)]"
| "probeCalls handle (FileProbe name path) =
     (if CHR 0x22 \<in> set path then []
      else [ExecuteInGuest handle ''cmd.exe'' (Some [''/c'', fileCommand path]) DEFAULT_TIMEOUT_MS])"

lemmas probe_run_simps = runProbe_def bindM_def catchM_def dateNow_run executeInGuest_def callBackend_def
  evaluateMatchers_def finishProbe_run matcherVerdict_pass httpVerdict_pass

lemma runProbe_run:
  "\<exists>r. runProbe b handle p w =
       (Inr r, w\<lparr>calls := calls w @ probeCalls handle p, clockN := Suc (Suc (clockN w))\<rparr>) \<and>
     pr_name r = probe_name p \<and>
     pr_status r = (if probe_passes b (calls w) handle p then HPass else HFail)"
proof (cases p)
  case (CommandProbe name command args e out err timeout)
  then show ?thesis
    by (cases "b_executeInGuest b (calls w) handle command args (orElse timeout DEFAULT_TIMEOUT_MS)")
      (simp_all add: probe_run_simps)
next
  case (HttpProbe name url e body timeout)
  then show ?thesis
    by (cases "b_executeInGuest b (calls w) handle ''powershell.exe''
         (Some [''-NoProfile'', ''-NonInteractive'', ''-Command'', httpScript url (orElse timeout DEFAULT_TIMEOUT_MS)])
         (orElse timeout DEFAULT_TIMEOUT_MS)")
      (simp_all add: probe_run_simps)
next
  case (FileProbe name path)
  then show ?thesis
    by (cases "b_executeInGuest b (calls w) handle ''cmd.exe'' (Some [''/c'', fileCommand path]) DEFAULT_TIMEOUT_MS")
      (auto simp: probe_run_simps)
qed

text \<open>The calls of a sequence of probes, and the verdict on each.\<close>

fun probesPass :: "backend \<Rightarrow> bcall list \<Rightarrow> string \<Rightarrow> probe list \<Rightarrow> bool list" where
  "probesPass b h handle [] = []"
| "probesPass b h handle (p # ps) =
     probe_passes b h handle p # probesPass b (h @ probeCalls handle p) handle ps"

lemma runProbes_run:
  "\<exists>rs. runProbes b handle ps w =
       (Inr rs, w\<lparr>calls := calls w @ concat (map (probeCalls handle) ps), clockN := clockN w + 2 * length ps\<rparr>) \<and>
     map pr_name rs = map probe_name ps \<and>
     map pr_status rs = map (\<lambda>ok. if ok then HPass else HFail) (probesPass b (calls w) handle ps)"
proof (induction ps arbitrary: w)
  case Nil
  then show ?case by (simp add: ret_run)
next
  case (Cons p ps)
  obtain r where r: "runProbe b handle p w =
      (Inr r, w\<lparr>calls := calls w @ probeCalls handle p, clockN := Suc (Suc (clockN w))\<rparr>)"
    "pr_name r = probe_name p" "pr_status r = (if probe_passes b (calls w) handle p then HPass else HFail)"
    using runProbe_run by blast
  let ?w = "w\<lparr>calls := calls w @ probeCalls handle p, clockN := Suc (Suc (clockN w))\<rparr>"
  obtain rs where "runProbes b handle ps ?w =
      (Inr rs, ?w\<lparr>calls := calls ?w @ concat (map (probeCalls handle) ps), clockN := clockN ?w + 2 * length ps\<rparr>)"
    "map pr_name rs = map probe_name ps"
    "map pr_status rs = map (\<lambda>ok. if ok then HPass else HFail) (probesPass b (calls ?w) handle ps)"
    using Cons.IH [of ?w] by blast
  then show ?case using r by (simp add: bindM_def ret_def)
qed

text \<open>
  C11. A probe run never throws and meets its specification: whatever the backend answers, running
  the declared probes returns one result per probe, in declaration order and under the
  probe's name; a result is \<open>pass\<close> exactly when the guest's answer meets the probe's matchers and
  \<open>fail\<close> otherwise, also when the backend rejects; and the run touches nothing but the guest
  (the database is as before).
\<close>

theorem probes_meet_spec:
  "\<exists>rs w'. runProbes b handle ps w = (Inr rs, w') \<and>
     map pr_name rs = map probe_name ps \<and>
     map pr_status rs = map (\<lambda>ok. if ok then HPass else HFail) (probesPass b (calls w) handle ps) \<and>
     w' = w\<lparr>calls := calls w @ concat (map (probeCalls handle) ps), clockN := clockN w + 2 * length ps\<rparr>"
  using runProbes_run by blast

section \<open>Quoting\<close>

text \<open>
  How PowerShell reads a single-quoted literal, from after the opening quote: a doubled quote is
  a quote character, a single one ends the literal; the result is the value and the rest.
\<close>

fun psLiteral :: "string \<Rightarrow> (string \<times> string) option" where
  "psLiteral [] = None"
| "psLiteral (c # cs) =
     (if c = CHR 0x27 then
        (case cs of
           d # ds \<Rightarrow> if d = CHR 0x27 then map_option (\<lambda>(v, r). (d # v, r)) (psLiteral ds) else Some ([], cs)
         | [] \<Rightarrow> Some ([], []))
      else map_option (\<lambda>(v, r). (c # v, r)) (psLiteral cs))"

lemma psLiteral_quoted:
  assumes "rest = [] \<or> hd rest \<noteq> CHR 0x27"
  shows "psLiteral (concat (map (\<lambda>c. if c = CHR 0x27 then [c, c] else [c]) s) @ CHR 0x27 # rest) = Some (s, rest)"
proof (induction s)
  case Nil
  then show ?case using assms by (cases rest) auto
next
  case (Cons c s)
  then show ?case by simp
qed


end
