(* ===== verification/Hypervisor_Backend.thy ===== *)
theory Hypervisor_Backend
  imports Probes
begin

text \<open>
  The production deploy backend (\<open>deploy/hypervisor-backend.ts\<close>): a \<open>DeployBackend\<close> made from a
  \<open>HypervisorBackend\<close>.  The hypervisor itself is a record of functions of the call history.  A
  machine handle is represented by its identifier.
\<close>

datatype vmState = VmStopped | VmRunning | VmPaused | VmSaved | VmUnknown

fun vmState_text :: "vmState \<Rightarrow> string" where
  "vmState_text VmStopped = ''stopped''"
| "vmState_text VmRunning = ''running''"
| "vmState_text VmPaused = ''paused''"
| "vmState_text VmSaved = ''saved''"
| "vmState_text VmUnknown = ''unknown''"

record vmHandle =
  vm_id :: string
  vm_name :: string

record hypervisor =
  hv_name :: string
  hv_listVMs :: "bcall list \<Rightarrow> string + vmHandle list"
  hv_getStatus :: "bcall list \<Rightarrow> string \<Rightarrow> string + vmState \<times> string option"
  hv_createCheckpoint :: "bcall list \<Rightarrow> string \<Rightarrow> string \<Rightarrow> string + string"
  hv_restoreCheckpoint :: "bcall list \<Rightarrow> string \<Rightarrow> string + unit"
  hv_deleteCheckpoint :: "bcall list \<Rightarrow> string \<Rightarrow> string + unit"
  hv_copyFileToVM :: "bcall list \<Rightarrow> string \<Rightarrow> hostFile \<Rightarrow> string \<Rightarrow> string + unit"
  hv_executeCommand :: "bcall list \<Rightarrow> string \<Rightarrow> string \<Rightarrow> string list option \<Rightarrow> int \<Rightarrow> string + execResult"

definition vmNotFound :: "string \<Rightarrow> string \<Rightarrow> vmHandle list \<Rightarrow> string" where
  "vmNotFound vmName backendName vms =
     ''VM '' @ [CHR 0x27] @ vmName @ [CHR 0x27] @ '' not found on backend '' @ [CHR 0x27] @ backendName @ [CHR 0x27]
     @ ''. Known VMs: '' @ (let names = join_with '', '' (map vm_name vms) in if names = [] then ''(none)'' else names)"

definition hv_resolveVm :: "hypervisor \<Rightarrow> bcall list \<Rightarrow> json \<Rightarrow> string + string \<times> string" where
  "hv_resolveVm hv h connection =
     (case jget connection ''vmName'' of
        Some (JStr vmName) \<Rightarrow>
          if vmName = [] then Inl ''target.connection.vmName is required for VM targets''
          else (case hv_listVMs hv h of
             Inl m \<Rightarrow> Inl m
           | Inr vms \<Rightarrow> (case find (\<lambda>v. vm_name v = vmName) vms of
               None \<Rightarrow> Inl (vmNotFound vmName (hv_name hv) vms)
             | Some v \<Rightarrow> Inr (vm_id v, vmName)))
      | _ \<Rightarrow> Inl ''target.connection.vmName is required for VM targets'')"

definition hv_isVmReachable :: "hypervisor \<Rightarrow> bcall list \<Rightarrow> string \<Rightarrow> string + bool \<times> string option" where
  "hv_isVmReachable hv h handle =
     (case hv_getStatus hv h handle of
        Inl m \<Rightarrow> Inl m
      | Inr (state, ipAddress) \<Rightarrow>
          if state \<noteq> VmRunning then Inr (False, Some (''VM state='' @ vmState_text state))
          else Inr (True, case ipAddress of None \<Rightarrow> None | Some ip \<Rightarrow> if ip = [] then None else Some (''ip='' @ ip)))"

definition hypervisorDeployBackend :: "hypervisor \<Rightarrow> backend" where
  "hypervisorDeployBackend hv = \<lparr>
     b_resolveVm = hv_resolveVm hv,
     b_createCheckpoint = hv_createCheckpoint hv,
     b_restoreCheckpoint = hv_restoreCheckpoint hv,
     b_deleteCheckpoint = hv_deleteCheckpoint hv,
     b_copyFileToVM = hv_copyFileToVM hv,
     b_isVmReachable = hv_isVmReachable hv,
     b_executeInGuest = hv_executeCommand hv\<rparr>"

text \<open>A resolved machine is one the hypervisor lists under the name in the connection.\<close>

lemma resolveVm_listed:
  assumes "b_resolveVm (hypervisorDeployBackend hv) h connection = Inr (handle, vmName)"
  shows "vmName \<noteq> [] \<and> jget connection ''vmName'' = Some (JStr vmName) \<and>
    (\<exists>vms v. hv_listVMs hv h = Inr vms \<and> v \<in> set vms \<and> vm_name v = vmName \<and> vm_id v = handle)"
  using assms
  by (auto simp: hypervisorDeployBackend_def hv_resolveVm_def split: option.splits json.splits if_splits sum.splits
      dest!: find_Some_D)

lemma reachable_iff_running:
  "b_isVmReachable (hypervisorDeployBackend hv) h handle = Inr (True, d) \<Longrightarrow>
   \<exists>ip. hv_getStatus hv h handle = Inr (VmRunning, ip)"
  by (auto simp: hypervisorDeployBackend_def hv_isVmReachable_def split: sum.splits if_splits)

end
