(* ===== verification/Git_Args.thy ===== *)
theory Git_Args
  imports Js Types
begin

text \<open>
  The intake checks on operator-supplied git arguments (\<open>build/git.ts\<close>): \<open>validateRepoUrl\<close>,
  \<open>validateGitRef\<close> and the argument vector \<open>cloneProductAtTag\<close> hands to \<open>git\<close>.  Each validator returns
  the error it throws.
\<close>

section \<open>Character classes\<close>

definition inRange :: "nat \<Rightarrow> nat \<Rightarrow> char \<Rightarrow> bool" where
  "inRange lo hi c \<longleftrightarrow> lo \<le> (of_char c :: nat) \<and> (of_char c :: nat) \<le> hi"

definition isAlpha :: "char \<Rightarrow> bool" where
  "isAlpha c \<longleftrightarrow> inRange 65 90 c \<or> inRange 97 122 c"

definition wordChar :: "char \<Rightarrow> bool" where
  "wordChar c \<longleftrightarrow> isAlpha c \<or> inRange 48 57 c \<or> c = CHR ''_''"

definition controlChar :: "char \<Rightarrow> bool" where
  "controlChar c \<longleftrightarrow> inRange 0 31 c \<or> c = CHR 0x7F"

section \<open>Repository URLs\<close>

text \<open>\<open>/^p/i\<close>.\<close>

definition prefixCI :: "string \<Rightarrow> string \<Rightarrow> bool" where
  "prefixCI p s \<longleftrightarrow> toLowerCase (take (length p) s) = p"

definition noSpace :: "string \<Rightarrow> bool" where
  "noSpace s \<longleftrightarrow> list_all (\<lambda>c. \<not> jsSpace c) s"

text \<open>
  \<open>/^[\w.+-]+@[\w.-]+:[^\s]+$/\<close>: the user part has no \<open>@\<close> and the host part no \<open>:\<close>, so the split is
  the first one.
\<close>

definition scpShape :: "string \<Rightarrow> bool" where
  "scpShape s \<longleftrightarrow>
     (let user = takeWhile (\<lambda>c. c \<noteq> CHR ''@'') s; r1 = drop (length user) s;
          host = takeWhile (\<lambda>c. c \<noteq> CHR '':'') (drop 1 r1); r2 = drop (length host) (drop 1 r1) in
      user \<noteq> [] \<and> list_all (\<lambda>c. wordChar c \<or> c \<in> set ''.+-'') user \<and> r1 \<noteq> [] \<and>
      host \<noteq> [] \<and> list_all (\<lambda>c. wordChar c \<or> c \<in> set ''.-'') host \<and> r2 \<noteq> [] \<and>
      drop 1 r2 \<noteq> [] \<and> noSpace (drop 1 r2))"

definition posixShape :: "string \<Rightarrow> bool" where
  "posixShape s \<longleftrightarrow> startsWith s ''/'' \<and> noSpace (drop 1 s)"

definition backslash :: char where
  "backslash = CHR 0x5C"

definition driveShape :: "string \<Rightarrow> bool" where
  "driveShape s \<longleftrightarrow> (case s of
       d # c # sep # rest \<Rightarrow> isAlpha d \<and> c = CHR '':'' \<and> (sep = backslash \<or> sep = CHR ''/'') \<and> noSpace rest
     | _ \<Rightarrow> False)"

definition uncShape :: "string \<Rightarrow> bool" where
  "uncShape s \<longleftrightarrow>
     (let server = takeWhile (\<lambda>c. c \<noteq> backslash) (drop 2 s); r = drop (length server) (drop 2 s) in
      take 2 s = [backslash, backslash] \<and> server \<noteq> [] \<and> noSpace server \<and> r \<noteq> [] \<and>
      drop 1 r \<noteq> [] \<and> noSpace (drop 1 r))"

definition knownTransport :: "string \<Rightarrow> bool" where
  "knownTransport s \<longleftrightarrow>
     prefixCI ''http://'' s \<or> prefixCI ''https://'' s \<or> prefixCI ''ssh://'' s \<or> prefixCI ''git://'' s \<or>
     prefixCI ''file://'' s \<or> scpShape s \<or> posixShape s \<or> driveShape s \<or> uncShape s"

definition repoUrlError :: "string \<Rightarrow> err" where
  "repoUrlError m = NamedError ''RepoUrlValidationError'' m"

definition validateRepoUrl :: "string \<Rightarrow> err option" where
  "validateRepoUrl repoUrl =
     (if repoUrl = [] then Some (repoUrlError ''repo_url must be a non-empty string'')
      else if length repoUrl > 2048 then Some (repoUrlError ''repo_url too long (max 2048 chars)'')
      else if startsWith repoUrl ''-'' then
        Some (repoUrlError (''repo_url may not start with '' @ [CHR 0x27] @ ''-'' @ [CHR 0x27] @ '' (option-injection guard)''))
      else if list_ex controlChar repoUrl then Some (repoUrlError ''repo_url contains control characters'')
      else if \<not> knownTransport repoUrl then
        Some (repoUrlError (''repo_url must be http(s)://, ssh://, git://, file://, user@host:path, or an absolute local path; got ''
          @ [CHR 0x27] @ repoUrl @ [CHR 0x27]))
      else None)"

section \<open>Git refs\<close>

definition gitRefError :: "string \<Rightarrow> err" where
  "gitRefError m = NamedError ''GitRefValidationError'' m"

definition forbiddenInRef :: "char \<Rightarrow> bool" where
  "forbiddenInRef c \<longleftrightarrow> inRange 0 32 c \<or> c \<in> set ''~^:?*['' \<or> c = backslash \<or> c = CHR 0x7F"

definition validateGitRef :: "string \<Rightarrow> err option" where
  "validateGitRef ref =
     (if ref = [] then Some (gitRefError ''git ref must be a non-empty string'')
      else if length ref > 255 then Some (gitRefError ''git ref too long (max 255 chars)'')
      else if startsWith ref ''-'' then
        Some (gitRefError (''git ref may not start with '' @ [CHR 0x27] @ ''-'' @ [CHR 0x27] @ '' (option-injection guard)''))
      else if includesStr ref ''..'' \<or> list_ex forbiddenInRef ref \<or> startsWith ref ''/'' \<or> endsWith ref ''/''
           \<or> endsWith ref ''.lock'' \<or> includesStr ref [CHR ''@'', CHR 0x7B] then
        Some (gitRefError (''git ref contains forbidden character/sequence: '' @ [CHR 0x27] @ ref @ [CHR 0x27]))
      else None)"

section \<open>The clone command\<close>

text \<open>The argument vector handed to \<open>spawnGit\<close>, or the error thrown before it is reached.\<close>

definition cloneProductAtTag :: "string \<Rightarrow> string \<Rightarrow> string \<Rightarrow> err + string list" where
  "cloneProductAtTag repoUrl tag destDir =
     (case validateRepoUrl repoUrl of
        Some e \<Rightarrow> Inl e
      | None \<Rightarrow> (case validateGitRef tag of
          Some e \<Rightarrow> Inl e
        | None \<Rightarrow> Inr [''clone'', ''--depth'', ''1'', ''--branch'', tag, ''--'', repoUrl, destDir]))"

text \<open>
  How \<open>git clone\<close> reads its arguments: \<open>--depth\<close> and \<open>--branch\<close> take the next word as their value,
  any other word that starts with a dash is an option of its own, and after \<open>--\<close> every word is
  positional.  The result is the branch asked for, the other options and the positional words.
\<close>

fun readClone :: "string list \<Rightarrow> string option \<times> string list \<times> string list" where
  "readClone [] = (None, [], [])"
| "readClone (a # as) =
     (if a = ''--'' then (None, [], as)
      else if a = ''--branch'' \<or> a = ''--depth'' then
        (case as of [] \<Rightarrow> (None, [a], [])
         | v # vs \<Rightarrow> let (b, os, ps) = readClone vs in
             if a = ''--branch'' then (Some v, os, ps) else (b, os, ps))
      else let (b, os, ps) = readClone as in
        if startsWith a ''-'' then (b, a # os, ps) else (b, os, a # ps))"

lemma validateRepoUrl_ok:
  "validateRepoUrl u = None \<Longrightarrow>
   u \<noteq> [] \<and> length u \<le> 2048 \<and> hd u \<noteq> CHR ''-'' \<and> list_all (\<lambda>c. \<not> controlChar c) u \<and> knownTransport u"
  by (cases u) (auto simp: validateRepoUrl_def startsWith_def list_ex_iff list_all_iff split: if_splits)

lemma validateGitRef_ok:
  "validateGitRef r = None \<Longrightarrow>
   r \<noteq> [] \<and> length r \<le> 255 \<and> hd r \<noteq> CHR ''-'' \<and> list_all (\<lambda>c. \<not> forbiddenInRef c) r \<and> \<not> includesStr r ''..''"
  by (cases r) (auto simp: validateGitRef_def startsWith_def list_ex_iff list_all_iff split: if_splits)

text \<open>
  C21. No operator-supplied value reaches git as an option.  Whatever repository URL, tag and
  destination are given, \<open>cloneProductAtTag\<close> either throws a validation error without starting git,
  or starts it with arguments that git reads as: clone this tag from this URL into this
  directory, and no further option.  The URL and the tag then also hold no control character and
  do not start with a dash.
\<close>

theorem clone_has_no_injected_option:
  "case cloneProductAtTag repoUrl tag destDir of
     Inl e \<Rightarrow> validateRepoUrl repoUrl = Some e \<or> validateGitRef tag = Some e
   | Inr argv \<Rightarrow> readClone (tl argv) = (Some tag, [], [repoUrl, destDir]) \<and> hd argv = ''clone'' \<and>
       hd repoUrl \<noteq> CHR ''-'' \<and> hd tag \<noteq> CHR ''-'' \<and>
       list_all (\<lambda>c. \<not> controlChar c) repoUrl \<and> list_all (\<lambda>c. \<not> forbiddenInRef c) tag"
  by (auto simp: cloneProductAtTag_def dest: validateRepoUrl_ok validateGitRef_ok split: option.split)

text \<open>
  A space inside a URL passes.  The comment on the character check says it rejects control
  characters and embedded whitespace; the check tests only for control characters, and the
  transport patterns for \<open>http(s)\<close>, \<open>ssh\<close>, \<open>git\<close> and \<open>file\<close> look at the scheme alone.
\<close>

theorem repo_url_with_space_accepted:
  "validateRepoUrl ''https://example.test/a b'' = None \<and> list_ex jsSpace ''https://example.test/a b''"
  by code_simp

end
