(* ===== verification/Http_Base.thy ===== *)
theory Http_Base
  imports Store Git_Args
begin

text \<open>
  The ground of the HTTP control plane: percent-decoding of path parameters, the error mapping
  (\<open>http/errors.ts\<close>), the bearer-token and loopback authentication with key generation
  (\<open>http/auth.ts\<close>), and the readers of request fields (\<open>http/app.ts\<close>).  A request is what
  \<open>node:http\<close> and \<open>URL\<close> have parsed: method, path name, query parameters in order, the decoded body.
  The SHA-256 digest, random bytes and the parsing of date texts are parameters.
\<close>

section \<open>decodeURIComponent\<close>

text \<open>One \<open>%XX\<close> escape at the head of the text.\<close>

fun pctByte :: "string \<Rightarrow> (nat \<times> string) option" where
  "pctByte (p # a # b # rest) =
     (if p = CHR ''%'' then
        (case (hexVal a, hexVal b) of (Some x, Some y) \<Rightarrow> Some (16 * x + y, rest) | _ \<Rightarrow> None)
      else None)"
| "pctByte _ = None"

fun pctBytes :: "nat \<Rightarrow> string \<Rightarrow> (nat list \<times> string) option" where
  "pctBytes 0 s = Some ([], s)"
| "pctBytes (Suc n) s =
     (case pctByte s of None \<Rightarrow> None
      | Some (b, rest) \<Rightarrow> (case pctBytes n rest of None \<Rightarrow> None | Some (bs, r) \<Rightarrow> Some (b # bs, r)))"

text \<open>Continuation bytes a UTF-8 leading byte calls for, and whether the sequence is well formed.\<close>

definition utf8Len :: "nat \<Rightarrow> nat option" where
  "utf8Len b = (if 0xC2 \<le> b \<and> b \<le> 0xDF then Some 1 else if 0xE0 \<le> b \<and> b \<le> 0xEF then Some 2
     else if 0xF0 \<le> b \<and> b \<le> 0xF4 then Some 3 else None)"

definition utf8Ok :: "nat \<Rightarrow> nat list \<Rightarrow> bool" where
  "utf8Ok b bs \<longleftrightarrow> list_all (\<lambda>c. 0x80 \<le> c \<and> c \<le> 0xBF) bs \<and>
     (b = 0xE0 \<longrightarrow> 0xA0 \<le> hd bs) \<and> (b = 0xED \<longrightarrow> hd bs \<le> 0x9F) \<and>
     (b = 0xF0 \<longrightarrow> 0x90 \<le> hd bs) \<and> (b = 0xF4 \<longrightarrow> hd bs \<le> 0x8F)"

lemma pctByte_shorter: "pctByte s = Some (b, r) \<Longrightarrow> length r < length s"
  by (induction s rule: pctByte.induct) (auto split: if_splits option.splits)

lemma pctBytes_shorter: "pctBytes n s = Some (bs, r) \<Longrightarrow> length r \<le> length s"
  by (induction n arbitrary: s bs r) (fastforce split: option.splits dest!: pctByte_shorter)+

text \<open>\<open>None\<close> is the \<open>URIError\<close>.\<close>

function decodeURIComponent :: "string \<Rightarrow> string option" where
  "decodeURIComponent [] = Some []"
| "decodeURIComponent (c # cs) =
     (if c \<noteq> CHR ''%'' then map_option (Cons c) (decodeURIComponent cs)
      else case pctByte (c # cs) of
        None \<Rightarrow> None
      | Some (b, rest) \<Rightarrow>
          if b < 0x80 then map_option (Cons (char_of b)) (decodeURIComponent rest)
          else (case utf8Len b of
            None \<Rightarrow> None
          | Some n \<Rightarrow> (case pctBytes n rest of
              None \<Rightarrow> None
            | Some (bs, rest') \<Rightarrow>
                if utf8Ok b bs then map_option ((@) (map char_of (b # bs))) (decodeURIComponent rest')
                else None)))"
  by pat_completeness auto

termination decodeURIComponent
  by (relation "measure length")
    (auto dest!: pctByte_shorter pctBytes_shorter)

lemma decodeURIComponent_plain: "CHR ''%'' \<notin> set s \<Longrightarrow> decodeURIComponent s = Some s"
  by (induction s) auto

section \<open>Errors\<close>

definition notFound :: "string \<Rightarrow> err" where
  "notFound m = HttpError 404 m ''not_found''"

definition badRequest :: "string \<Rightarrow> err" where
  "badRequest m = HttpError 400 m ''bad_request''"

definition unauthorized :: "string option \<Rightarrow> err" where
  "unauthorized m = HttpError 401 (orElse m ''missing or invalid bearer token'') ''unauthorized''"

text \<open>Status, code and message of the response a thrown value becomes.\<close>

definition mapError :: "err \<Rightarrow> nat \<times> string \<times> string" where
  "mapError e = (case e of
       HttpError status m code \<Rightarrow> (status, code, m)
     | StorageNotFoundError _ _ \<Rightarrow> (404, ''not_found'', err_message e)
     | StorageConflictError m \<Rightarrow> (409, ''conflict'', m)
     | _ \<Rightarrow>
         let name = err_name e in
         if name = ''BlobNotFoundError'' then (404, ''not_found'', err_message e)
         else if name \<in> {''BuildYamlValidationError'', ''RepoUrlValidationError'', ''GitRefValidationError''} then
           (400, ''validation_error'', err_message e)
         else if name = ''ReleaseAlreadyExistsError'' then (409, ''release_exists'', err_message e)
         else if name \<in> {''ComponentBuildError'', ''MissingArtifactError''} then (422, ''build_failed'', err_message e)
         else if name = ''DeployBlockedError'' then (409, ''deploy_blocked'', err_message e)
         else if name = ''DeployHealthFailedError'' then (422, ''deploy_unhealthy'', err_message e)
         else (500, ''internal_error'', ''internal server error''))"

section \<open>The request and the environment\<close>

datatype httpMethod = GET | POST | PATCH | DELETE

record request =
  rq_method :: httpMethod
  rq_path :: string
  rq_query :: "(string \<times> string list) list"
  rq_body :: "err + json option"
  rq_authorization :: "string option"
  rq_remoteAddress :: "string option"

record apiEnv =
  v_sha256 :: "string \<Rightarrow> string"
  v_randomBytes :: "nat \<Rightarrow> nat list"
  v_parseDate :: "string \<Rightarrow> int option"
  v_healthSummary :: "json \<Rightarrow> healthSummary option"
  v_version :: string
  v_disableLoopbackBypass :: bool

section \<open>Authentication\<close>

definition CROCKFORD :: string where
  "CROCKFORD = ''0123456789ABCDEFGHJKMNPQRSTVWXYZ''"

definition PREFIX_LEN :: nat where
  "PREFIX_LEN = 8"

definition SECRET_LEN :: nat where
  "SECRET_LEN = 26"

text \<open>\<open>TOKEN_RE\<close>: the two groups are over \<open>[0-9A-HJKMNP-TV-Z]\<close>, which is the Crockford alphabet.\<close>

definition tokenChar :: "char \<Rightarrow> bool" where
  "tokenChar c \<longleftrightarrow> inRange 48 57 c \<or> inRange 65 72 c \<or> c \<in> set ''JKMN'' \<or> inRange 80 84 c \<or> inRange 86 90 c"

definition matchToken :: "string \<Rightarrow> (string \<times> string) option" where
  "matchToken token =
     (case split_on CHR ''_'' token of
        [k, a, b] \<Rightarrow>
          if k = ''sk'' \<and> a \<noteq> [] \<and> list_all tokenChar a \<and> b \<noteq> [] \<and> list_all tokenChar b
          then Some (a, b) else None
      | _ \<Rightarrow> None)"

text \<open>\<open>new Date(expiresAt) < new Date()\<close>: false when the text is not a date.\<close>

definition expired :: "apiEnv \<Rightarrow> apiKey \<Rightarrow> ('z, bool) DB" where
  "expired env k =
     (if truthy (ak_expiresAt k) then
        bindM dateNow (\<lambda>now. ret (case v_parseDate env (the (ak_expiresAt k)) of None \<Rightarrow> False | Some t \<Rightarrow> t < now))
      else ret False)"

definition verifyToken :: "apiEnv \<Rightarrow> string \<Rightarrow> ('z, apiKey option) DB" where
  "verifyToken env token =
     (case matchToken token of
        None \<Rightarrow> ret None
      | Some (p, secret) \<Rightarrow>
          bindM (apiKey_getByPrefix (''sk_'' @ p)) (\<lambda>found. case found of
            None \<Rightarrow> ret None
          | Some k \<Rightarrow>
              bindM (expired env k) (\<lambda>old.
              if old then ret None
              else ret (if v_sha256 env secret = ak_hash k then Some k else None))))"

definition isLoopback :: "string option \<Rightarrow> bool" where
  "isLoopback addr \<longleftrightarrow> (case addr of None \<Rightarrow> False
     | Some a \<Rightarrow> a = ''127.0.0.1'' \<or> a = ''::1'' \<or> startsWith a ''127.'' \<or> a = ''::ffff:127.0.0.1'')"

definition ensureDefaultOrg :: "('z, org) DB" where
  "ensureDefaultOrg =
     bindM (org_getByName ''default'') (\<lambda>existing. case existing of
       Some o' \<Rightarrow> ret o'
     | None \<Rightarrow> org_create ''default'' (Some Free))"

text \<open>The text after \<open>/^Bearer\s+/i\<close>, when the header has that form.\<close>

definition bearerRest :: "string \<Rightarrow> string option" where
  "bearerRest h =
     (if toLowerCase (take 6 h) = ''bearer'' \<and> takeWhile jsSpace (drop 6 h) \<noteq> []
      then Some (dropWhile jsSpace (drop 6 h)) else None)"

record authContext =
  a_orgId :: string
  a_apiKeyId :: "string option"

definition authenticate :: "apiEnv \<Rightarrow> request \<Rightarrow> ('z, authContext) DB" where
  "authenticate env rq =
     (case (case rq_authorization rq of None \<Rightarrow> None | Some h \<Rightarrow> bearerRest h) of
        Some rest \<Rightarrow>
          bindM (verifyToken env (trim rest)) (\<lambda>key. case key of
            None \<Rightarrow> throwM (unauthorized (Some ''invalid bearer token''))
          | Some k \<Rightarrow> ret \<lparr>a_orgId = ak_orgId k, a_apiKeyId = Some (ak_id k)\<rparr>)
      | None \<Rightarrow>
          if \<not> v_disableLoopbackBypass env \<and> isLoopback (rq_remoteAddress rq) then
            bindM ensureDefaultOrg (\<lambda>o'. ret \<lparr>a_orgId = o_id o', a_apiKeyId = None\<rparr>)
          else throwM (unauthorized None))"

section \<open>Key generation\<close>

definition randomB32 :: "apiEnv \<Rightarrow> nat \<Rightarrow> string" where
  "randomB32 env n = map (\<lambda>v. CROCKFORD ! (v mod 32)) (take n (v_randomBytes env (n * 2)))"

record generatedApiKey =
  g_token :: string
  g_prefix :: string
  g_hash :: string

definition generateApiKey :: "apiEnv \<Rightarrow> generatedApiKey" where
  "generateApiKey env =
     (let prefix = ''sk_'' @ randomB32 env PREFIX_LEN; secret = randomB32 env SECRET_LEN in
      \<lparr>g_token = prefix @ ''_'' @ secret, g_prefix = prefix, g_hash = v_sha256 env secret\<rparr>)"

section \<open>Reading request fields\<close>

type_synonym fields = "(string \<times> json) list"

definition quoted :: "string \<Rightarrow> string" where
  "quoted s = [CHR 0x27] @ s @ [CHR 0x27]"

definition asObject :: "json option \<Rightarrow> string \<Rightarrow> err + fields" where
  "asObject v label = (case v of Some (JObj kvs) \<Rightarrow> Inr kvs | _ \<Rightarrow> Inl (badRequest (label @ '' must be a JSON object'')))"

definition readString :: "fields \<Rightarrow> string \<Rightarrow> err + string" where
  "readString body field = (case map_of body field of
       Some (JStr s) \<Rightarrow> if s = [] then Inl (badRequest (quoted field @ '' is required (string)'')) else Inr s
     | _ \<Rightarrow> Inl (badRequest (quoted field @ '' is required (string)'')))"

definition readOptionalString :: "fields \<Rightarrow> string \<Rightarrow> err + string option" where
  "readOptionalString body field = (case map_of body field of
       None \<Rightarrow> Inr None | Some JNull \<Rightarrow> Inr None | Some (JStr s) \<Rightarrow> Inr (Some s)
     | Some _ \<Rightarrow> Inl (badRequest (quoted field @ '' must be a string'')))"

definition readOptionalInt :: "fields \<Rightarrow> string \<Rightarrow> err + int option" where
  "readOptionalInt body field = (case map_of body field of
       None \<Rightarrow> Inr None | Some JNull \<Rightarrow> Inr None
     | Some (JNum q) \<Rightarrow> if snd (quotient_of q) = 1 then Inr (Some (fst (quotient_of q)))
                       else Inl (badRequest (quoted field @ '' must be an integer''))
     | Some _ \<Rightarrow> Inl (badRequest (quoted field @ '' must be an integer'')))"

text \<open>An enumeration is given with the value each allowed text stands for.\<close>

definition readEnum :: "fields \<Rightarrow> string \<Rightarrow> (string \<times> 'a) list \<Rightarrow> err + 'a" where
  "readEnum body field allowed = (case readString body field of
       Inl e \<Rightarrow> Inl e
     | Inr v \<Rightarrow> (case map_of allowed v of
         None \<Rightarrow> Inl (badRequest (quoted field @ '' must be one of '' @ join_with ''|'' (map fst allowed)))
       | Some x \<Rightarrow> Inr x))"

definition readOptionalEnum :: "fields \<Rightarrow> string \<Rightarrow> (string \<times> 'a) list \<Rightarrow> err + 'a option" where
  "readOptionalEnum body field allowed =
     (let bad = Inl (badRequest (quoted field @ '' must be one of '' @ join_with ''|'' (map fst allowed))) in
      case map_of body field of
        None \<Rightarrow> Inr None | Some JNull \<Rightarrow> Inr None
      | Some (JStr s) \<Rightarrow> (case map_of allowed s of None \<Rightarrow> bad | Some x \<Rightarrow> Inr (Some x))
      | Some _ \<Rightarrow> bad)"

definition readStringQuery :: "(string \<times> string list) list \<Rightarrow> string \<Rightarrow> err + string option" where
  "readStringQuery q name = (case map_of q name of
       None \<Rightarrow> Inr None
     | Some [v] \<Rightarrow> Inr (Some v)
     | Some _ \<Rightarrow> Inl (badRequest (''query param '' @ quoted name @ '' must not be repeated'')))"

definition readIntQuery :: "(string \<times> string list) list \<Rightarrow> string \<Rightarrow> err + int option" where
  "readIntQuery q name = (case readStringQuery q name of
       Inl e \<Rightarrow> Inl e
     | Inr None \<Rightarrow> Inr None
     | Inr (Some raw) \<Rightarrow> (case parseInt10 raw of
         Some n \<Rightarrow> if n < 0 then Inl (badRequest (''query param '' @ quoted name @ '' must be a non-negative integer''))
                  else Inr (Some n)
       | None \<Rightarrow> Inl (badRequest (''query param '' @ quoted name @ '' must be a non-negative integer''))))"

text \<open>A pure check inside a handler.\<close>

definition liftE :: "err + 'a \<Rightarrow> ('s, err, 'a) M" where
  "liftE x = (case x of Inl e \<Rightarrow> throwM e | Inr v \<Rightarrow> ret v)"

definition check :: "err option \<Rightarrow> ('s, err, unit) M" where
  "check x = (case x of None \<Rightarrow> ret () | Some e \<Rightarrow> throwM e)"

lemma keeps_liftE [keeps_intros]: "keeps I (liftE x)"
  unfolding liftE_def by (intro keeps_intros)

lemma keeps_check [keeps_intros]: "keeps I (check x)"
  unfolding check_def by (intro keeps_intros)

lemma keeps_case_json [keeps_intros]:
  "(v = JNull \<Longrightarrow> keeps I a) \<Longrightarrow> (\<And>x. v = JBool x \<Longrightarrow> keeps I (b x)) \<Longrightarrow> (\<And>x. v = JNum x \<Longrightarrow> keeps I (c x)) \<Longrightarrow>
   (\<And>x. v = JStr x \<Longrightarrow> keeps I (d x)) \<Longrightarrow> (\<And>x. v = JArr x \<Longrightarrow> keeps I (e x)) \<Longrightarrow> (\<And>x. v = JObj x \<Longrightarrow> keeps I (f x)) \<Longrightarrow>
   keeps I (case v of JNull \<Rightarrow> a | JBool x \<Rightarrow> b x | JNum x \<Rightarrow> c x | JStr x \<Rightarrow> d x | JArr x \<Rightarrow> e x | JObj x \<Rightarrow> f x)"
  by (cases v) simp_all

end
