(* ===== verification/Http_App.thy ===== *)
theory Http_App
  imports Http_Base
begin

text \<open>
  The routes of the HTTP control plane (\<open>http/app.ts\<close>), one definition per handler, the route table
  and the dispatch of a request (\<open>http/router.ts\<close>).  A handler's result is a status and a payload;
  the payload keeps the entities as records where the code serialises them.  The two blob routes
  stream bytes and are left out.
\<close>

section \<open>Responses\<close>

text \<open>An API key as it is returned: without its hash.\<close>

record apiKeyView =
  kv_id :: string
  kv_orgId :: string
  kv_prefix :: string
  kv_name :: string
  kv_expiresAt :: "string option"
  kv_createdAt :: string
  kv_updatedAt :: string
  kv_deletedAt :: "string option"

definition stripHash :: "apiKey \<Rightarrow> apiKeyView" where
  "stripHash k = \<lparr>kv_id = ak_id k, kv_orgId = ak_orgId k, kv_prefix = ak_prefix k, kv_name = ak_name k,
     kv_expiresAt = ak_expiresAt k, kv_createdAt = ak_createdAt k, kv_updatedAt = ak_updatedAt k,
     kv_deletedAt = ak_deletedAt k\<rparr>"

datatype payload =
    PNull
  | PHealthz string
  | PError string string
  | PProduct product
  | PProducts "product list"
  | PRelease release
  | PReleases "((string \<times> string) \<times> release) list"
  | PArtifact artifact
  | PArtifacts "artifact list"
  | PTarget target
  | PTargets "target list"
  | PDeployment deployment
  | PDeployments "deployment list"
  | PCheck healthCheck
  | PChecks "healthCheck list"
  | PScenario scenario
  | PScenarios "scenario list"
  | PEntry auditLogEntry
  | PEntries "auditLogEntry list"
  | PApiKey apiKeyView string
  | PApiKeys "apiKeyView list"
  | PRunner runner
  | PRunners "runner list"
  | PJob job
  | PClaim "job option"
  | PJobs "job list"

type_synonym response = "nat \<times> payload"

record reqContext =
  x_params :: "(string \<times> string) list"
  x_query :: "(string \<times> string list) list"
  x_body :: "json option"
  x_orgId :: string

type_synonym 'z handler = "apiEnv \<Rightarrow> reqContext \<Rightarrow> ('z, response) DB"

text \<open>\<open>ctx.params.name\<close>; the route table binds every name a handler reads.\<close>

definition param :: "reqContext \<Rightarrow> string \<Rightarrow> string" where
  "param ctx name = orElse (map_of (x_params ctx) name) []"

definition ok :: "payload \<Rightarrow> ('z, response) DB" where
  "ok p = ret (200, p)"

definition created :: "payload \<Rightarrow> ('z, response) DB" where
  "created p = ret (201, p)"

definition noContent :: "('z, response) DB" where
  "noContent = ret (204, PNull)"

definition bodyObject :: "reqContext \<Rightarrow> ('z, fields) DB" where
  "bodyObject ctx = liftE (asObject (x_body ctx) ''request body'')"

text \<open>\<open>ctx.body !== undefined ? asObject(ctx.body) : {}\<close>.\<close>

definition optionalBody :: "reqContext \<Rightarrow> ('z, fields) DB" where
  "optionalBody ctx = (if x_body ctx = None then ret [] else bodyObject ctx)"

text \<open>\<open>body.f !== undefined ? asObject(body.f, f) : undefined\<close>.\<close>

definition optionalObject :: "fields \<Rightarrow> string \<Rightarrow> ('z, json option) DB" where
  "optionalObject body f = (case map_of body f of
       None \<Rightarrow> ret None
     | Some v \<Rightarrow> bindM (liftE (asObject (Some v) f)) (\<lambda>kvs. ret (Some (JObj kvs))))"

text \<open>\<open>const x = await repo.get(id); if (!x || x.orgId !== ctx.auth.orgId) throw notFound(...)\<close>.\<close>

definition inOrg :: "string \<Rightarrow> ('r \<Rightarrow> string) \<Rightarrow> string \<Rightarrow> string \<Rightarrow> 'r option \<Rightarrow> ('z, 'r) DB" where
  "inOrg entity org orgId i found = (case found of
       None \<Rightarrow> throwM (notFound (entity @ '' not found: '' @ i))
     | Some r \<Rightarrow> if org r \<noteq> orgId then throwM (notFound (entity @ '' not found: '' @ i)) else ret r)"

definition productInOrg :: "reqContext \<Rightarrow> string \<Rightarrow> ('z, product) DB" where
  "productInOrg ctx i = bindM (product_get i) (inOrg ''product'' p_orgId (x_orgId ctx) i)"

definition releaseInOrg :: "reqContext \<Rightarrow> string \<Rightarrow> ('z, release) DB" where
  "releaseInOrg ctx i = bindM (release_get i) (inOrg ''release'' r_orgId (x_orgId ctx) i)"

definition targetInOrg :: "reqContext \<Rightarrow> string \<Rightarrow> ('z, target) DB" where
  "targetInOrg ctx i = bindM (target_get i) (inOrg ''target'' t_orgId (x_orgId ctx) i)"

definition deploymentInOrg :: "reqContext \<Rightarrow> string \<Rightarrow> ('z, deployment) DB" where
  "deploymentInOrg ctx i = bindM (deployment_get i) (inOrg ''deployment'' d_orgId (x_orgId ctx) i)"

definition jobInOrg :: "reqContext \<Rightarrow> string \<Rightarrow> ('z, job) DB" where
  "jobInOrg ctx i = bindM (job_get i) (inOrg ''job'' j_orgId (x_orgId ctx) i)"

section \<open>Products\<close>

definition getHealthz :: "'z handler" where
  "getHealthz env ctx = ok (PHealthz (v_version env))"

definition listProducts :: "'z handler" where
  "listProducts env ctx = bindM (product_listForOrg (x_orgId ctx)) (\<lambda>ps. ok (PProducts ps))"

definition postProduct :: "'z handler" where
  "postProduct env ctx =
     bindM (bodyObject ctx) (\<lambda>body.
     bindM (liftE (readString body ''name'')) (\<lambda>name.
     bindM (liftE (readString body ''repo_url'')) (\<lambda>repoUrl.
     bindM (check (validateRepoUrl repoUrl)) (\<lambda>_.
     bindM (liftE (readOptionalString body ''build_yaml_path'')) (\<lambda>buildYamlPath.
     bindM (product_create (x_orgId ctx) name repoUrl buildYamlPath) (\<lambda>product.
     created (PProduct product)))))))"

definition getProductByName :: "'z handler" where
  "getProductByName env ctx =
     bindM (product_getByName (x_orgId ctx) (param ctx ''name'')) (\<lambda>found. case found of
       None \<Rightarrow> throwM (notFound (''product not found: '' @ param ctx ''name''))
     | Some p \<Rightarrow> ok (PProduct p))"

definition getProduct :: "'z handler" where
  "getProduct env ctx = bindM (productInOrg ctx (param ctx ''id'')) (\<lambda>p. ok (PProduct p))"

definition patchProduct :: "'z handler" where
  "patchProduct env ctx =
     bindM (productInOrg ctx (param ctx ''id'')) (\<lambda>existing.
     bindM (bodyObject ctx) (\<lambda>body.
     bindM (liftE (readOptionalString body ''name'')) (\<lambda>name.
     bindM (liftE (readOptionalString body ''repo_url'')) (\<lambda>repoUrl.
     bindM (liftE (readOptionalString body ''build_yaml_path'')) (\<lambda>buildYamlPath.
     bindM (case repoUrl of None \<Rightarrow> ret () | Some u \<Rightarrow> check (validateRepoUrl u)) (\<lambda>_.
     bindM (product_update (p_id existing) name repoUrl buildYamlPath) (\<lambda>product.
     ok (PProduct product))))))))"

definition deleteProduct :: "'z handler" where
  "deleteProduct env ctx =
     bindM (productInOrg ctx (param ctx ''id'')) (\<lambda>existing.
     bindM (product_softDelete (p_id existing)) (\<lambda>_. noContent))"

section \<open>Releases and artifacts\<close>

definition releaseStatuses :: "(string \<times> releaseStatus) list" where
  "releaseStatuses = [(''building'', RBuilding), (''ready'', RReady), (''failed'', RFailed)]"

text \<open>The filter of a list route: an unknown status is refused.\<close>

definition statusFilter :: "(string \<times> 'a) list \<Rightarrow> string option \<Rightarrow> err + 'a option" where
  "statusFilter allowed s = (case s of
       None \<Rightarrow> Inr None
     | Some x \<Rightarrow> (case map_of allowed x of
         None \<Rightarrow> Inl (badRequest (''invalid status: '' @ quoted x))
       | Some v \<Rightarrow> Inr (Some v)))"

definition listReleases :: "'z handler" where
  "listReleases env ctx =
     bindM (liftE (readStringQuery (x_query ctx) ''product'')) (\<lambda>productName.
     bindM (liftE (readStringQuery (x_query ctx) ''status'')) (\<lambda>statusText.
     bindM (liftE (statusFilter releaseStatuses statusText)) (\<lambda>status.
     bindM (if truthy productName then
              bindM (product_getByName (x_orgId ctx) (the productName)) (\<lambda>p.
              ret (case p of None \<Rightarrow> [] | Some x \<Rightarrow> [x]))
            else product_listForOrg (x_orgId ctx)) (\<lambda>products.
     bindM (foldM (\<lambda>acc p. bindM (release_listForProduct (p_id p) status) (\<lambda>rs.
              ret (acc @ map (Pair (p_id p, p_name p)) rs))) [] products) (\<lambda>rs.
     ok (PReleases rs))))))"

definition postRelease :: "'z handler" where
  "postRelease env ctx =
     bindM (bodyObject ctx) (\<lambda>body.
     bindM (liftE (readString body ''product_id'')) (\<lambda>productId.
     bindM (liftE (readString body ''tag'')) (\<lambda>tag.
     bindM (check (validateGitRef tag)) (\<lambda>_.
     bindM (liftE (readString body ''commit_sha'')) (\<lambda>commitSha.
     bindM (productInOrg ctx productId) (\<lambda>product.
     bindM (release_create (x_orgId ctx) (p_id product) tag commitSha None) (\<lambda>release.
     created (PRelease release))))))))"

definition getRelease :: "'z handler" where
  "getRelease env ctx = bindM (releaseInOrg ctx (param ctx ''id'')) (\<lambda>r. ok (PRelease r))"

definition patchRelease :: "'z handler" where
  "patchRelease env ctx =
     bindM (releaseInOrg ctx (param ctx ''id'')) (\<lambda>release.
     bindM (bodyObject ctx) (\<lambda>body.
     bindM (liftE (readOptionalEnum body ''status'' releaseStatuses)) (\<lambda>status.
     bindM (liftE (readOptionalString body ''manifest_sha256'')) (\<lambda>manifestSha256.
     bindM (liftE (readOptionalString body ''signed_by'')) (\<lambda>signedBy.
     bindM (liftE (readOptionalString body ''built_at'')) (\<lambda>builtAt.
     bindM (liftE (readOptionalString body ''built_by_runner_id'')) (\<lambda>builtByRunnerId.
     bindM (liftE (readOptionalString body ''build_yaml_json'')) (\<lambda>buildYamlJson.
     bindM (release_update (r_id release)
       \<lparr>rp_manifestSha256 = manifestSha256, rp_signedBy = signedBy, rp_signatureB64 = None,
        rp_builtAt = builtAt, rp_builtByRunnerId = builtByRunnerId, rp_status = status,
        rp_buildYamlJson = buildYamlJson\<rparr>) (\<lambda>updated.
     ok (PRelease updated))))))))))"

definition deleteRelease :: "'z handler" where
  "deleteRelease env ctx =
     bindM (releaseInOrg ctx (param ctx ''id'')) (\<lambda>release.
     bindM (release_softDelete (r_id release)) (\<lambda>_. noContent))"

definition listArtifacts :: "'z handler" where
  "listArtifacts env ctx =
     bindM (releaseInOrg ctx (param ctx ''id'')) (\<lambda>release.
     bindM (artifact_listForRelease (r_id release)) (\<lambda>arts. ok (PArtifacts arts)))"

definition postArtifact :: "'z handler" where
  "postArtifact env ctx =
     bindM (releaseInOrg ctx (param ctx ''id'')) (\<lambda>release.
     bindM (bodyObject ctx) (\<lambda>body.
     bindM (liftE (readEnum body ''kind'' [(''blob'', ABlob), (''image_ref'', AImageRef)])) (\<lambda>kind.
     bindM (liftE (readString body ''component'')) (\<lambda>component.
     bindM (liftE (readOptionalString body ''sha256'')) (\<lambda>sha256.
     bindM (liftE (readOptionalInt body ''size_bytes'')) (\<lambda>sizeBytes.
     bindM (liftE (readOptionalString body ''blob_uri'')) (\<lambda>blobUri.
     bindM (liftE (readOptionalString body ''image_ref'')) (\<lambda>imageRef.
     bindM (artifact_create (r_id release) component kind sha256 sizeBytes blobUri imageRef) (\<lambda>artifact.
     created (PArtifact artifact))))))))))"

section \<open>Targets\<close>

definition listTargets :: "'z handler" where
  "listTargets env ctx = bindM (target_listForOrg (x_orgId ctx)) (\<lambda>ts. ok (PTargets ts))"

definition postTarget :: "'z handler" where
  "postTarget env ctx =
     bindM (bodyObject ctx) (\<lambda>body.
     bindM (liftE (readEnum body ''kind'' [(''vm_test'', VmTest), (''vm_demo'', VmDemo),
       (''docker_test'', DockerTest), (''docker_demo'', DockerDemo)])) (\<lambda>kind.
     bindM (case map_of body ''connection'' of
              Some (JObj kvs) \<Rightarrow> ret (JObj kvs)
            | Some (JArr vs) \<Rightarrow> ret (JArr vs)
            | _ \<Rightarrow> throwM (badRequest ''connection must be an object'')) (\<lambda>connection.
     bindM (liftE (readString body ''name'')) (\<lambda>name.
     bindM (target_create (x_orgId ctx) name kind connection) (\<lambda>target.
     created (PTarget target))))))"

definition getTargetByName :: "'z handler" where
  "getTargetByName env ctx =
     bindM (target_getByName (x_orgId ctx) (param ctx ''name'')) (\<lambda>found. case found of
       None \<Rightarrow> throwM (notFound (''target not found: '' @ param ctx ''name''))
     | Some t \<Rightarrow> ok (PTarget t))"

definition getTarget :: "'z handler" where
  "getTarget env ctx = bindM (targetInOrg ctx (param ctx ''id'')) (\<lambda>t. ok (PTarget t))"

definition deleteTarget :: "'z handler" where
  "deleteTarget env ctx =
     bindM (targetInOrg ctx (param ctx ''id'')) (\<lambda>target.
     bindM (target_softDelete (t_id target)) (\<lambda>_. noContent))"

definition listTargetDeployments :: "'z handler" where
  "listTargetDeployments env ctx =
     bindM (targetInOrg ctx (param ctx ''id'')) (\<lambda>target.
     bindM (liftE (readIntQuery (x_query ctx) ''limit'')) (\<lambda>limit.
     bindM (deployment_listForTarget (t_id target) limit) (\<lambda>ds. ok (PDeployments ds))))"

section \<open>Deployments\<close>

definition postDeployment :: "'z handler" where
  "postDeployment env ctx =
     bindM (bodyObject ctx) (\<lambda>body.
     bindM (liftE (readString body ''release_id'')) (\<lambda>releaseId.
     bindM (liftE (readString body ''target_id'')) (\<lambda>targetId.
     bindM (liftE (readOptionalString body ''previous_deployment_id'')) (\<lambda>previousDeploymentId.
     bindM (releaseInOrg ctx releaseId) (\<lambda>release.
     bindM (targetInOrg ctx targetId) (\<lambda>target.
     bindM (deployment_create (x_orgId ctx) (r_id release) (t_id target) previousDeploymentId) (\<lambda>deployment.
     created (PDeployment deployment))))))))"

definition getDeployment :: "'z handler" where
  "getDeployment env ctx = bindM (deploymentInOrg ctx (param ctx ''id'')) (\<lambda>d. ok (PDeployment d))"

definition deploymentStatuses :: "(string \<times> deploymentStatus) list" where
  "deploymentStatuses = [(''pending'', DPending), (''deploying'', DDeploying), (''active'', DActive),
     (''failed'', DFailed), (''superseded'', DSuperseded), (''rolled_back'', DRolledBack)]"

definition patchDeployment :: "'z handler" where
  "patchDeployment env ctx =
     bindM (deploymentInOrg ctx (param ctx ''id'')) (\<lambda>deployment.
     bindM (bodyObject ctx) (\<lambda>body.
     bindM (liftE (readOptionalEnum body ''status'' deploymentStatuses)) (\<lambda>status.
     bindM (liftE (readOptionalString body ''started_at'')) (\<lambda>startedAt.
     bindM (liftE (readOptionalString body ''completed_at'')) (\<lambda>completedAt.
     bindM (deployment_update (d_id deployment)
       \<lparr>dp_status = status, dp_startedAt = startedAt, dp_completedAt = completedAt,
        dp_healthSummary = map_option (v_healthSummary env) (map_of body ''health_summary'')\<rparr>) (\<lambda>updated.
     ok (PDeployment updated)))))))"

definition listHealth :: "'z handler" where
  "listHealth env ctx =
     bindM (deploymentInOrg ctx (param ctx ''id'')) (\<lambda>deployment.
     bindM (liftE (readStringQuery (x_query ctx) ''since'')) (\<lambda>since.
     bindM (liftE (readIntQuery (x_query ctx) ''limit'')) (\<lambda>limit.
     bindM (healthCheck_listForDeployment (d_id deployment) since limit) (\<lambda>cs. ok (PChecks cs)))))"

definition postHealth :: "'z handler" where
  "postHealth env ctx =
     bindM (deploymentInOrg ctx (param ctx ''id'')) (\<lambda>deployment.
     bindM (bodyObject ctx) (\<lambda>body.
     bindM (liftE (readEnum body ''status'' [(''pass'', HPass), (''fail'', HFail), (''degraded'', HDegraded)])) (\<lambda>status.
     bindM (liftE (readString body ''probe_name'')) (\<lambda>probeName.
     bindM (liftE (readOptionalInt body ''latency_ms'')) (\<lambda>latencyMs.
     bindM (liftE (readOptionalString body ''detail'')) (\<lambda>detail.
     bindM (healthCheck_append (d_id deployment) probeName status latencyMs detail) (\<lambda>chk.
     created (PCheck chk))))))))"

section \<open>Scenarios and audit log\<close>

definition listScenarios :: "'z handler" where
  "listScenarios env ctx = bindM (scenario_listForOrg (x_orgId ctx)) (\<lambda>ss. ok (PScenarios ss))"

definition getScenario :: "'z handler" where
  "getScenario env ctx =
     bindM (bindM (scenario_get (param ctx ''id'')) (inOrg ''scenario'' sc_orgId (x_orgId ctx) (param ctx ''id'')))
       (\<lambda>s. ok (PScenario s))"

definition listAudit :: "'z handler" where
  "listAudit env ctx =
     bindM (liftE (readIntQuery (x_query ctx) ''limit'')) (\<lambda>limit.
     bindM (liftE (readStringQuery (x_query ctx) ''entity_type'')) (\<lambda>entityType.
     bindM (liftE (readStringQuery (x_query ctx) ''entity_id'')) (\<lambda>entityId.
     bindM (audit_listForOrg (x_orgId ctx) limit entityType entityId) (\<lambda>es. ok (PEntries es)))))"

fun jsonTruthy :: "json \<Rightarrow> bool" where
  "jsonTruthy JNull = False"
| "jsonTruthy (JBool b) = b"
| "jsonTruthy (JNum q) = (q \<noteq> 0)"
| "jsonTruthy (JStr s) = (s \<noteq> [])"
| "jsonTruthy (JArr vs) = True"
| "jsonTruthy (JObj kvs) = True"

definition postAudit :: "'z handler" where
  "postAudit env ctx =
     bindM (bodyObject ctx) (\<lambda>body.
     bindM (liftE (readString body ''actor'')) (\<lambda>actor.
     bindM (liftE (readString body ''action'')) (\<lambda>action.
     bindM (liftE (readString body ''entity_type'')) (\<lambda>entityType.
     bindM (liftE (readString body ''entity_id'')) (\<lambda>entityId.
     bindM (audit_append (x_orgId ctx) actor action entityType entityId
       (case map_of body ''detail'' of None \<Rightarrow> None | Some v \<Rightarrow> if jsonTruthy v then Some v else None)) (\<lambda>entry.
     created (PEntry entry)))))))"

section \<open>API keys and runners\<close>

definition postApiKey :: "'z handler" where
  "postApiKey env ctx =
     bindM (bodyObject ctx) (\<lambda>body.
     let generated = generateApiKey env in
     bindM (liftE (readString body ''name'')) (\<lambda>name.
     bindM (liftE (readOptionalString body ''expires_at'')) (\<lambda>expiresAt.
     bindM (apiKey_create (x_orgId ctx) name (g_prefix generated) (g_hash generated) expiresAt) (\<lambda>k.
     created (PApiKey (stripHash k) (g_token generated))))))"

definition listApiKeys :: "'z handler" where
  "listApiKeys env ctx = bindM (apiKey_listForOrg (x_orgId ctx)) (\<lambda>ks. ok (PApiKeys (map stripHash ks)))"

definition deleteApiKey :: "'z handler" where
  "deleteApiKey env ctx =
     bindM (bindM (apiKey_get (param ctx ''id'')) (inOrg ''api key'' ak_orgId (x_orgId ctx) (param ctx ''id''))) (\<lambda>k.
     bindM (apiKey_softDelete (ak_id k)) (\<lambda>_. noContent))"

definition postHeartbeat :: "'z handler" where
  "postHeartbeat env ctx =
     bindM (bodyObject ctx) (\<lambda>body.
     bindM (liftE (readString body ''name'')) (\<lambda>name.
     bindM (case map_of body ''meta'' of
              None \<Rightarrow> ret None
            | Some JNull \<Rightarrow> ret None
            | Some v \<Rightarrow> bindM (liftE (asObject (Some v) ''meta'')) (\<lambda>kvs. ret (Some (Some (JObj kvs))))) (\<lambda>meta.
     bindM (runner_heartbeat (x_orgId ctx) name meta) (\<lambda>runner. ok (PRunner runner)))))"

definition listRunners :: "'z handler" where
  "listRunners env ctx = bindM (runner_listForOrg (x_orgId ctx)) (\<lambda>rs. ok (PRunners rs))"

definition deleteRunner :: "'z handler" where
  "deleteRunner env ctx =
     bindM (bindM (runner_get (param ctx ''id'')) (inOrg ''runner'' rr_orgId (x_orgId ctx) (param ctx ''id''))) (\<lambda>r.
     bindM (runner_softDelete (rr_id r)) (\<lambda>_. noContent))"

section \<open>Jobs\<close>

definition jobStatuses :: "(string \<times> jobStatus) list" where
  "jobStatuses = [(''pending'', JPending), (''claimed'', JClaimed), (''running'', JRunning),
     (''succeeded'', JSucceeded), (''failed'', JFailed)]"

definition postJob :: "'z handler" where
  "postJob env ctx =
     bindM (bodyObject ctx) (\<lambda>body.
     bindM (liftE (readString body ''kind'')) (\<lambda>kind.
     bindM (optionalObject body ''input'') (\<lambda>input.
     bindM (if kind = ''release.build'' then
              (case input of None \<Rightarrow> ret ()
               | Some i \<Rightarrow> (case jget i ''tag'' of Some (JStr tag) \<Rightarrow> check (validateGitRef tag) | _ \<Rightarrow> ret ()))
            else ret ()) (\<lambda>_.
     bindM (job_create (x_orgId ctx) kind input) (\<lambda>job. created (PJob job))))))"

definition listJobs :: "'z handler" where
  "listJobs env ctx =
     bindM (liftE (readIntQuery (x_query ctx) ''limit'')) (\<lambda>limit.
     bindM (liftE (readStringQuery (x_query ctx) ''status'')) (\<lambda>statusText.
     bindM (liftE (statusFilter jobStatuses statusText)) (\<lambda>status.
     bindM (job_listForOrg (x_orgId ctx) limit status) (\<lambda>js. ok (PJobs js)))))"

definition getJob :: "'z handler" where
  "getJob env ctx = bindM (jobInOrg ctx (param ctx ''id'')) (\<lambda>j. ok (PJob j))"

definition claimJob :: "'z handler" where
  "claimJob env ctx =
     bindM (optionalBody ctx) (\<lambda>body.
     bindM (liftE (readOptionalString body ''claimed_by'')) (\<lambda>claimedBy.
     bindM (job_claimNext (x_orgId ctx) (orElse claimedBy ''anonymous'')) (\<lambda>job. ok (PClaim job))))"

definition completeJob :: "'z handler" where
  "completeJob env ctx =
     bindM (jobInOrg ctx (param ctx ''id'')) (\<lambda>job.
     bindM (optionalBody ctx) (\<lambda>body.
     bindM (optionalObject body ''result'') (\<lambda>result.
     bindM nowIso (\<lambda>now.
     bindM (job_update (j_id job) \<lparr>jp_status = Some JSucceeded, jp_result = Some result, jp_error = None,
       jp_startedAt = None, jp_completedAt = Some (Some now)\<rparr>) (\<lambda>updated. ok (PJob updated))))))"

definition failJob :: "'z handler" where
  "failJob env ctx =
     bindM (jobInOrg ctx (param ctx ''id'')) (\<lambda>job.
     bindM (optionalBody ctx) (\<lambda>body.
     bindM (liftE (readString body ''error'')) (\<lambda>error.
     bindM nowIso (\<lambda>now.
     bindM (job_update (j_id job) \<lparr>jp_status = Some JFailed, jp_result = None, jp_error = Some (Some error),
       jp_startedAt = None, jp_completedAt = Some (Some now)\<rparr>) (\<lambda>updated. ok (PJob updated))))))"

definition patchJob :: "'z handler" where
  "patchJob env ctx =
     bindM (jobInOrg ctx (param ctx ''id'')) (\<lambda>job.
     bindM (bodyObject ctx) (\<lambda>body.
     bindM (liftE (readOptionalEnum body ''status'' jobStatuses)) (\<lambda>status.
     bindM (liftE (readOptionalString body ''started_at'')) (\<lambda>startedAt.
     bindM (liftE (readOptionalString body ''completed_at'')) (\<lambda>completedAt.
     bindM (liftE (readOptionalString body ''error'')) (\<lambda>error.
     bindM (case map_of body ''result'' of
              None \<Rightarrow> ret None
            | Some JNull \<Rightarrow> ret (Some None)
            | Some v \<Rightarrow> bindM (liftE (asObject (Some v) ''result'')) (\<lambda>kvs. ret (Some (Some (JObj kvs))))) (\<lambda>result.
     bindM (job_update (j_id job) \<lparr>jp_status = status, jp_result = result, jp_error = map_option Some error,
       jp_startedAt = map_option Some startedAt, jp_completedAt = map_option Some completedAt\<rparr>) (\<lambda>updated.
     ok (PJob updated)))))))))"

section \<open>Routing\<close>

text \<open>
  \<open>Router.route\<close> turns a path pattern into \<open>^...$\<close> with \<open>([^/]+)\<close> for each \<open>:name\<close>; every pattern of the
  table has its names as whole segments, so a path matches segment by segment.
\<close>

fun matchSegments :: "string list \<Rightarrow> string list \<Rightarrow> (string \<times> string) list option" where
  "matchSegments [] [] = Some []"
| "matchSegments (p # ps) (s # ss) =
     (if startsWith p '':'' then
        (if s = [] then None else map_option (Cons (drop 1 p, s)) (matchSegments ps ss))
      else if p = s then matchSegments ps ss else None)"
| "matchSegments _ _ = None"

definition matchPath :: "string \<Rightarrow> string \<Rightarrow> (string \<times> string) list option" where
  "matchPath pat path = matchSegments (split_on CHR ''/'' pat) (split_on CHR ''/'' path)"

type_synonym 'z route = "httpMethod \<times> string \<times> 'z handler"

definition routes :: "'z route list" where
  "routes =
     [(GET, ''/v1/healthz'', getHealthz),
      (GET, ''/v1/products'', listProducts), (POST, ''/v1/products'', postProduct),
      (GET, ''/v1/products/by-name/:name'', getProductByName), (GET, ''/v1/products/:id'', getProduct),
      (PATCH, ''/v1/products/:id'', patchProduct), (DELETE, ''/v1/products/:id'', deleteProduct),
      (GET, ''/v1/releases'', listReleases), (POST, ''/v1/releases'', postRelease),
      (GET, ''/v1/releases/:id'', getRelease), (PATCH, ''/v1/releases/:id'', patchRelease),
      (DELETE, ''/v1/releases/:id'', deleteRelease),
      (GET, ''/v1/releases/:id/artifacts'', listArtifacts), (POST, ''/v1/releases/:id/artifacts'', postArtifact),
      (GET, ''/v1/targets'', listTargets), (POST, ''/v1/targets'', postTarget),
      (GET, ''/v1/targets/by-name/:name'', getTargetByName), (GET, ''/v1/targets/:id'', getTarget),
      (DELETE, ''/v1/targets/:id'', deleteTarget), (GET, ''/v1/targets/:id/deployments'', listTargetDeployments),
      (POST, ''/v1/deployments'', postDeployment), (GET, ''/v1/deployments/:id'', getDeployment),
      (PATCH, ''/v1/deployments/:id'', patchDeployment), (GET, ''/v1/deployments/:id/health'', listHealth),
      (POST, ''/v1/deployments/:id/health'', postHealth),
      (GET, ''/v1/scenarios'', listScenarios), (GET, ''/v1/scenarios/:id'', getScenario),
      (GET, ''/v1/audit'', listAudit), (POST, ''/v1/audit'', postAudit),
      (POST, ''/v1/api-keys'', postApiKey), (GET, ''/v1/api-keys'', listApiKeys),
      (DELETE, ''/v1/api-keys/:id'', deleteApiKey),
      (POST, ''/v1/runners/heartbeat'', postHeartbeat), (GET, ''/v1/runners'', listRunners),
      (DELETE, ''/v1/runners/:id'', deleteRunner),
      (POST, ''/v1/jobs'', postJob), (GET, ''/v1/jobs'', listJobs), (GET, ''/v1/jobs/:id'', getJob),
      (POST, ''/v1/jobs/claim'', claimJob), (POST, ''/v1/jobs/:id/complete'', completeJob),
      (POST, ''/v1/jobs/:id/fail'', failJob), (PATCH, ''/v1/jobs/:id'', patchJob)]"

fun findRoute :: "'z route list \<Rightarrow> httpMethod \<Rightarrow> string \<Rightarrow> ('z handler \<times> (string \<times> string) list) option" where
  "findRoute [] m path = None"
| "findRoute ((m', pat, h) # rs) m path =
     (if m' \<noteq> m then findRoute rs m path
      else case matchPath pat path of None \<Rightarrow> findRoute rs m path | Some caps \<Rightarrow> Some (h, caps))"

fun decodeParams :: "(string \<times> string) list \<Rightarrow> err + (string \<times> string) list" where
  "decodeParams [] = Inr []"
| "decodeParams ((name, raw) # ps) =
     (case decodeURIComponent raw of
        None \<Rightarrow> Inl (NamedError ''URIError'' ''URI malformed'')
      | Some v \<Rightarrow> (case decodeParams ps of Inl e \<Rightarrow> Inl e | Inr vs \<Rightarrow> Inr ((name, v) # vs)))"

fun method_text :: "httpMethod \<Rightarrow> string" where
  "method_text GET = ''GET''" | "method_text POST = ''POST''"
| "method_text PATCH = ''PATCH''" | "method_text DELETE = ''DELETE''"

definition publicPath :: "string \<Rightarrow> bool" where
  "publicPath path \<longleftrightarrow> path = ''/v1/healthz''"

text \<open>\<open>Router.handle\<close>: the organisation a handler sees is the authenticated one, empty on a public path.\<close>

definition routeRequest :: "apiEnv \<Rightarrow> request \<Rightarrow> ('z, response) DB" where
  "routeRequest env rq =
     (case findRoute routes (rq_method rq) (rq_path rq) of
        None \<Rightarrow> ret (404, PError ''not_found'' (''no route for '' @ method_text (rq_method rq) @ '' '' @ rq_path rq))
      | Some (h, caps) \<Rightarrow>
          bindM (liftE (decodeParams caps)) (\<lambda>params.
          bindM (liftE (rq_body rq)) (\<lambda>body.
          bindM (if publicPath (rq_path rq) then ret \<lparr>a_orgId = [], a_apiKeyId = None\<rparr>
                 else authenticate env rq) (\<lambda>auth.
          h env \<lparr>x_params = params, x_query = rq_query rq, x_body = body, x_orgId = a_orgId auth\<rparr>))))"

text \<open>\<open>Router.listener\<close>: a thrown value becomes an error response; the effects made so far stay.\<close>

definition listener :: "apiEnv \<Rightarrow> request \<Rightarrow> 'z world_scheme \<Rightarrow> response \<times> 'z world_scheme" where
  "listener env rq w = (case routeRequest env rq w of
       (Inr r, w') \<Rightarrow> (r, w')
     | (Inl e, w') \<Rightarrow> (let (status, code, m) = mapError e in (status, PError code m), w'))"

lemmas handler_defs =
  getHealthz_def listProducts_def postProduct_def getProductByName_def getProduct_def patchProduct_def
  deleteProduct_def listReleases_def postRelease_def getRelease_def patchRelease_def deleteRelease_def
  listArtifacts_def postArtifact_def listTargets_def postTarget_def getTargetByName_def getTarget_def
  deleteTarget_def listTargetDeployments_def postDeployment_def getDeployment_def patchDeployment_def
  listHealth_def postHealth_def listScenarios_def getScenario_def listAudit_def postAudit_def
  postApiKey_def listApiKeys_def deleteApiKey_def postHeartbeat_def listRunners_def deleteRunner_def
  postJob_def listJobs_def getJob_def claimJob_def completeJob_def failJob_def patchJob_def

lemma findRoute_Some: "findRoute rs m path = Some (h, caps) \<Longrightarrow> \<exists>pat. (m, pat, h) \<in> set rs"
  by (induction rs m path rule: findRoute.induct) (auto split: if_splits option.splits)

lemma routes_Some: "findRoute routes m path = Some (h, caps) \<Longrightarrow> h \<in> snd ` snd ` set routes"
  by (drule findRoute_Some) force

end
