(* ===== verification/Http_Isolation.thy ===== *)
theory Http_Isolation
  imports Http_App
begin

text \<open>
  Tenant isolation of the HTTP control plane: a request authenticated for one organisation leaves
  the rows of every other organisation as they are.  Proved from an interface of tables whose rows
  have an owner: what is not owned is a view of the world that the operations keep, provided
  they touch owned rows only.
\<close>

section \<open>Tables with owners\<close>

lemma filter_owned_update:
  assumes "\<And>r. r \<in> set t \<Longrightarrow> p r \<Longrightarrow> own r" and "\<And>r. r \<in> set t \<Longrightarrow> p r \<Longrightarrow> own (f r)"
  shows "filter (\<lambda>r. \<not> own r) (map (\<lambda>r. if p r then f r else r) t) = filter (\<lambda>r. \<not> own r) t"
  using assms by (induction t) auto

locale tenant_table = table get upd chk rid
  for get :: "'z world_scheme \<Rightarrow> 'r list" and upd and chk and rid :: "'r \<Rightarrow> string" +
  fixes own :: "'r \<Rightarrow> bool" and view :: "'z world_scheme \<Rightarrow> 'v"
  assumes view_env: "view (w\<lparr>stmtN := n\<rparr>) = view w" "view (w\<lparr>ulidN := n\<rparr>) = view w" "view (w\<lparr>clockN := n\<rparr>) = view w"
    and view_upd: "filter (\<lambda>r. \<not> own r) t = filter (\<lambda>r. \<not> own r) (get w) \<Longrightarrow> view (upd (\<lambda>_. t) w) = view w"
begin

lemma nowIso_view: "keeps (\<lambda>w. view w = X) nowIso"
  by (simp add: keeps_def nowIso_run view_env)

lemma newId_view: "keeps (\<lambda>w. view w = X) newId"
  by (simp add: keeps_def newId_def view_env)

lemma insertInto_view: "own r \<Longrightarrow> keeps (\<lambda>w. view w = X) (insertInto get upd chk r)"
  by (auto simp: keeps_def insertInto_def stmt_def constrained_def view_env get_env view_upd split: option.splits)

lemma createRow_view: "(\<And>now i. own (mk now i)) \<Longrightarrow> keeps (\<lambda>w. view w = X) (createRow get upd chk mk)"
  unfolding createRow_def mappingErrors_def
  by (intro keeps_intros nowIso_view newId_view insertInto_view)

lemma updateWhere_view:
  assumes "\<And>r. r \<in> set (get w) \<Longrightarrow> p r \<Longrightarrow> own r" and "\<And>r. own r \<Longrightarrow> own (f r)"
  shows "view (snd (updateWhere get upd chk p f w)) = view w"
proof -
  have "filter (\<lambda>r. \<not> own r) (map (\<lambda>r. if p r then f r else r) (get w)) = filter (\<lambda>r. \<not> own r) (get w)"
    using assms by (intro filter_owned_update) auto
  then show ?thesis
    by (auto simp: updateWhere_def stmt_def constrained_def view_env get_env view_upd split: option.splits)
qed

text \<open>Reading a row by its id tells who owns every row with that id.\<close>

lemma getLive_owned:
  "triple (\<lambda>w. db_ok w \<and> view w = X) (getLive get rid del i)
     (\<lambda>x w. (db_ok w \<and> view w = X) \<and> (\<forall>r. x = Some r \<longrightarrow> rid r = i \<and> r \<in> set (get w) \<and>
        (own r \<longrightarrow> (\<forall>r' \<in> set (get w). rid r' = i \<longrightarrow> own r')))) (\<lambda>_ w. db_ok w \<and> view w = X)"
  unfolding triple_def
proof (intro allI impI)
  fix w assume w: "db_ok w \<and> view w = X"
  have "db_ok (snd (getLive get rid del i w))" using w by (intro keepsD [OF keeps_getLive]) simp
  then show "case getLive get rid del i w of
      (Inr x, w') \<Rightarrow> (db_ok w' \<and> view w' = X) \<and> (\<forall>r. x = Some r \<longrightarrow> rid r = i \<and> r \<in> set (get w') \<and>
        (own r \<longrightarrow> (\<forall>r' \<in> set (get w'). rid r' = i \<longrightarrow> own r')))
    | (Inl e, w') \<Rightarrow> db_ok w' \<and> view w' = X"
    using w key_unique [of w]
    by (auto simp: getLive_def selectOne_def stmt_def readM_def view_env get_env dest!: find_Some_D split: option.splits)
qed

lemma updateWhere_owned:
  assumes "\<And>r. own r \<Longrightarrow> own (f r)" and "\<And>r. p r \<Longrightarrow> rid r = i"
  shows "triple (\<lambda>w. view w = X \<and> (\<forall>r \<in> set (get w). rid r = i \<longrightarrow> own r))
    (updateWhere get upd chk p f) (\<lambda>_ w. view w = X) (\<lambda>_ w. view w = X)"
  unfolding triple_def
proof (intro allI impI)
  fix w assume "view w = X \<and> (\<forall>r \<in> set (get w). rid r = i \<longrightarrow> own r)"
  then have "view (snd (updateWhere get upd chk p f w)) = X"
    using assms by (subst updateWhere_view) auto
  then show "case updateWhere get upd chk p f w of (Inr x, w') \<Rightarrow> view w' = X | (Inl e, w') \<Rightarrow> view w' = X"
    by (auto split: prod.splits sum.splits)
qed

lemma getLive_reads:
  "triple (\<lambda>w. view w = X \<and> (\<forall>r \<in> set (get w). rid r = i \<longrightarrow> own r)) (getLive get rid del i)
     (\<lambda>x w. (view w = X \<and> (\<forall>r \<in> set (get w). rid r = i \<longrightarrow> own r)) \<and> (\<forall>r. x = Some r \<longrightarrow> rid r = i)) (\<lambda>_ w. view w = X)"
  by (auto simp: triple_def getLive_def selectOne_def stmt_def readM_def view_env get_env dest!: find_Some_D
      split: option.splits prod.splits sum.splits)

lemma nowIso_owned:
  "keeps (\<lambda>w. view w = X \<and> (\<forall>r \<in> set (get w). rid r = i \<longrightarrow> own r)) nowIso"
  by (simp add: keeps_def nowIso_run view_env get_env)

lemma patchRow_view:
  assumes "\<And>now ex r. own r \<Longrightarrow> own (f now ex r)"
  shows "triple (\<lambda>w. view w = X \<and> (\<forall>r \<in> set (get w). rid r = i \<longrightarrow> own r))
    (patchRow get upd chk rid del entity i f) (\<lambda>_ w. view w = X) (\<lambda>_ w. view w = X)"
  unfolding patchRow_def mappingErrors_def
  apply (rule triple_bindM [OF getLive_reads], rule triple_pure)
  apply (rule triple_option, rule triple_throw, simp)
  apply (rule triple_step [OF nowIso_owned], simp)
  apply (rule triple_bindM)
   apply (rule triple_catchM [OF updateWhere_owned [where i = i]])
     apply (use assms in blast, simp)
   apply (rule triple_throw, assumption)
  by (rule triple_return)

lemma softDeleteRow_view:
  assumes "\<And>now r. own r \<Longrightarrow> own (mark now r)"
  shows "triple (\<lambda>w. view w = X \<and> (\<forall>r \<in> set (get w). rid r = i \<longrightarrow> own r))
    (softDeleteRow get upd chk rid del mark entity i) (\<lambda>_ w. view w = X) (\<lambda>_ w. view w = X)"
  unfolding softDeleteRow_def
  apply (rule triple_step [OF nowIso_owned], simp)
  apply (rule triple_bindM [OF updateWhere_owned [where i = i]])
    apply (use assms in blast, simp)
  apply (rule triple_if)
  by (rule triple_throw triple_return, assumption)+

text \<open>The ownership check of a handler: afterwards every row with the returned row's id is owned.\<close>

lemma getLive_inOrg:
  assumes "\<And>r. own r \<longleftrightarrow> org r = o'"
  shows "triple (\<lambda>w. db_ok w \<and> view w = X) (bindM (getLive get rid del i) (inOrg entity org o' i))
    (\<lambda>r w. view w = X \<and> (\<forall>r' \<in> set (get w). rid r' = rid r \<longrightarrow> own r')) (\<lambda>_ w. view w = X)"
  unfolding triple_def
proof (intro allI impI)
  fix w assume w: "db_ok w \<and> view w = X"
  show "case bindM (getLive get rid del i) (inOrg entity org o' i) w of
      (Inr r, w') \<Rightarrow> view w' = X \<and> (\<forall>r' \<in> set (get w'). rid r' = rid r \<longrightarrow> own r') | (Inl e, w') \<Rightarrow> view w' = X"
    by (rule tripleD [OF getLive_owned w, of del i])
      (auto simp: bindM_def inOrg_def throwM_def ret_def assms split: option.splits)
qed

end

section \<open>What belongs to other organisations\<close>

text \<open>
  The rows outside organisation \<open>o\<close>: those with another organisation in their \<open>orgId\<close>, the artifacts
  of such a release and the health checks of such a deployment.  The tables no route writes are
  taken whole; the list of organisations itself is left out.
\<close>

definition foreign :: "string \<Rightarrow> 'z world_scheme \<Rightarrow> world" where
  "foreign o' w =
     (let rs = filter (\<lambda>r. r_orgId r \<noteq> o') (releases w); ds = filter (\<lambda>r. d_orgId r \<noteq> o') (deployments w) in
      \<lparr>ulids = ulids w, clocks = clocks w, faults = faults w, violationMsg = violationMsg w,
       ulidN = 0, clockN = 0, stmtN = 0, orgs = [],
       apiKeys = filter (\<lambda>r. ak_orgId r \<noteq> o') (apiKeys w),
       products = filter (\<lambda>r. p_orgId r \<noteq> o') (products w),
       releases = rs,
       artifacts = filter (\<lambda>a. af_releaseId a \<in> r_id ` set rs) (artifacts w),
       auditLog = filter (\<lambda>r. al_orgId r \<noteq> o') (auditLog w),
       targets = filter (\<lambda>r. t_orgId r \<noteq> o') (targets w),
       deployments = ds,
       healthChecks = filter (\<lambda>c. hc_deploymentId c \<in> d_id ` set ds) (healthChecks w),
       scenarios = scenarios w, runs = runs w,
       jobs = filter (\<lambda>r. j_orgId r \<noteq> o') (jobs w),
       cloudBudgets = cloudBudgets w, cloudUsage = cloudUsage w, cloudCredentials = cloudCredentials w,
       healthSchedules = healthSchedules w, webhookSubscriptions = webhookSubscriptions w,
       promotionPolicies = promotionPolicies w, approvals = approvals w,
       runners = filter (\<lambda>r. rr_orgId r \<noteq> o') (runners w),
       signingProviderKeys = signingProviderKeys w, signingNonces = signingNonces w\<rparr>)"

lemma foreign_env [simp]:
  "foreign o' (w\<lparr>stmtN := n\<rparr>) = foreign o' w" "foreign o' (w\<lparr>ulidN := n\<rparr>) = foreign o' w"
  "foreign o' (w\<lparr>clockN := n\<rparr>) = foreign o' w" "foreign o' (orgs_update f w) = foreign o' w"
  "foreign o' (world.more_update g w) = foreign o' w"
  by (simp_all add: foreign_def)

interpretation ft_products: tenant_table products products_update products_chk p_id "\<lambda>r. p_orgId r = o'" "foreign o'" for o'
  by unfold_locales (simp_all add: foreign_def Let_def)

interpretation ft_releases: tenant_table releases releases_update releases_chk r_id "\<lambda>r. r_orgId r = o'" "foreign o'" for o'
  by unfold_locales (simp_all add: foreign_def Let_def)

interpretation ft_targets: tenant_table targets targets_update targets_chk t_id "\<lambda>r. t_orgId r = o'" "foreign o'" for o'
  by unfold_locales (simp_all add: foreign_def Let_def)

interpretation ft_deployments: tenant_table deployments deployments_update deployments_chk d_id "\<lambda>r. d_orgId r = o'" "foreign o'" for o'
  by unfold_locales (simp_all add: foreign_def Let_def)

interpretation ft_auditLog: tenant_table auditLog auditLog_update auditLog_chk al_id "\<lambda>r. al_orgId r = o'" "foreign o'" for o'
  by unfold_locales (simp_all add: foreign_def Let_def)

interpretation ft_apiKeys: tenant_table apiKeys apiKeys_update apiKeys_chk ak_id "\<lambda>r. ak_orgId r = o'" "foreign o'" for o'
  by unfold_locales (simp_all add: foreign_def Let_def)

interpretation ft_runners: tenant_table runners runners_update runners_chk rr_id "\<lambda>r. rr_orgId r = o'" "foreign o'" for o'
  by unfold_locales (simp_all add: foreign_def Let_def)

interpretation ft_jobs: tenant_table jobs jobs_update jobs_chk j_id "\<lambda>r. j_orgId r = o'" "foreign o'" for o'
  by unfold_locales (simp_all add: foreign_def Let_def)

section \<open>Handlers\<close>

definition confined :: "string \<Rightarrow> ('z, 'a) DB \<Rightarrow> bool" where
  "confined o' m \<longleftrightarrow> (\<forall>w. db_ok w \<longrightarrow> foreign o' (snd (m w)) = foreign o' w)"

lemma confined_keeps: "(\<And>X. keeps (\<lambda>w. foreign o' w = X) m) \<Longrightarrow> confined o' m"
  by (simp add: confined_def keeps_def)

lemma confined_triple:
  assumes "\<And>X. triple (\<lambda>w. db_ok w \<and> foreign o' w = X) m (\<lambda>_ w. foreign o' w = X) (\<lambda>_ w. foreign o' w = X)"
  shows "confined o' m"
  unfolding confined_def
proof (intro allI impI)
  fix w :: "'a world_scheme" assume "db_ok w"
  with assms [of "foreign o' w"] show "foreign o' (snd (m w)) = foreign o' w"
    by (rule_tac tripleD [of "\<lambda>w'. db_ok w' \<and> foreign o' w' = foreign o' w" m _ _ w]) auto
qed

lemma iso_stmt: "(\<And>w. foreign o' (snd (m w)) = foreign o' w) \<Longrightarrow> keeps (\<lambda>w. foreign o' w = X) (stmt m)"
  by (auto simp: keeps_def stmt_def split: option.splits)

lemma iso_select [keeps_intros]:
  "keeps (\<lambda>w. foreign o' w = X) (selectOne get p)" "keeps (\<lambda>w. foreign o' w = X) (selectAll get p ord)"
  unfolding selectOne_def selectAll_def by (intro iso_stmt; simp add: readM_def)+

lemma iso_getLive [keeps_intros]: "keeps (\<lambda>w. foreign o' w = X) (getLive get rid del i)"
  unfolding getLive_def by (intro keeps_intros)

lemma iso_env [keeps_intros]:
  "keeps (\<lambda>w. foreign o' w = X) nowIso" "keeps (\<lambda>w. foreign o' w = X) dateNow" "keeps (\<lambda>w. foreign o' w = X) newId"
  by (simp_all add: keeps_def nowIso_run newId_def dateNow_def)

lemma iso_inOrg [keeps_intros]: "keeps I (inOrg entity org o' i x)"
  unfolding inOrg_def by (intro keeps_intros)

lemmas reader_defs = ok_def created_def noContent_def bodyObject_def optionalBody_def optionalObject_def
lemmas inOrg_defs = productInOrg_def releaseInOrg_def targetInOrg_def deploymentInOrg_def jobInOrg_def
lemmas get_defs = product_get_def product_getByName_def product_listForOrg_def release_get_def
  release_listForProduct_def artifact_listForRelease_def target_get_def target_getByName_def target_listForOrg_def
  deployment_get_def deployment_listForTarget_def healthCheck_listForDeployment_def scenario_get_def
  scenario_listForOrg_def audit_listForOrg_def apiKey_get_def apiKey_listForOrg_def runner_get_def
  runner_listForOrg_def job_get_def job_listForOrg_def

text \<open>Routes that only read, and routes that only create a row of the caller's organisation.\<close>

lemma iso_readers:
  "confined o' (getHealthz env ctx)" "confined o' (listProducts env ctx)" "confined o' (getProductByName env ctx)"
  "confined o' (getProduct env ctx)" "confined o' (listReleases env ctx)" "confined o' (getRelease env ctx)"
  "confined o' (listArtifacts env ctx)" "confined o' (listTargets env ctx)" "confined o' (getTargetByName env ctx)"
  "confined o' (getTarget env ctx)" "confined o' (listTargetDeployments env ctx)" "confined o' (getDeployment env ctx)"
  "confined o' (listHealth env ctx)" "confined o' (listScenarios env ctx)" "confined o' (getScenario env ctx)"
  "confined o' (listAudit env ctx)" "confined o' (listApiKeys env ctx)" "confined o' (listRunners env ctx)"
  "confined o' (listJobs env ctx)" "confined o' (getJob env ctx)"
  unfolding handler_defs reader_defs inOrg_defs get_defs Let_def
  by (intro confined_keeps keeps_intros)+

lemma iso_creates [keeps_intros]:
  "keeps (\<lambda>w. foreign o' w = X) (product_create o' name url path)"
  "keeps (\<lambda>w. foreign o' w = X) (release_create o' pid tag sha st)"
  "keeps (\<lambda>w. foreign o' w = X) (target_create o' name kind conn)"
  "keeps (\<lambda>w. foreign o' w = X) (deployment_create o' rel t prev)"
  "keeps (\<lambda>w. foreign o' w = X) (audit_append o' actor action ty i detail)"
  "keeps (\<lambda>w. foreign o' w = X) (apiKey_create o' name pre h ex)"
  "keeps (\<lambda>w. foreign o' w = X) (job_create o' jobKind input)"
  unfolding product_create_def release_create_def target_create_def deployment_create_def audit_append_def
    apiKey_create_def job_create_def
  by (simp_all add: ft_products.createRow_view ft_releases.createRow_view ft_targets.createRow_view
      ft_deployments.createRow_view ft_auditLog.createRow_view ft_apiKeys.createRow_view ft_jobs.createRow_view)

lemma iso_creators:
  assumes "x_orgId ctx = o'"
  shows "confined o' (postProduct env ctx)" "confined o' (postRelease env ctx)" "confined o' (postTarget env ctx)"
    "confined o' (postDeployment env ctx)" "confined o' (postAudit env ctx)" "confined o' (postApiKey env ctx)"
    "confined o' (postJob env ctx)"
  unfolding handler_defs reader_defs inOrg_defs get_defs Let_def assms
  by (intro confined_keeps keeps_intros)+

text \<open>Routes that change a row they have checked.\<close>

lemmas ft_inOrg =
  ft_products.getLive_inOrg [OF refl] ft_releases.getLive_inOrg [OF refl] ft_targets.getLive_inOrg [OF refl]
  ft_deployments.getLive_inOrg [OF refl] ft_jobs.getLive_inOrg [OF refl] ft_apiKeys.getLive_inOrg [OF refl]
  ft_runners.getLive_inOrg [OF refl]

lemma triple_forget: "triple P m (\<lambda>_ w. Q w) (\<lambda>_ w. Q w) \<Longrightarrow> triple P (bindM m (\<lambda>x. ret (f x))) (\<lambda>_ w. Q w) (\<lambda>_ w. Q w)"
  by (erule triple_bindM) (rule triple_return)

lemma iso_deletes:
  assumes "x_orgId ctx = o'"
  shows "confined o' (deleteProduct env ctx)" "confined o' (deleteRelease env ctx)" "confined o' (deleteTarget env ctx)"
    "confined o' (deleteApiKey env ctx)" "confined o' (deleteRunner env ctx)"
  unfolding handler_defs reader_defs inOrg_defs get_defs assms product_softDelete_def release_softDelete_def
    target_softDelete_def apiKey_softDelete_def runner_softDelete_def
  by (rule confined_triple, rule triple_bindM [OF ft_inOrg(1)], rule triple_forget [OF ft_products.softDeleteRow_view], simp)
    (rule confined_triple, rule triple_bindM [OF ft_inOrg(2)], rule triple_forget [OF ft_releases.softDeleteRow_view], simp,
     rule confined_triple, rule triple_bindM [OF ft_inOrg(3)], rule triple_forget [OF ft_targets.softDeleteRow_view], simp,
     rule confined_triple, rule triple_bindM [OF ft_inOrg(6)], rule triple_forget [OF ft_apiKeys.softDeleteRow_view], simp,
     rule confined_triple, rule triple_bindM [OF ft_inOrg(7)], rule triple_forget [OF ft_runners.softDeleteRow_view], simp)

lemma iso_patchProduct:
  assumes "x_orgId ctx = o'"
  shows "confined o' (patchProduct env ctx)"
  unfolding handler_defs reader_defs inOrg_defs get_defs assms product_update_def
  apply (rule confined_triple, rule triple_bindM [OF ft_inOrg(1)])
  apply (rule triple_step, (intro keeps_intros; fail), simp)+
  by (rule triple_forget [OF ft_products.patchRow_view]) simp

lemma iso_patchRelease:
  assumes "x_orgId ctx = o'"
  shows "confined o' (patchRelease env ctx)"
  unfolding handler_defs reader_defs inOrg_defs get_defs assms release_update_def
  apply (rule confined_triple, rule triple_bindM [OF ft_inOrg(2)])
  apply (rule triple_step, (intro keeps_intros; fail), simp)+
  by (rule triple_forget [OF ft_releases.patchRow_view]) simp

lemma iso_patchDeployment:
  assumes "x_orgId ctx = o'"
  shows "confined o' (patchDeployment env ctx)"
  unfolding handler_defs reader_defs inOrg_defs get_defs assms deployment_update_def
  apply (rule confined_triple, rule triple_bindM [OF ft_inOrg(4)])
  apply (rule triple_step, (intro keeps_intros; fail), simp)+
  by (rule triple_forget [OF ft_deployments.patchRow_view]) (simp add: deployment_patch_def)

lemma iso_jobs:
  assumes "x_orgId ctx = o'"
  shows "confined o' (completeJob env ctx)" "confined o' (failJob env ctx)" "confined o' (patchJob env ctx)"
  unfolding handler_defs reader_defs inOrg_defs get_defs assms job_update_def
    apply (rule_tac [!] confined_triple, rule_tac [!] triple_bindM [OF ft_inOrg(5)])
    apply (rule triple_step, (intro keeps_intros ft_jobs.nowIso_owned; fail), simp)+
    apply (rule triple_forget [OF ft_jobs.patchRow_view], simp add: job_patch_def)
   apply (rule triple_step, (intro keeps_intros ft_jobs.nowIso_owned; fail), simp)+
   apply (rule triple_forget [OF ft_jobs.patchRow_view], simp add: job_patch_def)
  apply (rule triple_step, (intro keeps_intros; fail), simp)+
  by (rule triple_forget [OF ft_jobs.patchRow_view], simp add: job_patch_def)

text \<open>Rows selected by organisation are owned, and so is every row with the same id.\<close>

context tenant_table
begin

lemma selectAll_owned:
  assumes "\<And>r. p r \<Longrightarrow> own r" and "\<And>t. set (ord t) \<subseteq> set t"
  shows "triple (\<lambda>w. db_ok w \<and> view w = X) (selectAll get p ord)
    (\<lambda>rows w. view w = X \<and> (\<forall>x \<in> set rows. \<forall>r \<in> set (get w). rid r = rid x \<longrightarrow> own r)) (\<lambda>_ w. view w = X)"
  unfolding triple_def
proof (intro allI impI)
  fix w assume w: "db_ok w \<and> view w = X"
  have "own r" if "x \<in> set (ord (filter p (get w)))" "r \<in> set (get w)" "rid r = rid x" for x r
  proof -
    have "x \<in> set (get w)" "p x" using that(1) assms(2) [of "filter p (get w)"] by auto
    then show ?thesis using key_unique [of w x r] that w assms(1) by auto
  qed
  then show "case selectAll get p ord w of
      (Inr rows, w') \<Rightarrow> view w' = X \<and> (\<forall>x \<in> set rows. \<forall>r \<in> set (get w'). rid r = rid x \<longrightarrow> own r) | (Inl e, w') \<Rightarrow> view w' = X"
    using w by (auto simp: selectAll_def stmt_def readM_def view_env get_env split: option.splits)
qed

end

lemma set_limitTo: "set (limitTo n t) \<subseteq> set t"
  by (auto simp: limitTo_def dest: in_set_takeD)

lemma firstRow_mem: "firstRow rows = Some x \<Longrightarrow> x \<in> set rows"
  by (auto simp: firstRow_def split: list.splits)

lemma iso_ok_nowIso: "keeps (\<lambda>w. db_ok w \<and> foreign o' w = X) nowIso"
  by (intro keeps_conj keeps_intros)

lemma iso_heartbeat:
  "triple (\<lambda>w. db_ok w \<and> foreign o' w = X) (runner_heartbeat o' name meta)
     (\<lambda>_ w. foreign o' w = X) (\<lambda>_ w. foreign o' w = X)"
proof -
  let ?I = "\<lambda>w. foreign o' w = X"
  have upd: "triple (\<lambda>w. ?I w \<and> (\<forall>x \<in> set rows. \<forall>r \<in> set (runners w). rr_id r = rr_id x \<longrightarrow> rr_orgId r = o'))
      (bindM (updateWhere runners runners_update runners_chk (\<lambda>r. rr_id r = rr_id ex) f) (\<lambda>_. ret y)) (\<lambda>_. ?I) (\<lambda>_. ?I)"
    if "firstRow rows = Some ex" "\<And>r. rr_orgId (f r) = rr_orgId r" for rows ex f and y :: runner
    apply (rule triple_forget, rule triple_weaken [OF ft_runners.updateWhere_owned [where i = "rr_id ex"]])
    using that firstRow_mem [OF that(1)] by auto
  have ins: "triple ?I (bindM (mappingErrors (insertInto runners runners_update runners_chk row)) (\<lambda>_. ret row)) (\<lambda>_. ?I) (\<lambda>_. ?I)"
    if "rr_orgId row = o'" for row
    unfolding mappingErrors_def using that by (intro triple_keeps keeps_intros ft_runners.insertInto_view)
  have nid: "triple (\<lambda>w. ?I w \<and> P w) newId (\<lambda>_. ?I) (\<lambda>_. ?I)" for P
    by (simp add: triple_def newId_def)
  show ?thesis
    unfolding runner_heartbeat_def Let_def
    apply (rule triple_step [OF iso_ok_nowIso], simp)
    apply (rule triple_bindM [OF ft_runners.selectAll_owned])
      apply simp
     apply (use set_limitTo in \<open>fastforce simp: orderByDesc_def\<close>)
    apply (rule triple_option)
     apply (rule triple_bindM [OF nid], rule ins, simp)
    apply (rule triple_if; rule upd, assumption, simp)
    done
qed

text \<open>Claiming runs in a transaction; a rollback puts every table back.\<close>

lemma iso_runInTransaction:
  assumes "triple (\<lambda>w. db_ok w \<and> foreign o' w = X) fn (\<lambda>_ w. foreign o' w = X) (\<lambda>_ w. foreign o' w = X)"
  shows "triple (\<lambda>w. db_ok w \<and> foreign o' w = X) (runInTransaction fn) (\<lambda>_ w. foreign o' w = X) (\<lambda>_ w. foreign o' w = X)"
proof -
  let ?P = "\<lambda>w. db_ok w \<and> foreign o' w = X" and ?I = "\<lambda>w. foreign o' w = X"
  have start: "keeps ?P (stmt (ret ()))" by (intro keeps_conj keeps_intros iso_stmt) (simp add: ret_def)
  have read: "triple ?P (readM id) (\<lambda>w0 w. ?P w \<and> foreign o' w0 = X) (\<lambda>_. ?I)" by (simp add: triple_def readM_def)
  have undo: "keeps ?I (tryM (rollbackTo w0))" if "foreign o' w0 = X" for w0 :: "'a world_scheme"
    unfolding rollbackTo_def using that
    by (auto simp: keeps_def tryM_run stmt_def modifyM_def split: option.splits)
  have commit: "keeps ?I (bindM (stmt (ret ())) (\<lambda>_. ret result))" for result :: 'b
    by (intro keeps_intros iso_stmt) (simp add: ret_def)
  show ?thesis
    unfolding runInTransaction_def
    apply (rule triple_step [OF start], simp)
    apply (rule triple_bindM [OF read], rule triple_pure)
    apply (rule triple_catchM)
     apply (rule triple_bindM [OF assms], rule triple_keeps [OF commit])
    apply (rule triple_step [OF undo], assumption, assumption)
    by (rule triple_throw)
qed

lemma iso_claim:
  "triple (\<lambda>w. db_ok w \<and> foreign o' w = X) (job_claimNext o' claimedBy) (\<lambda>_ w. foreign o' w = X) (\<lambda>_ w. foreign o' w = X)"
proof -
  let ?own = "\<lambda>rows w. \<forall>x \<in> set rows. \<forall>r \<in> set (jobs w). j_id r = j_id x \<longrightarrow> j_orgId r = o'"
  have upd: "triple (\<lambda>w. foreign o' w = X \<and> ?own rows w)
      (updateWhere jobs jobs_update jobs_chk (\<lambda>r. j_id r = j_id p \<and> j_status r = JPending) (markClaimed claimedBy now))
      (\<lambda>_ w. foreign o' w = X) (\<lambda>_ w. foreign o' w = X)" if "firstRow rows = Some p" for rows p now
    by (rule triple_weaken [OF ft_jobs.updateWhere_owned [where i = "j_id p"]])
      (use firstRow_mem [OF that] in \<open>auto simp: markClaimed_def\<close>)
  have now: "keeps (\<lambda>w. foreign o' w = X \<and> ?own rows w) nowIso" for rows by (simp add: keeps_def nowIso_run)
  show ?thesis
    unfolding job_claimNext_def
    apply (rule iso_runInTransaction)
    apply (rule triple_bindM [OF ft_jobs.selectAll_owned])
      apply (simp add: claimable_def)
     apply (use set_limitTo in \<open>fastforce simp: orderBy_def\<close>)
    apply (rule triple_option, rule triple_return, simp)
    apply (rule triple_step [OF now], simp)
    by (rule triple_forget [OF upd])
qed

lemma iso_runners_and_claims:
  assumes "x_orgId ctx = o'"
  shows "confined o' (postHeartbeat env ctx)" "confined o' (claimJob env ctx)"
  unfolding handler_defs reader_defs assms
   apply (rule_tac [!] confined_triple)
   apply (rule triple_step, (intro keeps_intros; fail), simp)+
   apply (rule triple_forget [OF iso_heartbeat])
  apply (rule triple_step, (intro keeps_intros; fail), simp)+
  by (rule triple_forget [OF iso_claim])

text \<open>An artifact of an owned release and a health check of an owned deployment are owned.\<close>

lemma iso_artifact_create:
  "triple (\<lambda>w. foreign o' w = X \<and> (\<forall>r \<in> set (releases w). r_id r = i \<longrightarrow> r_orgId r = o'))
     (artifact_create i component kind sha bytes uri ref) (\<lambda>_ w. foreign o' w = X) (\<lambda>_ w. foreign o' w = X)"
  by (auto simp: triple_def artifact_create_def createRow_def bindM_def nowIso_run newId_run mappingErrors_def catchM_def
      insertInto_def stmt_def constrained_def throwM_def ret_def foreign_def Let_def split: option.splits)

lemma iso_healthCheck_append:
  "triple (\<lambda>w. foreign o' w = X \<and> (\<forall>r \<in> set (deployments w). d_id r = i \<longrightarrow> d_orgId r = o'))
     (healthCheck_append i name st lat detail) (\<lambda>_ w. foreign o' w = X) (\<lambda>_ w. foreign o' w = X)"
  by (auto simp: triple_def healthCheck_append_def createRow_def bindM_def nowIso_run newId_run mappingErrors_def catchM_def
      insertInto_def stmt_def constrained_def throwM_def ret_def foreign_def Let_def split: option.splits)

lemma iso_children:
  assumes "x_orgId ctx = o'"
  shows "confined o' (postArtifact env ctx)" "confined o' (postHealth env ctx)"
  unfolding handler_defs reader_defs inOrg_defs get_defs assms
   apply (rule confined_triple, rule triple_bindM [OF ft_inOrg(2)])
   apply (rule triple_step, (intro keeps_intros; fail), simp)+
   apply (rule triple_forget [OF iso_artifact_create])
  apply (rule confined_triple, rule triple_bindM [OF ft_inOrg(4)])
  apply (rule triple_step, (intro keeps_intros; fail), simp)+
  by (rule triple_forget [OF iso_healthCheck_append])

section \<open>Requests\<close>

lemma confined_routes:
  assumes "h \<in> snd ` snd ` set routes" and "x_orgId ctx = o'"
  shows "confined o' (h env ctx)"
  using assms(1) iso_readers [of o' env ctx] iso_creators [OF assms(2), of env] iso_deletes [OF assms(2), of env]
    iso_patchProduct [OF assms(2), of env] iso_patchRelease [OF assms(2), of env] iso_patchDeployment [OF assms(2), of env]
    iso_jobs [OF assms(2), of env] iso_runners_and_claims [OF assms(2), of env] iso_children [OF assms(2), of env]
  by (auto simp: routes_def)

text \<open>Authentication reads keys and may create the default organisation; it changes no other row.\<close>

lemma iso_authenticate: "keeps (\<lambda>w. foreign o' w = X) (authenticate env rq)"
proof -
  have "keeps (\<lambda>w. foreign o' w = X) (org_create name tier)" for name tier
    by (auto simp: keeps_def org_create_def createRow_def bindM_def nowIso_run newId_run mappingErrors_def catchM_def
      insertInto_def stmt_def constrained_def throwM_def ret_def split: option.splits)
  then show ?thesis
    unfolding authenticate_def verifyToken_def expired_def ensureDefaultOrg_def apiKey_getByPrefix_def org_getByName_def
    by (intro keeps_intros)
qed

lemma keeps_authenticate: "keeps db_ok (authenticate env rq)"
  unfolding authenticate_def verifyToken_def expired_def ensureDefaultOrg_def apiKey_getByPrefix_def org_getByName_def
  by (intro keeps_intros)

text \<open>The organisation a request acts for.\<close>

definition actsFor :: "apiEnv \<Rightarrow> request \<Rightarrow> 'z world_scheme \<Rightarrow> string option" where
  "actsFor env rq w =
     (if publicPath (rq_path rq) then Some []
      else case authenticate env rq w of (Inr a, _) \<Rightarrow> Some (a_orgId a) | (Inl _, _) \<Rightarrow> None)"

text \<open>
  C17. Tenants are isolated.  Whatever request arrives, whatever statement of the database fails and
  whatever the handler throws: a request that acts for organisation \<open>o\<close> leaves every row of every
  other organisation as it was, and a request that acts for no organisation changes nothing but
  the list of organisations.
\<close>

theorem requests_stay_in_their_org:
  assumes "db_ok w"
  shows "(\<forall>o'. actsFor env rq w = Some o' \<longrightarrow> foreign o' (snd (listener env rq w)) = foreign o' w) \<and>
    (actsFor env rq w = None \<longrightarrow> (\<forall>o'. foreign o' (snd (listener env rq w)) = foreign o' w))"
proof -
  have l: "snd (listener env rq w) = snd (routeRequest env rq w)"
    by (simp add: listener_def split: prod.splits sum.splits)
  show ?thesis
  proof (cases "findRoute routes (rq_method rq) (rq_path rq) :: ('a handler \<times> _) option")
    case None
    then show ?thesis by (simp add: l routeRequest_def ret_def)
  next
    case (Some hc)
    obtain h caps where hc: "hc = (h, caps)" by fastforce
    have h: "confined (x_orgId ctx) (h env ctx)" for ctx
      using routes_Some [of "rq_method rq" "rq_path rq" h caps] Some hc by (intro confined_routes) auto
    obtain r w1 where a: "authenticate env rq w = (r, w1)" by fastforce
    have w1: "foreign o' w1 = foreign o' w" "db_ok w1" for o'
      using keepsD_eq [OF iso_authenticate a, of o' "foreign o' w"] keepsD_eq [OF keeps_authenticate a assms] by auto
    have conf: "db_ok u \<Longrightarrow> foreign o' (snd (h env \<lparr>x_params = p, x_query = q, x_body = b, x_orgId = o'\<rparr> u)) = foreign o' u"
      for p q b o' u
      using h [of "\<lparr>x_params = p, x_query = q, x_body = b, x_orgId = o'\<rparr>"] by (simp add: confined_def)
    show ?thesis
      unfolding l routeRequest_def Some hc actsFor_def
      using a by (auto simp: assms w1 conf liftE_def throwM_def bindM_def ret_def split: sum.splits prod.splits)
  qed
qed

end
