(* ===== verification/Http_Auth.thy ===== *)
theory Http_Auth
  imports Http_Isolation
begin

text \<open>
  Credentials of the HTTP control plane: what a caller without one gets, and the life of an API key
  from the response that issues it to the request after its revocation.
\<close>

section \<open>Tokens\<close>

lemma CROCKFORD_char: "n < 32 \<Longrightarrow> tokenChar (CROCKFORD ! n)"
proof -
  have "list_all tokenChar CROCKFORD"
    by (simp add: CROCKFORD_def tokenChar_def inRange_def)
  moreover have "length CROCKFORD = 32" by (simp add: CROCKFORD_def)
  ultimately show "n < 32 \<Longrightarrow> tokenChar (CROCKFORD ! n)" by (simp add: list_all_length)
qed

lemma randomB32_chars: "list_all tokenChar (randomB32 env n)"
  by (simp add: randomB32_def list_all_iff CROCKFORD_char)

lemma randomB32_length: "length (v_randomBytes env (n * 2)) = n * 2 \<Longrightarrow> length (randomB32 env n) = n"
  by (simp add: randomB32_def)

lemma tokenChar_plain: "tokenChar c \<Longrightarrow> c \<noteq> CHR ''_'' \<and> \<not> jsSpace c"
  by (auto simp: tokenChar_def inRange_def jsSpace_def)

lemma tokenChars_plain: "list_all tokenChar s \<Longrightarrow> CHR ''_'' \<notin> set s \<and> list_all (\<lambda>c. \<not> jsSpace c) s"
  by (auto simp: list_all_iff dest: tokenChar_plain)

text \<open>\<open>crypto.randomBytes(n)\<close> returns \<open>n\<close> bytes.\<close>

definition enoughBytes :: "apiEnv \<Rightarrow> bool" where
  "enoughBytes env \<longleftrightarrow> (\<forall>n. length (v_randomBytes env n) = n)"

lemma generated_matches:
  assumes "enoughBytes env"
  shows "\<exists>p. matchToken (g_token (generateApiKey env)) = Some (p, randomB32 env SECRET_LEN) \<and>
    g_prefix (generateApiKey env) = ''sk_'' @ p \<and> g_hash (generateApiKey env) = v_sha256 env (randomB32 env SECRET_LEN)"
proof -
  let ?p = "randomB32 env PREFIX_LEN" and ?s = "randomB32 env SECRET_LEN"
  have "split_on CHR ''_'' (''sk_'' @ ?p @ ''_'' @ ?s) = [''sk'', ?p, ?s]"
    using tokenChars_plain [OF randomB32_chars] by (simp add: split_on_append_sep split_on_no_sep)
  moreover have "length ?p = 8" "length ?s = 26"
    using assms by (simp_all add: randomB32_length enoughBytes_def PREFIX_LEN_def SECRET_LEN_def)
  ultimately show ?thesis
    by (auto simp: generateApiKey_def matchToken_def Let_def randomB32_chars)
qed

lemma trim_no_space: "list_all (\<lambda>c. \<not> jsSpace c) s \<Longrightarrow> trim s = s"
proof -
  have d: "list_all (\<lambda>c. \<not> jsSpace c) t \<Longrightarrow> dropWhile jsSpace t = t" for t by (cases t) auto
  show "list_all (\<lambda>c. \<not> jsSpace c) s \<Longrightarrow> trim s = s" by (simp add: trim_def trimStart_def d list_all_iff)
qed

lemma bearer_token:
  assumes "enoughBytes env"
  shows "\<exists>rest. bearerRest (''Bearer '' @ g_token (generateApiKey env)) = Some rest \<and>
    trim rest = g_token (generateApiKey env)"
proof -
  let ?t = "g_token (generateApiKey env)"
  have b: "toLowerCase ''Bearer'' = ''bearer''" by code_simp
  have t: "list_all (\<lambda>c. \<not> jsSpace c) ?t"
    using tokenChars_plain [OF randomB32_chars] by (simp add: generateApiKey_def Let_def jsSpace_def)
  moreover obtain c cs where "?t = c # cs" by (auto simp: generateApiKey_def Let_def)
  ultimately have "dropWhile jsSpace (CHR '' '' # ?t) = ?t" by (simp add: jsSpace_def)
  then show ?thesis
    using trim_no_space [OF t] b by (auto simp: bearerRest_def jsSpace_def)
qed

section \<open>The life of a key\<close>

text \<open>Whether a key has lapsed at a time: a text that is no date never lapses.\<close>

definition lapsed :: "apiEnv \<Rightarrow> string option \<Rightarrow> int \<Rightarrow> bool" where
  "lapsed env expiresAt now \<longleftrightarrow>
     (case expiresAt of Some d \<Rightarrow> d \<noteq> [] \<and> (\<exists>t. v_parseDate env d = Some t \<and> t < now) | None \<Rightarrow> False)"

lemma expired_run: "\<exists>w'. expired env k w = (Inr (lapsed env (ak_expiresAt k) (clocks w (clockN w))), w')"
  by (auto simp: expired_def lapsed_def truthy_def dateNow_def bindM_def ret_def split: option.splits)

lemma verifyToken_live:
  assumes "quiet w" and "db_ok w" and "k \<in> set (apiKeys w)" and "ak_deletedAt k = None"
    and "matchToken token = Some (p, secret)" and "ak_prefix k = ''sk_'' @ p"
  shows "\<exists>w'. verifyToken env token w =
    (Inr (if lapsed env (ak_expiresAt k) (clocks w (clockN w)) \<or> v_sha256 env secret \<noteq> ak_hash k
          then None else Some k), w')"
proof -
  have u: "unique_on (\<lambda>r. ak_deletedAt r = None) ak_prefix (apiKeys w)"
    using assms(2) by (simp add: db_ok_def chk_defs)
  have "find (\<lambda>r. ak_prefix r = ''sk_'' @ p \<and> ak_deletedAt r = None) (apiKeys w) = Some k"
    using unique_on_find [OF u assms(3,4)] assms(6) by (simp add: conj_commute)
  then have g: "apiKey_getByPrefix (''sk_'' @ p) w = (Inr (Some k), tick w)"
    using assms(1) by (simp add: apiKey_getByPrefix_def selectOne_quiet)
  obtain w' where e: "expired env k (tick w) = (Inr (lapsed env (ak_expiresAt k) (clocks w (clockN w))), w')"
    using expired_run [of env k "tick w"] by auto
  show ?thesis using assms(5) by (auto simp: verifyToken_def bindM_def g [simplified] e ret_def)
qed

lemma verifyToken_dead:
  assumes "quiet w" and "matchToken token = Some (p, secret)"
    and "\<And>r. r \<in> set (apiKeys w) \<Longrightarrow> ak_prefix r = ''sk_'' @ p \<Longrightarrow> ak_deletedAt r \<noteq> None"
  shows "verifyToken env token w = (Inr None, tick w)"
proof -
  have "find (\<lambda>r. ak_prefix r = ''sk_'' @ p \<and> ak_deletedAt r = None) (apiKeys w) = None"
    using assms(3) by (auto simp: find_None_iff)
  then show ?thesis
    using assms(1,2) by (simp add: verifyToken_def bindM_def apiKey_getByPrefix_def selectOne_quiet ret_def)
qed

lemma liftE_Inr: "liftE x w = (Inr v, w') \<longleftrightarrow> x = Inr v \<and> w' = w"
  by (auto simp: liftE_def throwM_def ret_def split: sum.splits)

lemma postApiKey_Inr:
  assumes "postApiKey env ctx w = (Inr (status, PApiKey view token), w')" and "quiet w"
  shows "\<exists>k. k \<in> set (apiKeys w') \<and> ak_deletedAt k = None \<and> ak_prefix k = g_prefix (generateApiKey env) \<and>
    ak_hash k = g_hash (generateApiKey env) \<and> ak_orgId k = x_orgId ctx \<and> view = stripHash k \<and>
    token = g_token (generateApiKey env) \<and> status = 201" "quiet w'"
proof -
  let ?g = "generateApiKey env"
  obtain name ex k where c: "apiKey_create (x_orgId ctx) name (g_prefix ?g) (g_hash ?g) ex w = (Inr k, w')"
    and r: "view = stripHash k" "token = g_token ?g" "status = 201"
    using assms(1) by (auto simp: postApiKey_def bodyObject_def Let_def bindM_Inr_iff liftE_Inr created_def ret_def)
  have "k \<in> set (apiKeys w')" "ak_deletedAt k = None" "ak_prefix k = g_prefix ?g" "ak_hash k = g_hash ?g"
    "ak_orgId k = x_orgId ctx"
    using apiKeys.createRow_Inr [OF c [unfolded apiKey_create_def]] by simp_all
  then show "\<exists>k. k \<in> set (apiKeys w') \<and> ak_deletedAt k = None \<and> ak_prefix k = g_prefix ?g \<and>
    ak_hash k = g_hash ?g \<and> ak_orgId k = x_orgId ctx \<and> view = stripHash k \<and>
    token = g_token ?g \<and> status = 201" using r by blast
  show "quiet w'"
    using c assms(2) unfolding apiKey_create_def
    by (subst (asm) apiKeys.createRow_quiet) (auto split: option.splits)
qed

lemma keeps_postApiKey: "keeps db_ok (postApiKey env ctx)"
  unfolding postApiKey_def bodyObject_def created_def Let_def by (intro keeps_intros)

text \<open>
  C18. An issued key works.  After \<open>POST /v1/api-keys\<close> has answered, a request whose bearer token is the
  token of that answer is authenticated for the organisation that issued the key, under the key's
  id, until the key lapses; from then on it is refused with 401.  This needs of
  \<open>crypto.randomBytes\<close> only that it returns as many bytes as asked, and of SHA-256 nothing.
\<close>

theorem issued_key_authenticates:
  assumes "quiet w" and "db_ok w" and "enoughBytes env"
    and "postApiKey env ctx w = (Inr (status, PApiKey view token), w')"
    and "rq_authorization rq = Some (''Bearer '' @ token)"
  shows "\<exists>w''. authenticate env rq w' =
    (if lapsed env (kv_expiresAt view) (clocks w' (clockN w'))
     then Inl (unauthorized (Some ''invalid bearer token''))
     else Inr \<lparr>a_orgId = x_orgId ctx, a_apiKeyId = Some (kv_id view)\<rparr>, w'')"
proof -
  obtain k where k: "k \<in> set (apiKeys w')" "ak_deletedAt k = None" "ak_prefix k = g_prefix (generateApiKey env)"
    "ak_hash k = g_hash (generateApiKey env)" "ak_orgId k = x_orgId ctx" "view = stripHash k"
    "token = g_token (generateApiKey env)"
    using postApiKey_Inr(1) [OF assms(4,1)] by blast
  obtain p where p: "matchToken token = Some (p, randomB32 env SECRET_LEN)" "ak_prefix k = ''sk_'' @ p"
    "ak_hash k = v_sha256 env (randomB32 env SECRET_LEN)"
    using generated_matches [OF assms(3)] k by auto
  obtain rest where r: "bearerRest (''Bearer '' @ token) = Some rest" "trim rest = token"
    using bearer_token [OF assms(3)] k(7) by auto
  have "db_ok w'" by (rule keepsD_eq [OF keeps_postApiKey assms(4,2)])
  from verifyToken_live [OF postApiKey_Inr(2) [OF assms(4,1)] this k(1,2) p(1,2), of env] p(3)
  show ?thesis
    using k(5,6) assms(5) r by (auto simp: authenticate_def bindM_def throwM_def ret_def stripHash_def)
qed

text \<open>
  C19. Revocation is immediate.  Once \<open>DELETE /v1/api-keys/:id\<close> has answered for a live key, no bearer
  token with that key's prefix is accepted, whatever its secret.
\<close>

theorem revoked_key_refused:
  assumes "quiet w" and "db_ok w" and "k \<in> set (apiKeys w)" and "ak_deletedAt k = None"
    and "param ctx ''id'' = ak_id k" and "deleteApiKey env ctx w = (Inr resp, w')"
    and "rq_authorization rq = Some header" and "bearerRest header = Some rest"
    and "matchToken (trim rest) = Some (p, secret)" and "ak_prefix k = ''sk_'' @ p"
  shows "\<exists>w''. authenticate env' rq w' = (Inl (unauthorized (Some ''invalid bearer token'')), w'')"
proof -
  have u: "unique_on anyRow ak_id (apiKeys w)" "unique_on (\<lambda>r. ak_deletedAt r = None) ak_prefix (apiKeys w)"
    using assms(2) by (simp_all add: db_ok_def chk_defs)
  have f: "find (\<lambda>r. ak_id r = ak_id k \<and> ak_deletedAt r = None) (apiKeys w) = Some k"
  proof (cases "find (\<lambda>r. ak_id r = ak_id k \<and> ak_deletedAt r = None) (apiKeys w)")
    case None
    then show ?thesis using assms(3,4) by (auto simp: find_None_iff)
  next
    case (Some r)
    then show ?thesis using unique_onD [OF u(1) _ assms(3)] by (auto dest!: find_Some_D)
  qed
  have d: "softDeleteRow apiKeys apiKeys_update apiKeys_chk ak_id ak_deletedAt
     (\<lambda>now r. r\<lparr>ak_deletedAt := Some now, ak_updatedAt := now\<rparr>) ''api_key'' (ak_id k) (tick w) = (Inr (), w')"
    using assms(1,5,6) f
    by (auto simp: deleteApiKey_def bindM_Inr_iff apiKey_get_def getLive_def selectOne_quiet inOrg_def
        apiKey_softDelete_def noContent_def ret_def throwM_def split: if_splits)
  let ?now = "toISOString (clocks w (clockN w))"
  let ?mark = "\<lambda>r. if ak_id r = ak_id k \<and> ak_deletedAt r = None
      then r\<lparr>ak_deletedAt := Some ?now, ak_updatedAt := ?now\<rparr> else r"
  have eq: "w' = apiKeys_update (\<lambda>_. map ?mark (apiKeys w)) (w\<lparr>clockN := Suc (clockN w), stmtN := Suc (Suc (stmtN w))\<rparr>)"
    using d assms(1,2) by (subst (asm) apiKeys.softDeleteRow_quiet) (simp_all cong: if_cong split: if_splits)
  have w': "apiKeys w' = map ?mark (apiKeys w)" "quiet w'" using assms(1) by (simp_all add: eq)
  have "ak_deletedAt r \<noteq> None" if r: "r \<in> set (apiKeys w')" "ak_prefix r = ''sk_'' @ p" for r
  proof -
    obtain r0 where r0: "r0 \<in> set (apiKeys w)" "r = ?mark r0" using r(1) unfolding w'(1) by auto
    then show ?thesis
      using unique_onD [OF u(2) r0(1) assms(3) _ assms(4)] r(2) assms(10) by (cases "ak_deletedAt r0") (auto split: if_splits)
  qed
  from verifyToken_dead [OF w'(2) assms(9) this]
  show ?thesis using assms(7,8) by (simp add: authenticate_def bindM_def throwM_def)
qed

text \<open>
  C20. No credential, no effect.  A request for any route but \<open>/v1/healthz\<close> that has no bearer token and
  does not come from the loopback interface (or comes when the loopback bypass is off), and whose
  path and body can be read, is answered 401 and leaves the whole state as it was.
\<close>

theorem uncredentialed_request_refused:
  assumes "findRoute routes (rq_method rq) (rq_path rq) = Some (h :: 'z handler, caps)" and "\<not> publicPath (rq_path rq)"
    and "decodeParams caps = Inr params" and "rq_body rq = Inr body"
    and "\<forall>header. rq_authorization rq = Some header \<longrightarrow> bearerRest header = None"
    and "v_disableLoopbackBypass env \<or> \<not> isLoopback (rq_remoteAddress rq)"
  shows "listener env rq (w :: 'z world_scheme) =
    ((401, PError ''unauthorized'' ''missing or invalid bearer token''), w)"
proof -
  have "authenticate env rq w = (Inl (unauthorized None), w)"
    using assms(5,6) by (auto simp: authenticate_def throwM_def split: option.splits)
  then show ?thesis
    using assms(1-4) by (simp add: listener_def routeRequest_def liftE_def bindM_def ret_def unauthorized_def mapError_def)
qed

section \<open>Instances\<close>

definition demoEnv :: apiEnv where
  "demoEnv = \<lparr>v_sha256 = rev, v_randomBytes = (\<lambda>n. replicate n 7), v_parseDate = (\<lambda>_. None),
     v_healthSummary = (\<lambda>_. None), v_version = ''1'', v_disableLoopbackBypass = False\<rparr>"

definition demoRequest :: "httpMethod \<Rightarrow> string \<Rightarrow> json option \<Rightarrow> string option \<Rightarrow> request" where
  "demoRequest m path body header = \<lparr>rq_method = m, rq_path = path, rq_query = [], rq_body = Inr body,
     rq_authorization = header, rq_remoteAddress = Some ''10.0.0.9''\<rparr>"

definition demoCtx :: reqContext where
  "demoCtx = \<lparr>x_params = [(''id'', ''k1'')], x_query = [], x_body = Some (JObj [(''name'', JStr ''ci'')]), x_orgId = ''o1''\<rparr>"

definition demoKey :: apiKey where
  "demoKey = \<lparr>ak_id = ''k1'', ak_orgId = ''o1'', ak_prefix = ''sk_7'', ak_hash = ''7'', ak_name = ''ci'',
      ak_expiresAt = None, ak_createdAt = ''2023-11-14T22:13:20.000Z'', ak_updatedAt = ''2023-11-14T22:13:20.000Z'',
      ak_deletedAt = None\<rparr>"

lemmas demo_defs = demoEnv_def demoRequest_def demoCtx_def demoKey_def

theorem uncredentialed_request_refused_witness:
  "listener demoEnv (demoRequest POST ''/v1/products'' (Some (JObj [])) None) orgWorld =
    ((401, PError ''unauthorized'' ''missing or invalid bearer token''), orgWorld)"
  by (rule uncredentialed_request_refused [where h = postProduct and caps = "[]" and params = "[]" and body = "Some (JObj [])"])
    (simp_all add: demo_defs routes_def matchPath_def publicPath_def isLoopback_def startsWith_def)

text \<open>The state after \<open>POST /v1/api-keys\<close> with the fixed bytes above.\<close>

lemma demo_post:
  "\<exists>view w'. postApiKey demoEnv demoCtx orgWorld =
     (Inr (201, PApiKey view (g_token (generateApiKey demoEnv))), w') \<and> kv_expiresAt view = None \<and> kv_id view = ulids orgWorld 0"
proof -
  have "apiKey_create ''o1'' ''ci'' p h None orgWorld = (Inr k, w') \<Longrightarrow> ak_expiresAt k = None \<and> ak_id k = ulids orgWorld 0" for p h k w'
    unfolding apiKey_create_def by (drule apiKeys.createRow_Inr(2)) (simp add: world_eval)
  moreover have "\<exists>k w'. apiKey_create ''o1'' ''ci'' p h None orgWorld = (Inr k, w')" for p h
    unfolding apiKey_create_def by (subst apiKeys.createRow_quiet) (simp_all add: world_eval firstViolation_def)
  ultimately obtain k w' where "apiKey_create ''o1'' ''ci'' (g_prefix (generateApiKey demoEnv)) (g_hash (generateApiKey demoEnv)) None
      orgWorld = (Inr k, w')" "ak_expiresAt k = None" "ak_id k = ulids orgWorld 0"
    by metis
  then show ?thesis
    by (simp add: postApiKey_def demoCtx_def bodyObject_def asObject_def readString_def readOptionalString_def
      liftE_def created_def bindM_def ret_def Let_def stripHash_def)
qed

theorem issued_key_authenticates_witness:
  "\<exists>w' w''. snd (postApiKey demoEnv demoCtx orgWorld) = w' \<and>
     authenticate demoEnv (demoRequest GET ''/v1/products'' None (Some (''Bearer '' @ g_token (generateApiKey demoEnv)))) w' =
       (Inr \<lparr>a_orgId = ''o1'', a_apiKeyId = Some (ulids orgWorld 0)\<rparr>, w'')"
proof -
  let ?rq = "demoRequest GET ''/v1/products'' None (Some (''Bearer '' @ g_token (generateApiKey demoEnv)))"
  obtain view w' where p: "postApiKey demoEnv demoCtx orgWorld =
      (Inr (201, PApiKey view (g_token (generateApiKey demoEnv))), w')" "kv_expiresAt view = None" "kv_id view = ulids orgWorld 0"
    using demo_post by blast
  have "enoughBytes demoEnv" "rq_authorization ?rq = Some (''Bearer '' @ g_token (generateApiKey demoEnv))"
    by (simp_all add: enoughBytes_def demo_defs)
  from issued_key_authenticates [OF orgWorld_ok(2,1) this(1) p(1) this(2)] p
  show ?thesis by (simp add: lapsed_def demoCtx_def)
qed

definition keyWorld :: world where
  "keyWorld = orgWorld\<lparr>apiKeys := [demoKey]\<rparr>"

lemma keyWorld_ok: "quiet keyWorld" "db_ok keyWorld"
  by (simp_all add: keyWorld_def demoKey_def world_eval)

theorem revoked_key_refused_witness:
  "\<exists>w''. authenticate demoEnv (demoRequest GET ''/v1/products'' None (Some ''Bearer sk_7_7''))
      (snd (deleteApiKey demoEnv demoCtx keyWorld)) = (Inl (unauthorized (Some ''invalid bearer token'')), w'')"
proof -
  obtain w' where d: "deleteApiKey demoEnv demoCtx keyWorld = (Inr (204, PNull), w')"
  proof -
    have g: "apiKey_get ''k1'' keyWorld = (Inr (Some demoKey), tick keyWorld)"
      by (simp add: apiKey_get_def apiKeys.getLive_quiet keyWorld_ok) (simp add: keyWorld_def demoKey_def)
    have "\<exists>r \<in> set (apiKeys (tick keyWorld)). ak_id r = ''k1'' \<and> ak_deletedAt r = None"
      by (simp add: keyWorld_def demoKey_def)
    then have "\<exists>w'. apiKey_softDelete ''k1'' (tick keyWorld) = (Inr (), w')"
      unfolding apiKey_softDelete_def using keyWorld_ok by (subst apiKeys.softDeleteRow_quiet) simp_all
    then obtain w' where s: "apiKey_softDelete ''k1'' (tick keyWorld) = (Inr (), w')" by blast
    show ?thesis
      using that by (simp add: deleteApiKey_def g s bindM_def inOrg_def noContent_def ret_def param_def demoCtx_def demoKey_def)
  qed
  have "bearerRest ''Bearer sk_7_7'' = Some ''sk_7_7''" "matchToken (trim ''sk_7_7'') = Some (''7'', ''7'')"
    by code_simp+
  from revoked_key_refused [OF keyWorld_ok _ _ _ d _ this, where k = demoKey and env' = demoEnv] d
  show ?thesis by (simp add: keyWorld_def demo_defs param_def)
qed

theorem requests_stay_in_their_org_witness:
  "foreign ''o1'' (snd (listener demoEnv (demoRequest DELETE ''/v1/api-keys/k1'' None (Some ''Bearer sk_7_7'')) keyWorld)) =
     foreign ''o1'' keyWorld"
proof -
  have t: "bearerRest ''Bearer sk_7_7'' = Some ''sk_7_7''" "matchToken (trim ''sk_7_7'') = Some (''7'', ''7'')"
    by code_simp+
  have "actsFor demoEnv (demoRequest DELETE ''/v1/api-keys/k1'' None (Some ''Bearer sk_7_7'')) keyWorld = Some ''o1''"
    by (simp add: actsFor_def publicPath_def authenticate_def demoRequest_def t verifyToken_def bindM_def
        apiKey_getByPrefix_def selectOne_quiet keyWorld_ok)
      (simp add: keyWorld_def demo_defs expired_def ret_def truthy_def)
  then show ?thesis using requests_stay_in_their_org [OF keyWorld_ok(2)] by blast
qed

end
