(* ===== verification/Store_Facts.thy ===== *)
theory Store_Facts
  imports Store
begin

text \<open>
  What single repositories promise, proved from the table interface: soft deletion and name
  reuse, the runner heartbeat on its three branches, the nonce ledger as a replay guard,
  budgets as an upsert, and the integrity of every reachable database.
\<close>

section \<open>Ordering\<close>

lemma set_orderByDesc [simp]: "set (orderByDesc k t) = set t"
  by (simp add: orderByDesc_def)

lemma orderByDesc_Nil [simp]: "orderByDesc k t = [] \<longleftrightarrow> t = []"
  by (simp add: orderByDesc_def) (metis length_0_conv length_rev length_sort)

lemma orderByDesc_hd:
  assumes "x \<in> set t"
  shows "k x \<le> k (hd (orderByDesc k t))"
proof -
  have s: "sorted (map k (sort_key k (rev t)))" by simp
  have ne: "sort_key k (rev t) \<noteq> []" using assms by (metis empty_iff set_empty set_rev set_sort)
  have "x \<in> set (sort_key k (rev t))" using assms by simp
  then obtain i where i: "i < length (sort_key k (rev t))" "sort_key k (rev t) ! i = x"
    by (metis in_set_conv_nth)
  have "map k (sort_key k (rev t)) ! i \<le> map k (sort_key k (rev t)) ! (length (sort_key k (rev t)) - 1)"
    using i(1) by (intro sorted_nth_mono [OF s]) auto
  then have "k x \<le> k (last (sort_key k (rev t)))"
    using i ne by (simp add: last_conv_nth del: length_sort)
  then show ?thesis by (simp add: orderByDesc_def hd_rev)
qed

section \<open>One row under an update\<close>

lemma filter_update_single:
  assumes "distinct (map k t)" and "x \<in> set t" and "Q (f x)" and "\<And>r. r \<in> set t \<Longrightarrow> Q r \<Longrightarrow> r = x"
  shows "filter Q (map (\<lambda>r. if k r = k x then f r else r) t) = [f x]"
  using assms
proof (induction t)
  case Nil
  then show ?case by simp
next
  case (Cons y t)
  show ?case
  proof (cases "x = y")
    case True
    then have "k r \<noteq> k x \<and> \<not> Q r" if "r \<in> set t" for r
      using that Cons.prems(1,4) by (metis distinct.simps(2) image_eqI list.set_intros(2) list.set_map list.simps(9))
    then have "filter Q (map (\<lambda>r. if k r = k x then f r else r) t) = []"
      by (auto simp: filter_empty_conv)
    with True Cons.prems(3) show ?thesis by simp
  next
    case False
    then have "x \<in> set t" "\<not> Q y" using Cons.prems(2,4) by auto
    moreover from this have "k y \<noteq> k x" using Cons.prems(1) by (metis distinct.simps(2) image_eqI list.set_map list.simps(9))
    ultimately show ?thesis using Cons by simp
  qed
qed

lemma unique_on_revive:
  assumes "distinct (map k t)" and "unique_on P K t" and "\<And>r. r \<in> set t \<Longrightarrow> P r \<Longrightarrow> K r \<noteq> K x" and "K (f x) = K x"
    and "\<And>r. r \<in> set t \<Longrightarrow> k r = k x \<Longrightarrow> r = x"
  shows "unique_on P K (map (\<lambda>r. if k r = k x then f r else r) t)"
  using assms
proof (induction t)
  case Nil
  then show ?case by (simp add: unique_on_def)
next
  case (Cons y t)
  have IH: "unique_on P K (map (\<lambda>r. if k r = k x then f r else r) t)"
    using Cons by (auto simp: unique_on_def split: if_splits)
  show ?case
  proof (cases "k y = k x")
    case True
    then have y: "y = x" using Cons.prems(5) by simp
    then have "\<And>r. r \<in> set t \<Longrightarrow> k r \<noteq> k x" using Cons.prems(1) by (auto simp: image_iff)
    then have "map (\<lambda>r. if k r = k x then f r else r) t = t" by (simp add: map_idI)
    with IH y True Cons.prems(3,4) show ?thesis by (auto simp: unique_on_def image_iff) metis
  next
    case False
    let ?u = "map (\<lambda>r. if k r = k x then f r else r) t"
    have n: "K r \<noteq> K y" if "r \<in> set (map (\<lambda>r. if k r = k x then f r else r) t)" "P r" "P y" for r
    proof -
      from that obtain r0 where r0: "r0 \<in> set t" "r = (if k r0 = k x then f r0 else r0)" by auto
      show ?thesis
      proof (cases "k r0 = k x")
        case True
        then have "r = f x" using r0 Cons.prems(5) [of r0] by simp
        then show ?thesis using Cons.prems(3) [of y] Cons.prems(4) that by auto
      next
        case False
        with r0 that(2,3) Cons.prems(2) show ?thesis by (auto simp: unique_on_def image_iff)
      qed
    qed
    have "P y \<Longrightarrow> K y \<notin> K ` set (filter P ?u)"
      using n by (fastforce simp del: set_map simp: image_iff)
    moreover have "filter P (map (\<lambda>r. if k r = k x then f r else r) (y # t)) = (if P y then y # filter P ?u else filter P ?u)"
      using False by simp
    ultimately show ?thesis using IH unfolding unique_on_def by (simp del: set_filter)
  qed
qed

section \<open>Runner heartbeat\<close>

definition runnerRows :: "string \<Rightarrow> string \<Rightarrow> 'z world_scheme \<Rightarrow> runner list" where
  "runnerRows orgId name w = filter (\<lambda>r. rr_orgId r = orgId \<and> rr_name r = name) (runners w)"

definition liveRunners :: "string \<Rightarrow> string \<Rightarrow> 'z world_scheme \<Rightarrow> runner list" where
  "liveRunners orgId name w =
     filter (\<lambda>r. rr_orgId r = orgId \<and> rr_name r = name \<and> rr_deletedAt r = None) (runners w)"

definition heartbeatRow :: "string \<Rightarrow> json option \<Rightarrow> runner \<Rightarrow> runner \<Rightarrow> runner" where
  "heartbeatRow now metaJson ex r =
     (if rr_deletedAt ex = None
      then r\<lparr>rr_lastSeenAt := now, rr_meta := orElseNull metaJson (rr_meta ex), rr_updatedAt := now\<rparr>
      else r\<lparr>rr_lastSeenAt := now, rr_registeredAt := now, rr_meta := metaJson, rr_updatedAt := now,
             rr_deletedAt := None\<rparr>)"

lemma heartbeatRow_keys [simp]:
  "rr_id (heartbeatRow now m ex r) = rr_id r" "rr_orgId (heartbeatRow now m ex r) = rr_orgId r"
  "rr_name (heartbeatRow now m ex r) = rr_name r" "rr_lastSeenAt (heartbeatRow now m ex r) = now"
  "rr_deletedAt (heartbeatRow now m ex ex) = None"
  by (simp_all add: heartbeatRow_def)

text \<open>The row the heartbeat reads is live whenever a live row with that name exists.\<close>

lemma heartbeat_selects_live:
  assumes "runnerRows orgId name w \<noteq> []"
  defines "ex \<equiv> hd (orderByDesc (\<lambda>r. rr_deletedAt r = None) (orderByDesc rr_lastSeenAt (runnerRows orgId name w)))"
  shows "ex \<in> set (runners w)" "rr_orgId ex = orgId" "rr_name ex = name"
    "rr_deletedAt ex = None \<longleftrightarrow> liveRunners orgId name w \<noteq> []"
proof -
  let ?t = "orderByDesc rr_lastSeenAt (runnerRows orgId name w)"
  have "ex \<in> set (orderByDesc (\<lambda>r. rr_deletedAt r = None) ?t)"
    unfolding ex_def using assms(1) by (intro hd_in_set) simp
  then have ex: "ex \<in> set (runnerRows orgId name w)" by simp
  then show "ex \<in> set (runners w)" "rr_orgId ex = orgId" "rr_name ex = name"
    by (simp_all add: runnerRows_def)
  show "rr_deletedAt ex = None \<longleftrightarrow> liveRunners orgId name w \<noteq> []"
  proof
    assume "rr_deletedAt ex = None"
    with ex show "liveRunners orgId name w \<noteq> []"
      by (auto simp: liveRunners_def runnerRows_def filter_empty_conv)
  next
    assume "liveRunners orgId name w \<noteq> []"
    then obtain r where "r \<in> set (liveRunners orgId name w)" by (cases "liveRunners orgId name w") auto
    then have "r \<in> set ?t" "rr_deletedAt r = None"
      by (simp_all add: liveRunners_def runnerRows_def)
    then show "rr_deletedAt ex = None"
      using orderByDesc_hd [of r ?t "\<lambda>r. rr_deletedAt r = None"] by (simp add: ex_def)
  qed
qed

lemma runners_chk_heartbeat:
  assumes "db_ok w" and "ex \<in> set (runners w)"
    and "rr_deletedAt ex \<noteq> None \<Longrightarrow> liveRunners (rr_orgId ex) (rr_name ex) w = []"
  shows "runners_chk w (map (\<lambda>r. if rr_id r = rr_id ex then heartbeatRow now m ex r else r) (runners w)) = None"
proof -
  have c: "runners_chk w (runners w) = None" by (rule runners.ok_chk [OF assms(1)])
  have id: "\<And>r. r \<in> set (runners w) \<Longrightarrow> rr_id r = rr_id ex \<Longrightarrow> r = ex"
    using runners.key_unique [OF assms(1)] assms(2) by blast
  have u: "unique_on (\<lambda>r. rr_deletedAt r = None) (\<lambda>r. (rr_orgId r, rr_name r))
      (map (\<lambda>r. if rr_id r = rr_id ex then heartbeatRow now m ex r else r) (runners w))"
  proof (cases "rr_deletedAt ex")
    case None
    then show ?thesis using c
      by (intro unique_on_shrink) (auto simp: runners_chk_def heartbeatRow_def)
  next
    case (Some d)
    then show ?thesis using c assms(3) id
      by (intro unique_on_revive)
        (auto simp: runners_chk_def unique_on_def liveRunners_def filter_empty_conv)
  qed
  show ?thesis
    using c u by (auto simp: runners_chk_def refs_update intro: unique_on_shrink)
qed

lemma heartbeat_existing:
  fixes meta :: "json option option"
  assumes "quiet w" and "db_ok w" and "runnerRows orgId name w \<noteq> []"
  defines "ex \<equiv> hd (orderByDesc (\<lambda>r. rr_deletedAt r = None) (orderByDesc rr_lastSeenAt (runnerRows orgId name w)))"
    and "now \<equiv> toISOString (clocks w (clockN w))"
    and "mj \<equiv> map_option (\<lambda>m. orElse m (JObj [])) meta"
  shows "runner_heartbeat orgId name meta w = (Inr (heartbeatRow now mj ex ex),
    w\<lparr>clockN := Suc (clockN w), stmtN := stmtN w + 2,
      runners := map (\<lambda>r. if rr_id r = rr_id ex then heartbeatRow now mj ex r else r) (runners w)\<rparr>)"
proof -
  let ?w1 = "w\<lparr>clockN := Suc (clockN w)\<rparr>"
  let ?w2 = "w\<lparr>clockN := Suc (clockN w), stmtN := Suc (stmtN w)\<rparr>"
  let ?rows = "orderByDesc (\<lambda>r. rr_deletedAt r = None) (orderByDesc rr_lastSeenAt (runnerRows orgId name w))"
  note sel = heartbeat_selects_live [OF assms(3), folded ex_def]
  have rows: "firstRow (take (Suc 0) ?rows) = Some ex"
    using assms(3) unfolding ex_def firstRow_def by (cases ?rows) auto
  have s: "selectAll runners (\<lambda>r. rr_orgId r = orgId \<and> rr_name r = name)
      (limitTo 1 \<circ> orderByDesc (\<lambda>r. rr_deletedAt r = None) \<circ> orderByDesc rr_lastSeenAt) ?w1 = (Inr (take (Suc 0) ?rows), ?w2)"
    using assms(1) by (simp add: selectAll_quiet limitTo_def runnerRows_def)
  have u: "updateWhere runners runners_update runners_chk (\<lambda>r. rr_id r = rr_id ex) (heartbeatRow now mj ex) ?w2
      = (Inr (length (filter (\<lambda>r. rr_id r = rr_id ex) (runners w))),
         w\<lparr>clockN := Suc (clockN w), stmtN := stmtN w + 2,
           runners := map (\<lambda>r. if rr_id r = rr_id ex then heartbeatRow now mj ex r else r) (runners w)\<rparr>)"
    using assms(1) runners_chk_heartbeat [OF assms(2) sel(1), of now mj] sel
    by (subst updateWhere_quiet) (auto simp: runners.chk_env)
  have hb: "heartbeatRow now mj ex = (if rr_deletedAt ex = None
      then (\<lambda>r. r\<lparr>rr_lastSeenAt := now, rr_meta := orElseNull mj (rr_meta ex), rr_updatedAt := now\<rparr>)
      else (\<lambda>r. r\<lparr>rr_lastSeenAt := now, rr_registeredAt := now, rr_meta := mj, rr_updatedAt := now,
             rr_deletedAt := None\<rparr>))"
    by (auto simp: heartbeatRow_def)
  have n: "nowIso w = (Inr now, ?w1)" by (simp add: nowIso_run now_def)
  show ?thesis
    using u unfolding runner_heartbeat_def hb
    by (cases "rr_deletedAt ex")
      (simp_all add: bindM_def n s rows Let_def ret_def mj_def [symmetric])
qed

lemma runners_chk_insert:
  assumes "db_ok w" and "runnerRows (rr_orgId r) (rr_name r) w = []" and "rr_id r \<notin> rr_id ` set (runners w)"
    and "rr_orgId r \<in> o_id ` set (orgs w)"
  shows "runners_chk w (runners w @ [r]) = None"
  using runners.ok_chk [OF assms(1)] assms(2-4)
  by (auto simp: runners_chk_def unique_on_def refs_def runnerRows_def filter_empty_conv)

lemma heartbeat_first:
  fixes meta :: "json option option"
  assumes "quiet w" and "db_ok w" and "runnerRows orgId name w = []" and "orgId \<in> o_id ` set (orgs w)"
    and "ulids w (ulidN w) \<notin> rr_id ` set (runners w)"
  defines "now \<equiv> toISOString (clocks w (clockN w))"
    and "mj \<equiv> map_option (\<lambda>m. orElse m (JObj [])) meta"
  defines "row \<equiv> \<lparr>rr_id = ulids w (ulidN w), rr_orgId = orgId, rr_name = name, rr_lastSeenAt = now,
      rr_registeredAt = now, rr_meta = mj, rr_createdAt = now, rr_updatedAt = now, rr_deletedAt = None\<rparr>"
  shows "runner_heartbeat orgId name meta w = (Inr row,
    w\<lparr>clockN := Suc (clockN w), ulidN := Suc (ulidN w), stmtN := stmtN w + 2, runners := runners w @ [row]\<rparr>)"
proof -
  let ?w1 = "w\<lparr>clockN := Suc (clockN w)\<rparr>"
  let ?w2 = "w\<lparr>clockN := Suc (clockN w), stmtN := Suc (stmtN w)\<rparr>"
  have n: "nowIso w = (Inr now, ?w1)" by (simp add: nowIso_run now_def)
  have s: "selectAll runners (\<lambda>r. rr_orgId r = orgId \<and> rr_name r = name)
      (limitTo 1 \<circ> orderByDesc (\<lambda>r. rr_deletedAt r = None) \<circ> orderByDesc rr_lastSeenAt) ?w1 = (Inr [], ?w2)"
    using assms(1,3) by (simp add: selectAll_quiet limitTo_def runnerRows_def orderByDesc_def)
  have "runners_chk w (runners w @ [row]) = None"
    using assms(2-5) by (intro runners_chk_insert) (simp_all add: row_def)
  then have ins: "insertInto runners runners_update runners_chk row (w\<lparr>clockN := Suc (clockN w), stmtN := Suc (stmtN w), ulidN := Suc (ulidN w)\<rparr>)
      = (Inr (), w\<lparr>clockN := Suc (clockN w), ulidN := Suc (ulidN w), stmtN := stmtN w + 2, runners := runners w @ [row]\<rparr>)"
    using assms(1) by (subst insertInto_quiet) (simp_all add: runners.chk_env)
  show ?thesis
    unfolding runner_heartbeat_def
    by (simp add: bindM_def n s Let_def firstRow_def newId_run mappingErrors_def catchM_def ret_def
      ins [unfolded row_def] mj_def [symmetric] row_def)
qed



section \<open>The nonce ledger\<close>

text \<open>SQLite words a uniqueness failure \<open>UNIQUE constraint failed: ...\<close>.\<close>

definition sqlite_unique_text :: "'z world_scheme \<Rightarrow> bool" where
  "sqlite_unique_text w \<longleftrightarrow> (\<forall>c. includesStr (violationMsg w (UniqueViolation c)) ''UNIQUE'')"

definition replayError :: "signingNonce \<Rightarrow> err" where
  "replayError n = StorageConflictError (''signing nonce already used: org='' @ sn_orgId n
     @ '' actor='' @ sn_actorCn n @ '' nonce='' @ sn_nonce n)"

lemma nonces_chk_used:
  assumes "nonceKey n \<in> nonceKey ` set (signingNonces w)"
  shows "\<exists>c. signingNonces_chk w' (signingNonces w @ [n]) = Some (UniqueViolation c)"
proof -
  have "\<not> unique_on anyRow nonceKey (signingNonces w @ [n])"
    using assms by (auto simp: unique_on_def)
  then show ?thesis by (simp add: signingNonces_chk_def firstViolation_def)
qed

lemma nonce_insert_used:
  assumes "quiet w" and "sqlite_unique_text w" and "nonceKey n \<in> nonceKey ` set (signingNonces w)"
  shows "nonce_insert n w = (Inl (replayError n), tick w)"
proof -
  obtain c where "signingNonces_chk (tick w) (signingNonces w @ [n]) = Some (UniqueViolation c)"
    using nonces_chk_used [OF assms(3)] by blast
  then have "insertInto signingNonces signingNonces_update signingNonces_chk n w
      = (Inl (SqliteErr 2067 (violationMsg w (UniqueViolation c))), tick w)"
    using assms(1) by (simp add: insertInto_def stmt_quiet constrained_def)
  then show ?thesis
    using assms(2) by (simp add: nonce_insert_def catchM_def throwM_def replayError_def sqlite_unique_text_def)
qed

lemma nonce_insert_fresh:
  assumes "quiet w" and "db_ok w" and "nonceKey n \<notin> nonceKey ` set (signingNonces w)"
  shows "nonce_insert n w = (Inr (), (tick w)\<lparr>signingNonces := signingNonces w @ [n]\<rparr>)"
proof -
  have "signingNonces_chk (tick w) (signingNonces (tick w) @ [n]) = None"
    using signingNonces.ok_chk [OF assms(2)] assms(3)
    by (auto simp: signingNonces_chk_def unique_on_def)
  then show ?thesis
    using assms(1) by (simp add: nonce_insert_def catchM_def insertInto_quiet)
qed

text \<open>
  C13. The nonce ledger is a replay guard.  A nonce not in the ledger is recorded; from then on
  the same nonce of the same actor and organisation is refused with \<open>StorageConflictError\<close>, whatever
  its timestamp and fingerprint, also after a sweep whose cutoff is not later than the
  recorded request time.
\<close>

theorem nonce_replay_refused:
  assumes "quiet w" and "db_ok w" and "sqlite_unique_text w"
    and "nonceKey n \<notin> nonceKey ` set (signingNonces w)"
    and "nonceKey n' = nonceKey n" and "cutoff \<le> sn_requestedAt n"
  shows "fst (nonce_insert n w) = Inr () \<and>
    fst (nonce_insert n' (snd (nonce_sweepOlderThan cutoff (snd (nonce_insert n w))))) = Inl (replayError n')"
proof -
  let ?w1 = "(tick w)\<lparr>signingNonces := signingNonces w @ [n]\<rparr>"
  have ins: "nonce_insert n w = (Inr (), ?w1)" by (rule nonce_insert_fresh [OF assms(1,2,4)])
  let ?w2 = "snd (nonce_sweepOlderThan cutoff ?w1)"
  have sw: "?w2 = (tick ?w1)\<lparr>signingNonces := filter (\<lambda>r. \<not> sn_requestedAt r < cutoff) (signingNonces w @ [n])\<rparr>"
    using assms(1) by (simp add: nonce_sweepOlderThan_def deleteWhere_def stmt_quiet)
  have "nonceKey n' \<in> nonceKey ` set (signingNonces ?w2)"
    unfolding sw using assms(5,6) by (auto simp: not_less)
  moreover have "quiet ?w2" and "sqlite_unique_text ?w2"
    unfolding sw using assms(1,3) by (simp_all add: sqlite_unique_text_def)
  ultimately have "nonce_insert n' ?w2 = (Inl (replayError n'), tick ?w2)"
    by (intro nonce_insert_used)
  then show ?thesis by (simp add: ins)
qed

definition sampleNonce :: signingNonce where
  "sampleNonce = \<lparr>sn_orgId = ''o1'', sn_actorCn = ''ci'', sn_nonce = ''n-1'',
     sn_requestedAt = ''2023-11-14T22:13:20.000Z'', sn_fingerprint = None\<rparr>"

theorem nonce_replay_refused_witness:
  "fst (nonce_insert sampleNonce orgWorld) = Inr () \<and>
   fst (nonce_insert (sampleNonce\<lparr>sn_fingerprint := Some ''ab''\<rparr>)
     (snd (nonce_sweepOlderThan ''2023-11-14T22:13:20.000Z'' (snd (nonce_insert sampleNonce orgWorld)))))
     = Inl (replayError (sampleNonce\<lparr>sn_fingerprint := Some ''ab''\<rparr>))"
  by (rule nonce_replay_refused [OF orgWorld_ok(2,1)])
    (simp_all add: sqlite_unique_text_def world_eval sampleNonce_def nonceKey_def)

section \<open>Soft deletion frees the name\<close>

lemma targets_chk_insert:
  assumes "db_ok w" and "t_id r \<notin> t_id ` set (targets w)" and "t_orgId r \<in> o_id ` set (orgs w)"
    and "find (\<lambda>x. t_orgId x = t_orgId r \<and> t_name x = t_name r \<and> t_deletedAt x = None) (targets w) = None"
  shows "targets_chk w (targets w @ [r]) = None"
  using targets.ok_chk [OF assms(1)] assms(2-4)
  by (auto simp: targets_chk_def unique_on_def refs_def find_None_iff)

text \<open>
  C15. Soft deletion of a target: on a quiet database \<open>softDelete\<close> of a live target succeeds, the
  target is gone from \<open>get\<close> and every other row is untouched; a second \<open>softDelete\<close> reports
  \<open>StorageNotFoundError\<close>; and a target with the same organisation and name can be created
  again, since the unique index only counts live rows.
\<close>

theorem target_delete_then_recreate:
  assumes "quiet w" and "db_ok w" and "t \<in> set (targets w)" and "t_deletedAt t = None"
    and "ulids w (ulidN w) \<notin> t_id ` set (targets w)"
  defines "w1 \<equiv> snd (target_softDelete (t_id t) w)"
  shows "fst (target_softDelete (t_id t) w) = Inr () \<and>
    fst (target_get (t_id t) w1) = Inr None \<and>
    filter (\<lambda>r. t_id r \<noteq> t_id t) (targets w1) = filter (\<lambda>r. t_id r \<noteq> t_id t) (targets w) \<and>
    fst (target_softDelete (t_id t) w1) = Inl (StorageNotFoundError ''target'' (t_id t)) \<and>
    (\<exists>t'. fst (target_create (t_orgId t) (t_name t) kind conn w1) = Inr t' \<and> t_id t' \<noteq> t_id t)"
proof -
  let ?mark = "\<lambda>now r. r\<lparr>t_deletedAt := Some now, t_updatedAt := now\<rparr>"
  let ?now = "toISOString (clocks w (clockN w))"
  let ?ts = "map (\<lambda>r. if t_id r = t_id t \<and> t_deletedAt r = None then ?mark ?now r else r) (targets w)"
  have "\<exists>r \<in> set (targets w). t_id r = t_id t \<and> t_deletedAt r = None" using assms(3,4) by auto
  then have sd: "target_softDelete (t_id t) w =
      (Inr (), w\<lparr>clockN := Suc (clockN w), stmtN := Suc (stmtN w), targets := ?ts\<rparr>)"
    using targets.softDeleteRow_quiet [OF assms(1,2), where i = "t_id t" and entity = "''target''"]
    by (simp add: target_softDelete_def)
  have del: "target_softDelete (t_id t) w = (Inr (), w1)"
    and w1: "w1 = w\<lparr>clockN := Suc (clockN w), stmtN := Suc (stmtN w), targets := ?ts\<rparr>"
    by (simp_all add: w1_def sd)
  note hides = targets.softDelete_hides [OF del [unfolded target_softDelete_def]]
  have ok1: "db_ok w1"
    using keepsD_eq [OF keeps_target(3) del assms(2)] .
  have q1: "quiet w1" using assms(1) by (simp add: w1)
  have "fst (target_get (t_id t) w1) = Inr None"
    using targets.getLive_quiet [OF q1, of "t_id t"] hides(1) by (simp add: target_get_def)
  moreover have "\<not> (\<exists>r \<in> set (targets w1). t_id r = t_id t \<and> t_deletedAt r = None)"
    using hides(1) by (auto simp: find_None_iff)
  then have "fst (target_softDelete (t_id t) w1) = Inl (StorageNotFoundError ''target'' (t_id t))"
    using targets.softDeleteRow_quiet [OF q1 ok1, where i = "t_id t" and entity = "''target''"] by (simp add: target_softDelete_def)
  moreover have "\<exists>t'. fst (target_create (t_orgId t) (t_name t) kind conn w1) = Inr t' \<and> t_id t' \<noteq> t_id t"
  proof -
    let ?r = "\<lparr>t_id = ulids w (ulidN w), t_orgId = t_orgId t, t_name = t_name t, t_kind = kind,
      t_connection = conn, t_createdAt = toISOString (clocks w (Suc (clockN w))),
      t_updatedAt = toISOString (clocks w (Suc (clockN w))), t_deletedAt = None\<rparr>"
    have ids: "t_id ` set (targets w1) = t_id ` set (targets w)"
      using hides(3) by (metis list.set_map)
    have only: "x = t" if "x \<in> set (targets w)" "t_orgId x = t_orgId t" "t_name x = t_name t" "t_deletedAt x = None" for x
      using unique_onD [of "\<lambda>r. t_deletedAt r = None" "\<lambda>r. (t_orgId r, t_name r)" "targets w" x t]
        targets.ok_chk [OF assms(2)] that assms(3,4) by (simp add: targets_chk_def)
    have "find (\<lambda>x. t_orgId x = t_orgId t \<and> t_name x = t_name t \<and> t_deletedAt x = None) (targets w1) = None"
      unfolding w1 using only by (auto simp: find_None_iff split: if_splits)
    moreover have "t_orgId t \<in> o_id ` set (orgs w1)"
      using targets.ok_chk [OF assms(2)] assms(3) by (auto simp: targets_chk_def refs_def list_all_iff w1)
    ultimately have c: "targets_chk w1 (targets w1 @ [?r]) = None"
      using ids assms(5) by (intro targets_chk_insert [OF ok1]) simp_all
    let ?w2 = "w1\<lparr>clockN := Suc (clockN w1), ulidN := Suc (ulidN w1)\<rparr>"
    have "insertInto targets targets_update targets_chk ?r ?w2 = (Inr (), targets_update (\<lambda>_. targets (tick ?w2) @ [?r]) (tick ?w2))"
      using c q1 by (intro insertInto_quiet) (simp_all add: targets.chk_env)
    then have "fst (target_create (t_orgId t) (t_name t) kind conn w1) = Inr ?r"
      by (simp add: target_create_def createRow_def bindM_def nowIso_run newId_run mappingErrors_def catchM_def ret_def w1)
    moreover have "ulids w (ulidN w) \<noteq> t_id t" using assms(3,5) by auto
    ultimately show ?thesis by (intro exI [of _ ?r]) simp
  qed
  ultimately show ?thesis using del hides(2) by simp
qed

definition sampleTarget :: target where
  "sampleTarget = \<lparr>t_id = ''t1'', t_orgId = ''o1'', t_name = ''lab'', t_kind = VmTest, t_connection = JObj [],
     t_createdAt = ''2023-11-14T22:13:20.000Z'', t_updatedAt = ''2023-11-14T22:13:20.000Z'', t_deletedAt = None\<rparr>"

theorem target_delete_then_recreate_witness:
  "fst (target_softDelete ''t1'' (orgWorld\<lparr>targets := [sampleTarget]\<rparr>)) = Inr () \<and>
   (\<exists>t'. fst (target_create ''o1'' ''lab'' VmDemo JNull
      (snd (target_softDelete ''t1'' (orgWorld\<lparr>targets := [sampleTarget]\<rparr>)))) = Inr t' \<and> t_id t' \<noteq> ''t1'')"
proof -
  let ?w = "orgWorld\<lparr>targets := [sampleTarget]\<rparr>"
  have h: "quiet ?w" "db_ok ?w" "sampleTarget \<in> set (targets ?w)" "t_deletedAt sampleTarget = None"
    "ulids ?w (ulidN ?w) \<notin> t_id ` set (targets ?w)"
    by (simp_all add: world_eval sampleTarget_def pad_numeral)
  have f: "t_id sampleTarget = ''t1''" "t_orgId sampleTarget = ''o1''" "t_name sampleTarget = ''lab''"
    by (simp_all add: sampleTarget_def)
  show ?thesis using target_delete_then_recreate [OF h, of VmDemo JNull] unfolding f by blast
qed

section \<open>Integrity of every reachable database\<close>

lemma unique_on_at_most_one:
  assumes "unique_on p k t"
  shows "length (filter (\<lambda>r. p r \<and> k r = x) t) \<le> 1"
  using assms
proof (induction t)
  case Nil
  then show ?case by simp
next
  case (Cons r t)
  have "filter (\<lambda>r'. p r' \<and> k r' = x) t = []" if "p r" "k r = x"
    using Cons.prems that by (auto simp: unique_on_def filter_empty_conv image_iff)
  moreover have "unique_on p k t" using Cons.prems by (auto simp: unique_on_def split: if_splits)
  ultimately show ?case using Cons.IH by auto
qed

text \<open>
  C1. Whatever sequence of repository methods has run since the migrations, and whichever of
  their statements failed: a target has at most one live active deployment; a release has at
  most one live pending or attempted approval per destination; every deployment refers to an
  existing release, target, organisation and predecessor; every approval refers to an existing
  policy; job ids are unique; and no schedule runs more often than once a minute.
\<close>

theorem reachable_integrity:
  assumes "reachable w"
  shows "length (filter (\<lambda>d. d_targetId d = i \<and> d_status d = DActive \<and> d_deletedAt d = None) (deployments w)) \<le> 1 \<and>
    length (filter (\<lambda>a. ap_releaseId a = r \<and> ap_destTargetId a = i \<and> ap_deletedAt a = None \<and>
      (ap_status a = APending \<or> ap_deployAttemptedAt a \<noteq> None)) (approvals w)) \<le> 1 \<and>
    (\<forall>d \<in> set (deployments w). d_releaseId d \<in> r_id ` set (releases w) \<and> d_targetId d \<in> t_id ` set (targets w) \<and>
       d_orgId d \<in> o_id ` set (orgs w) \<and>
       (\<forall>p. d_previousDeploymentId d = Some p \<longrightarrow> p \<in> d_id ` set (deployments w))) \<and>
    (\<forall>a \<in> set (approvals w). ap_policyId a \<in> pp_id ` set (promotionPolicies w)) \<and>
    distinct (map j_id (jobs w)) \<and>
    (\<forall>s \<in> set (healthSchedules w). 60 \<le> hs_intervalSeconds s)"
proof -
  have ok: "db_ok w" by (rule reachable_ok [OF assms])
  have d: "deployments_chk w (deployments w) = None" and a: "approvals_chk w (approvals w) = None"
    and j: "jobs_chk w (jobs w) = None" and h: "healthSchedules_chk w (healthSchedules w) = None"
    using ok by (simp_all add: deployments.ok_chk approvals.ok_chk jobs.ok_chk healthSchedules.ok_chk)
  have "length (filter (\<lambda>d. (d_status d = DActive \<and> d_deletedAt d = None) \<and> d_targetId d = i) (deployments w)) \<le> 1"
    using d by (intro unique_on_at_most_one) (simp add: deployments_chk_def)
  moreover have "length (filter (\<lambda>x. approval_indexed x \<and> (ap_releaseId x, ap_destTargetId x) = (r, i)) (approvals w)) \<le> 1"
    using a by (intro unique_on_at_most_one) (simp add: approvals_chk_def)
  ultimately show ?thesis
    using d a j h
    by (auto simp: deployments_chk_def approvals_chk_def jobs_chk_def healthSchedules_chk_def refs_def
      refsNullable_def list_all_iff approval_indexed_def unique_on_def conj_ac split: option.splits)
qed

text \<open>An organisation, a product, a ready release, a target and an active deployment of it.\<close>

definition deployedWorld :: world where
  "deployedWorld =
     (let w1 = snd (org_create ''acme'' None freshWorld);
          w2 = snd (product_create ''0000'' ''app'' ''https://example.test/app.git'' None w1);
          w3 = snd (release_create ''0000'' ''0001'' ''v1'' ''c0ffee'' (Some RReady) w2);
          w4 = snd (target_create ''0000'' ''lab'' VmTest (JObj []) w3);
          w5 = snd (deployment_create ''0000'' ''0002'' ''0003'' None w4)
      in snd (deployment_update ''0004'' \<lparr>dp_status = Some DActive, dp_startedAt = None,
           dp_completedAt = None, dp_healthSummary = None\<rparr> w5))"

lemma reachable_deployedWorld: "reachable deployedWorld"
  unfolding deployedWorld_def Let_def
  by (intro reachable.step [OF _ store_step.intros(23)] reachable.step [OF _ store_step.intros(22)]
    reachable.step [OF _ store_step.intros(19)] reachable.step [OF _ store_step.intros(9)]
    reachable.step [OF _ store_step.intros(6)] reachable.step [OF _ store_step.intros(1)]
    reachable.start empty_freshWorld)

theorem reachable_integrity_witness:
  "reachable deployedWorld \<and>
   length (filter (\<lambda>d. d_targetId d = ''0003'' \<and> d_status d = DActive \<and> d_deletedAt d = None) (deployments deployedWorld)) \<le> 1 \<and>
   d_releaseId ` set (deployments deployedWorld) \<subseteq> r_id ` set (releases deployedWorld)"
  using reachable_integrity [OF reachable_deployedWorld, of "''0003''" "''0002''"] reachable_deployedWorld by blast

end
