(* ===== verification/Deploy.thy ===== *)
theory Deploy
  imports Probes Store_Facts
begin

text \<open>
  The deploy executor (\<open>deploy/executor.ts\<close>): \<open>runDeploy\<close> with its try block (\<open>deployTry\<close>) and its
  catch block (\<open>deployCatch\<close>) as separate definitions, and \<open>runRollback\<close>.  The blob store and the
  validation of the frozen build file are parameters of the environment; the JSON staged as
  \<open>manifest.json\<close> is kept as the value that is printed.
\<close>

section \<open>Environment and backend calls\<close>

text \<open>
  \<open>e_blob uri\<close> is the content \<open>blobs.get\<close> streams, or the message it rejects with;
  \<open>e_probes json\<close> is \<open>validateBuildYaml(JSON.parse(json)).probes ?? []\<close>, \<open>None\<close> when either throws,
  and \<open>e_probesError json\<close> is what is thrown then.
\<close>

record denv =
  e_backend :: backend
  e_blob :: "string \<Rightarrow> string + string"
  e_probes :: "string \<Rightarrow> probe list option"
  e_probesError :: "string \<Rightarrow> err"

definition resolveVm :: "backend \<Rightarrow> json \<Rightarrow> ('z, string \<times> string) DM" where
  "resolveVm b conn = callBackend (ResolveVm conn) (\<lambda>h. b_resolveVm b h conn)"

definition createCheckpoint :: "backend \<Rightarrow> string \<Rightarrow> string \<Rightarrow> ('z, string) DM" where
  "createCheckpoint b handle label =
     callBackend (CreateCheckpoint handle label) (\<lambda>h. b_createCheckpoint b h handle label)"

definition restoreCheckpoint :: "backend \<Rightarrow> string \<Rightarrow> ('z, unit) DM" where
  "restoreCheckpoint b cp = callBackend (RestoreCheckpoint cp) (\<lambda>h. b_restoreCheckpoint b h cp)"

definition deleteCheckpoint :: "backend \<Rightarrow> string \<Rightarrow> ('z, unit) DM" where
  "deleteCheckpoint b cp = callBackend (DeleteCheckpoint cp) (\<lambda>h. b_deleteCheckpoint b h cp)"

definition copyFileToVM :: "backend \<Rightarrow> string \<Rightarrow> hostFile \<Rightarrow> string \<Rightarrow> ('z, unit) DM" where
  "copyFileToVM b handle file guestPath =
     callBackend (CopyFileToVM handle file guestPath) (\<lambda>h. b_copyFileToVM b h handle file guestPath)"

definition isVmReachable :: "backend \<Rightarrow> string \<Rightarrow> ('z, bool \<times> string option) DM" where
  "isVmReachable b handle = callBackend (IsVmReachable handle) (\<lambda>h. b_isVmReachable b h handle)"

section \<open>Staging\<close>

definition stageBlobInto :: "denv \<Rightarrow> string \<Rightarrow> string \<Rightarrow> string \<Rightarrow> ('z, unit) DM" where
  "stageBlobInto env uri handle guestPath =
     (case e_blob env uri of
        Inl m \<Rightarrow> throwM (JsError m)
      | Inr content \<Rightarrow> copyFileToVM (e_backend env) handle (BlobFile content) guestPath)"

definition stageStringInto :: "denv \<Rightarrow> json \<Rightarrow> string \<Rightarrow> string \<Rightarrow> ('z, unit) DM" where
  "stageStringInto env contents handle guestPath =
     copyFileToVM (e_backend env) handle (JsonFile contents) guestPath"

definition stageArtifact :: "denv \<Rightarrow> string \<Rightarrow> string \<Rightarrow> artifact \<Rightarrow> ('z, unit) DM" where
  "stageArtifact env handle stagingDir art =
     (if af_kind art \<noteq> ABlob then ret ()
      else if \<not> truthy (af_blobUri art) then
        throwM (JsError (''artifact '' @ af_id art @ '' has kind=blob but no blob_uri''))
      else stageBlobInto env (the (af_blobUri art)) handle (stagingDir @ ''/'' @ af_component art @ ''.bin''))"

definition jsonOf :: "string option \<Rightarrow> json" where
  "jsonOf s = (case s of None \<Rightarrow> JNull | Some x \<Rightarrow> JStr x)"

definition manifestArtifact :: "artifact \<Rightarrow> json" where
  "manifestArtifact a = JObj (
     [(''component'', JStr (af_component a)),
      (''kind'', JStr (case af_kind a of ABlob \<Rightarrow> ''blob'' | AImageRef \<Rightarrow> ''image_ref''))] @
     (case af_kind a of
        ABlob \<Rightarrow> [(''sha256'', jsonOf (af_sha256 a)),
                  (''size_bytes'', case af_sizeBytes a of None \<Rightarrow> JNull | Some n \<Rightarrow> JNum (of_int n)),
                  (''guest_filename'', JStr (af_component a @ ''.bin''))]
      | AImageRef \<Rightarrow> [(''image_ref'', jsonOf (af_imageRef a))]))"

definition buildDeployManifest :: "release \<Rightarrow> target \<Rightarrow> artifact list \<Rightarrow> string \<Rightarrow> json" where
  "buildDeployManifest release target arts deploymentId = JObj
     [(''schema_version'', JNum 1), (''release_id'', JStr (r_id release)),
      (''release_tag'', JStr (r_tag release)), (''commit_sha'', JStr (r_commitSha release)),
      (''manifest_sha256'', jsonOf (r_manifestSha256 release)),
      (''deployment_id'', JStr deploymentId), (''target_name'', JStr (t_name target)),
      (''target_kind'', JStr (targetKind_text (t_kind target))),
      (''artifacts'', JArr (map manifestArtifact arts))]"

definition parseDeclaredProbes :: "denv \<Rightarrow> release \<Rightarrow> probe list" where
  "parseDeclaredProbes env release =
     (if \<not> truthy (r_buildYamlJson release) then []
      else case e_probes env (the (r_buildYamlJson release)) of None \<Rightarrow> [] | Some ps \<Rightarrow> ps)"

section \<open>runDeploy\<close>

record deployResult =
  x_deployment :: deployment
  x_release :: release
  x_target :: target
  x_artifacts :: "artifact list"
  x_healthSummary :: healthSummary

text \<open>What the executor has looked up when it enters the try block.\<close>

record deployCtx =
  c_orgId :: string
  c_actor :: string
  c_root :: string
  c_release :: release
  c_target :: target
  c_artifacts :: "artifact list"
  c_previous :: "deployment option"
  c_deployment :: deployment
  c_handle :: string
  c_checkpoint :: string

definition countStatus :: "healthStatus \<Rightarrow> healthStatus list \<Rightarrow> nat" where
  "countStatus s cs = length (filter (\<lambda>c. c = s) cs)"

definition summarise :: "healthStatus list \<Rightarrow> string \<Rightarrow> healthSummary" where
  "summarise cs now = \<lparr>s_total = length cs, s_pass = countStatus HPass cs, s_fail = countStatus HFail cs,
     s_degraded = countStatus HDegraded cs, s_lastCheckedAt = Some now\<rparr>"

definition failedProbesMessage :: "probeResult list \<Rightarrow> string" where
  "failedProbesMessage results =
     (let failed = filter (\<lambda>r. pr_status r = HFail) results in
      showNat (length failed) @ '' declared probe(s) failed: ''
      @ join_with ''; '' (map (\<lambda>r. pr_name r @ '' ('' @ pr_detail r @ '')'') failed))"

text \<open>Staging and health checks: everything in the try block before the promotion.\<close>

definition deployCheck :: "denv \<Rightarrow> deployCtx \<Rightarrow> ('z, healthSummary) DM" where
  "deployCheck env c =
     (let b = e_backend env; stagingDir = c_root c @ ''/'' @ r_id (c_release c); i = d_id (c_deployment c) in
      bindM (foldM (\<lambda>_ art. stageArtifact env (c_handle c) stagingDir art) () (c_artifacts c)) (\<lambda>_.
      bindM (stageStringInto env (buildDeployManifest (c_release c) (c_target c) (c_artifacts c) i)
               (c_handle c) (stagingDir @ ''/manifest.json'')) (\<lambda>_.
      bindM (isVmReachable b (c_handle c)) (\<lambda>(reachable, detail).
      bindM (healthCheck_append i ''vm_reachable'' (if reachable then HPass else HFail) None detail) (\<lambda>_.
      if \<not> reachable then
        throwM (DeployHealthFailedError (''vm_reachable probe failed: '' @ orElse detail ''unknown reason''))
      else
      bindM (runProbes b (c_handle c) (parseDeclaredProbes env (c_release c))) (\<lambda>results.
      bindM (foldM (\<lambda>_ r. bindM (healthCheck_append i (pr_name r) (pr_status r) (Some (pr_latencyMs r))
               (Some (pr_detail r))) (\<lambda>_. ret ())) () results) (\<lambda>_.
      bindM nowIso (\<lambda>now.
      let summary = summarise (HPass # map pr_status results) now in
      if 0 < s_fail summary then throwM (DeployHealthFailedError (failedProbesMessage results))
      else ret summary))))))))"

definition statusPatch :: "deploymentStatus \<Rightarrow> deploymentPatch" where
  "statusPatch s = \<lparr>dp_status = Some s, dp_startedAt = None, dp_completedAt = None, dp_healthSummary = None\<rparr>"

text \<open>The promotion: supersede the previous active deployment, then activate this one.\<close>

definition supersedePrevious :: "deployCtx \<Rightarrow> ('z, unit) DM" where
  "supersedePrevious c = (case c_previous c of
       None \<Rightarrow> ret ()
     | Some prev \<Rightarrow> bindM (deployment_update (d_id prev) (statusPatch DSuperseded)) (\<lambda>_. ret ()))"

definition activated :: "string \<Rightarrow> healthSummary \<Rightarrow> deploymentPatch" where
  "activated finishedAt summary = \<lparr>dp_status = Some DActive, dp_startedAt = None, dp_completedAt = Some finishedAt,
     dp_healthSummary = Some (Some summary)\<rparr>"

definition deployPromote :: "deployCtx \<Rightarrow> healthSummary \<Rightarrow> ('z, deployment) DM" where
  "deployPromote c summary =
     bindM (supersedePrevious c) (\<lambda>_.
     bindM nowIso (\<lambda>finishedAt. deployment_update (d_id (c_deployment c)) (activated finishedAt summary)))"

definition auditDetail :: "deployCtx \<Rightarrow> (string \<times> json) list" where
  "auditDetail c = [(''releaseId'', JStr (r_id (c_release c))), (''targetId'', JStr (t_id (c_target c)))]"

definition deployTry :: "denv \<Rightarrow> deployCtx \<Rightarrow> ('z, deployResult) DM" where
  "deployTry env c =
     bindM (deployCheck env c) (\<lambda>summary.
     bindM (deployPromote c summary) (\<lambda>finalized.
     bindM (deleteCheckpoint (e_backend env) (c_checkpoint c)) (\<lambda>_.
     bindM (audit_append (c_orgId c) (c_actor c) ''release.deploy.completed'' ''deployment''
              (d_id (c_deployment c)) (Some (JObj (auditDetail c @
                (case c_previous c of None \<Rightarrow> [] | Some p \<Rightarrow> [(''supersededId'', JStr (d_id p))]))))) (\<lambda>_.
     ret \<lparr>x_deployment = finalized, x_release = c_release c, x_target = c_target c,
          x_artifacts = c_artifacts c, x_healthSummary = summary\<rparr>))))"

definition deployCatch :: "denv \<Rightarrow> deployCtx \<Rightarrow> err \<Rightarrow> ('z, deployResult) DM" where
  "deployCatch env c e =
     bindM (tryM (restoreCheckpoint (e_backend env) (c_checkpoint c))) (\<lambda>_.
     bindM (tryM (deleteCheckpoint (e_backend env) (c_checkpoint c))) (\<lambda>_.
     bindM (tryM (bindM nowIso (\<lambda>now. bindM (deployment_update (d_id (c_deployment c))
              \<lparr>dp_status = Some DFailed, dp_startedAt = None, dp_completedAt = Some now,
               dp_healthSummary = None\<rparr>) (\<lambda>_. ret ())))) (\<lambda>_.
     bindM (audit_append (c_orgId c) (c_actor c) ''release.deploy.failed'' ''deployment''
              (d_id (c_deployment c)) (Some (JObj (auditDetail c @
                [(''error'', JStr (err_message e)), (''errorName'', JStr (err_name e))])))) (\<lambda>_.
     throwM e))))"

record deployOptions =
  q_orgId :: string
  q_releaseId :: string
  q_targetId :: string
  q_actor :: "string option"
  q_guestStagingRoot :: "string option"

text \<open>Everything before the try block: lookups, the new row, the checkpoint.\<close>

definition deployPrepare :: "denv \<Rightarrow> deployOptions \<Rightarrow> ('z, deployCtx) DM" where
  "deployPrepare env opts =
     (let b = e_backend env; actor = orElse (q_actor opts) ''cli'';
          root = orElse (q_guestStagingRoot opts) ''C:/signalman-staging'' in
      bindM (release_get (q_releaseId opts)) (\<lambda>rel. case rel of
        None \<Rightarrow> throwM (JsError (''release not found: '' @ q_releaseId opts))
      | Some release \<Rightarrow>
      if r_status release \<noteq> RReady then
        throwM (DeployBlockedError (''release '' @ r_id release @ '' is not ready (status=''
          @ releaseStatus_text (r_status release) @ '')''))
      else
      bindM (target_get (q_targetId opts)) (\<lambda>tgt. case tgt of
        None \<Rightarrow> throwM (JsError (''target not found: '' @ q_targetId opts))
      | Some target \<Rightarrow>
      if t_orgId target \<noteq> q_orgId opts then
        throwM (JsError (''target '' @ t_id target @ '' belongs to a different org''))
      else
      bindM (deployment_getActiveForTarget (t_id target)) (\<lambda>previousActive.
      bindM (artifact_listForRelease (r_id release)) (\<lambda>arts.
      bindM (resolveVm b (t_connection target)) (\<lambda>(handle, vmName).
      bindM (deployment_create (q_orgId opts) (r_id release) (t_id target) (map_option d_id previousActive)) (\<lambda>deployment.
      bindM (audit_append (q_orgId opts) actor ''release.deploy.started'' ''deployment'' (d_id deployment)
              (Some (JObj [(''releaseId'', JStr (r_id release)), (''targetId'', JStr (t_id target))]))) (\<lambda>_.
      bindM (createCheckpoint b handle (''signalman-pre-'' @ d_id deployment)) (\<lambda>checkpoint.
      bindM nowIso (\<lambda>startedAt.
      bindM (deployment_update (d_id deployment)
              \<lparr>dp_status = Some DDeploying, dp_startedAt = Some startedAt, dp_completedAt = None,
               dp_healthSummary = None\<rparr>) (\<lambda>_.
      ret \<lparr>c_orgId = q_orgId opts, c_actor = actor, c_root = root, c_release = release, c_target = target,
           c_artifacts = arts, c_previous = previousActive, c_deployment = deployment,
           c_handle = handle, c_checkpoint = checkpoint\<rparr>)))))))))))"

definition runDeploy :: "denv \<Rightarrow> deployOptions \<Rightarrow> ('z, deployResult) DM" where
  "runDeploy env opts =
     bindM (deployPrepare env opts) (\<lambda>c. catchM (deployTry env c) (deployCatch env c))"

section \<open>runRollback\<close>

record rollbackOptions =
  k_orgId :: string
  k_targetId :: string
  k_toReleaseId :: "string option"
  k_actor :: "string option"

definition runRollback :: "denv \<Rightarrow> rollbackOptions \<Rightarrow> ('z, deployResult) DM" where
  "runRollback env opts =
     bindM (target_get (k_targetId opts)) (\<lambda>tgt. case tgt of
       None \<Rightarrow> throwM (JsError (''target not found: '' @ k_targetId opts))
     | Some target \<Rightarrow>
       bindM (if truthy (k_toReleaseId opts) then ret (the (k_toReleaseId opts))
              else bindM (deployment_listForTarget (t_id target) (Some 10)) (\<lambda>history.
                case find (\<lambda>d. d_status d = DSuperseded) history of
                  None \<Rightarrow> throwM (DeployBlockedError (''no superseded deployment found on target '' @ [CHR 0x27]
                    @ t_name target @ [CHR 0x27] @ '' to roll back to. Use --release to specify an explicit prior release.''))
                | Some d \<Rightarrow> ret (d_releaseId d))) (\<lambda>releaseId.
       runDeploy env \<lparr>q_orgId = k_orgId opts, q_releaseId = releaseId, q_targetId = k_targetId opts,
         q_actor = Some (orElse (k_actor opts) ''cli-rollback''), q_guestStagingRoot = None\<rparr>))"

section \<open>The steps that leave the deployments alone\<close>

text \<open>The id source never repeats and has not produced an id already in use.\<close>

definition usedIds :: "'z world_scheme \<Rightarrow> string set" where
  "usedIds w = al_id ` set (auditLog w) \<union> hc_id ` set (healthChecks w) \<union> d_id ` set (deployments w)"

definition freshIds :: "'z world_scheme \<Rightarrow> bool" where
  "freshIds w \<longleftrightarrow> inj (ulids w) \<and> (\<forall>n \<ge> ulidN w. ulids w n \<notin> usedIds w)"

lemma freshIds_insert:
  assumes "freshIds w" and "ulids w' = ulids w" and "ulidN w' = Suc (ulidN w)"
    and "usedIds w' \<subseteq> insert (ulids w (ulidN w)) (usedIds w)"
  shows "freshIds w'"
  unfolding freshIds_def
proof (intro conjI allI impI)
  show "inj (ulids w')" using assms by (simp add: freshIds_def)
  fix n assume "ulidN w' \<le> n"
  then have "Suc (ulidN w) \<le> n" using assms(3) by simp
  then have "ulids w n \<noteq> ulids w (ulidN w)" "ulids w n \<notin> usedIds w"
    using assms(1) by (auto simp: freshIds_def inj_eq)
  then show "ulids w' n \<notin> usedIds w'" using assms(2,4) by auto
qed

text \<open>A quiet consistent database whose deployments are \<open>D\<close> and whose organisations are \<open>Os\<close>.\<close>

definition holds :: "deployment list \<Rightarrow> org list \<Rightarrow> 'z world_scheme \<Rightarrow> bool" where
  "holds D Os w \<longleftrightarrow> quiet w \<and> db_ok w \<and> freshIds w \<and> deployments w = D \<and> orgs w = Os"

lemma calls_frame [simp]:
  "quiet (w\<lparr>calls := c\<rparr>) = quiet w" "db_ok (w\<lparr>calls := c\<rparr>) = db_ok w" "freshIds (w\<lparr>calls := c\<rparr>) = freshIds w"
  by (simp_all add: quiet_def db_ok_def chk_defs freshIds_def usedIds_def)

lemma freshIds_env [simp]:
  "freshIds (w\<lparr>stmtN := n\<rparr>) = freshIds w" "freshIds (w\<lparr>clockN := n\<rparr>) = freshIds w"
  by (simp_all add: freshIds_def usedIds_def)

lemma holds_calls [simp]: "holds D Os (w\<lparr>calls := c\<rparr>) = holds D Os w"
  by (simp add: holds_def)

lemma holds_env [simp]:
  "holds D Os (w\<lparr>stmtN := n\<rparr>) = holds D Os w" "holds D Os (w\<lparr>clockN := n\<rparr>) = holds D Os w"
  by (simp_all add: holds_def)

lemma holds_callBackend [keeps_intros]: "keeps (holds D Os) (callBackend c f)"
  by (simp add: keeps_def callBackend_def)

lemma holds_stmt: "(\<And>w. holds D Os w \<Longrightarrow> holds D Os (snd (m w))) \<Longrightarrow> keeps (holds D Os) (stmt m)"
  by (auto simp: keeps_def holds_def stmt_quiet)

lemma holds_select [keeps_intros]:
  "keeps (holds D Os) (selectOne get p)" "keeps (holds D Os) (selectAll get p ord)"
  by (simp_all add: keeps_def holds_def selectOne_quiet selectAll_quiet)

lemma holds_nowIso [keeps_intros]: "keeps (holds D Os) nowIso" "keeps (holds D Os) dateNow"
  by (simp_all add: keeps_def nowIso_run dateNow_run)

lemma holds_runProbes [keeps_intros]: "keeps (holds D Os) (runProbes b handle ps)"
proof (rule keepsI)
  fix w :: "'a dworld_scheme"
  assume "holds D Os w"
  moreover obtain rs where "runProbes b handle ps w = (Inr rs, w\<lparr>calls := calls w @ concat (map (probeCalls handle) ps),
      clockN := clockN w + 2 * length ps\<rparr>)"
    using runProbes_run by blast
  ultimately show "holds D Os (snd (runProbes b handle ps w))" by simp
qed

text \<open>Appending to the audit log succeeds; appending a health check succeeds or is refused.\<close>

lemma audit_chk:
  assumes "holds D Os w" and "orgId \<in> o_id ` set Os"
    and "al_id row = ulids w (ulidN w)" and "al_orgId row = orgId"
  shows "auditLog_chk w (auditLog w @ [row]) = None"
proof -
  have "auditLog_chk w (auditLog w) = None" using assms(1) by (simp add: holds_def auditLog.ok_chk)
  moreover have "ulids w (ulidN w) \<notin> al_id ` set (auditLog w)" using assms(1) by (auto simp: holds_def freshIds_def usedIds_def)
  ultimately show ?thesis
    using assms by (auto simp: auditLog_chk_def unique_on_def refs_def holds_def)
qed

lemma audit_append_ok:
  assumes "holds D Os w" and "orgId \<in> o_id ` set Os"
  shows "\<exists>e w'. audit_append orgId actor action ty i detail w = (Inr e, w') \<and> holds D Os w'"
proof -
  let ?now = "toISOString (clocks w (clockN w))"
  let ?row = "\<lparr>al_id = ulids w (ulidN w), al_orgId = orgId, al_actor = actor, al_action = action,
    al_entityType = ty, al_entityId = i, al_detail = detail, al_at = ?now, al_createdAt = ?now\<rparr>"
  let ?w1 = "w\<lparr>clockN := Suc (clockN w), ulidN := Suc (ulidN w), stmtN := Suc (stmtN w)\<rparr>"
  let ?w' = "auditLog_update (\<lambda>_. auditLog w @ [?row]) ?w1"
  have c: "auditLog_chk w (auditLog w @ [?row]) = None" by (rule audit_chk [OF assms]) simp_all
  have q: "quiet w" using assms(1) by (simp add: holds_def)
  have run: "audit_append orgId actor action ty i detail w = (Inr ?row, ?w')"
    unfolding audit_append_def using auditLog.createRow_quiet [OF q, where mk = "\<lambda>now i'. \<lparr>al_id = i', al_orgId = orgId, al_actor = actor, al_action = action,
    al_entityType = ty, al_entityId = i, al_detail = detail, al_at = now, al_createdAt = now\<rparr>"] c by simp
  have "db_ok ?w'" using keepsD_eq [OF keeps_audit run] assms(1) by (simp add: holds_def)
  moreover have "freshIds ?w'"
    using assms(1) by (rule_tac freshIds_insert [of w]) (auto simp: holds_def usedIds_def)
  ultimately show ?thesis using run assms(1) by (simp add: holds_def)
qed

lemma holds_healthCheck [keeps_intros]: "keeps (holds D Os) (healthCheck_append i name s lat detail)"
proof (rule keepsI)
  fix w :: "'a world_scheme"
  assume h: "holds D Os w"
  then have q: "quiet w" by (simp add: holds_def)
  have ok: "db_ok (snd (healthCheck_append i name s lat detail w))"
    using h by (intro keepsD [OF keeps_healthCheck]) (simp add: holds_def)
  let ?now = "toISOString (clocks w (clockN w))"
  let ?row = "\<lparr>hc_id = ulids w (ulidN w), hc_deploymentId = i, hc_probeName = name, hc_status = s,
      hc_latencyMs = lat, hc_detail = detail, hc_checkedAt = ?now, hc_createdAt = ?now,
      hc_updatedAt = ?now, hc_deletedAt = None\<rparr>"
  have "snd (healthCheck_append i name s lat detail w) \<in>
     {w\<lparr>clockN := Suc (clockN w), ulidN := Suc (ulidN w), stmtN := Suc (stmtN w)\<rparr>,
      healthChecks_update (\<lambda>_. healthChecks w @ [?row])
        (w\<lparr>clockN := Suc (clockN w), ulidN := Suc (ulidN w), stmtN := Suc (stmtN w)\<rparr>)}"
    unfolding healthCheck_append_def by (subst healthChecks.createRow_quiet [OF q]) (auto split: option.split)
  then consider
      "snd (healthCheck_append i name s lat detail w) = w\<lparr>clockN := Suc (clockN w), ulidN := Suc (ulidN w), stmtN := Suc (stmtN w)\<rparr>"
    | "snd (healthCheck_append i name s lat detail w) = healthChecks_update (\<lambda>_. healthChecks w @ [?row])
        (w\<lparr>clockN := Suc (clockN w), ulidN := Suc (ulidN w), stmtN := Suc (stmtN w)\<rparr>)"
    by blast
  then show "holds D Os (snd (healthCheck_append i name s lat detail w))"
  proof cases
    case 1
    have "freshIds (snd (healthCheck_append i name s lat detail w))"
      unfolding 1 using h by (rule_tac freshIds_insert [of w]) (auto simp: holds_def usedIds_def)
    then show ?thesis using h ok by (simp add: holds_def 1)
  next
    case 2
    have "freshIds (snd (healthCheck_append i name s lat detail w))"
      unfolding 2 using h by (rule_tac freshIds_insert [of w]) (auto simp: holds_def usedIds_def)
    then show ?thesis using h ok by (simp add: holds_def 2)
  qed
qed

text \<open>Hence everything before the promotion leaves the deployments as they are, whatever happens.\<close>

lemma holds_deployCheck: "keeps (holds D Os) (deployCheck env c)"
  unfolding deployCheck_def stageArtifact_def stageBlobInto_def stageStringInto_def copyFileToVM_def isVmReachable_def
  by (intro keeps_intros)

section \<open>Updates of one deployment\<close>

definition liveActive :: "deployment \<Rightarrow> bool" where
  "liveActive d \<longleftrightarrow> d_status d = DActive \<and> d_deletedAt d = None"

definition activeOn :: "string \<Rightarrow> deployment list \<Rightarrow> deployment list" where
  "activeOn t D = filter (\<lambda>d. d_targetId d = t \<and> liveActive d) D"

definition patched :: "string \<Rightarrow> deploymentPatch \<Rightarrow> string \<Rightarrow> deployment \<Rightarrow> deployment list \<Rightarrow> deployment list" where
  "patched i patch now d D = map (\<lambda>r. if d_id r = i then deployment_patch patch now d r else r) D"

lemma deployment_patch_keys [simp]:
  "d_id (deployment_patch p now d r) = d_id r" "d_targetId (deployment_patch p now d r) = d_targetId r"
  "d_orgId (deployment_patch p now d r) = d_orgId r" "d_releaseId (deployment_patch p now d r) = d_releaseId r"
  "d_deletedAt (deployment_patch p now d r) = d_deletedAt r"
  "d_previousDeploymentId (deployment_patch p now d r) = d_previousDeploymentId r"
  "d_status (deployment_patch p now d r) = orElse (dp_status p) (d_status d)"
  by (simp_all add: deployment_patch_def)

lemma patched_ids [simp]: "map d_id (patched i p now d D) = map d_id D"
  unfolding patched_def by (rule map_update_key) simp

lemma deployments_chk_patched:
  assumes "deployments_chk w D = None" and "d \<in> set D" and "d_id d = i"
    and "orElse (dp_status p) (d_status d) = DActive \<Longrightarrow> activeOn (d_targetId d) D = []"
  shows "deployments_chk w (patched i p now d D) = None"
proof -
  have dist: "distinct (map d_id D)" using assms(1) by (simp add: deployments_chk_def unique_on_def)
  have u: "unique_on (\<lambda>r. d_status r = DActive \<and> d_deletedAt r = None) d_targetId D"
    using assms(1) by (simp add: deployments_chk_def)
  have "unique_on (\<lambda>r. d_status r = DActive \<and> d_deletedAt r = None) d_targetId (patched i p now d D)"
  proof (cases "orElse (dp_status p) (d_status d) = DActive")
    case True
    have "\<And>r. r \<in> set D \<Longrightarrow> d_id r = d_id d \<Longrightarrow> r = d"
      using dist assms(2) by (meson distinct_map inj_onD)
    then show ?thesis
      using assms(3) assms(4) [OF True] u dist unfolding patched_def
      by (intro unique_on_revive [where x = d and k = d_id, unfolded assms(3)])
        (auto simp: activeOn_def liveActive_def filter_empty_conv)
  next
    case False
    then show ?thesis
      unfolding patched_def using u by (intro unique_on_shrink) auto
  qed
  moreover have "refsNullable d_previousDeploymentId (patched i p now d D) (map d_id (patched i p now d D))"
    using assms(1) unfolding patched_ids by (simp add: patched_def deployments_chk_def refsNullable_update)
  moreover have "unique_on anyRow d_id (patched i p now d D)"
    using dist by (simp add: unique_on_def)
  ultimately show ?thesis
    using assms(1) by (simp add: deployments_chk_def patched_def refs_update)
qed

lemma deployment_update_ok:
  assumes "holds D Os w" and "d \<in> set D" and "d_id d = i" and "d_deletedAt d = None"
    and "orElse (dp_status p) (d_status d) = DActive \<Longrightarrow> activeOn (d_targetId d) D = []"
  defines "now \<equiv> toISOString (clocks w (clockN w))"
  shows "\<exists>w'. deployment_update i p w = (Inr (deployment_patch p now d d), w') \<and> holds (patched i p now d D) Os w'"
proof -
  have q: "quiet w" and ok: "db_ok w" and D: "deployments w = D" using assms(1) by (simp_all add: holds_def)
  have c: "deployments_chk w D = None" using deployments.ok_chk [OF ok] by (simp add: D)
  have u: "unique_on (\<lambda>r. d_deletedAt r = None) d_id D"
    using c by (auto simp: deployments_chk_def unique_on_def distinct_map inj_on_def)
  have "find (\<lambda>r. d_deletedAt r = None \<and> d_id r = d_id d) D = Some d"
    by (rule unique_on_find [OF u assms(2,4)])
  then have f: "find (\<lambda>r. d_id r = i \<and> d_deletedAt r = None) (deployments w) = Some d"
    by (simp add: D assms(3) conj_commute)
  have chk: "deployments_chk w (map (\<lambda>r. if d_id r = i then deployment_patch p now d r else r) (deployments w)) = None"
    using deployments_chk_patched [OF c assms(2,3,5), where now = now] by (simp add: patched_def D)
  let ?w' = "deployments_update (\<lambda>_. patched i p now d D) (w\<lparr>clockN := Suc (clockN w), stmtN := Suc (Suc (stmtN w))\<rparr>)"
  have run: "deployment_update i p w = (Inr (deployment_patch p now d d), ?w')"
    unfolding deployment_update_def
    using deployments.patchRow_quiet [where f = "deployment_patch p" and entity = "''deployment''", OF q f chk [unfolded now_def]]
    by (simp add: now_def patched_def D)
  have "db_ok ?w'" using keepsD_eq [OF keeps_deployment(2) run ok] .
  moreover have "set (map d_id (patched i p now d D)) = set (map d_id D)" by simp
  then have "usedIds ?w' = usedIds w"
    by (simp only: usedIds_def D world.simps set_map) simp
  then have "freshIds ?w'" using assms(1) by (simp add: freshIds_def holds_def)
  ultimately show ?thesis using run q assms(1) by (simp add: holds_def)
qed

end
