(* ===== verification/Events.thy ===== *)
theory Events
  imports Deploy
begin

text \<open>
  The event dispatcher (\<open>control-plane/events\<close>): the events, their Slack rendering, the body signature,
  and \<open>EventDispatcher\<close> with its three drivers.  The HTTP transport, the mail transport and the keyed
  hash are parameters; a body handed to \<open>JSON.stringify\<close> is kept as the value that is printed.
\<close>

section \<open>Events\<close>

datatype signalmanEvent =
    ReleaseBuilt (ev_orgId: string) (ev_at: string) string string string "string option"
  | ReleaseDeployed (ev_orgId: string) (ev_at: string) string string string string "(int \<times> int \<times> int) option"
  | DeploymentRolledBack (ev_orgId: string) (ev_at: string) string string string
  | HealthFailed (ev_orgId: string) (ev_at: string) "string option" string "string option" bool "(string \<times> healthStatus) list"
  | PromotionApproved (ev_orgId: string) (ev_at: string) string "string option" string string string
  | PromotionRejected (ev_orgId: string) (ev_at: string) string string string string string "string option"

fun ev_kind :: "signalmanEvent \<Rightarrow> string" where
  "ev_kind (ReleaseBuilt _ _ _ _ _ _) = ''release-built''"
| "ev_kind (ReleaseDeployed _ _ _ _ _ _ _) = ''release-deployed''"
| "ev_kind (DeploymentRolledBack _ _ _ _ _) = ''deployment-rolled-back''"
| "ev_kind (HealthFailed _ _ _ _ _ _ _) = ''health-failed''"
| "ev_kind (PromotionApproved _ _ _ _ _ _ _) = ''promotion-approved''"
| "ev_kind (PromotionRejected _ _ _ _ _ _ _ _) = ''promotion-rejected''"

fun healthStatus_text :: "healthStatus \<Rightarrow> string" where
  "healthStatus_text HPass = ''pass''"
| "healthStatus_text HFail = ''fail''"
| "healthStatus_text HDegraded = ''degraded''"

fun eventFields :: "signalmanEvent \<Rightarrow> (string \<times> json) list" where
  "eventFields (ReleaseBuilt _ _ releaseId productName tag manifestSha256) =
     [(''releaseId'', JStr releaseId), (''productName'', JStr productName), (''tag'', JStr tag),
      (''manifestSha256'', jsonOf manifestSha256)]"
| "eventFields (ReleaseDeployed _ _ deploymentId releaseId targetName status summary) =
     [(''deploymentId'', JStr deploymentId), (''releaseId'', JStr releaseId), (''targetName'', JStr targetName),
      (''status'', JStr status)] @
     (case summary of None \<Rightarrow> []
      | Some (tot, pass, fail) \<Rightarrow> [(''healthSummary'', JObj [(''total'', JNum (of_int tot)),
          (''pass'', JNum (of_int pass)), (''fail'', JNum (of_int fail))])])"
| "eventFields (DeploymentRolledBack _ _ deploymentId releaseId targetName) =
     [(''deploymentId'', JStr deploymentId), (''releaseId'', JStr releaseId), (''targetName'', JStr targetName)]"
| "eventFields (HealthFailed _ _ scheduleId targetId deploymentId up probes) =
     [(''scheduleId'', jsonOf scheduleId), (''targetId'', JStr targetId), (''deploymentId'', jsonOf deploymentId),
      (''reachable'', JBool up),
      (''probes'', JArr (map (\<lambda>(n, s). JObj [(''name'', JStr n), (''status'', JStr (healthStatus_text s))]) probes))]"
| "eventFields (PromotionApproved _ _ promotionId approvalId policyId releaseId targetName) =
     [(''promotionId'', JStr promotionId), (''approvalId'', jsonOf approvalId), (''policyId'', JStr policyId),
      (''releaseId'', JStr releaseId), (''targetName'', JStr targetName)]"
| "eventFields (PromotionRejected _ _ promotionId approvalId policyId releaseId targetName reason) =
     [(''promotionId'', JStr promotionId), (''approvalId'', JStr approvalId), (''policyId'', JStr policyId),
      (''releaseId'', JStr releaseId), (''targetName'', JStr targetName), (''reason'', jsonOf reason)]"

definition eventJson :: "signalmanEvent \<Rightarrow> json" where
  "eventJson ev = JObj ([(''kind'', JStr (ev_kind ev)), (''orgId'', JStr (ev_orgId ev)), (''at'', JStr (ev_at ev))]
     @ eventFields ev)"

section \<open>Slack\<close>

text \<open>The arrow of the messages, as UTF-8.\<close>

definition arrow :: string where
  "arrow = [CHR 0xE2, CHR 0x86, CHR 0x92]"

definition mdField :: "string \<times> string \<Rightarrow> json" where
  "mdField = (\<lambda>(label, value). JObj [(''type'', JStr ''mrkdwn''),
     (''text'', JStr (''*'' @ label @ ''*'' @ [CHR 0x0A] @ value))])"

definition headerBlock :: "string \<Rightarrow> json" where
  "headerBlock t = JObj [(''type'', JStr ''header''),
     (''text'', JObj [(''type'', JStr ''plain_text''), (''text'', JStr t), (''emoji'', JBool False)])]"

definition sectionBlock :: "json list \<Rightarrow> json" where
  "sectionBlock fs = JObj [(''type'', JStr ''section''), (''fields'', JArr fs)]"

definition contextBlock :: "string \<Rightarrow> json" where
  "contextBlock t = JObj [(''type'', JStr ''context''),
     (''elements'', JArr [JObj [(''type'', JStr ''mrkdwn''), (''text'', JStr t)]])]"

definition failedProbes :: "(string \<times> healthStatus) list \<Rightarrow> string" where
  "failedProbes probes = join_with '', '' (map fst (filter (\<lambda>p. snd p = HFail) probes))"

definition orText :: "string \<Rightarrow> string \<Rightarrow> string" where
  "orText a b = (if a = [] then b else a)"

text \<open>The headline and the fields of each kind of event.\<close>

fun slackText :: "signalmanEvent \<Rightarrow> string" where
  "slackText (ReleaseBuilt _ _ _ productName tag _) = ''Release built: '' @ productName @ ''@'' @ tag"
| "slackText (ReleaseDeployed _ _ _ _ targetName status _) =
     ''Release deployed '' @ arrow @ '' '' @ targetName @ '' ('' @ status @ '')''"
| "slackText (DeploymentRolledBack _ _ _ _ targetName) = ''Deployment rolled back on '' @ targetName"
| "slackText (HealthFailed _ _ _ targetId _ up probes) =
     (if up then ''Health failed on '' @ targetId @ '': ''
        @ orText (failedProbes probes) (''(no failed probes '' @ emDash @ '' see detail)'')
      else ''Target unreachable: '' @ targetId)"
| "slackText (PromotionApproved _ _ _ _ _ _ targetName) = ''Promotion approved '' @ arrow @ '' '' @ targetName"
| "slackText (PromotionRejected _ _ _ _ _ _ targetName _) = ''Promotion rejected: '' @ targetName"

fun slackFields :: "signalmanEvent \<Rightarrow> (string \<times> string) list" where
  "slackFields (ReleaseBuilt _ _ releaseId productName tag manifestSha256) =
     [(''Product'', productName), (''Tag'', tag), (''Release id'', releaseId),
      (''Manifest sha256'', orElse manifestSha256 ''(unsigned)'')]"
| "slackFields (ReleaseDeployed _ _ deploymentId releaseId targetName status summary) =
     [(''Target'', targetName), (''Release id'', releaseId), (''Deployment id'', deploymentId), (''Status'', status),
      (''Health'', case summary of None \<Rightarrow> ''(no health summary)''
         | Some (tot, pass, fail) \<Rightarrow> showInt pass @ ''/'' @ showInt tot @ '' probes passed'')]"
| "slackFields (DeploymentRolledBack _ _ deploymentId releaseId targetName) =
     [(''Target'', targetName), (''Deployment id'', deploymentId), (''Release id'', releaseId)]"
| "slackFields (HealthFailed _ _ _ targetId deploymentId up probes) =
     [(''Target id'', targetId),
      (''Deployment id'', orElse deploymentId (''(none '' @ emDash @ '' schedule has no active deployment)'')),
      (''Reachable'', if up then ''yes'' else ''no''), (''Failed probes'', orText (failedProbes probes) ''(none)'')]"
| "slackFields (PromotionApproved _ _ promotionId approvalId policyId releaseId targetName) =
     [(''Target'', targetName), (''Promotion id'', promotionId), (''Release id'', releaseId), (''Policy id'', policyId),
      (''Approval id'', orElse approvalId ''(auto)'')]"
| "slackFields (PromotionRejected _ _ promotionId approvalId policyId releaseId targetName reason) =
     [(''Target'', targetName), (''Promotion id'', promotionId), (''Release id'', releaseId),
      (''Approval id'', approvalId), (''Reason'', orElse reason ''(no reason given)'')]"

definition formatEventForSlack :: "signalmanEvent \<Rightarrow> json" where
  "formatEventForSlack ev = JObj [(''text'', JStr (slackText ev)),
     (''blocks'', JArr [headerBlock (slackText ev), sectionBlock (map mdField (slackFields ev)),
       contextBlock (''at '' @ ev_at ev)])]"

section \<open>The dispatcher\<close>

text \<open>
  \<open>tr_fetch url headers body\<close> is the injected \<open>HttpFetcher\<close>, with the status of the response as its result;
  \<open>tr_email\<close> is the \<open>EmailSender\<close>, \<open>None\<close> where the option is \<open>null\<close>; \<open>tr_smtp\<close> says that
  \<open>SIGNALMAN_SMTP_URL\<close> is set or a sender was injected; \<open>tr_hmac\<close> is HMAC-SHA256 in hexadecimal.
  The transports may act on the state and may throw.
\<close>

record 'z transport =
  tr_fetch :: "string \<Rightarrow> (string \<times> string) list \<Rightarrow> json \<Rightarrow> ('z, nat) DB"
  tr_email :: "(string \<Rightarrow> string \<Rightarrow> json \<Rightarrow> ('z, unit) DB) option"
  tr_smtp :: bool
  tr_hmac :: "string \<Rightarrow> json \<Rightarrow> string"

definition signBody :: "'z transport \<Rightarrow> string \<Rightarrow> json \<Rightarrow> string" where
  "signBody tr secret body = ''sha256='' @ tr_hmac tr secret body"

definition verifySignature :: "'z transport \<Rightarrow> string \<Rightarrow> json \<Rightarrow> string \<Rightarrow> bool" where
  "verifySignature tr secret body signature \<longleftrightarrow>
     signBody tr secret body = (if startsWith signature ''sha256='' then signature else ''sha256='' @ signature)"

record dispatchOutcome =
  oc_subscriptionId :: string
  oc_kind :: webhookKind
  oc_delivered :: bool
  oc_status :: "nat option"
  oc_error :: "string option"

definition subscriptionWantsEvent :: "webhookSubscription \<Rightarrow> signalmanEvent \<Rightarrow> bool" where
  "subscriptionWantsEvent sub ev \<longleftrightarrow> wh_eventKinds sub = [] \<or> ev_kind ev \<in> set (wh_eventKinds sub)"

definition jsonHeaders :: "(string \<times> string) list" where
  "jsonHeaders = [(''content-type'', ''application/json; charset=utf-8'')]"

definition httpOutcome :: "webhookSubscription \<Rightarrow> string \<Rightarrow> nat \<Rightarrow> dispatchOutcome" where
  "httpOutcome sub prefix status =
     (let good = 200 \<le> status \<and> status < 300 in
      \<lparr>oc_subscriptionId = wh_id sub, oc_kind = wh_kind sub, oc_delivered = good, oc_status = Some status,
       oc_error = (if good then None else Some (prefix @ showNat status))\<rparr>)"

definition deliverGeneric :: "'z transport \<Rightarrow> webhookSubscription \<Rightarrow> signalmanEvent \<Rightarrow> ('z, dispatchOutcome) DB" where
  "deliverGeneric tr sub ev =
     (let body = eventJson ev;
          headers = jsonHeaders @
            (if truthy (wh_secretHmacKey sub)
             then [(''x-signalman-signature'', signBody tr (the (wh_secretHmacKey sub)) body)] else []) in
      bindM (tr_fetch tr (wh_url sub) headers body) (\<lambda>status. ret (httpOutcome sub ''non-2xx response: '' status)))"

definition deliverSlack :: "'z transport \<Rightarrow> webhookSubscription \<Rightarrow> signalmanEvent \<Rightarrow> ('z, dispatchOutcome) DB" where
  "deliverSlack tr sub ev =
     bindM (tr_fetch tr (wh_url sub) jsonHeaders (formatEventForSlack ev)) (\<lambda>status.
     ret (httpOutcome sub ''slack non-2xx: '' status))"

definition deliverEmail :: "'z transport \<Rightarrow> webhookSubscription \<Rightarrow> signalmanEvent \<Rightarrow> ('z, dispatchOutcome) DB" where
  "deliverEmail tr sub ev =
     (case tr_email tr of
        None \<Rightarrow> ret \<lparr>oc_subscriptionId = wh_id sub, oc_kind = wh_kind sub, oc_delivered = False,
                 oc_status = None, oc_error = Some ''email transport disabled''\<rparr>
      | Some send \<Rightarrow>
          bindM (send (if startsWith (wh_url sub) ''mailto:'' then drop 7 (wh_url sub) else wh_url sub)
            (''[signalman] '' @ ev_kind ev) (eventJson ev)) (\<lambda>_.
          ret \<lparr>oc_subscriptionId = wh_id sub, oc_kind = wh_kind sub, oc_delivered = tr_smtp tr, oc_status = None,
               oc_error = (if tr_smtp tr then None else Some ''SIGNALMAN_SMTP_URL not set'')\<rparr>))"

definition deliver :: "'z transport \<Rightarrow> webhookSubscription \<Rightarrow> signalmanEvent \<Rightarrow> ('z, dispatchOutcome) DB" where
  "deliver tr sub ev =
     catchM (case wh_kind sub of
         WGeneric \<Rightarrow> deliverGeneric tr sub ev
       | WSlack \<Rightarrow> deliverSlack tr sub ev
       | WEmail \<Rightarrow> deliverEmail tr sub ev)
     (\<lambda>e. ret \<lparr>oc_subscriptionId = wh_id sub, oc_kind = wh_kind sub, oc_delivered = False, oc_status = None,
               oc_error = Some (err_message e)\<rparr>)"

definition deliveryDetail :: "signalmanEvent \<Rightarrow> dispatchOutcome \<Rightarrow> json" where
  "deliveryDetail ev oc = JObj ([(''event'', JStr (ev_kind ev))] @
     (case oc_status oc of None \<Rightarrow> [] | Some n \<Rightarrow> [(''status'', JNum (of_nat n))]) @
     (case oc_error oc of None \<Rightarrow> [] | Some m \<Rightarrow> [(''error'', JStr m)]))"

definition deliveryAction :: "dispatchOutcome \<Rightarrow> string" where
  "deliveryAction oc = (if oc_delivered oc then ''webhook.delivered'' else ''webhook.failed'')"

text \<open>\<open>try { await m } catch { }\<close>.\<close>

definition attempt :: "('s, 'e, 'a) M \<Rightarrow> ('s, 'e, unit) M" where
  "attempt m = tryM (bindM m (\<lambda>_. ret ()))"

fun dispatchTo :: "'z transport \<Rightarrow> signalmanEvent \<Rightarrow> webhookSubscription list \<Rightarrow> ('z, dispatchOutcome list) DB" where
  "dispatchTo tr ev [] = ret []"
| "dispatchTo tr ev (sub # subs) =
     (if \<not> subscriptionWantsEvent sub ev then dispatchTo tr ev subs
      else
        bindM (deliver tr sub ev) (\<lambda>oc.
        bindM (attempt (audit_append (ev_orgId ev) ''dispatcher'' (deliveryAction oc) ''webhook_subscription'' (wh_id sub)
          (Some (deliveryDetail ev oc)))) (\<lambda>_.
        bindM (dispatchTo tr ev subs) (\<lambda>ocs. ret (oc # ocs)))))"

definition dispatch :: "'z transport \<Rightarrow> signalmanEvent \<Rightarrow> ('z, dispatchOutcome list) DB" where
  "dispatch tr ev = bindM (webhook_listActive (Some (ev_orgId ev))) (dispatchTo tr ev)"

text \<open>The verb layer's \<open>fireEventBestEffort\<close>: an error of the dispatcher itself is logged and dropped.\<close>

definition fireEventBestEffort :: "'z transport \<Rightarrow> signalmanEvent \<Rightarrow> ('z, dispatchOutcome list option) DB" where
  "fireEventBestEffort tr ev = catchM (bindM (dispatch tr ev) (\<lambda>r. ret (Some r))) (\<lambda>_. ret None)"

section \<open>Failures stay with their subscription\<close>

lemma attempt_total: "\<exists>w'. attempt m w = (Inr (), w')"
  by (auto simp: attempt_def tryM_def catchM_def ret_def split: prod.splits sum.splits)

lemma deliver_total: "\<exists>oc w'. deliver tr sub ev w = (Inr oc, w') \<and> oc_subscriptionId oc = wh_id sub"
proof -
  have h: "oc_subscriptionId (httpOutcome sub p n) = wh_id sub" for p n by (simp add: httpOutcome_def Let_def)
  show ?thesis
    by (cases "wh_kind sub")
      (auto simp: deliver_def catchM_def deliverGeneric_def deliverSlack_def deliverEmail_def Let_def bindM_def ret_def h
        split: prod.splits sum.splits option.splits)
qed

lemma deliver_id: "deliver tr sub ev w = (Inr oc, w') \<Longrightarrow> oc_subscriptionId oc = wh_id sub"
  using deliver_total [of tr sub ev w] by auto

text \<open>What a transport is asked to leave alone: the audit log of a quiet, consistent database.\<close>

definition audited :: "org list \<Rightarrow> auditLogEntry list \<Rightarrow> 'z world_scheme \<Rightarrow> bool" where
  "audited Os A w \<longleftrightarrow> quiet w \<and> db_ok w \<and> freshIds w \<and> orgs w = Os \<and> auditLog w = A"

definition offDatabase :: "'z transport \<Rightarrow> bool" where
  "offDatabase tr \<longleftrightarrow> (\<forall>Os A. (\<forall>url hs b. keeps (audited Os A) (tr_fetch tr url hs b)) \<and>
     (\<forall>send to subject b. tr_email tr = Some send \<longrightarrow> keeps (audited Os A) (send to subject b)))"

lemma deliver_audited:
  assumes "offDatabase tr"
  shows "keeps (audited Os A) (deliver tr sub ev)"
proof -
  have f: "keeps (audited Os A) (tr_fetch tr url hs b)" for url hs b using assms by (simp add: offDatabase_def)
  have e: "tr_email tr = Some send \<Longrightarrow> keeps (audited Os A) (send to subject b)" for send to subject b
    using assms by (simp add: offDatabase_def)
  show ?thesis
    unfolding deliver_def deliverGeneric_def deliverSlack_def deliverEmail_def
    by (cases "wh_kind sub") (auto intro!: keeps_intros f e)
qed

lemma audit_append_audited:
  assumes "audited Os A w" and "orgId \<in> o_id ` set Os"
  shows "\<exists>e w'. audit_append orgId actor action ty i detail w = (Inr e, w') \<and> audited Os (A @ [e]) w' \<and>
    al_action e = action \<and> al_entityId e = i \<and> al_detail e = detail"
proof -
  have h: "holds (deployments w) Os w" using assms(1) by (simp add: audited_def holds_def)
  obtain e w' where r: "audit_append orgId actor action ty i detail w = (Inr e, w')" "holds (deployments w) Os w'"
    using audit_append_ok [OF h assms(2)] by blast
  then show ?thesis
    using auditLog.createRow_Inr [OF r(1) [unfolded audit_append_def]] assms(1) by (auto simp: audited_def holds_def)
qed

lemma dispatchTo_audited:
  assumes "offDatabase tr" and "ev_orgId ev \<in> o_id ` set Os"
  shows "audited Os A w \<Longrightarrow> \<exists>ocs es w'. dispatchTo tr ev subs w = (Inr ocs, w') \<and> audited Os (A @ es) w' \<and>
    list_all2 (\<lambda>s oc. \<exists>u u'. deliver tr s ev u = (Inr oc, u')) (filter (\<lambda>s. subscriptionWantsEvent s ev) subs) ocs \<and>
    map al_entityId es = map oc_subscriptionId ocs \<and> map al_action es = map deliveryAction ocs"
proof (induction subs arbitrary: A w)
  case Nil
  then show ?case by (intro exI [of _ "[]"] exI [of _ w]) (simp add: ret_def)
next
  case (Cons sub subs)
  show ?case
  proof (cases "subscriptionWantsEvent sub ev")
    case False
    then show ?thesis using Cons by simp
  next
    case True
    obtain oc w1 where d: "deliver tr sub ev w = (Inr oc, w1)" "oc_subscriptionId oc = wh_id sub"
      using deliver_total by blast
    have "audited Os A w1" by (rule keepsD_eq [OF deliver_audited [OF assms(1)] d(1) Cons.prems])
    from audit_append_audited [OF this assms(2)] obtain e w2 where
      a: "audit_append (ev_orgId ev) ''dispatcher'' (deliveryAction oc) ''webhook_subscription'' (wh_id sub)
          (Some (deliveryDetail ev oc)) w1 = (Inr e, w2)" "audited Os (A @ [e]) w2"
        "al_action e = deliveryAction oc" "al_entityId e = wh_id sub" by blast
    from Cons.IH [OF a(2)] obtain ocs es w3 where
      r: "dispatchTo tr ev subs w2 = (Inr ocs, w3)" "audited Os ((A @ [e]) @ es) w3"
        "list_all2 (\<lambda>s oc. \<exists>u u'. deliver tr s ev u = (Inr oc, u')) (filter (\<lambda>s. subscriptionWantsEvent s ev) subs) ocs"
        "map al_entityId es = map oc_subscriptionId ocs" "map al_action es = map deliveryAction ocs" by blast
    have "dispatchTo tr ev (sub # subs) w = (Inr (oc # ocs), w3)"
      using True by (simp add: bindM_def d(1) attempt_def tryM_def catchM_def a(1) r(1) ret_def)
    with d r a(3,4) True show ?thesis
      by (intro exI [of _ "oc # ocs"] exI [of _ "e # es"] exI [of _ w3]) auto
  qed
qed

text \<open>
  C25. One failing subscriber does not silence the others.  With transports that leave the database
  alone, \<open>dispatch\<close> never throws; it tries every active subscription of the organisation that wants
  the event, in order of creation, whatever the transports answer or throw, and appends exactly one
  audit entry per attempt that says whether it was delivered.
\<close>

theorem dispatch_tries_every_subscriber:
  assumes "offDatabase tr" and "audited Os A w" and "ev_orgId ev \<in> o_id ` set Os" and "ev_orgId ev \<noteq> []"
  defines "subs \<equiv> filter (\<lambda>s. subscriptionWantsEvent s ev)
    (sort_key wh_createdAt (filter (\<lambda>s. wh_orgId s = ev_orgId ev \<and> wh_active s \<and> wh_deletedAt s = None) (webhookSubscriptions w)))"
  shows "\<exists>ocs es w'. dispatch tr ev w = (Inr ocs, w') \<and> auditLog w' = A @ es \<and>
    list_all2 (\<lambda>s oc. \<exists>u u'. deliver tr s ev u = (Inr oc, u')) subs ocs \<and>
    map oc_subscriptionId ocs = map wh_id subs \<and>
    map al_entityId es = map wh_id subs \<and> map al_action es = map deliveryAction ocs"
proof -
  have q: "quiet w" using assms(2) by (simp add: audited_def)
  let ?all = "sort_key wh_createdAt (filter (\<lambda>s. wh_orgId s = ev_orgId ev \<and> wh_active s \<and> wh_deletedAt s = None) (webhookSubscriptions w))"
  have l: "webhook_listActive (Some (ev_orgId ev)) w = (Inr ?all, tick w)"
    using assms(4) q by (simp add: webhook_listActive_def truthy_def selectAll_quiet orderBy_def)
  have "audited Os A (tick w)" using assms(2) by (simp add: audited_def)
  from dispatchTo_audited [OF assms(1,3) this, of ?all] obtain ocs es w' where
    r: "dispatchTo tr ev ?all (tick w) = (Inr ocs, w')" "audited Os (A @ es) w'"
      "list_all2 (\<lambda>s oc. \<exists>u u'. deliver tr s ev u = (Inr oc, u')) subs ocs"
      "map al_entityId es = map oc_subscriptionId ocs" "map al_action es = map deliveryAction ocs"
    unfolding subs_def by blast
  have "map oc_subscriptionId ocs = map wh_id subs"
    using r(3) by (induction rule: list_all2_induct) (auto dest: deliver_id)
  then show ?thesis using l r by (auto simp: dispatch_def bindM_def audited_def)
qed

section \<open>An instance\<close>

definition sampleHook :: "string \<Rightarrow> string \<Rightarrow> webhookSubscription" where
  "sampleHook i url = \<lparr>wh_id = i, wh_orgId = ''o1'', wh_kind = WGeneric, wh_url = url, wh_secretHmacKey = None,
     wh_eventKinds = [], wh_active = True, wh_description = None, wh_createdAt = ''2023-11-14T22:13:20.000Z'',
     wh_updatedAt = ''2023-11-14T22:13:20.000Z'', wh_deletedAt = None\<rparr>"

definition hookWorld :: world where
  "hookWorld = orgWorld\<lparr>ulids := (\<lambda>n. replicate (Suc n) CHR ''u''),
     webhookSubscriptions := [sampleHook ''h1'' ''http://down'', sampleHook ''h2'' ''http://up'']\<rparr>"

definition halfDown :: "unit transport" where
  "halfDown = \<lparr>tr_fetch = (\<lambda>url _ _. if url = ''http://down'' then throwM (JsError ''ECONNREFUSED'') else ret 204),
     tr_email = None, tr_smtp = False, tr_hmac = (\<lambda>_ _. [])\<rparr>"

theorem dispatch_tries_every_subscriber_witness:
  "\<exists>ocs es w'. dispatch halfDown (DeploymentRolledBack ''o1'' ''t'' ''d'' ''r'' ''lab'') hookWorld = (Inr ocs, w') \<and>
     auditLog w' = es \<and> map oc_subscriptionId ocs = [''h1'', ''h2''] \<and> map al_entityId es = [''h1'', ''h2'']"
proof -
  have t: "offDatabase halfDown" by (simp add: offDatabase_def halfDown_def keeps_ret keeps_throwM)
  have w: "audited [acme] [] hookWorld"
    by (simp add: audited_def hookWorld_def world_eval sampleHook_def freshIds_def usedIds_def inj_def)
  show ?thesis
    using dispatch_tries_every_subscriber [OF t w, of "DeploymentRolledBack ''o1'' ''t'' ''d'' ''r'' ''lab''"]
    by (auto simp: acme_def hookWorld_def sampleHook_def subscriptionWantsEvent_def orgWorld_def freshWorld_def)
qed

end
