(* ===== verification/Scheduler.thy ===== *)
theory Scheduler
  imports Events
begin

text \<open>
  The health scheduler (\<open>control-plane/scheduler/runner.ts\<close>): the due decision and one tick.  The probe
  invoker and the event sink are parameters that may act on the state and may throw.  The timer loop
  around the tick is not modelled.
\<close>

section \<open>The tick\<close>

text \<open>\<open>Date.parse\<close> on the stored times, which \<open>nowIso\<close> writes.\<close>

definition due :: "int \<Rightarrow> healthSchedule \<Rightarrow> bool" where
  "due nowMs s \<longleftrightarrow>
     (case dateParse (orElse (hs_lastRunAt s) (hs_createdAt s)) of
        None \<Rightarrow> False
      | Some anchorMs \<Rightarrow> anchorMs + hs_intervalSeconds s * 1000 \<le> nowMs)"

definition dueSchedules :: "healthSchedule list \<Rightarrow> int \<Rightarrow> healthSchedule list" where
  "dueSchedules schedules nowMs = filter (due nowMs) schedules"

record scheduledProbeOutcome =
  so_reachable :: bool
  so_probes :: "(string \<times> healthStatus) list"
  so_deploymentId :: "string option"

datatype schedulerEvent =
    HealthTick string string scheduledProbeOutcome string
  | HealthFailedEvent string string scheduledProbeOutcome string
  | ScheduleError string string string string

definition watermark :: "string \<Rightarrow> schedulePatch" where
  "watermark now = \<lparr>hp_intervalSeconds = None, hp_probeNames = None, hp_active = None, hp_lastRunAt = Some (Some now)\<rparr>"

definition scheduleDetail :: "healthSchedule \<Rightarrow> scheduledProbeOutcome \<Rightarrow> json" where
  "scheduleDetail s oc = JObj [(''targetId'', JStr (hs_targetId s)), (''deploymentId'', jsonOf (so_deploymentId oc)),
     (''reachable'', JBool (so_reachable oc)),
     (''probes'', JArr (map (\<lambda>(n, st). JObj [(''name'', JStr n), (''status'', JStr (healthStatus_text st))]) (so_probes oc)))]"

definition scheduleTry ::
  "(healthSchedule \<Rightarrow> ('z, scheduledProbeOutcome) DB) \<Rightarrow> (schedulerEvent \<Rightarrow> ('z, unit) DB) \<Rightarrow> string \<Rightarrow>
   healthSchedule \<Rightarrow> ('z, unit) DB" where
  "scheduleTry invoke emit now s =
     bindM (invoke s) (\<lambda>oc.
     bindM (schedule_update (hs_id s) (watermark now)) (\<lambda>_.
     bindM (emit (HealthTick (hs_id s) (hs_targetId s) oc now)) (\<lambda>_.
     let probeFailed = (\<exists>p \<in> set (so_probes oc). snd p = HFail) in
     bindM (if \<not> so_reachable oc \<or> probeFailed then emit (HealthFailedEvent (hs_id s) (hs_targetId s) oc now) else ret ()) (\<lambda>_.
     bindM (audit_append (hs_orgId s) ''scheduler''
       (if so_reachable oc \<and> \<not> probeFailed then ''health.scheduled.pass'' else ''health.scheduled.fail'')
       ''health_schedule'' (hs_id s) (Some (scheduleDetail s oc))) (\<lambda>_. ret ())))))"

definition scheduleCatch ::
  "(schedulerEvent \<Rightarrow> ('z, unit) DB) \<Rightarrow> string \<Rightarrow> healthSchedule \<Rightarrow> err \<Rightarrow> ('z, unit) DB" where
  "scheduleCatch emit now s e =
     bindM (attempt (schedule_update (hs_id s) (watermark now))) (\<lambda>_.
     bindM (emit (ScheduleError (hs_id s) (hs_targetId s) (err_message e) now)) (\<lambda>_.
     attempt (audit_append (hs_orgId s) ''scheduler'' ''health.scheduled.error'' ''health_schedule'' (hs_id s)
       (Some (JObj [(''error'', JStr (err_message e))])))))"

definition runSchedule where
  "runSchedule invoke emit now s = catchM (scheduleTry invoke emit now s) (scheduleCatch emit now s)"

definition runSchedulerTick ::
  "(healthSchedule \<Rightarrow> ('z, scheduledProbeOutcome) DB) \<Rightarrow> (schedulerEvent \<Rightarrow> ('z, unit) DB) \<Rightarrow> ('z, nat) DB" where
  "runSchedulerTick invoke emit =
     bindM dateNow (\<lambda>nowMs.
     bindM (schedule_listActive None) (\<lambda>active.
     let ready = dueSchedules active nowMs in
     bindM (foldM (\<lambda>_ s. runSchedule invoke emit (toISOString nowMs) s) () ready) (\<lambda>_. ret (length ready))))"

section \<open>The watermarks\<close>

text \<open>The schedules without their \<open>updated_at\<close>, in a quiet consistent database.\<close>

definition unstamped :: "'z world_scheme \<Rightarrow> healthSchedule list" where
  "unstamped w = map (\<lambda>s. s\<lparr>hs_updatedAt := []\<rparr>) (healthSchedules w)"

definition schedules_are :: "healthSchedule list \<Rightarrow> 'z world_scheme \<Rightarrow> bool" where
  "schedules_are S w \<longleftrightarrow> quiet w \<and> db_ok w \<and> unstamped w = S"

definition touch :: "string \<Rightarrow> string \<Rightarrow> healthSchedule list \<Rightarrow> healthSchedule list" where
  "touch now i S = map (\<lambda>s. if hs_id s = i then s\<lparr>hs_lastRunAt := Some now\<rparr> else s) S"

lemma touch_idem [simp]: "touch now i (touch now i S) = touch now i S"
  by (simp add: touch_def)

definition liveIds :: "healthSchedule list \<Rightarrow> string list" where
  "liveIds S = map hs_id (filter (\<lambda>s. hs_deletedAt s = None) S)"

lemma liveIds_touch [simp]: "liveIds (touch now i S) = liveIds S"
  by (induction S) (simp_all add: liveIds_def touch_def)

lemma watermark_ok:
  assumes "schedules_are S w" and "i \<in> set (liveIds S)"
  shows "\<exists>r w'. schedule_update i (watermark now) w = (Inr r, w') \<and> schedules_are (touch now i S) w'"
proof -
  have q: "quiet w" "db_ok w" and S: "S = unstamped w" using assms(1) by (auto simp: schedules_are_def)
  have c: "healthSchedules_chk w (healthSchedules w) = None" by (rule healthSchedules.ok_chk [OF q(2)])
  then have u: "unique_on anyRow hs_id (healthSchedules w)" by (simp add: healthSchedules_chk_def)
  obtain s where s: "s \<in> set (healthSchedules w)" "hs_deletedAt s = None" "hs_id s = i"
    using assms(2) by (auto simp: S unstamped_def liveIds_def)
  have "unique_on (\<lambda>r. hs_deletedAt r = None) hs_id (healthSchedules w)"
    using u by (auto simp: unique_on_def distinct_map inj_on_def)
  from unique_on_find [OF this s(1,2)]
  have f: "find (\<lambda>r. hs_id r = i \<and> hs_deletedAt r = None) (healthSchedules w) = Some s"
    using s(3) by (simp add: conj_commute)
  let ?g = "\<lambda>t r. r\<lparr>hs_lastRunAt := Some now, hs_updatedAt := t\<rparr>"
  let ?p = "\<lambda>t ex r. r\<lparr>hs_intervalSeconds := hs_intervalSeconds ex, hs_probeNames := hs_probeNames ex,
    hs_lastRunAt := Some now, hs_active := hs_active ex, hs_updatedAt := t\<rparr>"
  have one: "map (\<lambda>r. if hs_id r = i then ?p t s r else r) (healthSchedules w) =
      map (\<lambda>r. if hs_id r = i then ?g t r else r) (healthSchedules w)" for t
    using unique_onD [OF u _ s(1)] s(3) by (intro map_cong) auto
  have chk: "healthSchedules_chk w (map (\<lambda>r. if hs_id r = i then ?p t s r else r) (healthSchedules w)) = None" for t
    unfolding one using c by (auto simp: healthSchedules_chk_def update_simps intro!: unique_on_shrink)
  let ?t = "toISOString (clocks w (clockN w))"
  let ?w' = "healthSchedules_update (\<lambda>_. map (\<lambda>r. if hs_id r = i then ?p ?t s r else r) (healthSchedules w))
    (w\<lparr>clockN := Suc (clockN w), stmtN := Suc (Suc (stmtN w))\<rparr>)"
  have run: "schedule_update i (watermark now) w = (Inr (?p ?t s s), ?w')"
    unfolding schedule_update_def watermark_def
    using healthSchedules.patchRow_quiet [where f = ?p and entity = "''health_schedule''", OF q(1) f chk] by simp
  have "db_ok ?w'" by (rule keepsD_eq [OF keeps_schedule(2) run q(2)])
  moreover have "unstamped ?w' = touch now i S" unfolding S unstamped_def one by (simp add: touch_def)
  ultimately show ?thesis using run q(1) by (simp add: schedules_are_def)
qed

lemma schedules_env [simp]:
  "schedules_are S (w\<lparr>stmtN := n\<rparr>) = schedules_are S w" "schedules_are S (w\<lparr>clockN := n\<rparr>) = schedules_are S w"
  "schedules_are S (w\<lparr>ulidN := n\<rparr>) = schedules_are S w"
  by (simp_all add: schedules_are_def unstamped_def)

lemma schedules_reads [keeps_intros]:
  "keeps (schedules_are S) (selectOne get p)" "keeps (schedules_are S) (selectAll get p ord)"
  "keeps (schedules_are S) nowIso" "keeps (schedules_are S) dateNow"
  by (auto simp: keeps_def nowIso_run dateNow_def selectOne_quiet selectAll_quiet schedules_are_def unstamped_def)

lemma schedules_createRow:
  fixes upd :: "('r list \<Rightarrow> 'r list) \<Rightarrow> 'z world_scheme \<Rightarrow> 'z world_scheme"
  assumes "keeps db_ok (createRow get upd chk mk)"
    and "\<And>f w. healthSchedules (upd f w) = healthSchedules w" and "\<And>f w. quiet (upd f w) = quiet w"
  shows "keeps (schedules_are S) (createRow get upd chk mk)"
proof (rule keepsI)
  fix w :: "'z world_scheme"
  assume h: "schedules_are S w"
  then have "db_ok (snd (createRow get upd chk mk w))" by (intro keepsD [OF assms(1)]) (simp add: schedules_are_def)
  moreover have "quiet (snd (createRow get upd chk mk w)) \<and> unstamped (snd (createRow get upd chk mk w)) = S"
    using h assms(2,3)
    by (auto simp: createRow_def bindM_def nowIso_run newId_run mappingErrors_def catchM_def insertInto_def stmt_quiet
        constrained_def throwM_def ret_def schedules_are_def unstamped_def split: option.split)
  ultimately show "schedules_are S (snd (createRow get upd chk mk w))" by (simp add: schedules_are_def)
qed

lemma schedules_creates [keeps_intros]:
  "keeps (schedules_are S) (audit_append orgId actor action ty i detail)"
  "keeps (schedules_are S) (healthCheck_append d name st lat det)"
  "keeps (schedules_are S) (org_create nm tier)"
  unfolding audit_append_def healthCheck_append_def org_create_def
    apply (rule schedules_createRow [OF auditLog.keeps_createRow]; simp)
   apply (rule schedules_createRow [OF healthChecks.keeps_createRow]; simp)
  by (rule schedules_createRow [OF orgs.keeps_createRow]; simp)

lemmas audit_schedules = schedules_creates(1)

text \<open>What the tick relies on: the invoker leaves the schedules alone, and the event sink does not throw.\<close>

locale tick_hooks =
  fixes invoke :: "healthSchedule \<Rightarrow> ('z, scheduledProbeOutcome) DB" and emit :: "schedulerEvent \<Rightarrow> ('z, unit) DB"
  assumes invoke_keeps: "keeps (schedules_are S) (invoke s)"
    and emit_ok: "triple (schedules_are S) (emit e) (\<lambda>_. schedules_are S) (\<lambda>_ _. False)"
begin

lemma try_triple:
  assumes "hs_id s \<in> set (liveIds S)"
  shows "triple (schedules_are S) (scheduleTry invoke emit now s) (\<lambda>_. schedules_are (touch now (hs_id s) S))
    (\<lambda>_ w. schedules_are S w \<or> schedules_are (touch now (hs_id s) S) w)"
  unfolding scheduleTry_def Let_def
  apply (rule triple_step [OF invoke_keeps], simp)
  apply (rule triple_bindM)
   apply (rule triple_run, erule watermark_ok [OF _ assms])
  apply (rule triple_seq [OF emit_ok], simp)
  apply (rule triple_bindM [where R = "\<lambda>_. schedules_are (touch now (hs_id s) S)"])
   prefer 2
   apply (rule triple_step [OF audit_schedules], simp)
   apply (rule triple_return, assumption)
  by (rule triple_if, rule triple_weaken [OF emit_ok], auto intro: triple_return)

lemma catch_triple:
  assumes "hs_id s \<in> set (liveIds S)"
  shows "triple (\<lambda>w. schedules_are S w \<or> schedules_are (touch now (hs_id s) S) w) (scheduleCatch emit now s e)
    (\<lambda>_. schedules_are (touch now (hs_id s) S)) (\<lambda>_ _. False)"
proof -
  let ?T = "touch now (hs_id s) S"
  have up: "\<exists>x w'. attempt (schedule_update (hs_id s) (watermark now)) w = (Inr x, w') \<and> schedules_are ?T w'"
    if w: "schedules_are S w \<or> schedules_are ?T w" for w
  proof -
    obtain r w' where "schedule_update (hs_id s) (watermark now) w = (Inr r, w')" "schedules_are ?T w'"
      using w watermark_ok [of S w "hs_id s" now] watermark_ok [of ?T w "hs_id s" now] assms by auto
    then show ?thesis by (simp add: attempt_def tryM_def catchM_def bindM_def ret_def)
  qed
  have au: "triple (schedules_are ?T) (attempt (audit_append o' a b c d f)) (\<lambda>_. schedules_are ?T) (\<lambda>_ _. False)" for o' a b c d f
    unfolding attempt_def tryM_def
    by (rule triple_catchM [where R = "\<lambda>_. schedules_are ?T"], rule triple_step [OF audit_schedules])
      (auto intro: triple_return)
  show ?thesis
    unfolding scheduleCatch_def
    by (rule triple_bindM, rule triple_run, erule up, rule triple_seq [OF emit_ok], simp, rule au)
qed

lemma run_triple:
  assumes "hs_id s \<in> set (liveIds S)"
  shows "triple (schedules_are S) (runSchedule invoke emit now s) (\<lambda>_. schedules_are (touch now (hs_id s) S)) (\<lambda>_ _. False)"
  unfolding runSchedule_def by (rule triple_catchM [OF try_triple [OF assms] catch_triple [OF assms]])

lemma fold_triple:
  assumes "hs_id ` set ss \<subseteq> set (liveIds S)"
  shows "triple (schedules_are S) (foldM (\<lambda>_ s. runSchedule invoke emit now s) () ss)
    (\<lambda>_. schedules_are (foldl (\<lambda>T s. touch now (hs_id s) T) S ss)) (\<lambda>_ _. False)"
  using assms
proof (induction ss arbitrary: S)
  case Nil
  then show ?case by (simp add: triple_def ret_def)
next
  case (Cons s ss)
  then show ?case using run_triple [of s S] by (auto intro!: triple_bindM)
qed

end

end
