(* ===== verification/Deploy_Facts.thy ===== *)
theory Deploy_Facts
  imports Deploy
begin

text \<open>
  What a deployment promises: on a quiet database it either replaces the active deployment of its
  target or leaves every active deployment as it was, it restores the checkpoint whenever it
  fails after taking one, and a rollback redeploys the most recent superseded release.
\<close>

section \<open>Active deployments\<close>

definition activeFor :: "string \<Rightarrow> deployment list \<Rightarrow> deployment option" where
  "activeFor t D = find (\<lambda>d. d_targetId d = t \<and> liveActive d) D"

definition sameActive :: "deployment list \<Rightarrow> org list \<Rightarrow> 'z world_scheme \<Rightarrow> bool" where
  "sameActive D Os w \<longleftrightarrow> (\<exists>D'. holds D' Os w \<and> (\<forall>t. activeOn t D' = activeOn t D))"

lemma activeFor_Some: "activeFor t D = Some p \<Longrightarrow> p \<in> set D \<and> d_targetId p = t \<and> liveActive p"
  unfolding activeFor_def by (drule find_Some_D) simp

lemma activeFor_None: "activeFor t D = None \<Longrightarrow> activeOn t D = []"
  by (auto simp: activeFor_def activeOn_def find_None_iff filter_empty_conv)

lemma filter_update_out:
  "(\<And>r. r \<in> set t \<Longrightarrow> p r \<Longrightarrow> \<not> Q (f r)) \<Longrightarrow>
   filter Q (map (\<lambda>r. if p r then f r else r) t) = filter (\<lambda>r. Q r \<and> \<not> p r) t"
  by (induction t) auto

text \<open>Writing a status other than active into a row takes the row out of the active ones.\<close>

lemma activeOn_patched_off:
  assumes "orElse (dp_status p) (d_status d) \<noteq> DActive"
  shows "activeOn t (patched i p now d D) = filter (\<lambda>r. d_id r \<noteq> i) (activeOn t D)"
  unfolding activeOn_def patched_def using assms
  by (subst filter_update_out) (auto simp: liveActive_def conj_ac)

lemma activeOn_same_off:
  assumes "distinct (map d_id D)" and "d \<in> set D" and "d_id d = i" and "\<not> liveActive d"
    and "orElse (dp_status p) (d_status d) \<noteq> DActive"
  shows "activeOn t (patched i p now d D) = activeOn t D"
proof -
  have "r = d" if "r \<in> set D" "d_id r = i" for r
    using that assms(1-3) by (auto simp: distinct_map inj_on_def)
  then show ?thesis
    unfolding activeOn_patched_off [OF assms(5)] using assms(4) by (auto simp: activeOn_def intro!: filter_cong)
qed

lemma activeOn_patched_on:
  assumes "distinct (map d_id D)" and "d \<in> set D" and "d_id d = i" and "d_deletedAt d = None"
    and "orElse (dp_status p) (d_status d) = DActive" and "activeOn (d_targetId d) D = []"
  shows "activeOn (d_targetId d) (patched i p now d D) = [deployment_patch p now d d]"
    and "t \<noteq> d_targetId d \<Longrightarrow> activeOn t (patched i p now d D) = activeOn t D"
proof -
  show "activeOn (d_targetId d) (patched i p now d D) = [deployment_patch p now d d]"
    unfolding activeOn_def patched_def assms(3) [symmetric]
    using assms by (intro filter_update_single) (auto simp: liveActive_def activeOn_def filter_empty_conv)
  have same: "r = d" if "r \<in> set D" "d_id r = i" for r
    using that assms(1-3) by (auto simp: distinct_map inj_on_def)
  assume t: "t \<noteq> d_targetId d"
  show "activeOn t (patched i p now d D) = activeOn t D"
    unfolding activeOn_def patched_def
    using t same by (subst filter_update_out) (auto intro!: filter_cong)
qed

lemma holds_distinct: "holds D Os w \<Longrightarrow> distinct (map d_id D)"
  using deployments.chk_unique [OF deployments.ok_chk, of w] by (auto simp: holds_def unique_on_def)

lemma active_at_most_one:
  assumes "holds D Os w" and "activeFor t D = Some p"
  shows "activeOn t D = [p]"
proof -
  have "deployments_chk w D = None" using assms(1) deployments.ok_chk [of w] by (auto simp: holds_def)
  then have "unique_on (\<lambda>r. d_status r = DActive \<and> d_deletedAt r = None) d_targetId D"
    by (simp add: deployments_chk_def)
  then have u: "unique_on liveActive d_targetId D" by (simp add: unique_on_def liveActive_def [abs_def])
  note p = activeFor_Some [OF assms(2)]
  have "r = p" if "r \<in> set (activeOn t D)" for r
    using that p unique_onD [OF u, of r p] by (auto simp: activeOn_def)
  moreover have "distinct (activeOn t D)"
    using holds_distinct [OF assms(1)] by (simp add: activeOn_def distinct_map)
  moreover have "p \<in> set (activeOn t D)" using p by (simp add: activeOn_def)
  ultimately show ?thesis by (metis distinct_length_2_or_more list.set_cases list.set_intros(1) list.set_intros(2) neq_Nil_conv)
qed

section \<open>Every step of a deployment\<close>

lemma getLive_triple:
  assumes "\<And>w :: 'z world_scheme. \<And>n. get (w\<lparr>stmtN := n\<rparr>) = get w"
  shows "triple (holds D Os) (getLive get rid del i :: ('z, 'r option) DB)
    (\<lambda>x w. holds D Os w \<and> (\<forall>r. x = Some r \<longrightarrow> r \<in> set (get w) \<and> rid r = i)) E"
  unfolding getLive_def
  by (rule triple_run) (auto simp: holds_def selectOne_quiet assms dest!: find_Some_D)

lemma release_get_triple:
  "triple (holds D Os) (release_get i) (\<lambda>x w. holds D Os w \<and> (\<forall>r. x = Some r \<longrightarrow> r_id r = i)) E"
  unfolding release_get_def by (rule triple_weaken [OF getLive_triple]) auto

lemma target_get_triple:
  "triple (holds D Os) (target_get i)
     (\<lambda>x w. holds D Os w \<and> (\<forall>r. x = Some r \<longrightarrow> t_id r = i \<and> t_orgId r \<in> o_id ` set Os)) E"
proof -
  have "t_orgId r \<in> o_id ` set Os" if "holds D Os w" "r \<in> set (targets w)" for r and w :: "'a world_scheme"
    using that targets.ok_chk [of w] by (auto simp: holds_def targets_chk_def refs_def list_all_iff)
  then show ?thesis unfolding target_get_def by (intro triple_weaken [OF getLive_triple]) auto
qed

lemma nowIso_triple: "triple (holds D Os) nowIso (\<lambda>_. holds D Os) E"
  by (rule triple_run) (simp add: nowIso_run)

lemma getActive_triple:
  "triple (holds D Os) (deployment_getActiveForTarget t) (\<lambda>x w. holds D Os w \<and> x = activeFor t D) E"
  unfolding deployment_getActiveForTarget_def activeFor_def
  by (rule triple_run) (auto simp: holds_def selectOne_quiet liveActive_def)

lemma audit_triple:
  "orgId \<in> o_id ` set Os \<Longrightarrow>
   triple (holds D Os) (audit_append orgId actor action ty i detail) (\<lambda>_. holds D Os) E"
  by (rule triple_run) (use audit_append_ok in blast)

text \<open>A new deployment is pending and has an unused id; a refused one leaves the table as it was.\<close>

lemma create_triple:
  "triple (holds D Os) (deployment_create orgId rel t prev)
     (\<lambda>r w. holds (D @ [r]) Os w \<and> (d_id r \<notin> d_id ` set D \<and> d_status r = DPending \<and> d_deletedAt r = None
        \<and> d_targetId r = t \<and> d_releaseId r = rel)) (\<lambda>_. holds D Os)"
  (is "triple _ ?m ?Q ?E")
  unfolding triple_def
proof (intro allI impI)
  fix w :: "'a world_scheme"
  assume h: "holds D Os w"
  then have q: "quiet w" by (simp add: holds_def)
  let ?now = "toISOString (clocks w (clockN w))"
  let ?row = "\<lparr>d_id = ulids w (ulidN w), d_orgId = orgId, d_releaseId = rel, d_targetId = t, d_status = DPending,
      d_startedAt = None, d_completedAt = None, d_previousDeploymentId = prev,
      d_healthSummary = None, d_createdAt = ?now, d_updatedAt = ?now, d_deletedAt = None\<rparr>"
  let ?w1 = "w\<lparr>clockN := Suc (clockN w), ulidN := Suc (ulidN w), stmtN := Suc (stmtN w)\<rparr>"
  let ?w2 = "deployments_update (\<lambda>_. deployments w @ [?row]) ?w1"
  have run: "?m w = (case deployments_chk w (deployments w @ [?row]) of
      None \<Rightarrow> (Inr ?row, ?w2) | Some v \<Rightarrow> (Inl (StorageConflictError (violationMsg w v)), ?w1))"
    unfolding deployment_create_def by (subst deployments.createRow_quiet [OF q]) simp
  have ok: "db_ok (snd (?m w))" using h by (intro keepsD [OF keeps_deployment(1)]) (simp add: holds_def)
  have f: "freshIds ?w1" "freshIds ?w2"
    using h by (rule_tac [!] freshIds_insert [of w]) (auto simp: holds_def usedIds_def)
  show "case ?m w of (Inr x, s') \<Rightarrow> ?Q x s' | (Inl e, s') \<Rightarrow> ?E e s'"
  proof (cases "deployments_chk w (deployments w @ [?row])")
    case None
    have "ulids w (ulidN w) \<notin> d_id ` set D" using h by (auto simp: holds_def freshIds_def usedIds_def)
    with None ok f h show ?thesis by (simp add: run holds_def)
  next
    case (Some v)
    with ok f h show ?thesis by (simp add: run holds_def)
  qed
qed

lemma update_triple:
  assumes "d \<in> set D" and "d_id d = i" and "d_deletedAt d = None"
    and "orElse (dp_status p) (d_status d) = DActive \<Longrightarrow> activeOn (d_targetId d) D = []"
  shows "triple (holds D Os) (deployment_update i p)
    (\<lambda>r w. \<exists>now. r = deployment_patch p now d d \<and> holds (patched i p now d D) Os w) E"
  by (rule triple_run) (use deployment_update_ok [OF _ assms] in blast)

section \<open>The deployment as a whole\<close>

lemma activeFor_activeOn: "activeFor t D = (case activeOn t D of [] \<Rightarrow> None | d # _ \<Rightarrow> Some d)"
  unfolding activeFor_def activeOn_def by (induction D) auto

lemma activeOn_append: "activeOn t (D @ E) = activeOn t D @ activeOn t E"
  by (simp add: activeOn_def)

text \<open>The row of the running deployment when the try block is entered.\<close>

definition running :: "deployment list \<Rightarrow> deployOptions \<Rightarrow> deployCtx \<Rightarrow> deployment list \<Rightarrow> deployment \<Rightarrow> bool" where
  "running D opts c D1 n \<longleftrightarrow> (\<forall>t. activeOn t D1 = activeOn t D) \<and> n \<in> set D1 \<and>
     d_id n = d_id (c_deployment c) \<and> d_deletedAt n = None \<and> d_status n = DDeploying \<and>
     d_targetId n = q_targetId opts \<and> d_releaseId n = q_releaseId opts \<and>
     c_previous c = activeFor (q_targetId opts) D \<and> d_id n \<notin> d_id ` set D \<and>
     map d_id D1 = map d_id D @ [d_id n]"

definition prepared :: "deployment list \<Rightarrow> org list \<Rightarrow> deployOptions \<Rightarrow> deployCtx \<Rightarrow> 'z world_scheme \<Rightarrow> bool" where
  "prepared D Os opts c w \<longleftrightarrow> (\<exists>D1 n. holds D1 Os w \<and> running D opts c D1 n) \<and> c_orgId c \<in> o_id ` set Os"

lemma sameActive_refl: "holds D Os w \<Longrightarrow> sameActive D Os w"
  by (auto simp: sameActive_def)

lemma sameActive_pending: "holds (D @ [d]) Os w \<Longrightarrow> d_status d = DPending \<Longrightarrow> sameActive D Os w"
  unfolding sameActive_def by (rule exI [of _ "D @ [d]"]) (simp add: activeOn_append, simp add: activeOn_def liveActive_def)

lemma start_triple:
  assumes "d_id d \<notin> d_id ` set D" "d_status d = DPending" "d_deletedAt d = None"
    "d_targetId d = q_targetId opts" "d_releaseId d = q_releaseId opts" "dp_status p = Some DDeploying"
    "c_deployment c = d" "c_previous c = activeFor (q_targetId opts) D" "c_orgId c \<in> o_id ` set Os"
  shows "triple (holds (D @ [d]) Os) (deployment_update (d_id d) p) (\<lambda>_. prepared D Os opts c) E"
proof (rule triple_weaken [OF update_triple])
  fix r and w :: "'a world_scheme"
  assume "\<exists>now. r = deployment_patch p now d d \<and> holds (patched (d_id d) p now d (D @ [d])) Os w"
  then obtain now where w: "holds (patched (d_id d) p now d (D @ [d])) Os w" by blast
  let ?n = "deployment_patch p now d d"
  have dist: "distinct (map d_id (D @ [d]))" using holds_distinct [OF w] by simp
  have "activeOn t (patched (d_id d) p now d (D @ [d])) = activeOn t D" for t
    using assms(2,6) by (subst activeOn_same_off [OF dist])
      (auto simp: liveActive_def activeOn_append activeOn_def)
  then have "running D opts c (patched (d_id d) p now d (D @ [d])) ?n"
    using assms by (simp add: running_def patched_def)
  with w assms(9) show "prepared D Os opts c w" by (auto simp: prepared_def)
qed (use assms in auto)

lemma deployPrepare_triple:
  "triple (holds D Os) (deployPrepare env opts) (prepared D Os opts) (\<lambda>_. sameActive D Os)"
  unfolding deployPrepare_def Let_def resolveVm_def createCheckpoint_def artifact_listForRelease_def
  apply (rule triple_bindM [OF release_get_triple], rule triple_pure)
  apply (rule triple_option, rule triple_throw, erule sameActive_refl)
  apply (rule triple_if, rule triple_throw, erule sameActive_refl)
  apply (rule triple_bindM [OF target_get_triple], rule triple_pure)
  apply (rule triple_option, rule triple_throw, erule sameActive_refl)
  apply (rule triple_if, rule triple_throw, erule sameActive_refl)
  apply (rule triple_bindM [OF getActive_triple], rule triple_pure)
  apply (rule triple_step, (intro keeps_intros; fail), erule sameActive_refl)
  apply (rule triple_step, (intro keeps_intros; fail), erule sameActive_refl)
  apply (rule triple_prod)
  apply (rule triple_seq [OF create_triple], erule sameActive_refl, rule triple_pure)
  apply (rule triple_bindM [OF audit_triple], simp)
  apply (rule triple_step, (intro keeps_intros; fail), simp add: sameActive_pending)
  apply (rule triple_step, (intro keeps_intros; fail), simp add: sameActive_pending)
  apply (rule triple_bindM)
   prefer 2
   apply (rule triple_return, assumption)
  by (rule start_triple) auto

text \<open>The promotion always goes through, and the new deployment is the one active on its target.\<close>

definition promoted ::
  "deployment list \<Rightarrow> org list \<Rightarrow> deployOptions \<Rightarrow> deployment \<Rightarrow> 'z world_scheme \<Rightarrow> bool" where
  "promoted D Os opts r w \<longleftrightarrow> (\<exists>D'. holds D' Os w \<and> activeOn (q_targetId opts) D' = [r] \<and>
     d_releaseId r = q_releaseId opts \<and> d_id r \<notin> d_id ` set D \<and>
     (\<forall>t. t \<noteq> q_targetId opts \<longrightarrow> activeOn t D' = activeOn t D) \<and>
     (\<forall>p \<in> set (activeOn (q_targetId opts) D). \<exists>p' \<in> set D'. d_id p' = d_id p \<and> d_status p' = DSuperseded))"

lemma activate_triple:
  assumes "n \<in> set D1" "d_id n = i" "d_deletedAt n = None" "d_targetId n = q_targetId opts"
    "d_releaseId n = q_releaseId opts" "d_id n \<notin> d_id ` set D" "dp_status p = Some DActive"
    "activeOn (q_targetId opts) D1 = []" "\<And>t. t \<noteq> q_targetId opts \<Longrightarrow> activeOn t D1 = activeOn t D"
    "\<And>a. a \<in> set (activeOn (q_targetId opts) D) \<Longrightarrow> \<exists>a' \<in> set D1. d_id a' = d_id a \<and> d_status a' = DSuperseded"
  shows "triple (holds D1 Os) (deployment_update i p) (\<lambda>r w. promoted D Os opts r w \<and> d_id r = i) E"
proof (rule triple_weaken [OF update_triple [OF assms(1-3)]])
  fix r and w :: "'a world_scheme"
  assume "\<exists>now. r = deployment_patch p now n n \<and> holds (patched i p now n D1) Os w"
  then obtain now where r: "r = deployment_patch p now n n" and w: "holds (patched i p now n D1) Os w" by blast
  have dist: "distinct (map d_id D1)" using holds_distinct [OF w] by simp
  have act: "orElse (dp_status p) (d_status n) = DActive" "activeOn (d_targetId n) D1 = []" using assms by simp_all
  note on = activeOn_patched_on [OF dist assms(1-3) act, where now = now]
  have "\<exists>a' \<in> set (patched i p now n D1). d_id a' = d_id a \<and> d_status a' = DSuperseded"
    if a: "a \<in> set (activeOn (q_targetId opts) D)" for a
  proof -
    obtain a' where a': "a' \<in> set D1" "d_id a' = d_id a" "d_status a' = DSuperseded" using assms(10) [OF a] by blast
    have "d_id a \<in> d_id ` set D" using a by (auto simp: activeOn_def)
    then have "d_id a' \<noteq> i" using assms(2,6) a'(2) by auto
    with a' show ?thesis by (auto simp: patched_def)
  qed
  with on w r assms have "promoted D Os opts r w"
    unfolding promoted_def by (intro exI [of _ "patched i p now n D1"]) auto
  with r assms(2) show "promoted D Os opts r w \<and> d_id r = i" by simp
qed (use assms in auto)

text \<open>Between the two updates no deployment of the target is active and the new row is there.\<close>

definition vacated :: "deployment list \<Rightarrow> org list \<Rightarrow> deployOptions \<Rightarrow> deployCtx \<Rightarrow> 'z world_scheme \<Rightarrow> bool" where
  "vacated D Os opts c w \<longleftrightarrow> (\<exists>D1 n. holds D1 Os w \<and> (n \<in> set D1 \<and> d_id n = d_id (c_deployment c) \<and> d_deletedAt n = None \<and>
     d_targetId n = q_targetId opts \<and> d_releaseId n = q_releaseId opts \<and> d_id n \<notin> d_id ` set D \<and>
     activeOn (q_targetId opts) D1 = [] \<and> (\<forall>t. t \<noteq> q_targetId opts \<longrightarrow> activeOn t D1 = activeOn t D) \<and>
     (\<forall>a \<in> set (activeOn (q_targetId opts) D). \<exists>a' \<in> set D1. d_id a' = d_id a \<and> d_status a' = DSuperseded)))"

lemma supersede_one:
  assumes "distinct (map d_id D1)" and "activeOn t D1 = [p]"
  shows "activeOn t' (patched (d_id p) (statusPatch DSuperseded) now p D1) = (if t' = t then [] else activeOn t' D1)"
proof -
  have p: "p \<in> set D1" "d_targetId p = t" using assms(2) by (auto simp: activeOn_def filter_eq_Cons_iff)
  have off: "activeOn t' (patched (d_id p) (statusPatch DSuperseded) now p D1) = filter (\<lambda>r. d_id r \<noteq> d_id p) (activeOn t' D1)"
    by (rule activeOn_patched_off) (simp add: statusPatch_def)
  have "r = p" if "r \<in> set D1" "d_id r = d_id p" for r
    using that p(1) assms(1) by (auto simp: distinct_map inj_on_def)
  then have "filter (\<lambda>r. d_id r \<noteq> d_id p) (activeOn t' D1) = activeOn t' D1" if "t' \<noteq> t"
    using that p(2) by (auto simp: activeOn_def intro!: filter_cong)
  then show ?thesis using off assms(2) by simp
qed

lemma supersede_triple: "triple (prepared D Os opts c) (supersedePrevious c) (\<lambda>_. vacated D Os opts c) E"
  unfolding prepared_def
proof (intro triple_pure triple_ex)
  fix D1 n
  assume run: "running D opts c D1 n"
  let ?t = "q_targetId opts"
  have same: "activeOn t D1 = activeOn t D" for t using run by (simp add: running_def)
  have prev: "c_previous c = activeFor ?t D1" using run by (simp add: running_def activeFor_activeOn)
  show "triple (holds D1 Os) (supersedePrevious c) (\<lambda>_. vacated D Os opts c) E"
  proof (cases "c_previous c")
    case None
    then have "activeOn ?t D1 = []" using prev by (simp add: activeFor_None)
    then show ?thesis
      unfolding supersedePrevious_def None option.case vacated_def using run same
      by (intro triple_return exI [of _ D1] exI [of _ n]) (auto simp: running_def)
  next
    case (Some p)
    let ?sup = "\<lambda>now. patched (d_id p) (statusPatch DSuperseded) now p D1"
    show ?thesis
    proof (rule triple_fact [where A = "distinct (map d_id D1) \<and> activeOn ?t D1 = [p]"])
      show "holds D1 Os w \<Longrightarrow> distinct (map d_id D1) \<and> activeOn ?t D1 = [p]" for w :: "'a dworld_scheme"
        using active_at_most_one holds_distinct prev Some by metis
      assume one: "distinct (map d_id D1) \<and> activeOn ?t D1 = [p]"
      then have pD: "p \<in> set D1" "liveActive p" by (auto simp: activeOn_def filter_eq_Cons_iff)
      have "p \<in> set (activeOn ?t D)" using one same [of ?t] by simp
      then have np: "d_id n \<noteq> d_id p" using run by (auto simp: running_def activeOn_def)
      have "vacated D Os opts c w" if w: "holds (?sup now) Os w" for now and w :: "'a dworld_scheme"
        unfolding vacated_def
      proof (intro exI conjI)
        show "holds (?sup now) Os w" by (rule w)
        show "n \<in> set (?sup now)" using run np by (auto simp: running_def patched_def)
        show "\<forall>a \<in> set (activeOn ?t D). \<exists>a' \<in> set (?sup now). d_id a' = d_id a \<and> d_status a' = DSuperseded"
          using one same [of ?t] pD(1)
          by (auto simp: patched_def statusPatch_def intro!: bexI [where x = "deployment_patch (statusPatch DSuperseded) now p p"])
      qed (use run one same in \<open>auto simp: running_def supersede_one\<close>)
      then show ?thesis
        unfolding supersedePrevious_def Some option.case using pD
        by (intro triple_bindM [OF triple_weaken [OF update_triple [where d = p]] triple_return])
          (auto simp: statusPatch_def liveActive_def)
    qed
  qed
qed

lemma activate_vacated:
  "dp_status p = Some DActive \<Longrightarrow> triple (vacated D Os opts c) (deployment_update (d_id (c_deployment c)) p)
     (\<lambda>r w. promoted D Os opts r w \<and> d_id r = d_id (c_deployment c)) E"
  unfolding vacated_def
  apply (intro triple_ex triple_pure)
  subgoal for D1 n by (rule activate_triple [where n = n]) auto
  done

lemma keeps_vacated: "(\<And>D1. keeps (holds D1 Os) m) \<Longrightarrow> keeps (vacated D Os opts c) m"
  unfolding vacated_def by (intro keeps_pure keeps_ex) simp

lemma deployPromote_triple:
  "triple (prepared D Os opts c) (deployPromote c s) (\<lambda>r w. promoted D Os opts r w \<and> d_id r = d_id (c_deployment c)) E"
  unfolding deployPromote_def
  apply (rule triple_bindM [OF supersede_triple])
  apply (rule triple_bindM [where R = "\<lambda>_. vacated D Os opts c"])
   apply (rule triple_run)
  subgoal using keepsD [OF keeps_vacated [OF holds_nowIso(1)]] by (auto simp: nowIso_run)
  by (rule activate_vacated) (simp add: activated_def)

lemma keeps_prepared: "(\<And>D1. keeps (holds D1 Os) m) \<Longrightarrow> keeps (prepared D Os opts c) m"
  unfolding prepared_def by (intro keeps_pure keeps_ex) simp

lemma keeps_sameActive: "(\<And>D1. keeps (holds D1 Os) m) \<Longrightarrow> keeps (sameActive D Os) m"
  unfolding sameActive_def by (intro keeps_pure keeps_ex) simp

lemma promoted_step:
  assumes "\<And>D1. triple (holds D1 Os) m (\<lambda>_. holds D1 Os) E"
  shows "triple (promoted D Os opts r) m (\<lambda>_. promoted D Os opts r) E"
  unfolding promoted_def
  by (intro triple_ex triple_pure, rule triple_weaken [OF assms]) blast+

lemma deployTry_triple:
  assumes "\<And>h cp. b_deleteCheckpoint (e_backend env) h cp = Inr ()" and "c_orgId c \<in> o_id ` set Os"
  shows "triple (prepared D Os opts c) (deployTry env c)
    (\<lambda>r. promoted D Os opts (x_deployment r)) (\<lambda>_. prepared D Os opts c)"
  unfolding deployTry_def
  apply (rule triple_step [OF keeps_prepared [OF holds_deployCheck]], assumption)
  apply (rule triple_bindM [OF deployPromote_triple], rule triple_pure)
  apply (rule triple_bindM [OF promoted_step])
   apply (rule triple_run, simp add: deleteCheckpoint_def callBackend_def assms(1))
  apply (rule triple_bindM [OF promoted_step [OF audit_triple [OF assms(2)]]])
  by (rule triple_return) simp

lemma prepared_sameActive: "prepared D Os opts c w \<Longrightarrow> sameActive D Os w"
  by (auto simp: prepared_def running_def sameActive_def)

lemma tryM_triple: "triple P m (\<lambda>_. Q) (\<lambda>_. Q) \<Longrightarrow> triple P (tryM m) (\<lambda>_. Q) E"
  unfolding tryM_def by (rule triple_catchM) (auto intro: triple_return)

lemma markFailed_triple:
  assumes "dp_status p = Some DFailed"
  shows "triple (prepared D Os opts c) (deployment_update (d_id (c_deployment c)) p) (\<lambda>_. sameActive D Os) E"
  unfolding prepared_def
proof (intro triple_pure triple_ex)
  fix D1 n
  assume run: "running D opts c D1 n"
  show "triple (holds D1 Os) (deployment_update (d_id (c_deployment c)) p) (\<lambda>_. sameActive D Os) E"
  proof (rule triple_weaken [OF update_triple [where d = n]])
    fix r and w :: "'a world_scheme"
    assume "\<exists>now. r = deployment_patch p now n n \<and> holds (patched (d_id (c_deployment c)) p now n D1) Os w"
    then obtain now where w: "holds (patched (d_id (c_deployment c)) p now n D1) Os w" by blast
    have "distinct (map d_id D1)" using holds_distinct [OF w] by simp
    then have "activeOn t (patched (d_id (c_deployment c)) p now n D1) = activeOn t D" for t
      using run assms by (subst activeOn_same_off) (auto simp: running_def liveActive_def)
    with w show "sameActive D Os w" by (auto simp: sameActive_def)
  qed (use run assms in \<open>auto simp: running_def\<close>)
qed

lemma audit_sameActive:
  assumes "orgId \<in> o_id ` set Os"
  shows "triple (sameActive D Os) (audit_append orgId actor action ty i detail) (\<lambda>_. sameActive D Os) E"
  unfolding sameActive_def
  by (intro triple_ex triple_pure, rule triple_weaken [OF audit_triple [OF assms]]) blast+

lemma deployCatch_triple:
  assumes "c_orgId c \<in> o_id ` set Os"
  shows "triple (prepared D Os opts c) (deployCatch env c e) Q (\<lambda>_. sameActive D Os)"
  unfolding deployCatch_def restoreCheckpoint_def deleteCheckpoint_def
  apply (rule triple_step [OF keeps_prepared], intro keeps_intros, erule prepared_sameActive)
  apply (rule triple_step [OF keeps_prepared], intro keeps_intros, erule prepared_sameActive)
  apply (rule triple_bindM [where R = "\<lambda>_. sameActive D Os"])
   apply (rule tryM_triple, rule triple_step [OF keeps_prepared], intro keeps_intros, erule prepared_sameActive)
   apply (rule triple_bindM [OF markFailed_triple], simp, rule triple_return, assumption)
  apply (rule triple_bindM [OF audit_sameActive [OF assms]])
  by (rule triple_throw)

lemma prepared_cases:
  "(c_orgId c \<in> o_id ` set Os \<Longrightarrow> triple (prepared D Os opts c) m Q E) \<Longrightarrow> triple (prepared D Os opts c) m Q E"
  by (auto simp: triple_def prepared_def)

lemma runDeploy_triple:
  assumes "\<And>h cp. b_deleteCheckpoint (e_backend env) h cp = Inr ()"
  shows "triple (holds D Os) (runDeploy env opts)
    (\<lambda>r. promoted D Os opts (x_deployment r)) (\<lambda>_. sameActive D Os)"
  unfolding runDeploy_def
  by (rule triple_bindM [OF deployPrepare_triple], rule prepared_cases,
      rule triple_catchM [OF deployTry_triple [OF assms] deployCatch_triple])

text \<open>
  C2. A deployment is atomic for the active deployments.  On a quiet consistent database whose id
  source does not repeat, and with a backend that can drop checkpoints, \<open>runDeploy\<close> has two outcomes
  whatever else the backend, the blob store and the guest answer.  Either it returns, and then the
  new deployment of the requested release is the only active one on the target, those active
  there before are superseded and every other target keeps its active deployments; or it throws,
  and then every target has exactly the active deployments it had.
\<close>

theorem deploy_atomic:
  assumes "quiet w" and "db_ok w" and "freshIds w"
    and "\<And>h cp. b_deleteCheckpoint (e_backend env) h cp = Inr ()"
  defines "D \<equiv> deployments w"
  shows "case runDeploy env opts w of
     (Inr r, w') \<Rightarrow>
       activeOn (q_targetId opts) (deployments w') = [x_deployment r] \<and>
       d_releaseId (x_deployment r) = q_releaseId opts \<and> d_id (x_deployment r) \<notin> d_id ` set D \<and>
       (\<forall>t. t \<noteq> q_targetId opts \<longrightarrow> activeOn t (deployments w') = activeOn t D) \<and>
       (\<forall>p \<in> set (activeOn (q_targetId opts) D).
          \<exists>p' \<in> set (deployments w'). d_id p' = d_id p \<and> d_status p' = DSuperseded)
   | (Inl e, w') \<Rightarrow> \<forall>t. activeOn t (deployments w') = activeOn t D"
proof -
  have h: "holds D (orgs w) w" using assms by (simp add: holds_def)
  show ?thesis
    by (rule tripleD [OF runDeploy_triple [OF assms(4)] h, of opts])
      (auto simp: promoted_def sameActive_def holds_def)
qed

end
