(* ===== verification/Frames.thy ===== *)
theory Frames
  imports Repo_Base
begin

text \<open>
  Frame rules: a part of the state that no counter affects is kept by every query, and by every
  statement on a table whose update leaves it alone.
\<close>

locale frame =
  fixes view :: "'z world_scheme \<Rightarrow> 'v"
  assumes view_env [simp]: "view (w\<lparr>stmtN := n\<rparr>) = view w" "view (w\<lparr>ulidN := n\<rparr>) = view w" "view (w\<lparr>clockN := n\<rparr>) = view w"
begin

definition sees :: "('v \<Rightarrow> bool) \<Rightarrow> 'z world_scheme \<Rightarrow> bool" where
  "sees Q w \<longleftrightarrow> Q (view w)"

lemma frame_env: "keeps (sees Q) nowIso" "keeps (sees Q) dateNow" "keeps (sees Q) newId"
  by (simp_all add: keeps_def sees_def nowIso_def dateNow_def newId_def bindM_def ret_def)

lemma frame_stmt: "(\<And>w. view (snd (m w)) = view w) \<Longrightarrow> keeps (sees Q) (stmt m)"
  by (auto simp: keeps_def sees_def stmt_def split: option.splits)

lemma frame_select: "keeps (sees Q) (selectOne get p)" "keeps (sees Q) (selectAll get p ord)"
  unfolding selectOne_def selectAll_def by (auto intro!: frame_stmt simp: readM_def)

lemma frame_insertInto: "(\<And>f w. view (upd f w) = view w) \<Longrightarrow> keeps (sees Q) (insertInto get upd chk r)"
  unfolding insertInto_def by (auto intro!: frame_stmt simp: constrained_def split: option.splits)

lemma frame_updateWhere: "(\<And>f w. view (upd f w) = view w) \<Longrightarrow> keeps (sees Q) (updateWhere get upd chk p f)"
  unfolding updateWhere_def by (auto intro!: frame_stmt simp: constrained_def split: option.splits)

lemma frame_createRow: "(\<And>f w. view (upd f w) = view w) \<Longrightarrow> keeps (sees Q) (createRow get upd chk mk)"
  unfolding createRow_def mappingErrors_def by (intro keeps_intros frame_env frame_insertInto)

lemma frame_patchRow: "(\<And>f w. view (upd f w) = view w) \<Longrightarrow> keeps (sees Q) (patchRow get upd chk rid del entity i f)"
  unfolding patchRow_def mappingErrors_def getLive_def by (intro keeps_intros frame_env frame_select frame_updateWhere)

lemma frame_softDeleteRow: "(\<And>f w. view (upd f w) = view w) \<Longrightarrow> keeps (sees Q) (softDeleteRow get upd chk rid del mark entity i)"
  unfolding softDeleteRow_def by (intro keeps_intros frame_env frame_updateWhere)

end

end
