(* ===== verification/Deploy_Trace.thy ===== *)
theory Deploy_Trace
  imports Deploy Frames
begin

text \<open>
  The order of the backend calls a deployment makes, whatever the database, the backend, the blob
  store and the guest do: the checkpoint taken at the start is restored exactly when the
  deployment fails, and dropped last in both cases.
\<close>

section \<open>Storage operations make no backend calls\<close>

definition callsInv :: "(bcall list \<Rightarrow> bool) \<Rightarrow> 'z dworld_scheme \<Rightarrow> bool" where
  "callsInv P w = P (calls w)"

named_theorems trace_intros "operations that make no backend call"

interpretation trace: frame calls
  by unfold_locales simp_all

lemma trace_sees: "trace.sees = callsInv"
  by (simp add: fun_eq_iff trace.sees_def callsInv_def)

lemmas trace_frame [trace_intros] = trace.frame_env [unfolded trace_sees] trace.frame_select [unfolded trace_sees]
lemmas trace_createRow = trace.frame_createRow [unfolded trace_sees]
lemmas trace_patchRow = trace.frame_patchRow [unfolded trace_sees]

lemma trace_rows [trace_intros]:
  "keeps (callsInv P) (audit_append o' a b c d e)"
  "keeps (callsInv P) (healthCheck_append i name s lat detail)"
  "keeps (callsInv P) (deployment_update i patch)"
  unfolding audit_append_def healthCheck_append_def deployment_update_def
  by (intro trace_createRow trace_patchRow; simp)+

section \<open>The calls of the try block\<close>

fun isRestore :: "bcall \<Rightarrow> bool" where
  "isRestore (RestoreCheckpoint cp) = True"
| "isRestore _ = False"

definition grown :: "bcall list \<Rightarrow> bcall list \<Rightarrow> bool" where
  "grown h cs \<longleftrightarrow> (\<exists>u. cs = h @ u \<and> \<not> list_ex isRestore u)"

lemma grown_refl [simp]: "grown h h"
  by (simp add: grown_def)

lemma trace_call: "\<not> isRestore c \<Longrightarrow> keeps (callsInv (grown h)) (callBackend c f)"
  by (auto simp: keeps_def callsInv_def callBackend_def grown_def)

lemma trace_runProbes: "keeps (callsInv (grown h)) (runProbes b handle ps)"
proof (rule keepsI)
  fix w :: "'a dworld_scheme"
  assume "callsInv (grown h) w"
  moreover obtain rs where "runProbes b handle ps w = (Inr rs, w\<lparr>calls := calls w @ concat (map (probeCalls handle) ps),
      clockN := clockN w + 2 * length ps\<rparr>)"
    using runProbes_run by blast
  moreover have "\<not> list_ex isRestore (probeCalls handle p)" for p by (cases p) simp_all
  then have "\<not> list_ex isRestore (concat (map (probeCalls handle) ps))" by (induction ps) auto
  ultimately show "callsInv (grown h) (snd (runProbes b handle ps w))"
    by (auto simp: callsInv_def grown_def)
qed

lemma trace_deployCheck: "keeps (callsInv (grown h)) (deployCheck env c)"
  unfolding deployCheck_def stageArtifact_def stageBlobInto_def stageStringInto_def copyFileToVM_def isVmReachable_def
  by (intro keeps_intros trace_intros trace_runProbes trace_call) simp_all

lemma trace_deployPromote: "keeps (callsInv P) (deployPromote c s)"
  unfolding deployPromote_def supersedePrevious_def by (intro keeps_intros trace_intros)

lemma callBackend_triple:
  "(\<And>w. P w \<Longrightarrow> Q (w\<lparr>calls := calls w @ [c]\<rparr>)) \<Longrightarrow> triple P (callBackend c f) (\<lambda>_. Q) (\<lambda>_. Q)"
  by (auto simp: triple_def callBackend_def split: sum.splits)

definition dropped :: "bcall list \<Rightarrow> string \<Rightarrow> bcall list \<Rightarrow> bool" where
  "dropped h cp cs \<longleftrightarrow> (\<exists>u. cs = h @ u @ [DeleteCheckpoint cp] \<and> \<not> list_ex isRestore u)"

lemma dropped_grown: "dropped h cp cs \<Longrightarrow> grown h cs"
  by (auto simp: dropped_def grown_def)

lemma deployTry_trace:
  "triple (callsInv (grown h)) (deployTry env c) (\<lambda>_. callsInv (dropped h (c_checkpoint c))) (\<lambda>_. callsInv (grown h))"
  unfolding deployTry_def deleteCheckpoint_def
  apply (rule triple_step [OF trace_deployCheck], assumption)
  apply (rule triple_step [OF trace_deployPromote], assumption)
  apply (rule triple_seq [OF callBackend_triple [where Q = "callsInv (dropped h (c_checkpoint c))"]])
    apply (force simp: callsInv_def dropped_def grown_def)
   apply (simp add: callsInv_def dropped_grown)
  apply (rule triple_step, rule trace_intros, simp add: callsInv_def dropped_grown)
  by (rule triple_return)

definition restored :: "bcall list \<Rightarrow> string \<Rightarrow> bcall list \<Rightarrow> bool" where
  "restored h cp cs \<longleftrightarrow> (\<exists>u. cs = h @ u @ [RestoreCheckpoint cp, DeleteCheckpoint cp] \<and> \<not> list_ex isRestore u)"

lemma deployCatch_trace:
  "triple (callsInv (grown h)) (deployCatch env c e) Q (\<lambda>_. callsInv (restored h (c_checkpoint c)))"
proof -
  let ?cp = "c_checkpoint c"
  let ?R = "\<lambda>w. \<exists>u. calls w = h @ u @ [RestoreCheckpoint ?cp] \<and> \<not> list_ex isRestore u"
  have 1: "triple (callsInv (grown h)) (tryM (restoreCheckpoint (e_backend env) ?cp)) (\<lambda>_. ?R) E" for E
    by (auto simp: triple_def tryM_run restoreCheckpoint_def callBackend_def callsInv_def grown_def split: sum.splits)
  have 2: "triple ?R (tryM (deleteCheckpoint (e_backend env) ?cp)) (\<lambda>_. callsInv (restored h ?cp)) E" for E
    by (auto simp: triple_def tryM_run deleteCheckpoint_def callBackend_def callsInv_def restored_def split: sum.splits)
  show ?thesis
    unfolding deployCatch_def
    apply (rule triple_bindM [OF 1], rule triple_bindM [OF 2])
    apply (rule triple_step, (intro keeps_intros trace_intros; fail), assumption)
    apply (rule triple_step, (intro keeps_intros trace_intros; fail), assumption)
    by (rule triple_throw)
qed


end
