(* ===== verification/Deploy_Live.thy ===== *)
theory Deploy_Live
  imports Deploy_Facts Deploy_Trace
begin

text \<open>
  A deployment that meets no obstacle completes: every branch of \<open>runDeploy\<close> on which it throws is
  ruled out by a condition on the release, the target, the backend, the blobs or the probes.
\<close>

section \<open>A backend that does what it is asked\<close>

definition cooperative :: "denv \<Rightarrow> bool" where
  "cooperative env \<longleftrightarrow> (let b = e_backend env in
     (\<forall>h conn. \<exists>v. b_resolveVm b h conn = Inr v) \<and>
     (\<forall>h v l. \<exists>cp. b_createCheckpoint b h v l = Inr cp) \<and>
     (\<forall>h v f p. b_copyFileToVM b h v f p = Inr ()) \<and>
     (\<forall>h v. \<exists>d. b_isVmReachable b h v = Inr (True, d)) \<and>
     (\<forall>uri. \<exists>s. e_blob env uri = Inr s))"

lemma call_triple:
  fixes f :: "bcall list \<Rightarrow> string + 'x"
  assumes "\<And>h. \<exists>x. f h = Inr x"
  shows "triple (holds D Os) (callBackend c f :: ('z, 'x) DM) (\<lambda>x w. holds D Os w \<and> (\<exists>h. f h = Inr x)) E"
proof (rule triple_run)
  fix w :: "'z dworld_scheme"
  assume "holds D Os w"
  moreover obtain x where "f (calls w) = Inr x" using assms by blast
  ultimately show "\<exists>x w'. callBackend c f w = (Inr x, w') \<and> holds D Os w' \<and> (\<exists>h. f h = Inr x)"
    by (auto simp: callBackend_def)
qed

lemma call_unit_triple:
  assumes "\<And>h. f h = Inr ()"
  shows "triple (holds D Os) (callBackend c f) (\<lambda>_. holds D Os) E"
  by (rule triple_weaken [OF call_triple]) (use assms in auto)

lemma stage_triple:
  assumes "cooperative env" and "af_kind art = ABlob \<Longrightarrow> truthy (af_blobUri art)"
  shows "triple (holds D Os) (stageArtifact env v dir art) (\<lambda>_. holds D Os) E"
proof -
  obtain s where "e_blob env (the (af_blobUri art)) = Inr s" using assms(1) unfolding cooperative_def Let_def by blast
  then show ?thesis
    using assms unfolding stageArtifact_def stageBlobInto_def copyFileToVM_def
    by (auto intro!: triple_return call_unit_triple simp: cooperative_def Let_def)
qed

section \<open>Rows that are always accepted\<close>

lemma healthCheck_triple:
  assumes "i \<in> d_id ` set D"
  shows "triple (holds D Os) (healthCheck_append i name s lat detail) (\<lambda>_. holds D Os) E"
proof (rule triple_run)
  fix w :: "'a world_scheme"
  assume h: "holds D Os w"
  let ?now = "toISOString (clocks w (clockN w))"
  let ?row = "\<lparr>hc_id = ulids w (ulidN w), hc_deploymentId = i, hc_probeName = name, hc_status = s,
      hc_latencyMs = lat, hc_detail = detail, hc_checkedAt = ?now, hc_createdAt = ?now,
      hc_updatedAt = ?now, hc_deletedAt = None\<rparr>"
  have "healthChecks_chk w (healthChecks w) = None" using h healthChecks.ok_chk by (auto simp: holds_def)
  moreover have "ulids w (ulidN w) \<notin> hc_id ` set (healthChecks w)" using h by (auto simp: holds_def freshIds_def usedIds_def)
  ultimately have "healthChecks_chk w (healthChecks w @ [?row]) = None"
    using h assms by (auto simp: healthChecks_chk_def unique_on_def refs_def holds_def)
  moreover have "quiet w" using h by (simp add: holds_def)
  ultimately have "\<exists>x. fst (healthCheck_append i name s lat detail w) = Inr x"
    unfolding healthCheck_append_def by (subst healthChecks.createRow_quiet) simp_all
  moreover have "holds D Os (snd (healthCheck_append i name s lat detail w))" by (rule keepsD [OF holds_healthCheck h])
  ultimately show "\<exists>x w'. healthCheck_append i name s lat detail w = (Inr x, w') \<and> holds D Os w'"
    by (metis prod.collapse)
qed

text \<open>The tables a deployment looks things up in.\<close>

definition catalog :: "release list \<Rightarrow> target list \<Rightarrow> artifact list \<Rightarrow> deployment list \<Rightarrow> org list \<Rightarrow> 'z world_scheme \<Rightarrow> bool" where
  "catalog R T A D Os w \<longleftrightarrow> holds D Os w \<and> releases w = R \<and> targets w = T \<and> artifacts w = A"

lemma select_triple:
  assumes "\<And>w :: 'z world_scheme. \<And>n. get (w\<lparr>stmtN := n\<rparr>) = get w"
    and "\<And>w. catalog R T A D Os w \<Longrightarrow> get w = X"
  shows "triple (catalog R T A D Os) (selectOne get p :: ('z, 'r option) DB) (\<lambda>x w. catalog R T A D Os w \<and> x = find p X) E"
    and "triple (catalog R T A D Os) (selectAll get p ord :: ('z, 'r list) DB) (\<lambda>x w. catalog R T A D Os w \<and> x = ord (filter p X)) E"
  by (rule triple_run; use assms in \<open>auto simp: catalog_def holds_def selectOne_quiet selectAll_quiet\<close>)+

lemma create_ok_triple:
  assumes "orgId \<in> o_id ` set Os" "rel \<in> r_id ` set R" "t \<in> t_id ` set T" "\<And>p. prev = Some p \<Longrightarrow> p \<in> d_id ` set D"
  shows "triple (catalog R T A D Os) (deployment_create orgId rel t prev)
     (\<lambda>r w. holds (D @ [r]) Os w \<and> (d_id r \<notin> d_id ` set D \<and> d_status r = DPending \<and> d_deletedAt r = None
        \<and> d_targetId r = t \<and> d_releaseId r = rel)) E"
proof (rule triple_run)
  fix w :: "'a world_scheme"
  assume c: "catalog R T A D Os w"
  then have h: "holds D Os w" and q: "quiet w" by (simp_all add: catalog_def holds_def)
  let ?now = "toISOString (clocks w (clockN w))"
  let ?row = "\<lparr>d_id = ulids w (ulidN w), d_orgId = orgId, d_releaseId = rel, d_targetId = t, d_status = DPending,
      d_startedAt = None, d_completedAt = None, d_previousDeploymentId = prev,
      d_healthSummary = None, d_createdAt = ?now, d_updatedAt = ?now, d_deletedAt = None\<rparr>"
  have "deployments_chk w (deployments w) = None" using h deployments.ok_chk by (auto simp: holds_def)
  moreover have "ulids w (ulidN w) \<notin> d_id ` set (deployments w)" using h by (auto simp: holds_def freshIds_def usedIds_def)
  ultimately have "deployments_chk w (deployments w @ [?row]) = None"
    using c assms by (auto simp: deployments_chk_def unique_on_def refs_def refsNullable_def list_all_iff catalog_def holds_def
        split: option.splits)
  then have "\<exists>x. fst (deployment_create orgId rel t prev w) = Inr x"
    unfolding deployment_create_def by (subst deployments.createRow_quiet [OF q]) simp
  then show "\<exists>r w'. deployment_create orgId rel t prev w = (Inr r, w') \<and>
      holds (D @ [r]) Os w' \<and> d_id r \<notin> d_id ` set D \<and> d_status r = DPending \<and> d_deletedAt r = None
        \<and> d_targetId r = t \<and> d_releaseId r = rel"
    by (rule_tac tripleD [OF create_triple h, of orgId rel t prev]) auto
qed

section \<open>The run\<close>

lemma deployCheck_live:
  assumes "cooperative env" and "i = d_id (c_deployment c)" and "i \<in> d_id ` set D1"
    and "\<And>art. art \<in> set (c_artifacts c) \<Longrightarrow> af_kind art = ABlob \<Longrightarrow> truthy (af_blobUri art)"
    and "\<And>h p. p \<in> set (parseDeclaredProbes env (c_release c)) \<Longrightarrow> probe_passes (e_backend env) h (c_handle c) p"
  shows "triple (holds D1 Os) (deployCheck env c :: ('z, healthSummary) DM) (\<lambda>_. holds D1 Os) E"
proof -
  let ?ps = "parseDeclaredProbes env (c_release c)"
  have pass: "triple (holds D1 Os) (runProbes (e_backend env) (c_handle c) ?ps :: ('z, probeResult list) DM)
      (\<lambda>rs w. holds D1 Os w \<and> set (map pr_status rs) \<subseteq> {HPass}) E" for E
  proof (rule triple_run)
    fix w :: "'z dworld_scheme"
    assume h: "holds D1 Os w"
    have "set (probesPass (e_backend env) hist (c_handle c) qs) \<subseteq> {True}" if "set qs \<subseteq> set ?ps" for hist qs
      using that by (induction qs arbitrary: hist) (auto simp: assms(5))
    then have all: "set (probesPass (e_backend env) (calls w) (c_handle c) ?ps) \<subseteq> {True}" by blast
    obtain rs where rs: "runProbes (e_backend env) (c_handle c) ?ps w =
        (Inr rs, w\<lparr>calls := calls w @ concat (map (probeCalls (c_handle c)) ?ps), clockN := clockN w + 2 * length ?ps\<rparr>)"
      "map pr_status rs = map (\<lambda>ok. if ok then HPass else HFail) (probesPass (e_backend env) (calls w) (c_handle c) ?ps)"
      using runProbes_run by blast
    have "set (map pr_status rs) \<subseteq> {HPass}" unfolding rs(2) using all by auto
    with rs(1) h show "\<exists>rs w'. runProbes (e_backend env) (c_handle c) ?ps w = (Inr rs, w') \<and> holds D1 Os w' \<and>
        set (map pr_status rs) \<subseteq> {HPass}" by auto
  qed
  note hc = healthCheck_triple [OF assms(3)]
  show ?thesis
    unfolding deployCheck_def Let_def stageStringInto_def copyFileToVM_def isVmReachable_def assms(2) [symmetric]
    apply (rule triple_bindM [OF triple_foldM], rule stage_triple [OF assms(1)], erule (1) assms(4))
    apply (rule triple_bindM [OF call_unit_triple])
    using assms(1) apply (simp add: cooperative_def Let_def)
    apply (rule triple_bindM [OF call_triple])
    using assms(1) apply (simp add: cooperative_def Let_def) apply blast
    apply (rule triple_pure, rule triple_prod)
    apply (rule triple_bindM [OF hc])
    apply (rule triple_if)
    subgoal using assms(1) unfolding cooperative_def Let_def by (metis Pair_inject sum.inject(2))
    apply (rule triple_bindM [OF pass], rule triple_pure)
    apply (rule triple_bindM [OF triple_foldM], rule triple_bindM [OF hc], rule triple_return, assumption)
    apply (rule triple_bindM [OF nowIso_triple])
    apply (rule triple_if)
    subgoal for x a b xa results now
      by (auto simp: summarise_def countStatus_def filter_empty_conv)
    by (rule triple_return)
qed

lemma catalog_holds: "catalog R T A D Os w \<Longrightarrow> holds D Os w"
  by (simp add: catalog_def)

lemma catalog_calls [simp]: "catalog R T A D Os (w\<lparr>calls := h\<rparr>) = catalog R T A D Os w"
  by (simp add: catalog_def)

lemma call_catalog:
  assumes "\<And>h. \<exists>x. f h = Inr x"
  shows "triple (catalog R T A D Os) (callBackend c f :: ('z, 'x) DM) (\<lambda>_. catalog R T A D Os) E"
proof (rule triple_run)
  fix w :: "'z dworld_scheme"
  assume w: "catalog R T A D Os w"
  obtain x where "f (calls w) = Inr x" using assms by blast
  with w show "\<exists>x w'. callBackend c f w = (Inr x, w') \<and> catalog R T A D Os w'"
    by (simp add: callBackend_def)
qed

text \<open>The lookups find the release and the target, and the context is made of them.\<close>

definition context_of :: "release \<Rightarrow> target \<Rightarrow> artifact list \<Rightarrow> deployCtx \<Rightarrow> bool" where
  "context_of rel tgt A c \<longleftrightarrow> c_release c = rel \<and> c_target c = tgt \<and>
     set (c_artifacts c) = {art \<in> set A. af_releaseId art = r_id rel \<and> af_deletedAt art = None}"

lemma deployPrepare_live:
  assumes "cooperative env"
    and rel: "find (\<lambda>r. r_id r = q_releaseId opts \<and> r_deletedAt r = None) R = Some rel" "r_status rel = RReady"
    and tgt: "find (\<lambda>r. t_id r = q_targetId opts \<and> t_deletedAt r = None) T = Some tgt"
      "t_orgId tgt = q_orgId opts" "q_orgId opts \<in> o_id ` set Os"
  shows "triple (catalog R T A D Os) (deployPrepare env opts)
    (\<lambda>c w. prepared D Os opts c w \<and> context_of rel tgt A c) E"
proof -
  have ids: "r_id rel = q_releaseId opts" "t_id tgt = q_targetId opts" "rel \<in> set R" "tgt \<in> set T"
    using find_Some_D [OF rel(1)] find_Some_D [OF tgt(1)] by simp_all
  have prev: "p \<in> d_id ` set D" if "map_option d_id x = Some p" "x = find q D" for p q x
    using that by (auto dest!: find_Some_D)
  show ?thesis
    unfolding deployPrepare_def Let_def release_get_def target_get_def getLive_def deployment_getActiveForTarget_def
      artifact_listForRelease_def resolveVm_def createCheckpoint_def
    apply (rule triple_bindM [OF select_triple(1) [where X = R]], simp, simp add: catalog_def, rule triple_pure)
    apply (simp only: rel option.case simp_thms if_False)
    apply (rule triple_bindM [OF select_triple(1) [where X = T]], simp, simp add: catalog_def, rule triple_pure)
    apply (simp only: tgt(1,2) option.case simp_thms if_False)
    apply (rule triple_bindM [OF select_triple(1) [where X = D]], simp, simp add: catalog_def holds_def, rule triple_pure)
    apply (rule triple_bindM [OF select_triple(2) [where X = A]], simp, simp add: catalog_def, rule triple_pure)
    apply (rule triple_bindM [OF call_catalog])
    using assms(1) apply (simp add: cooperative_def Let_def)
    apply (rule triple_prod)
    apply (rule triple_bindM [OF create_ok_triple [OF tgt(3) imageI [OF ids(3)] imageI [OF ids(4)]]])
     apply (erule (1) prev)
    apply (rule triple_pure)
    apply (rule triple_bindM [OF audit_triple [OF tgt(3)]])
    apply (rule triple_bindM [OF call_triple])
    using assms(1) apply (simp add: cooperative_def Let_def)
    apply (rule triple_pure)
    apply (rule triple_bindM [OF nowIso_triple])
    apply (rule triple_bindM)
     prefer 2
     apply (rule triple_return)
     apply (rule conjI, assumption)
     apply (simp add: context_of_def orderBy_def set_filter)
    by (rule start_triple) (use tgt(3) ids in \<open>auto simp: activeFor_def liveActive_def\<close>)
qed

lemma deployTry_live:
  assumes "cooperative env" and "context_of rel tgt A c" and del: "\<And>h cp. b_deleteCheckpoint (e_backend env) h cp = x"
    and "\<And>art. art \<in> set A \<Longrightarrow> af_releaseId art = r_id rel \<Longrightarrow> af_kind art = ABlob \<Longrightarrow> truthy (af_blobUri art)"
    and "\<And>h v p. p \<in> set (parseDeclaredProbes env rel) \<Longrightarrow> probe_passes (e_backend env) h v p"
  shows "triple (prepared D Os opts c) (deployTry env c)
    (\<lambda>r w. x = Inr () \<and> promoted D Os opts (x_deployment r) w \<and> x_release r = rel \<and> x_target r = tgt)
    (\<lambda>e w. \<exists>m r. x = Inl m \<and> e = JsError m \<and> promoted D Os opts r w \<and> d_id r = d_id (c_deployment c))"
proof (rule prepared_cases)
  assume org: "c_orgId c \<in> o_id ` set Os"
  have check: "triple (prepared D Os opts c) (deployCheck env c) (\<lambda>_. prepared D Os opts c) E" for E
    unfolding prepared_def
  proof (intro triple_ex triple_pure)
    fix D1 n
    assume run: "running D opts c D1 n"
    have i: "d_id (c_deployment c) \<in> d_id ` set D1" using run unfolding running_def by (metis imageI)
    show "triple (holds D1 Os) (deployCheck env c)
        (\<lambda>_ w. (\<exists>D1 n. holds D1 Os w \<and> running D opts c D1 n) \<and> c_orgId c \<in> o_id ` set Os) E"
      by (rule triple_weaken [OF deployCheck_live [OF assms(1) refl, where ?D1.0 = D1]])
        (use run org assms i in \<open>auto simp: context_of_def\<close>)
  qed
  have drop: "triple (promoted D Os opts r) (deleteCheckpoint (e_backend env) cp)
      (\<lambda>_ w. promoted D Os opts r w \<and> x = Inr ()) (\<lambda>e w. \<exists>m. x = Inl m \<and> e = JsError m \<and> promoted D Os opts r w)" for cp r
    by (cases x) (auto simp: triple_def deleteCheckpoint_def callBackend_def del promoted_def)
  show "triple (prepared D Os opts c) (deployTry env c)
      (\<lambda>r w. x = Inr () \<and> promoted D Os opts (x_deployment r) w \<and> x_release r = rel \<and> x_target r = tgt)
      (\<lambda>e w. \<exists>m r. x = Inl m \<and> e = JsError m \<and> promoted D Os opts r w \<and> d_id r = d_id (c_deployment c))"
    unfolding deployTry_def
    apply (rule triple_bindM [OF check])
    apply (rule triple_bindM [OF deployPromote_triple], rule triple_pure)
    apply (rule triple_seq [OF drop], blast, rule triple_pure)
    apply (rule triple_bindM [OF promoted_step [OF audit_triple [OF org]]])
    by (rule triple_return) (use assms(2) in \<open>simp add: context_of_def\<close>)
qed

lemma runDeploy_live:
  assumes "quiet w" and "db_ok w" and "freshIds w" and "cooperative env"
    and del: "\<And>h cp. b_deleteCheckpoint (e_backend env) h cp = x"
    and rel: "rel \<in> set (releases w)" "r_id rel = q_releaseId opts" "r_deletedAt rel = None" "r_status rel = RReady"
    and tgt: "tgt \<in> set (targets w)" "t_id tgt = q_targetId opts" "t_deletedAt tgt = None" "t_orgId tgt = q_orgId opts"
    and blobs: "\<And>art. art \<in> set (artifacts w) \<Longrightarrow> af_releaseId art = r_id rel \<Longrightarrow> af_kind art = ABlob \<Longrightarrow> truthy (af_blobUri art)"
    and probes: "\<And>h v p. p \<in> set (parseDeclaredProbes env rel) \<Longrightarrow> probe_passes (e_backend env) h v p"
    and caught: "\<And>c m r. x = Inl m \<Longrightarrow> c_orgId c \<in> o_id ` set (orgs w) \<Longrightarrow>
      triple (\<lambda>w'. promoted (deployments w) (orgs w) opts r w' \<and> d_id r = d_id (c_deployment c))
        (deployCatch env c (JsError m)) Q E"
    and finished: "\<And>r w'. x = Inr () \<Longrightarrow> promoted (deployments w) (orgs w) opts (x_deployment r) w' \<Longrightarrow>
      x_release r = rel \<Longrightarrow> x_target r = tgt \<Longrightarrow> Q r w'"
  shows "case runDeploy env opts w of (Inr r, w') \<Rightarrow> Q r w' | (Inl e, w') \<Rightarrow> E e w'"
proof -
  let ?P = "catalog (releases w) (targets w) (artifacts w) (deployments w) (orgs w)"
  have w: "?P w" using assms(1-3) by (simp add: catalog_def holds_def)
  have ok: "releases_chk w (releases w) = None" "targets_chk w (targets w) = None"
    using assms(2) releases.ok_chk targets.ok_chk by blast+
  have u: "unique_on (\<lambda>r. r_deletedAt r = None) r_id (releases w)" "unique_on (\<lambda>r. t_deletedAt r = None) t_id (targets w)"
    using ok by (auto simp: releases_chk_def targets_chk_def unique_on_def distinct_map inj_on_def)
  have fr: "find (\<lambda>r. r_id r = q_releaseId opts \<and> r_deletedAt r = None) (releases w) = Some rel"
    using unique_on_find [OF u(1) rel(1,3)] rel(2) by (simp add: conj_commute)
  have ft: "find (\<lambda>r. t_id r = q_targetId opts \<and> t_deletedAt r = None) (targets w) = Some tgt"
    using unique_on_find [OF u(2) tgt(1,3)] tgt(2) by (simp add: conj_commute)
  have org: "q_orgId opts \<in> o_id ` set (orgs w)"
    using ok(2) tgt(1) unfolding tgt(4) [symmetric] by (auto simp: targets_chk_def refs_def list_all_iff)
  let ?late = "\<lambda>c e w'. \<exists>m r. x = Inl m \<and> e = JsError m \<and>
      promoted (deployments w) (orgs w) opts r w' \<and> d_id r = d_id (c_deployment c)"
  have tries: "triple (prepared (deployments w) (orgs w) opts c) (deployTry env c) Q (?late c)"
    if "context_of rel tgt (artifacts w) c" for c
    by (rule triple_weaken [OF deployTry_live [OF assms(4) that del blobs probes]]) (auto intro: finished)
  have late: "triple (?late c e) (deployCatch env c e) Q E" if "c_orgId c \<in> o_id ` set (orgs w)" for c e
  proof (intro triple_ex)
    fix m r
    show "triple (\<lambda>w'. x = Inl m \<and> e = JsError m \<and> promoted (deployments w) (orgs w) opts r w' \<and>
        d_id r = d_id (c_deployment c)) (deployCatch env c e) Q E"
      using caught [OF _ that, of m r] by (cases "x = Inl m \<and> e = JsError m") (simp_all add: triple_def)
  qed
  have "triple ?P (runDeploy env opts) Q E"
    unfolding runDeploy_def
    by (rule triple_bindM [OF deployPrepare_live [OF assms(4) fr rel(4) ft tgt(4) org]], rule triple_pure,
        rule prepared_cases, rule triple_catchM [OF tries late])
  then show ?thesis using w by (simp add: triple_def)
qed

text \<open>
  C3. A deployment that meets no obstacle completes.  If the release is ready, the target belongs
  to the organisation, the backend carries out what it is asked and finds the machine reachable,
  every blob artifact of the release has a location whose content the blob store returns, and
  every declared probe passes, then on a quiet consistent database \<open>runDeploy\<close> returns the
  deployment of that release to that target as the only active one there.
\<close>

theorem unobstructed_deploy_completes:
  assumes "quiet w" and "db_ok w" and "freshIds w" and "cooperative env" and "\<And>h cp. b_deleteCheckpoint (e_backend env) h cp = Inr ()"
    and rel: "rel \<in> set (releases w)" "r_id rel = q_releaseId opts" "r_deletedAt rel = None" "r_status rel = RReady"
    and tgt: "tgt \<in> set (targets w)" "t_id tgt = q_targetId opts" "t_deletedAt tgt = None" "t_orgId tgt = q_orgId opts"
    and blobs: "\<And>art. art \<in> set (artifacts w) \<Longrightarrow> af_releaseId art = r_id rel \<Longrightarrow> af_kind art = ABlob \<Longrightarrow> truthy (af_blobUri art)"
    and probes: "\<And>h v p. p \<in> set (parseDeclaredProbes env rel) \<Longrightarrow> probe_passes (e_backend env) h v p"
  shows "\<exists>r w'. runDeploy env opts w = (Inr r, w') \<and> x_release r = rel \<and> x_target r = tgt \<and>
     activeOn (t_id tgt) (deployments w') = [x_deployment r] \<and> d_releaseId (x_deployment r) = r_id rel"
proof -
  have "case runDeploy env opts w of
      (Inr r, w') \<Rightarrow> promoted (deployments w) (orgs w) opts (x_deployment r) w' \<and> x_release r = rel \<and> x_target r = tgt
    | (Inl e, w') \<Rightarrow> False"
    by (rule runDeploy_live [OF assms(1-5) rel tgt blobs probes]) auto
  then show ?thesis
    using rel(2) tgt(2) by (auto simp: promoted_def holds_def split: prod.splits sum.splits)
qed

section \<open>A checkpoint that cannot be dropped\<close>

text \<open>After the promotion the catch block still marks the new deployment failed.\<close>

lemma late_markFailed_triple:
  assumes "dp_status p = Some DFailed" and "d_id r = i"
  shows "triple (promoted D Os opts r) (deployment_update i p)
    (\<lambda>_ w. \<exists>D'. holds D' Os w \<and> activeOn (q_targetId opts) D' = []) E"
  unfolding promoted_def
proof (intro triple_ex triple_pure)
  fix D'
  assume a: "activeOn (q_targetId opts) D' = [r] \<and> d_releaseId r = q_releaseId opts \<and> d_id r \<notin> d_id ` set D \<and>
     (\<forall>t. t \<noteq> q_targetId opts \<longrightarrow> activeOn t D' = activeOn t D) \<and>
     (\<forall>p \<in> set (activeOn (q_targetId opts) D). \<exists>p' \<in> set D'. d_id p' = d_id p \<and> d_status p' = DSuperseded)"
  then have r: "r \<in> set D'" "d_deletedAt r = None" by (auto simp: activeOn_def liveActive_def filter_eq_Cons_iff)
  show "triple (holds D' Os) (deployment_update i p)
      (\<lambda>_ w. \<exists>D'. holds D' Os w \<and> activeOn (q_targetId opts) D' = []) E"
  proof (rule triple_weaken [OF update_triple [where d = r]])
    fix q and w :: "'a world_scheme"
    assume "\<exists>now. q = deployment_patch p now r r \<and> holds (patched i p now r D') Os w"
    then obtain now where w: "holds (patched i p now r D') Os w" by blast
    have "activeOn (q_targetId opts) (patched i p now r D') = filter (\<lambda>q. d_id q \<noteq> i) [r]"
      using a assms(1) by (subst activeOn_patched_off) auto
    with w assms(2) show "\<exists>D'. holds D' Os w \<and> activeOn (q_targetId opts) D' = []" by auto
  qed (use r assms in auto)
qed

lemma late_catch_triple:
  assumes "c_orgId c \<in> o_id ` set Os" and "d_id r = d_id (c_deployment c)"
  shows "triple (promoted D Os opts r) (deployCatch env c e) Q
    (\<lambda>e' w. e' = e \<and> (\<exists>D'. holds D' Os w \<and> activeOn (q_targetId opts) D' = []))"
proof -
  have call: "triple (promoted D Os opts r) (tryM (callBackend b f)) (\<lambda>_. promoted D Os opts r) E" for b f E
    by (simp add: triple_def tryM_run callBackend_def promoted_def split: sum.split)
  have now: "triple (promoted D Os opts r) nowIso (\<lambda>_. promoted D Os opts r) E" for E
    by (rule promoted_step [OF nowIso_triple])
  have aud: "triple (\<lambda>w. \<exists>D'. holds D' Os w \<and> activeOn (q_targetId opts) D' = [])
      (audit_append (c_orgId c) a b d i j) (\<lambda>_ w. \<exists>D'. holds D' Os w \<and> activeOn (q_targetId opts) D' = []) E" for a b d i j E
    by (intro triple_ex triple_pure, rule triple_weaken [OF audit_triple [OF assms(1)]]) blast+
  show ?thesis
    unfolding deployCatch_def restoreCheckpoint_def deleteCheckpoint_def
    apply (rule triple_bindM [OF call], rule triple_bindM [OF call])
    apply (rule triple_bindM [OF tryM_triple])
     apply (rule triple_bindM [OF now], rule triple_bindM [OF late_markFailed_triple])
       apply simp
      apply (rule assms(2))
     apply (rule triple_return, assumption)
    apply (rule triple_bindM [OF aud])
    by (rule triple_throw) simp
qed

text \<open>
  C16. A late failure takes the target's service record away.  Under the conditions of an
  unobstructed deployment, except that the backend rejects \<open>deleteCheckpoint\<close>, \<open>runDeploy\<close> rethrows that
  rejection and leaves the target without any active deployment, although the release passed
  every check: the previous deployment was superseded before the checkpoint was dropped, and
  the catch block marks the new one failed without reinstating the old one.
\<close>

theorem checkpoint_drop_failure_deactivates:
  assumes "quiet w" and "db_ok w" and "freshIds w" and "cooperative env"
    and "\<And>h cp. b_deleteCheckpoint (e_backend env) h cp = Inl m"
    and rel: "rel \<in> set (releases w)" "r_id rel = q_releaseId opts" "r_deletedAt rel = None" "r_status rel = RReady"
    and tgt: "tgt \<in> set (targets w)" "t_id tgt = q_targetId opts" "t_deletedAt tgt = None" "t_orgId tgt = q_orgId opts"
    and blobs: "\<And>art. art \<in> set (artifacts w) \<Longrightarrow> af_releaseId art = r_id rel \<Longrightarrow> af_kind art = ABlob \<Longrightarrow> truthy (af_blobUri art)"
    and probes: "\<And>h v p. p \<in> set (parseDeclaredProbes env rel) \<Longrightarrow> probe_passes (e_backend env) h v p"
  shows "\<exists>w'. runDeploy env opts w = (Inl (JsError m), w') \<and> activeOn (t_id tgt) (deployments w') = []"
proof -
  have "case runDeploy env opts w of (Inr r, w') \<Rightarrow> False
    | (Inl e, w') \<Rightarrow> e = JsError m \<and> (\<exists>D'. holds D' (orgs w) w' \<and> activeOn (q_targetId opts) D' = [])"
    by (rule runDeploy_live [OF assms(1-5) rel tgt blobs probes])
      (auto intro: triple_weaken [OF late_catch_triple] simp: triple_pure)
  then show ?thesis
    using tgt(2) by (auto simp: holds_def split: prod.splits sum.splits)
qed

section \<open>A laboratory\<close>

text \<open>
  Two targets, each with an active deployment of release \<open>r1\<close>, and a backend that carries out every
  call; what \<open>deleteCheckpoint\<close> answers is the argument.
\<close>

definition labRelease :: "string \<Rightarrow> release" where
  "labRelease i = \<lparr>r_id = i, r_orgId = ''o1'', r_productId = ''p1'', r_tag = i, r_commitSha = ''c0ffee'',
     r_manifestSha256 = None, r_signedBy = None, r_signatureB64 = None, r_builtAt = None,
     r_builtByRunnerId = None, r_status = RReady, r_buildYamlJson = None, r_createdAt = ''2023-11-14T22:13:20.000Z'',
     r_updatedAt = ''2023-11-14T22:13:20.000Z'', r_deletedAt = None\<rparr>"

definition labTarget :: "string \<Rightarrow> target" where
  "labTarget i = \<lparr>t_id = i, t_orgId = ''o1'', t_name = i, t_kind = VmTest, t_connection = JObj [],
     t_createdAt = ''2023-11-14T22:13:20.000Z'', t_updatedAt = ''2023-11-14T22:13:20.000Z'', t_deletedAt = None\<rparr>"

definition labDeployment :: "string \<Rightarrow> string \<Rightarrow> deployment" where
  "labDeployment i t = \<lparr>d_id = i, d_orgId = ''o1'', d_releaseId = ''r1'', d_targetId = t, d_status = DActive,
     d_startedAt = None, d_completedAt = None, d_previousDeploymentId = None, d_healthSummary = None,
     d_createdAt = ''2023-11-14T22:13:20.000Z'', d_updatedAt = ''2023-11-14T22:13:20.000Z'', d_deletedAt = None\<rparr>"

definition labWorld :: dworld where
  "labWorld = world.extend (orgWorld\<lparr>ulids := (\<lambda>n. replicate (Suc n) CHR ''u''),
     products := [\<lparr>p_id = ''p1'', p_orgId = ''o1'', p_name = ''app'', p_repoUrl = ''https://example.test/app.git'',
       p_buildYamlPath = ''signalman.build.yaml'', p_createdAt = ''2023-11-14T22:13:20.000Z'',
       p_updatedAt = ''2023-11-14T22:13:20.000Z'', p_deletedAt = None\<rparr>],
     releases := [labRelease ''r1'', labRelease ''r2''],
     targets := [labTarget ''lab'', labTarget ''edge''],
     deployments := [labDeployment ''d1'' ''lab'', labDeployment ''d2'' ''edge'']\<rparr>) (dworld.fields [])"

definition labBackend :: "(string + unit) \<Rightarrow> backend" where
  "labBackend del = \<lparr>b_resolveVm = (\<lambda>_ _. Inr (''vm'', ''vm'')), b_createCheckpoint = (\<lambda>_ _ _. Inr ''cp''),
     b_restoreCheckpoint = (\<lambda>_ _. Inr ()), b_deleteCheckpoint = (\<lambda>_ _. del), b_copyFileToVM = (\<lambda>_ _ _ _. Inr ()),
     b_isVmReachable = (\<lambda>_ _. Inr (True, None)),
     b_executeInGuest = (\<lambda>_ _ _ _ _. Inr \<lparr>exitCode = 0, stdout = [], stderr = []\<rparr>)\<rparr>"

definition labEnv :: "(string + unit) \<Rightarrow> denv" where
  "labEnv del = \<lparr>e_backend = labBackend del, e_blob = (\<lambda>_. Inr []), e_probes = (\<lambda>_. None), e_probesError = (\<lambda>_. JsError [])\<rparr>"

definition labOptions :: deployOptions where
  "labOptions = \<lparr>q_orgId = ''o1'', q_releaseId = ''r2'', q_targetId = ''lab'', q_actor = None, q_guestStagingRoot = None\<rparr>"

lemmas lab_defs = labWorld_def labRelease_def labTarget_def labDeployment_def labBackend_def labEnv_def labOptions_def
  world.extend_def dworld.fields_def

lemma labWorld_ok: "quiet labWorld" "db_ok labWorld" "freshIds labWorld"
  by (simp_all add: world_eval lab_defs freshIds_def usedIds_def inj_def)

theorem unobstructed_deploy_completes_witness:
  "\<exists>r w'. runDeploy (labEnv (Inr ())) labOptions labWorld = (Inr r, w') \<and>
     activeOn ''lab'' (deployments w') = [x_deployment r] \<and> d_releaseId (x_deployment r) = ''r2''"
proof -
  have "cooperative (labEnv (Inr ()))" "\<And>h cp. b_deleteCheckpoint (e_backend (labEnv (Inr ()))) h cp = Inr ()"
    by (simp_all add: cooperative_def lab_defs)
  from unobstructed_deploy_completes [OF labWorld_ok this, of "labRelease ''r2''" labOptions "labTarget ''lab''"]
  show ?thesis by (force simp: lab_defs world_eval parseDeclaredProbes_def truthy_def)
qed

theorem checkpoint_drop_failure_deactivates_witness:
  "\<exists>w'. runDeploy (labEnv (Inl ''disk busy'')) labOptions labWorld = (Inl (JsError ''disk busy''), w') \<and>
     activeOn ''lab'' (deployments w') = [] \<and> activeOn ''lab'' (deployments labWorld) \<noteq> []"
proof -
  have "cooperative (labEnv (Inl ''disk busy''))"
    "\<And>h cp. b_deleteCheckpoint (e_backend (labEnv (Inl ''disk busy''))) h cp = Inl ''disk busy''"
    by (simp_all add: cooperative_def lab_defs)
  from checkpoint_drop_failure_deactivates [OF labWorld_ok this, of "labRelease ''r2''" labOptions "labTarget ''lab''"]
  show ?thesis by (force simp: lab_defs world_eval parseDeclaredProbes_def truthy_def activeOn_def liveActive_def)
qed

theorem deploy_atomic_witness:
  "activeOn ''edge'' (deployments (snd (runDeploy (labEnv (Inr ())) labOptions labWorld))) = [labDeployment ''d2'' ''edge'']"
proof -
  have "activeOn ''edge'' (deployments labWorld) = [labDeployment ''d2'' ''edge'']" "q_targetId labOptions \<noteq> ''edge''"
    by (simp_all add: lab_defs activeOn_def liveActive_def)
  moreover have "\<And>h cp. b_deleteCheckpoint (e_backend (labEnv (Inr ()))) h cp = Inr ()" by (simp add: lab_defs)
  note deploy_atomic [OF labWorld_ok this, of labOptions]
  ultimately show ?thesis by (auto split: prod.splits sum.splits)
qed


end
