(* ===== verification/Verbs.thy ===== *)
theory Verbs
  imports Scheduler Http_Base Deploy_Live
begin

text \<open>
  The verbs of the command line and of the tool server (\<open>verbs/control-plane.ts\<close>) that work on one
  component: products, targets, runners, the audit log, schedules, webhooks, deployments and health.
  The database is migrated, so \<open>init\<close> is \<open>ensureDefaultOrg\<close>.  Progress output is left out.
\<close>

definition getActiveOrgId :: "('z, string) DB" where
  "getActiveOrgId = bindM ensureDefaultOrg (\<lambda>o'. ret (o_id o'))"

definition fail :: "string \<Rightarrow> ('s, err, 'a) M" where
  "fail m = throwM (JsError m)"

text \<open>\<open>if (!x) throw new Error(m)\<close>.\<close>

definition require :: "string \<Rightarrow> 'a option \<Rightarrow> ('s, err, 'a) M" where
  "require m x = (case x of None \<Rightarrow> fail m | Some y \<Rightarrow> ret y)"

definition namesJson :: "string list \<Rightarrow> json" where
  "namesJson xs = JArr (map JStr xs)"

section \<open>Products and targets\<close>

definition runProductAdd :: "string \<Rightarrow> string \<Rightarrow> string option \<Rightarrow> ('z, product) DB" where
  "runProductAdd name repoUrl buildYamlPath =
     bindM getActiveOrgId (\<lambda>orgId.
     bindM (product_create orgId name repoUrl buildYamlPath) (\<lambda>product.
     bindM (audit_append orgId ''cli'' ''product.added'' ''product'' (p_id product)
       (Some (JObj [(''name'', JStr (p_name product)), (''repoUrl'', JStr (p_repoUrl product))]))) (\<lambda>_.
     ret product)))"

definition runProductList :: "('z, product list) DB" where
  "runProductList = bindM getActiveOrgId product_listForOrg"

definition runProductRemove :: "string \<Rightarrow> ('z, unit) DB" where
  "runProductRemove name =
     bindM getActiveOrgId (\<lambda>orgId.
     bindM (bindM (product_getByName orgId name) (require (''product not found: '' @ name))) (\<lambda>existing.
     bindM (product_softDelete (p_id existing)) (\<lambda>_.
     bindM (audit_append orgId ''cli'' ''product.removed'' ''product'' (p_id existing)
       (Some (JObj [(''name'', JStr (p_name existing))]))) (\<lambda>_. ret ()))))"

definition targetNamed :: "string \<Rightarrow> string \<Rightarrow> ('z, target) DB" where
  "targetNamed orgId name = bindM (target_getByName orgId name) (require (''target not found: '' @ name))"

definition runTargetAdd :: "string \<Rightarrow> targetKind \<Rightarrow> json \<Rightarrow> ('z, target) DB" where
  "runTargetAdd name kind connection =
     bindM getActiveOrgId (\<lambda>orgId.
     bindM (target_create orgId name kind connection) (\<lambda>target.
     bindM (audit_append orgId ''cli'' ''target.added'' ''target'' (t_id target)
       (Some (JObj [(''name'', JStr (t_name target)), (''kind'', JStr (targetKind_text (t_kind target)))]))) (\<lambda>_.
     ret target)))"

definition runTargetList :: "('z, target list) DB" where
  "runTargetList = bindM getActiveOrgId target_listForOrg"

definition runTargetRemove :: "string \<Rightarrow> ('z, unit) DB" where
  "runTargetRemove name =
     bindM getActiveOrgId (\<lambda>orgId.
     bindM (targetNamed orgId name) (\<lambda>existing.
     bindM (target_softDelete (t_id existing)) (\<lambda>_.
     bindM (audit_append orgId ''cli'' ''target.removed'' ''target'' (t_id existing)
       (Some (JObj [(''name'', JStr (t_name existing))]))) (\<lambda>_. ret ()))))"

definition nameAndConnection :: "target \<Rightarrow> json" where
  "nameAndConnection t = JObj [(''name'', JStr (t_name t)), (''connection'', t_connection t)]"

definition runTargetEdit :: "string \<Rightarrow> string option \<Rightarrow> json option \<Rightarrow> ('z, target) DB" where
  "runTargetEdit name newName newConnection =
     (if newName = None \<and> newConnection = None
      then fail ''target edit requires at least one of --new-name or --connection''
      else
        bindM getActiveOrgId (\<lambda>orgId.
        bindM (targetNamed orgId name) (\<lambda>existing.
        bindM (target_update (t_id existing) newName newConnection) (\<lambda>updated.
        bindM (audit_append orgId ''cli'' ''target.edited'' ''target'' (t_id existing)
          (Some (JObj [(''before'', nameAndConnection existing), (''after'', nameAndConnection updated)]))) (\<lambda>_.
        ret updated)))))"

section \<open>Releases\<close>

definition runReleaseList ::
  "string option \<Rightarrow> releaseStatus option \<Rightarrow> ('z, (product \<times> release) list) DB" where
  "runReleaseList productName status =
     bindM getActiveOrgId (\<lambda>orgId.
     bindM (product_listForOrg orgId) (\<lambda>products.
     foldM (\<lambda>out p.
       if truthy productName \<and> p_name p \<noteq> the productName then ret out
       else bindM (release_listForProduct (p_id p) status) (\<lambda>rs. ret (out @ map (Pair p) rs))) [] products))"

section \<open>Runners\<close>

definition runRunnerList :: "int option \<Rightarrow> ('z, (runner \<times> bool) list) DB" where
  "runRunnerList staleThresholdSeconds =
     bindM getActiveOrgId (\<lambda>orgId.
     bindM dateNow (\<lambda>now.
     let cutoffMs = now - orElse staleThresholdSeconds 90 * 1000 in
     bindM (runner_listForOrg orgId) (\<lambda>rows.
     ret (map (\<lambda>r. (r, case dateParse (rr_lastSeenAt r) of None \<Rightarrow> False | Some t \<Rightarrow> t < cutoffMs)) rows))))"

definition runRunnerDeregister :: "string option \<Rightarrow> string option \<Rightarrow> ('z, string \<times> string) DB" where
  "runRunnerDeregister name i =
     (if name = None \<and> i = None then fail ''runner deregister requires --name or --id (got neither)''
      else
        bindM getActiveOrgId (\<lambda>orgId.
        bindM (case i of Some x \<Rightarrow> runner_get x | None \<Rightarrow> runner_getByName orgId (the name)) (\<lambda>found.
        bindM (require (''runner not found: '' @ (case i of Some x \<Rightarrow> ''id='' @ x | None \<Rightarrow> ''name='' @ the name)) found) (\<lambda>r.
        if rr_orgId r \<noteq> orgId then fail (''runner '' @ rr_id r @ '' belongs to a different org'')
        else
          bindM (runner_softDelete (rr_id r)) (\<lambda>_.
          bindM (audit_append orgId ''cli'' ''runner.deregistered'' ''runner'' (rr_id r)
            (Some (JObj [(''name'', JStr (rr_name r))]))) (\<lambda>_.
          ret (rr_id r, rr_name r)))))))"

section \<open>The audit log\<close>

record auditQuery =
  aq_since :: "string option"
  aq_entityType :: "string option"
  aq_entityId :: "string option"
  aq_actor :: "string option"
  aq_action :: "string option"
  aq_limit :: "int option"

definition matches :: "'a option \<Rightarrow> 'a \<Rightarrow> bool" where
  "matches want x \<longleftrightarrow> (case want of None \<Rightarrow> True | Some y \<Rightarrow> x = y)"

definition runAuditQuery :: "auditQuery \<Rightarrow> ('z, auditLogEntry list) DB" where
  "runAuditQuery q =
     bindM getActiveOrgId (\<lambda>orgId.
     bindM (audit_listForOrg orgId (aq_limit q) (aq_entityType q) (aq_entityId q)) (\<lambda>entries.
     let kept = filter (\<lambda>e. matches (aq_actor q) (al_actor e) \<and> matches (aq_action q) (al_action e)) entries in
     case aq_since q of
       None \<Rightarrow> ret kept
     | Some since \<Rightarrow> (case dateParse since of
         None \<Rightarrow> fail (''audit query: --since must be ISO-8601 (got '' @ quoted since @ '')'')
       | Some sinceMs \<Rightarrow> ret (filter (\<lambda>e. case dateParse (al_createdAt e) of None \<Rightarrow> False | Some t \<Rightarrow> sinceMs \<le> t) kept))))"

definition runAuditAppend ::
  "string \<Rightarrow> string \<Rightarrow> string \<Rightarrow> string \<Rightarrow> json option \<Rightarrow> ('z, auditLogEntry) DB" where
  "runAuditAppend actor action entityType entityId detail =
     (if actor = [] then fail ''audit append: actor must be non-empty''
      else if action = [] then fail ''audit append: action must be non-empty''
      else if entityType = [] then fail ''audit append: entity_type must be non-empty''
      else if entityId = [] then fail ''audit append: entity_id must be non-empty''
      else bindM getActiveOrgId (\<lambda>orgId. audit_append orgId actor action entityType entityId detail))"

section \<open>Health schedules\<close>

definition runScheduleAdd ::
  "string \<Rightarrow> int \<Rightarrow> string list option \<Rightarrow> bool option \<Rightarrow> ('z, healthSchedule \<times> target) DB" where
  "runScheduleAdd targetName intervalSeconds probeNames active =
     (if intervalSeconds < 60 then fail ''schedule add: --interval-seconds must be >= 60''
      else
        bindM getActiveOrgId (\<lambda>orgId.
        bindM (targetNamed orgId targetName) (\<lambda>target.
        bindM (schedule_create orgId (t_id target) intervalSeconds (orElse probeNames []) active) (\<lambda>schedule.
        bindM (audit_append orgId ''cli'' ''health_schedule.added'' ''health_schedule'' (hs_id schedule)
          (Some (JObj [(''targetId'', JStr (t_id target)), (''intervalSeconds'', JNum (of_int (hs_intervalSeconds schedule))),
            (''probeNames'', namesJson (hs_probeNames schedule))]))) (\<lambda>_.
        ret (schedule, target))))))"

definition runScheduleList :: "string option \<Rightarrow> ('z, (healthSchedule \<times> target) list) DB" where
  "runScheduleList targetName =
     bindM getActiveOrgId (\<lambda>orgId.
     if truthy targetName then
       bindM (targetNamed orgId (the targetName)) (\<lambda>target.
       bindM (schedule_listForTarget (t_id target)) (\<lambda>ss. ret (map (\<lambda>s. (s, target)) ss)))
     else
       bindM (schedule_listForOrg orgId) (\<lambda>ss.
       foldM (\<lambda>out s. bindM (target_get (hs_targetId s)) (\<lambda>t.
         ret (case t of None \<Rightarrow> out | Some t' \<Rightarrow> out @ [(s, t')]))) [] ss))"

definition scheduleWithId :: "string \<Rightarrow> ('z, healthSchedule) DB" where
  "scheduleWithId i = bindM (schedule_get i) (require (''health schedule not found: '' @ i))"

definition scheduleAudit :: "string \<Rightarrow> healthSchedule \<Rightarrow> ('z, unit) DB" where
  "scheduleAudit action s =
     bindM (audit_append (hs_orgId s) ''cli'' action ''health_schedule'' (hs_id s) None) (\<lambda>_. ret ())"

definition activePatch :: "bool \<Rightarrow> schedulePatch" where
  "activePatch b = \<lparr>hp_intervalSeconds = None, hp_probeNames = None, hp_active = Some b, hp_lastRunAt = None\<rparr>"

definition runScheduleDisable :: "string \<Rightarrow> ('z, healthSchedule) DB" where
  "runScheduleDisable i =
     bindM (scheduleWithId i) (\<lambda>existing.
     bindM (schedule_update (hs_id existing) (activePatch False)) (\<lambda>updated.
     bindM (scheduleAudit ''health_schedule.disabled'' existing) (\<lambda>_. ret updated)))"

definition runScheduleEnable :: "string \<Rightarrow> ('z, healthSchedule) DB" where
  "runScheduleEnable i =
     bindM (scheduleWithId i) (\<lambda>existing.
     bindM (schedule_update (hs_id existing) (activePatch True)) (\<lambda>updated.
     bindM (scheduleAudit ''health_schedule.enabled'' existing) (\<lambda>_. ret updated)))"

definition runScheduleRemove :: "string \<Rightarrow> ('z, unit) DB" where
  "runScheduleRemove i =
     bindM (scheduleWithId i) (\<lambda>existing.
     bindM (schedule_softDelete (hs_id existing)) (\<lambda>_.
     scheduleAudit ''health_schedule.removed'' existing))"

section \<open>Webhooks\<close>

fun webhookKind_text :: "webhookKind \<Rightarrow> string" where
  "webhookKind_text WGeneric = ''generic''"
| "webhookKind_text WSlack = ''slack''"
| "webhookKind_text WEmail = ''email''"

definition runWebhookAdd ::
  "webhookKind \<Rightarrow> string \<Rightarrow> string option \<Rightarrow> string list option \<Rightarrow> bool option \<Rightarrow> string option
    \<Rightarrow> ('z, webhookSubscription) DB" where
  "runWebhookAdd kind url secretHmacKey eventKinds active description =
     (if kind = WEmail \<and> \<not> startsWith url ''mailto:'' \<and> \<not> includesStr url ''@''
      then fail ''webhook add: email kind requires a mailto: URL or a bare email address''
      else if (kind = WGeneric \<or> kind = WSlack) \<and> \<not> (prefixCI ''http://'' url \<or> prefixCI ''https://'' url)
      then fail ''webhook add: generic/slack kinds require an http(s):// URL''
      else
        bindM getActiveOrgId (\<lambda>orgId.
        bindM (webhook_create orgId kind url secretHmacKey (Some (orElse eventKinds [])) active description) (\<lambda>sub.
        bindM (audit_append orgId ''cli'' ''webhook.added'' ''webhook_subscription'' (wh_id sub)
          (Some (JObj [(''kind'', JStr (webhookKind_text (wh_kind sub))), (''url'', JStr (wh_url sub)),
            (''eventKinds'', namesJson (wh_eventKinds sub))]))) (\<lambda>_.
        ret sub))))"

definition runWebhookList :: "('z, webhookSubscription list) DB" where
  "runWebhookList = bindM getActiveOrgId webhook_listForOrg"

definition webhookWithId :: "string \<Rightarrow> ('z, webhookSubscription) DB" where
  "webhookWithId i = bindM (webhook_get i) (require (''webhook subscription not found: '' @ i))"

definition runWebhookRemove :: "string \<Rightarrow> ('z, unit) DB" where
  "runWebhookRemove i =
     bindM (webhookWithId i) (\<lambda>existing.
     bindM (webhook_softDelete (wh_id existing)) (\<lambda>_.
     bindM (audit_append (wh_orgId existing) ''cli'' ''webhook.removed'' ''webhook_subscription'' (wh_id existing) None) (\<lambda>_.
     ret ())))"

definition runWebhookTest ::
  "'z transport \<Rightarrow> string \<Rightarrow> signalmanEvent option \<Rightarrow> ('z, webhookSubscription \<times> dispatchOutcome) DB" where
  "runWebhookTest tr i event =
     bindM (webhookWithId i) (\<lambda>existing.
     bindM (case event of
         Some ev \<Rightarrow> ret ev
       | None \<Rightarrow> bindM dateNow (\<lambda>now. ret (ReleaseBuilt (wh_orgId existing) (toISOString now)
           ''test-release'' ''test-product'' ''v0.0.0-test'' None))) (\<lambda>ev.
     bindM (deliver tr existing ev) (\<lambda>oc. ret (existing, oc))))"

section \<open>Deployments and health\<close>

definition runDeploymentList :: "string option \<Rightarrow> ('z, (deployment \<times> release \<times> target) list) DB" where
  "runDeploymentList targetName =
     bindM getActiveOrgId (\<lambda>orgId.
     bindM (if truthy targetName
            then bindM (target_getByName orgId (the targetName)) (\<lambda>t. ret (case t of None \<Rightarrow> [] | Some x \<Rightarrow> [x]))
            else target_listForOrg orgId) (\<lambda>ts.
     foldM (\<lambda>out t.
       bindM (deployment_listForTarget (t_id t) None) (\<lambda>ds.
       foldM (\<lambda>out' d. bindM (release_get (d_releaseId d)) (\<lambda>r.
         ret (case r of None \<Rightarrow> out' | Some r' \<Rightarrow> out' @ [(d, r', t)]))) out ds)) [] ts))"

definition runDeploymentShow :: "string \<Rightarrow> ('z, deployment \<times> release \<times> target \<times> healthCheck list) DB" where
  "runDeploymentShow deploymentId =
     bindM (bindM (deployment_get deploymentId) (require (''deployment not found: '' @ deploymentId))) (\<lambda>d.
     bindM (bindM (release_get (d_releaseId d))
       (require (''deployment references missing release: '' @ d_releaseId d))) (\<lambda>r.
     bindM (bindM (target_get (d_targetId d))
       (require (''deployment references missing target: '' @ d_targetId d))) (\<lambda>t.
     bindM (healthCheck_listForDeployment (d_id d) None None) (\<lambda>h. ret (d, r, t, h)))))"

text \<open>
  \<open>parseDeclaredProbesFromRelease\<close>: unlike the executor's reader it lets a malformed build file throw.
\<close>

definition declaredProbes :: "denv \<Rightarrow> release \<Rightarrow> ('s, err, probe list) M" where
  "declaredProbes env r =
     (if \<not> truthy (r_buildYamlJson r) then ret []
      else case e_probes env (the (r_buildYamlJson r)) of None \<Rightarrow> throwM (e_probesError env (the (r_buildYamlJson r))) | Some ps \<Rightarrow> ret ps)"

record healthCheckResult =
  hr_target :: target
  hr_release :: release
  hr_deploymentId :: "string option"
  hr_reachability :: "bool \<times> string option"
  hr_probes :: "probeResult list"

definition probedRelease :: "target \<Rightarrow> string option \<Rightarrow> ('z, release \<times> string option) DB" where
  "probedRelease target releaseId =
     (if truthy releaseId then
        bindM (bindM (release_get (the releaseId)) (require (''release not found: '' @ the releaseId))) (\<lambda>r. ret (r, None))
      else
        bindM (bindM (deployment_getActiveForTarget (t_id target))
          (require (''target '' @ quoted (t_name target) @ '' has no active deployment to probe. ''
            @ ''Use --release to specify an explicit release.''))) (\<lambda>active.
        bindM (bindM (release_get (d_releaseId active))
          (require (''active deployment '' @ d_id active @ '' references a missing release '' @ d_releaseId active))) (\<lambda>r.
        ret (r, Some (d_id active)))))"

definition recordHealth :: "string \<Rightarrow> bool \<times> string option \<Rightarrow> probeResult list \<Rightarrow> ('z, unit) DB" where
  "recordHealth deploymentId reach probes =
     bindM (healthCheck_append deploymentId ''vm_reachable'' (if fst reach then HPass else HFail) None (snd reach)) (\<lambda>_.
     foldM (\<lambda>_ r. bindM (healthCheck_append deploymentId (pr_name r) (pr_status r) (Some (pr_latencyMs r)) (Some (pr_detail r)))
       (\<lambda>_. ret ())) () probes)"

definition runHealthCheck ::
  "denv \<Rightarrow> string \<Rightarrow> string list \<Rightarrow> string option \<Rightarrow> ('z, healthCheckResult) DM" where
  "runHealthCheck env targetName probeNames releaseId =
     bindM getActiveOrgId (\<lambda>orgId.
     bindM (targetNamed orgId targetName) (\<lambda>target.
     bindM (probedRelease target releaseId) (\<lambda>(release, deploymentId).
     bindM (declaredProbes env release) (\<lambda>allDeclared.
     let probesToRun = (if probeNames \<noteq> [] then filter (\<lambda>p. probe_name p \<in> set probeNames) allDeclared else allDeclared);
         missing = filter (\<lambda>n. n \<notin> set (map probe_name allDeclared)) probeNames in
     if missing \<noteq> [] then
       fail (''unknown probe name(s) on release '' @ r_id release @ '': '' @ join_with '', '' missing)
     else
       bindM (resolveVm (e_backend env) (t_connection target)) (\<lambda>(handle, vmName).
       bindM (isVmReachable (e_backend env) handle) (\<lambda>reach.
       bindM (runProbes (e_backend env) handle probesToRun) (\<lambda>probes.
       bindM (if truthy deploymentId then recordHealth (the deploymentId) reach probes else ret ()) (\<lambda>_.
       ret \<lparr>hr_target = target, hr_release = release, hr_deploymentId = deploymentId, hr_reachability = reach,
            hr_probes = probes\<rparr>))))))))"

definition runHealthHistory ::
  "string \<Rightarrow> string option \<Rightarrow> int option \<Rightarrow> ('z, (deployment \<times> release \<times> healthCheck list) list) DB" where
  "runHealthHistory targetName sinceIso limit =
     bindM getActiveOrgId (\<lambda>orgId.
     bindM (targetNamed orgId targetName) (\<lambda>target.
     bindM (deployment_listForTarget (t_id target) (Some (orElse limit 20))) (\<lambda>ds.
     foldM (\<lambda>out d. bindM (release_get (d_releaseId d)) (\<lambda>r. case r of
         None \<Rightarrow> ret out
       | Some r' \<Rightarrow> bindM (healthCheck_listForDeployment (d_id d) sinceIso limit) (\<lambda>cs. ret (out @ [(d, r', cs)])))) [] ds)))"

text \<open>\<open>createDefaultProbeInvoker\<close>.\<close>

definition defaultProbeInvoker :: "denv \<Rightarrow> healthSchedule \<Rightarrow> ('z, scheduledProbeOutcome) DM" where
  "defaultProbeInvoker env s =
     bindM (bindM (target_get (hs_targetId s))
       (require (''health schedule '' @ hs_id s @ '' references missing target '' @ hs_targetId s))) (\<lambda>target.
     bindM (runHealthCheck env (t_name target) (hs_probeNames s) None) (\<lambda>result.
     ret \<lparr>so_reachable = fst (hr_reachability result),
          so_probes = map (\<lambda>p. (pr_name p, pr_status p)) (hr_probes result),
          so_deploymentId = hr_deploymentId result\<rparr>))"

text \<open>\<open>defaultEmit\<close> writes a line to standard error.\<close>

definition defaultEmit :: "schedulerEvent \<Rightarrow> ('z, unit) DB" where
  "defaultEmit ev = ret ()"

section \<open>The scheduler with its own probe invoker\<close>

lemma schedules_backend [keeps_intros]: "keeps (schedules_are S) (callBackend c f)"
  by (simp add: keeps_def callBackend_def schedules_are_def unstamped_def)

lemma schedules_runProbes [keeps_intros]:
  "keeps (schedules_are S) (runProbes b handle ps :: ('z, probeResult list) DM)"
proof (rule keepsI)
  fix w :: "'z dworld_scheme"
  assume "schedules_are S w"
  moreover obtain rs where "runProbes b handle ps w = (Inr rs, w\<lparr>calls := calls w @ concat (map (probeCalls handle) ps),
      clockN := clockN w + 2 * length ps\<rparr>)"
    using runProbes_run by blast
  ultimately show "schedules_are S (snd (runProbes b handle ps w))" by (simp add: schedules_are_def unstamped_def)
qed

lemmas verb_reads = getActiveOrgId_def ensureDefaultOrg_def org_getByName_def targetNamed_def target_getByName_def
  require_def fail_def probedRelease_def release_get_def deployment_getActiveForTarget_def target_get_def getLive_def
  declaredProbes_def

lemma schedules_invoker: "keeps (schedules_are S) (defaultProbeInvoker env s)"
  unfolding defaultProbeInvoker_def runHealthCheck_def verb_reads resolveVm_def isVmReachable_def recordHealth_def
  by (intro keeps_intros)

interpretation scheduler: tick_hooks "defaultProbeInvoker env" defaultEmit for env
  by unfold_locales (simp_all add: schedules_invoker defaultEmit_def triple_def ret_def)

lemma foldl_touch:
  "foldl (\<lambda>T s. touch now (hs_id s) T) S ss = map (\<lambda>s. if hs_id s \<in> hs_id ` set ss then s\<lparr>hs_lastRunAt := Some now\<rparr> else s) S"
proof (induction ss arbitrary: S)
  case Nil
  then show ?case by simp
next
  case (Cons a ss)
  then show ?case by (simp add: touch_def)
qed

definition runnable :: "int \<Rightarrow> healthSchedule \<Rightarrow> bool" where
  "runnable now s \<longleftrightarrow> hs_active s \<and> hs_deletedAt s = None \<and> due now s"

lemma runnable_stamp [simp]: "runnable now (s\<lparr>hs_updatedAt := x\<rparr>) = runnable now s"
  by (simp add: runnable_def due_def split: option.split)

lemma ran_not_due:
  assumes "iso_range now" and "hs_lastRunAt s = Some (toISOString now)" and "t < now + hs_intervalSeconds s * 1000"
  shows "\<not> due t s"
  using assms by (simp add: due_def dateParse_toISOString)

text \<open>
  C26. A scheduler tick is exact.  On a quiet consistent database, and whatever the backend and the guests
  do or refuse to do, a tick with the default probe invoker does not throw, counts the schedules that
  are live, active and due, sets the watermark of exactly these to the time of the tick, and leaves
  every other schedule as it was (its \<open>updated_at\<close> included in neither).  A schedule that ran is not
  due again before its interval has passed.
\<close>

theorem scheduler_tick_exact:
  assumes "quiet w" and "db_ok w"
  defines "now \<equiv> clocks w (clockN w)"
  shows "\<exists>w'. runSchedulerTick (defaultProbeInvoker env) defaultEmit w =
      (Inr (length (filter (runnable now) (healthSchedules w))), w') \<and>
    unstamped w' = map (\<lambda>s. if runnable now s then s\<lparr>hs_lastRunAt := Some (toISOString now)\<rparr> else s) (unstamped w) \<and>
    (iso_range now \<longrightarrow> (\<forall>s t. s \<in> set (healthSchedules w') \<and> hs_lastRunAt s = Some (toISOString now) \<and>
       t < now + hs_intervalSeconds s * 1000 \<longrightarrow> \<not> due t s))"
proof -
  let ?w = "w\<lparr>clockN := Suc (clockN w)\<rparr>" and ?S = "unstamped w"
  let ?act = "sort_key hs_createdAt (filter (\<lambda>s. hs_active s \<and> hs_deletedAt s = None) (healthSchedules w))"
  let ?ready = "dueSchedules ?act now"
  have l: "schedule_listActive None ?w = (Inr ?act, tick ?w)"
    using assms(1) by (simp add: schedule_listActive_def truthy_def selectAll_quiet orderBy_def)
  have u: "unique_on anyRow hs_id (healthSchedules w)"
    using healthSchedules.ok_chk [OF assms(2)] by (simp add: healthSchedules_chk_def)
  have rd: "set ?ready = {s \<in> set (healthSchedules w). runnable now s}"
    by (auto simp: dueSchedules_def runnable_def)
  have sub: "hs_id ` set ?ready \<subseteq> set (liveIds ?S)"
    unfolding rd by (auto simp: runnable_def liveIds_def unstamped_def filter_map comp_def)
  have st: "schedules_are ?S (tick ?w)" using assms(1,2) by (simp add: schedules_are_def unstamped_def)
  obtain w' where f: "foldM (\<lambda>_ s. runSchedule (defaultProbeInvoker env) defaultEmit (toISOString now) s) () ?ready (tick ?w)
      = (Inr (), w')" "schedules_are (foldl (\<lambda>T s. touch (toISOString now) (hs_id s) T) ?S ?ready) w'"
    by (rule tripleD [OF scheduler.fold_triple [OF sub, where now = "toISOString now" and env = env] st]) auto
  have "length ?ready = length (filter (runnable now) (healthSchedules w))"
    by (simp add: dueSchedules_def filter_sort runnable_def [abs_def] conj_assoc)
  then have "runSchedulerTick (defaultProbeInvoker env) defaultEmit w =
      (Inr (length (filter (runnable now) (healthSchedules w))), w')"
    using f(1) by (simp add: runSchedulerTick_def bindM_def dateNow_def now_def [symmetric] l Let_def ret_def)
  moreover have "unstamped w' = map (\<lambda>s. if runnable now s then s\<lparr>hs_lastRunAt := Some (toISOString now)\<rparr> else s) ?S"
  proof -
    have "hs_id s \<in> hs_id ` set ?ready \<longleftrightarrow> runnable now s" if "s \<in> set (healthSchedules w)" for s
      using that unique_onD [OF u] unfolding rd by auto
    then show ?thesis
      using f(2) by (auto simp: schedules_are_def foldl_touch unstamped_def)
  qed
  ultimately show ?thesis using ran_not_due by blast
qed

definition labSchedule :: healthSchedule where
  "labSchedule = \<lparr>hs_id = ''s1'', hs_orgId = ''o1'', hs_targetId = ''lab'', hs_intervalSeconds = 60, hs_probeNames = [],
     hs_lastRunAt = None, hs_active = True, hs_createdAt = toISOString 1600000000000, hs_updatedAt = [], hs_deletedAt = None\<rparr>"

definition scheduleWorld :: dworld where
  "scheduleWorld = labWorld\<lparr>healthSchedules := [labSchedule]\<rparr>"

theorem scheduler_tick_exact_witness:
  "\<exists>w'. runSchedulerTick (defaultProbeInvoker (labEnv (Inr ()))) defaultEmit scheduleWorld = (Inr 1, w') \<and>
     map hs_lastRunAt (unstamped w') = [Some (toISOString 1700000000000)]"
proof -
  have w: "quiet scheduleWorld" "db_ok scheduleWorld"
    by (simp_all add: scheduleWorld_def labSchedule_def world_eval lab_defs)
  have c: "clocks scheduleWorld (clockN scheduleWorld) = 1700000000000" "healthSchedules scheduleWorld = [labSchedule]"
    by (simp_all add: scheduleWorld_def world_eval lab_defs)
  have "iso_range 1600000000000" by (simp add: iso_range_def date_eval)
  then have "runnable 1700000000000 labSchedule"
    by (simp add: runnable_def labSchedule_def due_def dateParse_toISOString)
  then show ?thesis
    using scheduler_tick_exact [OF w, of "labEnv (Inr ())"] by (auto simp: c unstamped_def)
qed

text \<open>
  C28. \<open>audit query --entity-id\<close> alone filters nothing.  The repository looks at the entity id only when an
  entity type is given too, so a query with an id and no type returns entries of every entity.
\<close>

theorem audit_entity_id_alone_ignored:
  "runAuditQuery (q\<lparr>aq_entityType := None, aq_entityId := Some i\<rparr>) = runAuditQuery (q\<lparr>aq_entityType := None, aq_entityId := None\<rparr>)"
  by (simp add: runAuditQuery_def audit_listForOrg_def truthy_def Let_def)

section \<open>The schema invariant\<close>

lemma keeps_getActiveOrgId [keeps_intros]: "keeps db_ok getActiveOrgId"
  unfolding getActiveOrgId_def ensureDefaultOrg_def org_getByName_def by (intro keeps_intros)

lemma keeps_require [keeps_intros]: "keeps I (require m x)"
  unfolding require_def fail_def by (intro keeps_intros)

lemma keeps_db_ok_backend [keeps_intros]: "keeps db_ok (callBackend c f)"
  by (simp add: keeps_def callBackend_def)

lemma keeps_db_ok_runProbes [keeps_intros]: "keeps db_ok (runProbes b handle ps :: ('z, probeResult list) DM)"
proof (rule keepsI)
  fix w :: "'z dworld_scheme"
  assume "db_ok w"
  moreover obtain rs where "runProbes b handle ps w = (Inr rs, w\<lparr>calls := calls w @ concat (map (probeCalls handle) ps),
      clockN := clockN w + 2 * length ps\<rparr>)"
    using runProbes_run by blast
  ultimately show "db_ok (snd (runProbes b handle ps w))" by simp
qed

lemmas verb_gets = targetNamed_def target_getByName_def product_getByName_def runner_get_def runner_getByName_def
  scheduleWithId_def schedule_get_def webhookWithId_def webhook_get_def scheduleAudit_def getLive_def fail_def


end
