(* ===== verification/Promotion.thy ===== *)
theory Promotion
  imports Verbs
begin

text \<open>
  Auto-promotion (\<open>control-plane/promotion/listener.ts\<close>) and the promotion verbs: policies fire on a built
  or deployed release, approvals wait for their gate, and the tick opens the gates that are due.  How a
  release is deployed is a parameter, the \<open>DeployInvoker\<close>, that may act on the state and may throw.
\<close>

section \<open>Reading a policy's configuration\<close>

text \<open>
  \<open>Number(x)\<close> for a decoded JSON value; \<open>None\<close> is NaN or an infinity.  Numbers are exact.
\<close>

text \<open>An array is converted through its text, so only the empty one and nested singletons are numbers.\<close>

fun numberArr :: "json list \<Rightarrow> rat option" where
  "numberArr [] = Some 0"
| "numberArr [JNum q] = Some q"
| "numberArr [JStr s] = numberText s"
| "numberArr [JNull] = Some 0"
| "numberArr [JArr xs] = numberArr xs"
| "numberArr _ = None"

fun toNumber :: "json option \<Rightarrow> rat option" where
  "toNumber None = None"
| "toNumber (Some JNull) = Some 0"
| "toNumber (Some (JBool b)) = Some (if b then 1 else 0)"
| "toNumber (Some (JNum q)) = Some q"
| "toNumber (Some (JStr s)) = numberText s"
| "toNumber (Some (JArr xs)) = numberArr xs"
| "toNumber (Some (JObj _)) = None"

record healthGate =
  hg_minPassCount :: int
  hg_windowMinutes :: int

text \<open>\<open>Number.isFinite(n) && n >= 1 && Number.isInteger(n)\<close>.\<close>

definition positiveInt :: "rat option \<Rightarrow> int option" where
  "positiveInt n = (case n of
       None \<Rightarrow> None
     | Some q \<Rightarrow> if 1 \<le> q \<and> snd (quotient_of q) = 1 then Some (fst (quotient_of q)) else None)"

definition readHealthGate :: "promotionPolicy \<Rightarrow> healthGate option" where
  "readHealthGate policy = (case jget (pp_gateConfig policy) ''health_gate'' of
       Some (JObj obj) \<Rightarrow>
         (case (positiveInt (toNumber (map_of obj ''min_pass_count'')), positiveInt (toNumber (map_of obj ''window_minutes''))) of
            (Some mn, Some win) \<Rightarrow> Some \<lparr>hg_minPassCount = mn, hg_windowMinutes = win\<rparr>
          | _ \<Rightarrow> None)
     | _ \<Rightarrow> None)"

text \<open>The thrown message also quotes the value; that part is left out.\<close>

definition readDelaySeconds :: "promotionPolicy \<Rightarrow> ('s, err, int) M" where
  "readDelaySeconds policy = (case toNumber (jget (pp_gateConfig policy) ''delay_seconds'') of
       Some n \<Rightarrow> if n < 0 then fail (''time_delay policy '' @ pp_id policy @ '' has invalid delay_seconds: '') else ret \<lfloor>n\<rfloor>
     | None \<Rightarrow> fail (''time_delay policy '' @ pp_id policy @ '' has invalid delay_seconds: ''))"

section \<open>Decisions\<close>

definition isHealthGateOpen :: "(healthStatus \<times> string) list \<Rightarrow> healthGate \<Rightarrow> int \<Rightarrow> string option" where
  "isHealthGateOpen recentChecks gate nowMs =
     (if int (length recentChecks) < hg_minPassCount gate then
        Some (''only '' @ showNat (length recentChecks) @ ''/'' @ showInt (hg_minPassCount gate) @ '' checks recorded'')
      else
        let slice = take (nat (hg_minPassCount gate)) recentChecks in
        case find (\<lambda>c. fst c \<noteq> HPass) slice of
          Some c \<Rightarrow> Some (''recent check at '' @ snd c @ '' was '' @ healthStatus_text (fst c))
        | None \<Rightarrow> (case dateParse (snd (hd slice)) of
            None \<Rightarrow> Some (''newest check has unparseable at: '' @ snd (hd slice))
          | Some newestMs \<Rightarrow>
              if nowMs - newestMs > hg_windowMinutes gate * 60 * 1000 then
                Some (''newest check ('' @ snd (hd slice) @ '') is older than window_minutes='' @ showInt (hg_windowMinutes gate))
              else None))"

definition approvalsDueForAutoApprove :: "approval list \<Rightarrow> int \<Rightarrow> approval list" where
  "approvalsDueForAutoApprove as nowMs = filter (\<lambda>a. ap_status a = APending \<and> truthy (ap_autoApproveAt a) \<and>
     (case dateParse (the (ap_autoApproveAt a)) of None \<Rightarrow> False | Some t \<Rightarrow> t \<le> nowMs)) as"

datatype gateDecision = AutoDeploy | QueueManual | QueueTimeDelay

fun decideGate :: "promotionGateKind \<Rightarrow> gateDecision" where
  "decideGate GAuto = AutoDeploy"
| "decideGate GTimeDelay = QueueTimeDelay"
| "decideGate GManual = QueueManual"

section \<open>The listener\<close>

record deployInvocation =
  di_deploymentId :: "string option"
  di_success :: bool
  di_errorMessage :: "string option"

record invocation =
  iv_releaseId :: string
  iv_destTargetId :: string
  iv_approval :: approval
  iv_policy :: promotionPolicy

type_synonym 'z invoker = "invocation \<Rightarrow> ('z, deployInvocation) DB"

datatype promotionAction = AutoDeployed | QueuedManual | QueuedTimeDelay | QueuedHealthGate | Duplicate | DeployFailed

record promotionOutcome =
  po_policyId :: string
  po_approvalId :: "string option"
  po_action :: promotionAction
  po_detail :: "string option"

fun approvalStatus_text :: "approvalStatus \<Rightarrow> string" where
  "approvalStatus_text APending = ''pending''"
| "approvalStatus_text AApproved = ''approved''"
| "approvalStatus_text ARejected = ''rejected''"
| "approvalStatus_text AAutoApproved = ''auto_approved''"

definition outcomeText :: "deployInvocation \<Rightarrow> string" where
  "outcomeText r = (if di_success r then ''success'' else ''failed'')"

definition markApprovalDecided :: "string \<Rightarrow> string \<Rightarrow> string \<Rightarrow> string \<Rightarrow> ('z, unit) DB" where
  "markApprovalDecided i decidedBy decidedAt reason =
     bindM (approval_update i (noPatch\<lparr>xp_decidedBy := Some (Some decidedBy), xp_decidedAt := Some (Some decidedAt),
       xp_reason := Some (Some reason)\<rparr>)) (\<lambda>_. ret ())"

definition dispatchDeploy ::
  "'z invoker \<Rightarrow> promotionPolicy \<Rightarrow> approval \<Rightarrow> release \<Rightarrow> ('z, promotionOutcome) DB" where
  "dispatchDeploy deploy policy approval release =
     bindM nowIso (\<lambda>now.
     catchM
       (bindM (deploy \<lparr>iv_releaseId = r_id release, iv_destTargetId = pp_destTargetId policy, iv_approval = approval,
                 iv_policy = policy\<rparr>) (\<lambda>result.
        bindM (approval_update (ap_id approval) (noPatch\<lparr>xp_deployAttemptedAt := Some (Some now),
          xp_deployOutcome := Some (Some (outcomeText result)), xp_deployDeploymentId := Some (di_deploymentId result)\<rparr>)) (\<lambda>_.
        ret (if di_success result
             then \<lparr>po_policyId = pp_id policy, po_approvalId = Some (ap_id approval), po_action = AutoDeployed,
                   po_detail = Some (''deployment='' @ orElse (di_deploymentId result) ''(none)'')\<rparr>
             else \<lparr>po_policyId = pp_id policy, po_approvalId = Some (ap_id approval), po_action = DeployFailed,
                   po_detail = di_errorMessage result\<rparr>))))
       (\<lambda>e.
        bindM (approval_update (ap_id approval) (noPatch\<lparr>xp_deployAttemptedAt := Some (Some now),
          xp_deployOutcome := Some (Some ''failed'')\<rparr>)) (\<lambda>_.
        ret \<lparr>po_policyId = pp_id policy, po_approvalId = Some (ap_id approval), po_action = DeployFailed,
             po_detail = Some (err_message e)\<rparr>)))"

definition queued :: "promotionPolicy \<Rightarrow> approval \<Rightarrow> promotionAction \<Rightarrow> string option \<Rightarrow> promotionOutcome" where
  "queued policy a act detail =
     \<lparr>po_policyId = pp_id policy, po_approvalId = Some (ap_id a), po_action = act, po_detail = detail\<rparr>"

text \<open>The branch \<open>gate_kind = auto\<close> of \<open>firePolicy\<close>.\<close>

definition fireAuto :: "'z invoker \<Rightarrow> promotionPolicy \<Rightarrow> release \<Rightarrow> string \<Rightarrow> ('z, promotionOutcome) DB" where
  "fireAuto deploy policy release nowIsoStr =
     bindM (approval_create (pp_orgId policy) (pp_id policy) (r_id release) (pp_destTargetId policy) AAutoApproved None None) (\<lambda>a.
     bindM (markApprovalDecided (ap_id a) ''system'' nowIsoStr ''gate_kind=auto'') (\<lambda>_.
     bindM (bindM (approval_get (ap_id a)) (require (''approval '' @ ap_id a @ '' vanished mid-fire''))) (\<lambda>fresh.
     dispatchDeploy deploy policy fresh release)))"

definition firePolicy :: "'z invoker \<Rightarrow> promotionPolicy \<Rightarrow> release \<Rightarrow> ('z, promotionOutcome) DB" where
  "firePolicy deploy policy release =
     (if \<not> pp_active policy then
        ret \<lparr>po_policyId = pp_id policy, po_approvalId = None, po_action = Duplicate, po_detail = Some ''inactive policy''\<rparr>
      else
        bindM (approval_getForReleaseAndTarget (r_id release) (pp_destTargetId policy)) (\<lambda>existing. case existing of
          Some e \<Rightarrow> ret (queued policy e Duplicate
            (Some (''existing approval '' @ ap_id e @ '' ('' @ approvalStatus_text (ap_status e) @ '')'')))
        | None \<Rightarrow>
            bindM dateNow (\<lambda>nowMs.
            let make = (\<lambda>status autoApproveAt gated. approval_create (pp_orgId policy) (pp_id policy) (r_id release)
                  (pp_destTargetId policy) status autoApproveAt gated) in
            case (readHealthGate policy, truthy (pp_sourceTargetId policy) \<and> pp_gateKind policy \<noteq> GManual) of
              (Some gate, True) \<Rightarrow>
                bindM (if pp_gateKind policy = GTimeDelay
                       then bindM (readDelaySeconds policy) (\<lambda>d. bindM (isoDate (nowMs + d * 1000)) (\<lambda>t. ret (Some t)))
                       else ret None) (\<lambda>autoApproveAt.
                bindM (make APending autoApproveAt (Some True)) (\<lambda>a.
                ret (queued policy a QueuedHealthGate (Some (''min_pass_count='' @ showInt (hg_minPassCount gate)
                  @ '' window_minutes='' @ showInt (hg_windowMinutes gate)
                  @ (if truthy autoApproveAt then '' auto_approve_at='' @ the autoApproveAt else []))))))
            | _ \<Rightarrow> (case pp_gateKind policy of
                GAuto \<Rightarrow> fireAuto deploy policy release (toISOString nowMs)
              | GTimeDelay \<Rightarrow>
                  bindM (readDelaySeconds policy) (\<lambda>d.
                  bindM (isoDate (nowMs + d * 1000)) (\<lambda>t.
                  bindM (make APending (Some t) None) (\<lambda>a.
                  ret (queued policy a QueuedTimeDelay (Some (''auto_approve_at='' @ t))))))
              | GManual \<Rightarrow>
                  bindM (make APending None None) (\<lambda>a. ret (queued policy a QueuedManual None))))))"

definition firePolicies :: "'z invoker \<Rightarrow> release \<Rightarrow> promotionPolicy list \<Rightarrow> ('z, promotionOutcome list) DB" where
  "firePolicies deploy release ps = foldM (\<lambda>out p. bindM (firePolicy deploy p release) (\<lambda>r. ret (out @ [r]))) [] ps"

definition onReleaseBuilt :: "'z invoker \<Rightarrow> release \<Rightarrow> ('z, promotionOutcome list) DB" where
  "onReleaseBuilt deploy release =
     bindM (policy_listMatchingForProduct (r_productId release) None) (firePolicies deploy release)"

definition onReleaseDeployed :: "'z invoker \<Rightarrow> release \<Rightarrow> string \<Rightarrow> ('z, promotionOutcome list) DB" where
  "onReleaseDeployed deploy release sourceTargetId =
     bindM (policy_listMatchingForProduct (r_productId release) (Some sourceTargetId)) (firePolicies deploy release)"

section \<open>The tick\<close>

definition autoApprove :: "string \<Rightarrow> string \<Rightarrow> approvalPatch" where
  "autoApprove nowIsoStr reason = noPatch\<lparr>xp_status := Some AAutoApproved, xp_decidedBy := Some (Some ''system''),
     xp_decidedAt := Some (Some nowIsoStr), xp_reason := Some (Some reason)\<rparr>"

text \<open>The end of both loop bodies: flip the row, read it back, deploy; the number of deploys dispatched.\<close>

definition openGate ::
  "'z invoker \<Rightarrow> string \<Rightarrow> string \<Rightarrow> approval \<Rightarrow> promotionPolicy \<Rightarrow> release \<Rightarrow> ('z, nat) DB" where
  "openGate deploy nowIsoStr reason a policy release =
     bindM (approval_update (ap_id a) (autoApprove nowIsoStr reason)) (\<lambda>_.
     bindM (approval_get (ap_id a)) (\<lambda>fresh. case fresh of
       None \<Rightarrow> ret 0
     | Some f \<Rightarrow> bindM (dispatchDeploy deploy policy f release) (\<lambda>_. ret 1)))"

definition tickTimeDelay :: "'z invoker \<Rightarrow> string \<Rightarrow> approval \<Rightarrow> ('z, nat) DB" where
  "tickTimeDelay deploy nowIsoStr a =
     (if ap_requiresHealthGate a then ret 0
      else
        bindM (policy_get (ap_policyId a)) (\<lambda>pol. case pol of
          None \<Rightarrow> ret 0
        | Some policy \<Rightarrow>
            bindM (release_get (ap_releaseId a)) (\<lambda>rel. case rel of
              None \<Rightarrow> ret 0
            | Some release \<Rightarrow> openGate deploy nowIsoStr ''gate_kind=time_delay elapsed'' a policy release)))"

definition notYet :: "approval \<Rightarrow> int \<Rightarrow> bool" where
  "notYet a nowMs \<longleftrightarrow> truthy (ap_autoApproveAt a) \<and>
     (case dateParse (the (ap_autoApproveAt a)) of None \<Rightarrow> False | Some t \<Rightarrow> t > nowMs)"

definition gateReason :: "healthGate \<Rightarrow> string" where
  "gateReason gate = ''health_gate opened (min_pass_count='' @ showInt (hg_minPassCount gate)
     @ '' window_minutes='' @ showInt (hg_windowMinutes gate) @ '')''"

definition tickHealthGated :: "'z invoker \<Rightarrow> int \<Rightarrow> approval \<Rightarrow> ('z, nat) DB" where
  "tickHealthGated deploy nowMs a =
     bindM (policy_get (ap_policyId a)) (\<lambda>pol. case pol of
       None \<Rightarrow> ret 0
     | Some policy \<Rightarrow>
         if \<not> truthy (pp_sourceTargetId policy) then ret 0
         else case readHealthGate policy of
           None \<Rightarrow> ret 0
         | Some gate \<Rightarrow>
             if notYet a nowMs then ret 0
             else
               bindM (release_get (ap_releaseId a)) (\<lambda>rel. case rel of
                 None \<Rightarrow> ret 0
               | Some release \<Rightarrow>
                   bindM (deployment_getActiveForTarget (the (pp_sourceTargetId policy))) (\<lambda>src. case src of
                     None \<Rightarrow> ret 0
                   | Some d \<Rightarrow>
                       if d_releaseId d \<noteq> r_id release then ret 0
                       else
                         bindM (healthCheck_listForDeployment (d_id d) None (Some (hg_minPassCount gate))) (\<lambda>recent.
                         if isHealthGateOpen (map (\<lambda>c. (hc_status c, hc_checkedAt c)) recent) gate nowMs \<noteq> None then ret 0
                         else openGate deploy (toISOString nowMs) (gateReason gate) a policy release))))"

definition countM :: "('a \<Rightarrow> ('s, 'e, nat) M) \<Rightarrow> nat \<Rightarrow> 'a list \<Rightarrow> ('s, 'e, nat) M" where
  "countM f n xs = foldM (\<lambda>k x. bindM (f x) (\<lambda>d. ret (k + d))) n xs"

definition runPromotionTick :: "'z invoker \<Rightarrow> ('z, nat) DB" where
  "runPromotionTick deploy =
     bindM dateNow (\<lambda>nowMs.
     bindM (approval_listPendingAutoApprove (toISOString nowMs)) (\<lambda>dueRows.
     bindM (countM (tickTimeDelay deploy (toISOString nowMs)) 0 dueRows) (\<lambda>n.
     bindM approval_listPendingHealthGated (\<lambda>gated.
     countM (tickHealthGated deploy nowMs) n gated))))"

section \<open>Verbs\<close>

definition checkApproverAllowlist :: "promotionPolicy \<Rightarrow> string option \<Rightarrow> string option" where
  "checkApproverAllowlist policy decidedBy =
     (case jget (pp_gateConfig policy) ''approvers'' of
        None \<Rightarrow> None
      | Some JNull \<Rightarrow> None
      | Some (JArr raw) \<Rightarrow>
          let approvers = concat (map (\<lambda>v. case v of JStr s \<Rightarrow> [s] | _ \<Rightarrow> []) raw) in
          if approvers = [] then None
          else if \<not> truthy decidedBy then
            Some (''promotion policy '' @ pp_id policy @ '' requires --decided-by; allowed approvers: '' @ join_with '', '' approvers)
          else if the decidedBy \<notin> set approvers then
            Some (quoted (the decidedBy) @ '' is not in the approver allow-list for promotion policy '' @ pp_id policy @ '': ''
              @ join_with '', '' approvers)
          else None
      | Some _ \<Rightarrow> Some (''promotion policy '' @ pp_id policy
          @ '' has malformed gate_config.approvers (expected array of strings)''))"

text \<open>\<open>detail: { reason }\<close>, where an absent reason is dropped from the JSON.\<close>

definition reasonDetail :: "string option \<Rightarrow> json option" where
  "reasonDetail reason = Some (JObj (case reason of None \<Rightarrow> [] | Some r \<Rightarrow> [(''reason'', JStr r)]))"

definition decidedPatch :: "approvalStatus \<Rightarrow> string option \<Rightarrow> string \<Rightarrow> string option \<Rightarrow> approvalPatch" where
  "decidedPatch status decidedBy now reason = noPatch\<lparr>xp_status := Some status,
     xp_decidedBy := Some (Some (orElse decidedBy ''cli'')), xp_decidedAt := Some (Some now), xp_reason := Some reason\<rparr>"

definition pendingApproval :: "string \<Rightarrow> string \<Rightarrow> ('z, approval) DB" where
  "pendingApproval i verb =
     bindM (bindM (approval_get i) (require (''approval not found: '' @ i))) (\<lambda>existing.
     if ap_status existing \<noteq> APending
     then fail (''approval '' @ i @ '' is '' @ approvalStatus_text (ap_status existing) @ '', not pending '' @ emDash @ '' refusing to '' @ verb)
     else ret existing)"

definition policyOf :: "approval \<Rightarrow> ('z, promotionPolicy) DB" where
  "policyOf a = bindM (policy_get (ap_policyId a)) (require (''approval references missing policy '' @ ap_policyId a))"

definition targetNameOf :: "approval \<Rightarrow> ('z, string) DB" where
  "targetNameOf a = bindM (target_get (ap_destTargetId a)) (\<lambda>t.
     ret (case t of None \<Rightarrow> ap_destTargetId a | Some x \<Rightarrow> t_name x))"

definition runPromotionApprove ::
  "'z transport \<Rightarrow> 'z invoker \<Rightarrow> string \<Rightarrow> string option \<Rightarrow> string option \<Rightarrow> ('z, approval \<times> deployInvocation) DB" where
  "runPromotionApprove tr deploy i decidedBy reason =
     bindM (pendingApproval i ''re-approve'') (\<lambda>existing.
     bindM (policyOf existing) (\<lambda>policy.
     bindM (bindM (release_get (ap_releaseId existing))
       (require (''approval references missing release '' @ ap_releaseId existing))) (\<lambda>release.
     case checkApproverAllowlist policy decidedBy of
       Some m \<Rightarrow> fail m
     | None \<Rightarrow>
         bindM nowIso (\<lambda>now.
         bindM (approval_update (ap_id existing) (decidedPatch AApproved decidedBy now reason)) (\<lambda>_.
         bindM (audit_append (ap_orgId existing) (orElse decidedBy ''cli'') ''approval.approved'' ''approval'' (ap_id existing)
           (reasonDetail reason)) (\<lambda>_.
         bindM (targetNameOf existing) (\<lambda>targetName.
         bindM (fireEventBestEffort tr (PromotionApproved (ap_orgId existing) now (ap_id existing) (Some (ap_id existing))
           (pp_id policy) (r_id release) targetName)) (\<lambda>_.
         bindM (bindM (approval_get (ap_id existing)) (require (''approval '' @ ap_id existing @ '' vanished after approval''))) (\<lambda>fresh.
         bindM (deploy \<lparr>iv_releaseId = r_id release, iv_destTargetId = ap_destTargetId existing, iv_approval = fresh,
                  iv_policy = policy\<rparr>) (\<lambda>invocation.
         bindM (approval_update (ap_id existing) (noPatch\<lparr>xp_deployAttemptedAt := Some (Some now),
           xp_deployOutcome := Some (Some (outcomeText invocation)),
           xp_deployDeploymentId := Some (di_deploymentId invocation)\<rparr>)) (\<lambda>updated.
         ret (updated, invocation))))))))))))"

definition runPromotionReject ::
  "'z transport \<Rightarrow> string \<Rightarrow> string option \<Rightarrow> string option \<Rightarrow> ('z, approval) DB" where
  "runPromotionReject tr i decidedBy reason =
     bindM (pendingApproval i ''re-reject'') (\<lambda>existing.
     bindM (policyOf existing) (\<lambda>policy.
     bindM nowIso (\<lambda>now.
     bindM (approval_update (ap_id existing) (decidedPatch ARejected decidedBy now reason)) (\<lambda>updated.
     bindM (audit_append (ap_orgId existing) (orElse decidedBy ''cli'') ''approval.rejected'' ''approval'' (ap_id existing)
       (reasonDetail reason)) (\<lambda>_.
     bindM (targetNameOf existing) (\<lambda>targetName.
     bindM (fireEventBestEffort tr (PromotionRejected (ap_orgId existing) now (ap_id existing) (ap_id existing)
       (pp_id policy) (ap_releaseId existing) targetName reason)) (\<lambda>_.
     ret updated)))))))"

fun gateKind_text :: "promotionGateKind \<Rightarrow> string" where
  "gateKind_text GAuto = ''auto''"
| "gateKind_text GManual = ''manual''"
| "gateKind_text GTimeDelay = ''time_delay''"

record policyAddInput =
  pi_productName :: string
  pi_destTargetName :: string
  pi_gateKind :: promotionGateKind
  pi_sourceTargetName :: "string option"
  pi_gateConfig :: "json option"
  pi_description :: "string option"

definition runPromotionPolicyAdd ::
  "policyAddInput \<Rightarrow> ('z, promotionPolicy \<times> product \<times> target \<times> target option) DB" where
  "runPromotionPolicyAdd inp =
     bindM getActiveOrgId (\<lambda>orgId.
     bindM (bindM (product_getByName orgId (pi_productName inp)) (require (''product not found: '' @ pi_productName inp))) (\<lambda>product.
     bindM (targetNamed orgId (pi_destTargetName inp)) (\<lambda>destTarget.
     bindM (if truthy (pi_sourceTargetName inp)
            then bindM (bindM (target_getByName orgId (the (pi_sourceTargetName inp)))
                   (require (''source target not found: '' @ the (pi_sourceTargetName inp)))) (\<lambda>t. ret (Some t))
            else ret None) (\<lambda>sourceTarget.
     bindM (if pi_gateKind inp = GTimeDelay \<and>
               (case toNumber (case pi_gateConfig inp of None \<Rightarrow> None | Some c \<Rightarrow> jget c ''delay_seconds'') of
                  None \<Rightarrow> True | Some n \<Rightarrow> n < 0)
            then fail ''promotion add: time_delay gate requires { delay_seconds: N } in --gate-config''
            else ret ()) (\<lambda>_.
     bindM (policy_create orgId (p_id product) (map_option t_id sourceTarget) (t_id destTarget) (pi_gateKind inp)
       (Some (orElse (pi_gateConfig inp) (JObj []))) None (pi_description inp)) (\<lambda>policy.
     bindM (audit_append orgId ''cli'' ''promotion_policy.added'' ''promotion_policy'' (pp_id policy)
       (Some (JObj [(''productId'', JStr (p_id product)), (''destTargetId'', JStr (t_id destTarget)),
         (''sourceTargetId'', jsonOf (map_option t_id sourceTarget)), (''gateKind'', JStr (gateKind_text (pp_gateKind policy)))]))) (\<lambda>_.
     ret (policy, product, destTarget, sourceTarget))))))))"

definition runPromotionPolicyList ::
  "('z, (promotionPolicy \<times> product \<times> target \<times> target option) list) DB" where
  "runPromotionPolicyList =
     bindM getActiveOrgId (\<lambda>orgId.
     bindM (policy_listForOrg orgId) (\<lambda>policies.
     foldM (\<lambda>out policy.
       bindM (product_get (pp_productId policy)) (\<lambda>product.
       bindM (target_get (pp_destTargetId policy)) (\<lambda>destTarget.
       case (product, destTarget) of
         (Some p, Some d) \<Rightarrow>
           bindM (if truthy (pp_sourceTargetId policy) then target_get (the (pp_sourceTargetId policy)) else ret None) (\<lambda>src.
           ret (out @ [(policy, p, d, src)]))
       | _ \<Rightarrow> ret out))) [] policies))"

definition runPromotionPolicyRemove :: "string \<Rightarrow> ('z, unit) DB" where
  "runPromotionPolicyRemove i =
     bindM (bindM (policy_get i) (require (''promotion policy not found: '' @ i))) (\<lambda>existing.
     bindM (policy_softDelete (pp_id existing)) (\<lambda>_.
     bindM (audit_append (pp_orgId existing) ''cli'' ''promotion_policy.removed'' ''promotion_policy'' (pp_id existing) None) (\<lambda>_.
     ret ())))"

type_synonym approvalEntry = "approval \<times> promotionPolicy option \<times> release option \<times> target option"

definition approvalEntries :: "approval list \<Rightarrow> ('z, approvalEntry list) DB" where
  "approvalEntries as =
     foldM (\<lambda>out a.
       bindM (policy_get (ap_policyId a)) (\<lambda>policy.
       bindM (release_get (ap_releaseId a)) (\<lambda>release.
       bindM (target_get (ap_destTargetId a)) (\<lambda>destTarget.
       ret (out @ [(a, policy, release, destTarget)]))))) [] as"

definition runApprovalList :: "approvalStatus option \<Rightarrow> ('z, approvalEntry list) DB" where
  "runApprovalList status =
     bindM getActiveOrgId (\<lambda>orgId. bindM (approval_listForOrg orgId status None) approvalEntries)"

definition runReleasePromotionState :: "string \<Rightarrow> ('z, approvalEntry list) DB" where
  "runReleasePromotionState releaseId =
     bindM getActiveOrgId (\<lambda>orgId.
     bindM (approval_listForOrg orgId None (Some 200)) (\<lambda>as.
     approvalEntries (filter (\<lambda>a. ap_releaseId a = releaseId) as)))"

end
