(* ===== verification/Release_Verbs.thy ===== *)
theory Release_Verbs
  imports Promotion
begin

text \<open>
  Deploying and rolling back a release from the verb layer: routing by the kind of the target, the
  event, and the promotion of a successful deploy to the next tier, which deploys in turn.  The
  Kubernetes and cloud adapters are parameters.  Since a deploy may trigger deploys without a bound
  in the code, the recursion has fuel; how much is enough is shown in the theory on the cascade.
\<close>

record releaseDeployInput =
  rd_releaseId :: "string option"
  rd_productName :: "string option"
  rd_tag :: "string option"
  rd_targetName :: string
  rd_actor :: "string option"

record 'z verbEnv =
  ve_denv :: denv
  ve_transport :: "'z dworld_ext transport"
  ve_k8sDeploy :: "string \<Rightarrow> string \<Rightarrow> target \<Rightarrow> string option \<Rightarrow> ('z, deployResult) DM"
  ve_cloudDeploy :: "string \<Rightarrow> string \<Rightarrow> target \<Rightarrow> string option \<Rightarrow> ('z, deployResult) DM"
  ve_k8sRollback :: "string \<Rightarrow> target \<Rightarrow> string option \<Rightarrow> string option \<Rightarrow> ('z, deployResult) DM"
  ve_cloudRollback :: "string \<Rightarrow> target \<Rightarrow> string option \<Rightarrow> string option \<Rightarrow> ('z, deployResult) DM"

definition isK8sTargetKind :: "targetKind \<Rightarrow> bool" where
  "isK8sTargetKind k \<longleftrightarrow> k = K8sTest \<or> k = K8sDemo"

definition isCloudTargetKind :: "targetKind \<Rightarrow> bool" where
  "isCloudTargetKind k \<longleftrightarrow> k = CloudVm \<or> k = CloudStack"

fun deploymentStatus_text :: "deploymentStatus \<Rightarrow> string" where
  "deploymentStatus_text DPending = ''pending''"
| "deploymentStatus_text DDeploying = ''deploying''"
| "deploymentStatus_text DActive = ''active''"
| "deploymentStatus_text DSuperseded = ''superseded''"
| "deploymentStatus_text DFailed = ''failed''"
| "deploymentStatus_text DRolledBack = ''rolled_back''"

definition resolveRelease :: "string \<Rightarrow> releaseDeployInput \<Rightarrow> ('z, string) DB" where
  "resolveRelease orgId inp =
     (if truthy (rd_releaseId inp) then ret (the (rd_releaseId inp))
      else if \<not> truthy (rd_productName inp) \<or> \<not> truthy (rd_tag inp) then
        fail ''release deploy requires either --release <id> or --product <name> + --tag <tag>''
      else
        bindM (bindM (product_getByName orgId (the (rd_productName inp)))
          (require (''product not found: '' @ the (rd_productName inp)))) (\<lambda>product.
        bindM (bindM (release_getByTag (p_id product) (the (rd_tag inp)))
          (require (''no release for '' @ the (rd_productName inp) @ ''@'' @ the (rd_tag inp)))) (\<lambda>r. ret (r_id r))))"

definition deployedEvent :: "string \<Rightarrow> string \<Rightarrow> deployResult \<Rightarrow> signalmanEvent" where
  "deployedEvent orgId now r = ReleaseDeployed orgId now (d_id (x_deployment r)) (r_id (x_release r)) (t_name (x_target r))
     (deploymentStatus_text (d_status (x_deployment r)))
     (Some (int (s_total (x_healthSummary r)), int (s_pass (x_healthSummary r)), int (s_fail (x_healthSummary r))))"

definition fireTierToTierPromotionBestEffort ::
  "'z invoker \<Rightarrow> release \<Rightarrow> string \<Rightarrow> ('z, promotionOutcome list) DB" where
  "fireTierToTierPromotionBestEffort deploy release sourceTargetId =
     catchM (onReleaseDeployed deploy release sourceTargetId) (\<lambda>_. ret [])"

definition firePromotionListenerBestEffort :: "'z invoker \<Rightarrow> release \<Rightarrow> ('z, promotionOutcome list) DB" where
  "firePromotionListenerBestEffort deploy release = catchM (onReleaseBuilt deploy release) (\<lambda>_. ret [])"

text \<open>The body of \<open>runReleaseDeploy\<close>, over the invoker its promotions use.\<close>

definition afterDeploy ::
  "'z dworld_ext invoker \<Rightarrow> 'z verbEnv \<Rightarrow> string \<Rightarrow> target \<Rightarrow> deployResult \<Rightarrow> ('z, deployResult) DM" where
  "afterDeploy deploy env orgId target result =
     bindM nowIso (\<lambda>now.
     bindM (fireEventBestEffort (ve_transport env) (deployedEvent orgId now result)) (\<lambda>_.
     bindM (if d_status (x_deployment result) = DActive
            then bindM (fireTierToTierPromotionBestEffort deploy (x_release result) (t_id target)) (\<lambda>_. ret ())
            else ret ()) (\<lambda>_.
     ret result)))"

definition releaseDeployWith ::
  "'z dworld_ext invoker \<Rightarrow> 'z verbEnv \<Rightarrow> releaseDeployInput \<Rightarrow> ('z, deployResult) DM" where
  "releaseDeployWith deploy env inp =
     bindM getActiveOrgId (\<lambda>orgId.
     bindM (resolveRelease orgId inp) (\<lambda>releaseId.
     bindM (targetNamed orgId (rd_targetName inp)) (\<lambda>target.
     if isK8sTargetKind (t_kind target) then ve_k8sDeploy env orgId releaseId target (rd_actor inp)
     else if isCloudTargetKind (t_kind target) then
       bindM (ve_cloudDeploy env orgId releaseId target (rd_actor inp)) (afterDeploy deploy env orgId target)
     else
       bindM (runDeploy (ve_denv env) \<lparr>q_orgId = orgId, q_releaseId = releaseId, q_targetId = t_id target,
         q_actor = rd_actor inp, q_guestStagingRoot = None\<rparr>) (afterDeploy deploy env orgId target))))"

text \<open>\<open>createDefaultPromotionDeployInvoker\<close>, over the deploy it wraps.\<close>

definition defaultInvoker ::
  "(releaseDeployInput \<Rightarrow> ('z, deployResult) DM) \<Rightarrow> 'z dworld_ext invoker" where
  "defaultInvoker run iv =
     bindM (target_get (iv_destTargetId iv)) (\<lambda>t. case t of
       None \<Rightarrow> ret \<lparr>di_deploymentId = None, di_success = False, di_errorMessage = Some ''dest target missing''\<rparr>
     | Some target \<Rightarrow>
         catchM (bindM (run \<lparr>rd_releaseId = Some (iv_releaseId iv), rd_productName = None, rd_tag = None,
             rd_targetName = t_name target, rd_actor = Some ''promotion''\<rparr>) (\<lambda>r.
           ret \<lparr>di_deploymentId = Some (d_id (x_deployment r)), di_success = (d_status (x_deployment r) = DActive),
                di_errorMessage = None\<rparr>))
         (\<lambda>e. ret \<lparr>di_deploymentId = None, di_success = False, di_errorMessage = Some (err_message e)\<rparr>))"

fun runReleaseDeploy :: "nat \<Rightarrow> 'z verbEnv \<Rightarrow> releaseDeployInput \<Rightarrow> ('z, deployResult) DM" where
  "runReleaseDeploy 0 env inp = throwM (NamedError ''OutOfFuel'' [])"
| "runReleaseDeploy (Suc n) env inp = releaseDeployWith (defaultInvoker (runReleaseDeploy n env)) env inp"

definition runReleaseRollback ::
  "'z verbEnv \<Rightarrow> string \<Rightarrow> string option \<Rightarrow> string option \<Rightarrow> ('z, deployResult) DM" where
  "runReleaseRollback env targetName toReleaseId actor =
     bindM getActiveOrgId (\<lambda>orgId.
     bindM (targetNamed orgId targetName) (\<lambda>target.
     if isK8sTargetKind (t_kind target) then ve_k8sRollback env orgId target toReleaseId actor
     else if isCloudTargetKind (t_kind target) then ve_cloudRollback env orgId target toReleaseId actor
     else
       bindM (runRollback (ve_denv env) \<lparr>k_orgId = orgId, k_targetId = t_id target, k_toReleaseId = toReleaseId,
         k_actor = actor\<rparr>) (\<lambda>result.
       bindM nowIso (\<lambda>now.
       bindM (fireEventBestEffort (ve_transport env) (DeploymentRolledBack orgId now (d_id (x_deployment result))
         (r_id (x_release result)) (t_name (x_target result)))) (\<lambda>_.
       ret result)))))"

text \<open>\<open>runPromotionTickVerb\<close>.\<close>

definition runPromotionTickVerb :: "nat \<Rightarrow> 'z verbEnv \<Rightarrow> ('z, nat) DM" where
  "runPromotionTickVerb fuel env = runPromotionTick (defaultInvoker (runReleaseDeploy fuel env))"

end
