(* ===== verification/Cascade.thy ===== *)
theory Cascade
  imports Release_Verbs Frames
begin

text \<open>
  A successful deploy promotes the release to the next tier, which deploys, which promotes again.
  The cascade ends, cyclic policies included: every automatic deploy first records an approval for
  its release and target, and a policy does nothing where there is one.
\<close>

section \<open>What a cascade never undoes\<close>

definition gates :: "'z world_scheme \<Rightarrow> string set \<times> approval list" where
  "gates w = (t_id ` set (targets w), approvals w)"

definition approvedPairs :: "approval list \<Rightarrow> (string \<times> string) set" where
  "approvedPairs A = set (map (\<lambda>a. (ap_releaseId a, ap_destTargetId a)) (filter (\<lambda>a. ap_deletedAt a = None) A))"

lemma approvedPairs_simps [simp]:
  "approvedPairs [] = {}"
  "approvedPairs (a # A) = (if ap_deletedAt a = None then {(ap_releaseId a, ap_destTargetId a)} else {}) \<union> approvedPairs A"
  "approvedPairs (A @ B) = approvedPairs A \<union> approvedPairs B"
  by (auto simp: approvedPairs_def)

lemma approvedPairs_iff: "(r, t) \<in> approvedPairs A \<longleftrightarrow> (\<exists>a \<in> set A. ap_releaseId a = r \<and> ap_destTargetId a = t \<and> ap_deletedAt a = None)"
  by (auto simp: approvedPairs_def)

text \<open>No target outside \<open>T\<close>, and an approval for every pair in \<open>C\<close>.\<close>

definition covers :: "string set \<Rightarrow> (string \<times> string) set \<Rightarrow> 'z world_scheme \<Rightarrow> bool" where
  "covers T C w \<longleftrightarrow> t_id ` set (targets w) \<subseteq> T \<and> C \<subseteq> approvedPairs (approvals w)"

interpretation gates: frame gates
  by unfold_locales (simp_all add: gates_def)

lemma covers_sees: "gates.sees (\<lambda>(ts, A). ts \<subseteq> T \<and> C \<subseteq> approvedPairs A) = covers T C"
  by (simp add: fun_eq_iff gates.sees_def gates_def covers_def)

named_theorems gate_intros "operations that keep targets and approvals"

lemmas gate_frame [gate_intros] = gates.frame_env [of "\<lambda>(ts, A). ts \<subseteq> T \<and> C \<subseteq> approvedPairs A" for T C, unfolded covers_sees]
  gates.frame_select [of "\<lambda>(ts, A). ts \<subseteq> T \<and> C \<subseteq> approvedPairs A" for T C, unfolded covers_sees]

lemmas gate_createRow = gates.frame_createRow [of _ "\<lambda>(ts, A). ts \<subseteq> T \<and> C \<subseteq> approvedPairs A" for T C, unfolded covers_sees]
lemmas gate_patchRow = gates.frame_patchRow [of _ "\<lambda>(ts, A). ts \<subseteq> T \<and> C \<subseteq> approvedPairs A" for T C, unfolded covers_sees]

lemma gate_rows [gate_intros]:
  "keeps (covers T C) (audit_append o' a b c d e)"
  "keeps (covers T C) (healthCheck_append i name s lat detail)"
  "keeps (covers T C) (deployment_create o' r t p)"
  "keeps (covers T C) (deployment_update i patch)"
  "keeps (covers T C) (org_create nm tier)"
  unfolding audit_append_def healthCheck_append_def deployment_update_def deployment_create_def org_create_def
  by (intro gate_createRow gate_patchRow; simp add: gates_def)+

lemma gate_backend [gate_intros]: "keeps (covers T C) (callBackend c f)"
  by (simp add: keeps_def callBackend_def covers_def)

lemma gate_runProbes [gate_intros]: "keeps (covers T C) (runProbes b handle ps :: ('z, probeResult list) DM)"
proof (rule keepsI)
  fix w :: "'z dworld_scheme"
  assume "covers T C w"
  moreover obtain rs where "runProbes b handle ps w = (Inr rs, w\<lparr>calls := calls w @ concat (map (probeCalls handle) ps),
      clockN := clockN w + 2 * length ps\<rparr>)"
    using runProbes_run by blast
  ultimately show "covers T C (snd (runProbes b handle ps w))" by (simp add: covers_def)
qed

lemma covers_env [simp]:
  "covers T C (w\<lparr>stmtN := n\<rparr>) = covers T C w" "covers T C (w\<lparr>clockN := n\<rparr>) = covers T C w"
  "covers T C (w\<lparr>ulidN := n\<rparr>) = covers T C w"
  by (simp_all add: covers_def)

lemma covers_approvals [simp]:
  "covers T C (w\<lparr>approvals := A\<rparr>) \<longleftrightarrow> t_id ` set (targets w) \<subseteq> T \<and> C \<subseteq> approvedPairs A"
  by (simp add: covers_def)

lemma approvedPairs_update:
  assumes "\<And>r. ap_releaseId (f r) = ap_releaseId r" "\<And>r. ap_destTargetId (f r) = ap_destTargetId r"
    "\<And>r. ap_deletedAt (f r) = ap_deletedAt r"
  shows "approvedPairs (map (\<lambda>r. if p r then f r else r) A) = approvedPairs A"
  using assms by (induction A) auto

lemma gate_approval_update [gate_intros]: "keeps (covers T C) (approval_update i patch)"
proof -
  have "keeps (covers T C) (updateWhere approvals approvals_update approvals_chk p (approval_patch patch now ex))" for p now ex
    by (auto simp: keeps_def updateWhere_def stmt_def constrained_def covers_def approvedPairs_update approval_patch_def
        split: option.splits)
  then show ?thesis
    unfolding approval_update_def patchRow_def mappingErrors_def getLive_def by (intro keeps_intros gate_intros)
qed

lemma approval_create_triple:
  "triple (covers T C) (approval_create o' p r t st auto gated)
     (\<lambda>a w. covers T (insert (r, t) C) w \<and> t \<in> T) (\<lambda>_. covers T C)"
  unfolding triple_def
proof (intro allI impI)
  fix w :: "'a world_scheme"
  assume "covers T C w"
  then show "case approval_create o' p r t st auto gated w of (Inr a, w') \<Rightarrow> covers T (insert (r, t) C) w' \<and> t \<in> T
      | (Inl e, w') \<Rightarrow> covers T C w'"
    by (simp add: approval_create_def createRow_def bindM_def nowIso_run newId_run mappingErrors_def catchM_def insertInto_def
        stmt_def constrained_def throwM_def ret_def covers_def split: option.split)
      (auto simp: approvals_chk_def refs_def)
qed

section \<open>Deploys that differ only where a cascade does not go\<close>

lemma bindM_cong:
  assumes "triple P m R E" and "P w" and "\<And>x u. R x u \<Longrightarrow> f x u = g x u"
  shows "bindM m f w = bindM m g w"
  by (rule tripleD [OF assms(1,2)]) (simp_all add: bindM_def assms(3))

lemma bindM_step:
  assumes "keeps I m" and "I w" and "\<And>x u. I u \<Longrightarrow> f x u = g x u"
  shows "bindM m f w = bindM m g w"
  by (rule bindM_cong [OF triple_keeps [OF assms(1)] assms(2,3)])

lemma catchM_cong: "m w = n w \<Longrightarrow> catchM m h w = catchM n h w"
  by (simp add: catchM_def)

lemma foldM_cong_keeps:
  assumes "\<And>b x. keeps I (f b x)" and "\<And>b x u. I u \<Longrightarrow> f b x u = g b x u"
  shows "I w \<Longrightarrow> foldM f b xs w = foldM g b xs w"
proof (induction xs arbitrary: b w)
  case Nil
  then show ?case by simp
next
  case (Cons x xs)
  have "bindM (f b x) (\<lambda>b'. foldM f b' xs) w = bindM (f b x) (\<lambda>b'. foldM g b' xs) w"
    by (rule bindM_step [OF assms(1) Cons.prems]) (rule Cons.IH)
  then show ?case using assms(2) [OF Cons.prems, of b x] by (simp add: bindM_def)
qed

text \<open>The two invokers agree wherever one more pair of the release is approved.\<close>

definition agreeBeyond ::
  "string set \<Rightarrow> (string \<times> string) set \<Rightarrow> string \<Rightarrow> 'z invoker \<Rightarrow> 'z invoker \<Rightarrow> bool" where
  "agreeBeyond T C r d1 d2 \<longleftrightarrow> (\<forall>t iv w. t \<in> T \<and> (r, t) \<notin> C \<and> iv_releaseId iv = r \<and> covers T (insert (r, t) C) w
     \<longrightarrow> d1 iv w = d2 iv w)"

lemma dispatchDeploy_cong:
  assumes "agreeBeyond T C (r_id release) d1 d2" and "t \<in> T" and "(r_id release, t) \<notin> C"
    and "covers T (insert (r_id release, t) C) w"
  shows "dispatchDeploy d1 policy a release w = dispatchDeploy d2 policy a release w"
  unfolding dispatchDeploy_def
proof (rule bindM_step [OF gate_frame(1) assms(4)])
  fix now and u :: "'a world_scheme" assume "covers T (insert (r_id release, t) C) u"
  then have "d1 \<lparr>iv_releaseId = r_id release, iv_destTargetId = x, iv_approval = a, iv_policy = policy\<rparr> u
      = d2 \<lparr>iv_releaseId = r_id release, iv_destTargetId = x, iv_approval = a, iv_policy = policy\<rparr> u" for x
    using assms(1-3) by (auto simp: agreeBeyond_def)
  then show "catchM (bindM (d1 \<lparr>iv_releaseId = r_id release, iv_destTargetId = pp_destTargetId policy, iv_approval = a,
                 iv_policy = policy\<rparr>) f) h u = catchM (bindM (d2 \<lparr>iv_releaseId = r_id release,
                 iv_destTargetId = pp_destTargetId policy, iv_approval = a, iv_policy = policy\<rparr>) f) h u" for f h
    by (intro catchM_cong) (simp add: bindM_def)
qed

lemma existing_triple:
  "triple (covers T C) (approval_getForReleaseAndTarget r t)
     (\<lambda>x w. covers T C w \<and> (x = None \<longrightarrow> (r, t) \<notin> C)) (\<lambda>_. covers T C)"
  unfolding approval_getForReleaseAndTarget_def
proof (rule triple_bindM)
  show "triple (covers T C) (selectAll approvals (\<lambda>a. ap_releaseId a = r \<and> ap_destTargetId a = t \<and> ap_deletedAt a = None)
      (limitTo 1 \<circ> orderByDesc ap_createdAt)) (\<lambda>rows w. covers T C w \<and> (rows = [] \<longrightarrow> (r, t) \<notin> C)) (\<lambda>_. covers T C)"
    by (auto simp: triple_def selectAll_def stmt_def readM_def limitTo_def covers_def filter_empty_conv
        split: option.splits) (drule (1) subsetD, auto simp: approvedPairs_iff)
  show "triple (\<lambda>w. covers T C w \<and> (rows = [] \<longrightarrow> (r, t) \<notin> C)) (ret (firstRow rows))
      (\<lambda>x w. covers T C w \<and> (x = None \<longrightarrow> (r, t) \<notin> C)) (\<lambda>_. covers T C)" for rows :: "approval list"
    by (rule triple_return) (auto simp: firstRow_def split: list.splits)
qed

lemma gate_approval_create [gate_intros]: "keeps (covers T C) (approval_create o' p r t st auto gated)"
proof (rule keepsI)
  fix w :: "'a world_scheme"
  assume "covers T C w"
  then show "covers T C (snd (approval_create o' p r t st auto gated w))"
    by (rule tripleD [OF approval_create_triple [of T C o' p r t st auto gated]]) (auto simp: covers_def)
qed

lemmas promotion_reads = markApprovalDecided_def approval_get_def getLive_def require_def fail_def readDelaySeconds_def
  isoDate_def approval_getForReleaseAndTarget_def

lemma gate_dispatchDeploy:
  "(\<And>iv. keeps (covers T C) (deploy iv)) \<Longrightarrow> keeps (covers T C) (dispatchDeploy deploy policy a release)"
  unfolding dispatchDeploy_def by (intro keeps_intros gate_intros)

lemma keeps_case_gateKind [keeps_intros]:
  "keeps I a \<Longrightarrow> keeps I b \<Longrightarrow> keeps I c \<Longrightarrow> keeps I (case g of GAuto \<Rightarrow> a | GManual \<Rightarrow> b | GTimeDelay \<Rightarrow> c)"
  by (cases g) simp_all

lemma keeps_case_bool [keeps_intros]: "keeps I a \<Longrightarrow> keeps I b \<Longrightarrow> keeps I (case g of True \<Rightarrow> a | False \<Rightarrow> b)"
  by (cases g) simp_all

lemma gate_firePolicy:
  assumes "\<And>iv. keeps (covers T C) (deploy iv)"
  shows "keeps (covers T C) (firePolicy deploy policy release)"
  unfolding firePolicy_def fireAuto_def promotion_reads Let_def
  by (intro keeps_intros gate_intros gate_dispatchDeploy assms)

lemma fireAuto_cong:
  fixes d1 :: "'z invoker"
  assumes "agreeBeyond T C (r_id release) d1 d2" and "covers T C w" and "(r_id release, pp_destTargetId policy) \<notin> C"
  shows "fireAuto d1 policy release now w = fireAuto d2 policy release now w"
  unfolding fireAuto_def
proof (rule bindM_cong [OF approval_create_triple assms(2)])
  let ?I = "covers T (insert (r_id release, pp_destTargetId policy) C)"
  fix a and u :: "'z world_scheme" assume u: "?I u \<and> pp_destTargetId policy \<in> T"
  have k: "keeps ?I (markApprovalDecided (ap_id a) x now y)" "keeps ?I (bindM (approval_get (ap_id a)) (require z))" for x y z
    unfolding promotion_reads by (intro keeps_intros gate_intros)+
  show "bindM (markApprovalDecided (ap_id a) ''system'' now ''gate_kind=auto'') (\<lambda>_.
      bindM (bindM (approval_get (ap_id a)) (require (''approval '' @ ap_id a @ '' vanished mid-fire''))) (\<lambda>fresh.
        dispatchDeploy d1 policy fresh release)) u =
    bindM (markApprovalDecided (ap_id a) ''system'' now ''gate_kind=auto'') (\<lambda>_.
      bindM (bindM (approval_get (ap_id a)) (require (''approval '' @ ap_id a @ '' vanished mid-fire''))) (\<lambda>fresh.
        dispatchDeploy d2 policy fresh release)) u"
    using u assms(1,3) by (intro bindM_step [OF k(1)] bindM_step [OF k(2)] dispatchDeploy_cong [where T = T and C = C]) auto
qed

lemma firePolicy_cong:
  fixes d1 :: "'z invoker"
  assumes "agreeBeyond T C (r_id release) d1 d2" and "covers T C w"
  shows "firePolicy d1 policy release w = firePolicy d2 policy release w"
proof -
  have "fireAuto d1 policy release now u = fireAuto d2 policy release now u"
    if "covers T C u" "(r_id release, pp_destTargetId policy) \<notin> C" for now and u :: "'z world_scheme"
    by (rule fireAuto_cong [OF assms(1) that])
  then show ?thesis
    unfolding firePolicy_def Let_def
    apply (cases "pp_active policy")
     apply simp_all
    apply (rule bindM_cong [OF existing_triple assms(2)])
    apply (case_tac x)
     apply simp_all
    apply (rule bindM_step [OF gate_frame(2), of T C])
     apply simp
    by (auto split: option.splits bool.splits promotionGateKind.splits)
qed

section \<open>Deploys keep targets and approvals\<close>

lemma gate_runDeploy [gate_intros]: "keeps (covers T C) (runDeploy env opts)"
  unfolding runDeploy_def deployPrepare_def deployTry_def deployCatch_def deployCheck_def deployPromote_def supersedePrevious_def stageArtifact_def
    stageBlobInto_def stageStringInto_def copyFileToVM_def isVmReachable_def resolveVm_def createCheckpoint_def
    restoreCheckpoint_def deleteCheckpoint_def release_get_def target_get_def deployment_getActiveForTarget_def
    artifact_listForRelease_def getLive_def Let_def
  by (intro keeps_intros gate_intros)

text \<open>Every result of a computation satisfies \<open>Q\<close>.\<close>

definition yields :: "('s, 'e, 'a) M \<Rightarrow> ('a \<Rightarrow> bool) \<Rightarrow> bool" where
  "yields m Q \<longleftrightarrow> (\<forall>s x s'. m s = (Inr x, s') \<longrightarrow> Q x)"

lemma yields_bind: "yields m R \<Longrightarrow> (\<And>x. R x \<Longrightarrow> yields (f x) Q) \<Longrightarrow> yields (bindM m f) Q"
  unfolding yields_def bindM_Inr_iff by blast

lemma yields_bindM: "(\<And>x. yields (f x) Q) \<Longrightarrow> yields (bindM m f) Q"
  by (auto simp: yields_def bindM_Inr_iff)

lemma yields_bind_some:
  "yields m (\<lambda>x. \<forall>y. x = Some y \<longrightarrow> R y) \<Longrightarrow> yields (f None) Q \<Longrightarrow> (\<And>y. R y \<Longrightarrow> yields (f (Some y)) Q) \<Longrightarrow> yields (bindM m f) Q"
  by (rule yields_bind, assumption) (case_tac x; simp)

lemma yields_basic:
  "yields (throwM e) Q" "Q x \<Longrightarrow> yields (ret x) Q"
  by (simp_all add: yields_def throwM_def ret_def)

lemma yields_branch:
  "(c \<Longrightarrow> yields a Q) \<Longrightarrow> (\<not> c \<Longrightarrow> yields b Q) \<Longrightarrow> yields (if c then a else b) Q"
  "(\<And>y. x = Some y \<Longrightarrow> yields (f y) Q) \<Longrightarrow> (x = None \<Longrightarrow> yields a Q) \<Longrightarrow> yields (case x of None \<Rightarrow> a | Some y \<Rightarrow> f y) Q"
  "(\<And>a b. yields (g a b) Q) \<Longrightarrow> yields (case p of (a, b) \<Rightarrow> g a b) Q"
  by (simp_all split: option.split prod.split)

lemma yields_catchM: "yields m Q \<Longrightarrow> (\<And>e. yields (h e) Q) \<Longrightarrow> yields (catchM m h) Q"
  by (auto simp: yields_def catchM_def split: prod.splits sum.splits)

lemmas yields_intros = yields_bindM yields_basic yields_branch

lemma getLive_yields: "yields (getLive get rid del i) (\<lambda>x. \<forall>r. x = Some r \<longrightarrow> rid r = i)"
  by (auto simp: yields_def getLive_def selectOne_def stmt_def readM_def dest!: find_Some_D split: option.splits)

lemma runDeploy_release: "yields (runDeploy env opts) (\<lambda>r. r_id (x_release r) = q_releaseId opts)"
proof -
  have "yields (deployPrepare env opts) (\<lambda>c. r_id (c_release c) = q_releaseId opts)"
    unfolding deployPrepare_def Let_def release_get_def
    by (rule yields_bind_some [OF getLive_yields]) (auto intro!: yields_intros)
  then show ?thesis
    unfolding runDeploy_def
    by (rule yields_bind) (auto simp: deployTry_def deployCatch_def intro!: yields_catchM yields_intros)
qed

text \<open>
  What a verb's transports and adapters are asked: they add no target and remove no approval, and the
  cloud adapter returns the release it was asked to deploy.
\<close>

definition calm :: "'z verbEnv \<Rightarrow> bool" where
  "calm env \<longleftrightarrow>
     (\<forall>T C. (\<forall>url hs b. keeps (covers T C) (tr_fetch (ve_transport env) url hs b)) \<and>
       (\<forall>send to subject b. tr_email (ve_transport env) = Some send \<longrightarrow> keeps (covers T C) (send to subject b)) \<and>
       (\<forall>o' r t a. keeps (covers T C) (ve_k8sDeploy env o' r t a) \<and> keeps (covers T C) (ve_cloudDeploy env o' r t a))) \<and>
     (\<forall>o' r t a. yields (ve_cloudDeploy env o' r t a) (\<lambda>res. r_id (x_release res) = r))"

lemma gate_dispatchTo:
  assumes "calm env"
  shows "keeps (covers T C) (dispatchTo (ve_transport env) ev subs)"
proof (induction subs)
  case Nil
  then show ?case by (simp add: keeps_ret)
next
  case (Cons sub subs)
  have f: "keeps (covers T C) (tr_fetch (ve_transport env) url hs b)" for url hs b using assms by (simp add: calm_def)
  have e: "tr_email (ve_transport env) = Some send \<Longrightarrow> keeps (covers T C) (send to subject b)" for send to subject b
    using assms by (simp add: calm_def)
  have "keeps (covers T C) (deliver (ve_transport env) sub ev)"
    unfolding deliver_def deliverGeneric_def deliverSlack_def deliverEmail_def
    by (cases "wh_kind sub") (auto intro!: keeps_intros f e)
  then show ?case using Cons by (auto simp: attempt_def intro!: keeps_intros gate_intros)
qed

lemma gate_fireEvent:
  assumes "calm env"
  shows "keeps (covers T C) (fireEventBestEffort (ve_transport env) ev)"
  unfolding fireEventBestEffort_def dispatch_def webhook_listActive_def
  by (intro keeps_intros gate_intros gate_dispatchTo [OF assms])

lemma gate_afterDeploy:
  assumes "calm env" and "\<And>iv. keeps (covers T C) (deploy iv)"
  shows "keeps (covers T C) (afterDeploy deploy env orgId target result)"
  unfolding afterDeploy_def fireTierToTierPromotionBestEffort_def onReleaseDeployed_def firePolicies_def
    policy_listMatchingForProduct_def
  by (intro keeps_intros gate_intros gate_fireEvent [OF assms(1)] gate_firePolicy assms(2))

lemma gate_resolve [gate_intros]:
  "keeps (covers T C) (resolveRelease orgId inp)" "keeps (covers T C) (targetNamed orgId name)" "keeps (covers T C) getActiveOrgId"
  unfolding resolveRelease_def product_getByName_def release_getByTag_def verb_reads
  by (intro keeps_intros gate_intros)+

lemma gate_releaseDeployWith:
  assumes "calm env" and "\<And>iv. keeps (covers T C) (deploy iv)"
  shows "keeps (covers T C) (releaseDeployWith deploy env inp)"
proof -
  have "keeps (covers T C) (ve_k8sDeploy env o' r t a)" "keeps (covers T C) (ve_cloudDeploy env o' r t a)" for o' r t a
    using assms(1) by (simp_all add: calm_def)
  then show ?thesis
    unfolding releaseDeployWith_def
    by (intro keeps_intros gate_intros gate_afterDeploy [OF assms])
qed

lemma gate_runReleaseDeploy: "calm env \<Longrightarrow> keeps (covers T C) (runReleaseDeploy n env inp)"
proof (induction n arbitrary: inp)
  case 0
  then show ?case by (simp add: keeps_throwM)
next
  case (Suc n)
  then show ?case
    by (simp, intro gate_releaseDeployWith)
      (auto simp: defaultInvoker_def target_get_def getLive_def intro!: keeps_intros gate_intros)
qed

section \<open>Enough fuel\<close>

lemma firePolicies_cong:
  assumes "agreeBeyond T C (r_id release) d1 d2" and "covers T C w" and "\<And>iv. keeps (covers T C) (d1 iv)"
  shows "firePolicies d1 release ps w = firePolicies d2 release ps w"
  unfolding firePolicies_def
proof (rule foldM_cong_keeps [where I = "covers T C"])
  show "keeps (covers T C) (bindM (firePolicy d1 p release) (\<lambda>r. ret (out @ [r])))" for out p
    by (intro keeps_intros gate_firePolicy assms(3))
  show "bindM (firePolicy d1 p release) (\<lambda>r. ret (out @ [r])) u = bindM (firePolicy d2 p release) (\<lambda>r. ret (out @ [r])) u"
    if "covers T C u" for out p u
    using firePolicy_cong [OF assms(1) that] by (simp add: bindM_def)
qed (rule assms(2))

lemma afterDeploy_cong:
  fixes d1 :: "'z dworld_ext invoker"
  assumes "calm env" and "agreeBeyond T C (r_id (x_release result)) d1 d2" and "covers T C w"
    and "\<And>iv. keeps (covers T C) (d1 iv)"
  shows "afterDeploy d1 env orgId target result w = afterDeploy d2 env orgId target result w"
proof -
  have "onReleaseDeployed d1 (x_release result) t u = onReleaseDeployed d2 (x_release result) t u" if "covers T C u" for t and u :: "'z dworld_scheme"
    unfolding onReleaseDeployed_def policy_listMatchingForProduct_def
    by (rule bindM_step [where I = "covers T C", OF _ that])
      (auto intro!: keeps_intros gate_intros firePolicies_cong [OF assms(2) _ assms(4)])
  then show ?thesis
    unfolding afterDeploy_def fireTierToTierPromotionBestEffort_def
    by (intro bindM_step [OF gate_frame(1) assms(3)] bindM_step [OF gate_fireEvent [OF assms(1)]])
      (auto simp: bindM_def catchM_def)
qed

lemma triple_yields: "keeps I m \<Longrightarrow> yields m R \<Longrightarrow> triple I m (\<lambda>x w. I w \<and> R x) (\<lambda>_. I)"
  by (force simp: triple_def keeps_def yields_def split: prod.splits sum.splits)

lemma releaseDeployWith_cong:
  fixes d1 :: "'z dworld_ext invoker"
  assumes "calm env" and "covers T C w" and k: "\<And>iv. keeps (covers T C) (d1 iv)"
    and agree: "\<And>r. R r \<Longrightarrow> agreeBeyond T C r d1 d2"
    and res: "\<And>orgId. yields (resolveRelease orgId inp :: ('z, string) DM) R"
  shows "releaseDeployWith d1 env inp w = releaseDeployWith d2 env inp w"
proof -
  have after: "bindM (m :: ('z, deployResult) DM) (afterDeploy d1 env orgId target) u = bindM m (afterDeploy d2 env orgId target) u"
    if "keeps (covers T C) m" "yields m (\<lambda>res. r_id (x_release res) = rid)" "R rid" "covers T C u" for m orgId target rid u
    by (rule bindM_cong [OF triple_yields [OF that(1,2)] that(4)])
      (use that(3) in \<open>auto intro!: afterDeploy_cong [OF assms(1) _ _ k] agree\<close>)
  have cloud: "keeps (covers T C) (ve_cloudDeploy env o' r t a)" "yields (ve_cloudDeploy env o' r t a) (\<lambda>res. r_id (x_release res) = r)"
    for o' r t a using assms(1) by (simp_all add: calm_def)
  have vm: "yields (runDeploy (ve_denv env) \<lparr>q_orgId = o', q_releaseId = r, q_targetId = t, q_actor = a, q_guestStagingRoot = None\<rparr>
      :: ('z, deployResult) DM) (\<lambda>res. r_id (x_release res) = r)" for o' r t a
    using runDeploy_release [of "ve_denv env" "\<lparr>q_orgId = o', q_releaseId = r, q_targetId = t, q_actor = a, q_guestStagingRoot = None\<rparr>"]
    by simp
  show ?thesis
    unfolding releaseDeployWith_def
    apply (rule bindM_step [OF gate_resolve(3) assms(2)])
    apply (rule bindM_cong [OF triple_yields [OF gate_resolve(1) res]], assumption)
    apply (rule bindM_step [OF gate_resolve(2), of T C])
     apply simp
    by (auto intro!: after [OF cloud] after [OF gate_runDeploy vm])
qed

lemma defaultInvoker_cong:
  assumes "covers T C w" and "\<And>inp u. covers T C u \<Longrightarrow> rd_releaseId inp = Some (iv_releaseId iv) \<Longrightarrow> rd_productName inp = None \<Longrightarrow>
    run1 inp u = run2 inp u"
  shows "defaultInvoker run1 iv w = defaultInvoker run2 iv w"
  unfolding defaultInvoker_def target_get_def getLive_def
  by (rule bindM_step [OF gate_frame(4) assms(1)]) (auto simp: bindM_def catchM_def assms(2) split: option.splits)

lemma gate_defaultInvoker: "calm env \<Longrightarrow> keeps (covers T C) (defaultInvoker (runReleaseDeploy n env) iv)"
  unfolding defaultInvoker_def target_get_def getLive_def
  by (intro keeps_intros gate_intros gate_runReleaseDeploy)

lemma resolve_yields:
  "rd_releaseId inp = Some r \<Longrightarrow> rd_productName inp = None \<Longrightarrow> yields (resolveRelease orgId inp) (\<lambda>x. x = r)"
  by (auto simp: resolveRelease_def truthy_def fail_def intro!: yields_intros)

lemma fuel_step:
  fixes w :: "'z dworld_scheme"
  assumes "calm env" and "finite T"
  shows "covers T C w \<Longrightarrow> card {t \<in> T. (r, t) \<notin> C} \<le> n \<Longrightarrow> rd_releaseId inp = Some r \<Longrightarrow> rd_productName inp = None \<Longrightarrow>
    runReleaseDeploy (Suc n) env inp w = runReleaseDeploy (Suc (Suc n)) env inp w"
proof (induction n arbitrary: C w inp)
  case (0 C w inp)
  then have "{t \<in> T. (r, t) \<notin> C} = {}" using assms(2) by simp
  then have "agreeBeyond T C r d1 d2" for d1 d2 :: "'z dworld_ext invoker" by (auto simp: agreeBeyond_def)
  then show ?case
    using 0 gate_defaultInvoker [OF assms(1), of T C 0]
    by (simp, intro releaseDeployWith_cong [OF assms(1) _ _ _ resolve_yields [of inp r]]) auto
next
  case (Suc n C w inp)
  let ?d = "\<lambda>k. defaultInvoker (runReleaseDeploy k env)"
  have "agreeBeyond T C r (?d (Suc n)) (?d (Suc (Suc n)))"
    unfolding agreeBeyond_def
  proof (intro allI impI)
    fix t and iv :: invocation and u :: "'z dworld_scheme"
    assume h: "t \<in> T \<and> (r, t) \<notin> C \<and> iv_releaseId iv = r \<and> covers T (insert (r, t) C) u"
    have "{t' \<in> T. (r, t') \<notin> insert (r, t) C} \<subset> {t' \<in> T. (r, t') \<notin> C}" using h by auto
    then have "card {t' \<in> T. (r, t') \<notin> insert (r, t) C} < card {t' \<in> T. (r, t') \<notin> C}"
      using assms(2) by (intro psubset_card_mono) simp_all
    then have "card {t' \<in> T. (r, t') \<notin> insert (r, t) C} \<le> n" using Suc.prems(2) by simp
    then show "?d (Suc n) iv u = ?d (Suc (Suc n)) iv u"
      using h by (intro defaultInvoker_cong [where T = T and C = "insert (r, t) C"]) (auto intro!: Suc.IH simp del: runReleaseDeploy.simps)
  qed
  then show ?case
    using Suc.prems gate_defaultInvoker [OF assms(1), of T C "Suc n"]
    by (subst (1 2) runReleaseDeploy.simps(2), intro releaseDeployWith_cong [OF assms(1) _ _ _ resolve_yields [of inp r]])
      (auto simp del: runReleaseDeploy.simps)
qed

text \<open>
  C22. Promotion cascades end.  However the promotion policies chain the targets, in a cycle too: a deploy
  with all the deploys its promotions trigger nests at most as deep as there are targets, so any
  more fuel than that gives the same result and the same state.  The transports and the adapters are
  asked only to add no target, to remove no approval and to report the release they deployed.
\<close>

theorem promotion_cascade_ends:
  fixes w :: "'z dworld_scheme"
  assumes "calm env" and "length (targets w) + 2 \<le> n"
  shows "runReleaseDeploy n env inp w = runReleaseDeploy (length (targets w) + 2) env inp w"
proof -
  let ?T = "t_id ` set (targets w)" and ?k = "length (targets w)"
  have card: "card {t \<in> ?T. P t} \<le> ?k" for P
    by (rule le_trans [OF card_mono [of ?T]]) (auto intro: le_trans [OF card_image_le] card_length)
  have c: "covers ?T {} w" by (simp add: covers_def)
  have step: "runReleaseDeploy (Suc (Suc m)) env inp w = runReleaseDeploy (Suc (Suc (Suc m))) env inp w" if m: "?k \<le> m" for m
  proof (subst (1 2) runReleaseDeploy.simps(2), rule releaseDeployWith_cong [where R = "\<lambda>_. True", OF assms(1) c gate_defaultInvoker [OF assms(1)]])
    fix r
    show "agreeBeyond ?T {} r (defaultInvoker (runReleaseDeploy (Suc m) env)) (defaultInvoker (runReleaseDeploy (Suc (Suc m)) env))"
      unfolding agreeBeyond_def
    proof (intro allI impI)
      fix t and iv :: invocation and u :: "'z dworld_scheme"
      assume h: "t \<in> ?T \<and> (r, t) \<notin> {} \<and> iv_releaseId iv = r \<and> covers ?T (insert (r, t) {}) u"
      then show "defaultInvoker (runReleaseDeploy (Suc m) env) iv u = defaultInvoker (runReleaseDeploy (Suc (Suc m)) env) iv u"
        using m card [of "\<lambda>t'. (r, t') \<notin> {(r, t)}"]
        by (intro defaultInvoker_cong [where T = ?T and C = "{(r, t)}"] fuel_step [OF assms(1), where T = ?T and C = "{(r, t)}" and r = r]) auto
    qed
  qed (simp add: yields_def)
  obtain d where "n = ?k + 2 + d" using assms(2) le_Suc_ex by blast
  moreover have "runReleaseDeploy (?k + 2 + d) env inp w = runReleaseDeploy (?k + 2) env inp w" for d
    using step [of "?k + d" for d] by (induction d) simp_all
  ultimately show ?thesis by simp
qed

end
