(* ===== verification/Promotion_Facts.thy ===== *)
theory Promotion_Facts
  imports Cascade
begin

text \<open>
  What promotion promises: a policy fires at most once for a release and a target, a tick deploys
  through open gates only, and a decided approval stays decided.
\<close>

section \<open>A policy fires once\<close>

lemma existing_found:
  "triple (covers T C) (approval_getForReleaseAndTarget r t)
     (\<lambda>x w. covers T C w \<and> (\<forall>e. x = Some e \<longrightarrow> covers T (insert (r, t) C) w)) (\<lambda>_. covers T C)"
  unfolding approval_getForReleaseAndTarget_def
proof (rule triple_bindM)
  show "triple (covers T C) (selectAll approvals (\<lambda>a. ap_releaseId a = r \<and> ap_destTargetId a = t \<and> ap_deletedAt a = None)
      (limitTo 1 \<circ> orderByDesc ap_createdAt)) (\<lambda>rows w. covers T C w \<and> (rows \<noteq> [] \<longrightarrow> covers T (insert (r, t) C) w)) (\<lambda>_. covers T C)"
    by (auto simp: triple_def selectAll_def stmt_def readM_def limitTo_def covers_def filter_empty_conv approvedPairs_iff
        split: option.splits)
  show "triple (\<lambda>w. covers T C w \<and> (rows \<noteq> [] \<longrightarrow> covers T (insert (r, t) C) w)) (ret (firstRow rows))
      (\<lambda>x w. covers T C w \<and> (\<forall>e. x = Some e \<longrightarrow> covers T (insert (r, t) C) w)) (\<lambda>_. covers T C)" for rows :: "approval list"
    by (rule triple_return) (auto simp: firstRow_def split: list.splits)
qed

lemma firePolicy_approves:
  assumes "pp_active policy" and k: "\<And>C iv. keeps (covers T C) (deploy iv)"
  shows "triple (covers T C) (firePolicy deploy policy release)
    (\<lambda>_. covers T (insert (r_id release, pp_destTargetId policy) C)) (\<lambda>_ _. True)"
proof -
  let ?C = "insert (r_id release, pp_destTargetId policy) C"
  have create: "triple (covers T C) (bindM (approval_create o' p (r_id release) (pp_destTargetId policy) st au gated) f)
      (\<lambda>_. covers T ?C) (\<lambda>_ _. True)" if "\<And>a. keeps (covers T ?C) (f a)" for o' p st au gated f
    by (rule triple_seq [OF approval_create_triple], simp, rule triple_pure)
      (rule triple_weaken [OF triple_keeps [OF that]]; simp)
  have auto: "triple (covers T C) (fireAuto deploy policy release now) (\<lambda>_. covers T ?C) (\<lambda>_ _. True)" for now
    unfolding fireAuto_def promotion_reads by (rule create) (intro keeps_intros gate_intros gate_dispatchDeploy k)
  have read: "keeps (covers T C) (readDelaySeconds policy)" "keeps (covers T C) (isoDate t)" for t
    unfolding readDelaySeconds_def isoDate_def fail_def by (intro keeps_intros)+
  show ?thesis
    using assms(1) unfolding firePolicy_def Let_def
    apply (simp only: not_True_eq_False if_False simp_thms)
    apply (rule triple_seq [OF existing_found], simp)
    subgoal for x
      apply (cases x; simp)
       apply (rule triple_step [OF gate_frame(2)], simp)
       apply (auto split: option.split bool.split promotionGateKind.split if_splits
          intro!: auto create keeps_ret triple_step [OF keeps_ret] triple_step [OF read(1)] triple_step [OF read(2)] triple_step [OF keeps_bindM [OF read(1)]] keeps_bindM [OF read(2)])
      apply (rule triple_return, simp)
      done
    done
qed

lemma existing_run:
  assumes "quiet w" "(r, t) \<in> approvedPairs (approvals w)"
  shows "\<exists>e \<in> set (approvals w). ap_releaseId e = r \<and> ap_destTargetId e = t \<and> ap_deletedAt e = None \<and>
    approval_getForReleaseAndTarget r t w = (Inr (Some e), tick w)"
proof -
  define rows where "rows = orderByDesc ap_createdAt (filter (\<lambda>a. ap_releaseId a = r \<and> ap_destTargetId a = t \<and> ap_deletedAt a = None) (approvals w))"
  have members: "set rows = {a \<in> set (approvals w). ap_releaseId a = r \<and> ap_destTargetId a = t \<and> ap_deletedAt a = None}"
    by (auto simp: rows_def orderByDesc_def)
  then obtain e rest where rows: "rows = e # rest"
    using assms(2) by (cases rows) (auto simp: approvedPairs_iff)
  then have "e \<in> set rows" by simp
  moreover have "approval_getForReleaseAndTarget r t w = (Inr (Some e), tick w)"
    using assms(1) rows by (simp add: approval_getForReleaseAndTarget_def bindM_def selectAll_def stmt_def quiet_def readM_def
        ret_def limitTo_def firstRow_def rows_def)
  ultimately show ?thesis unfolding members by blast
qed

text \<open>
  C24. Once a policy has fired for a release, no later firing of any policy for the same release
  and target starts a deploy or queues an approval: it answers \<open>duplicate\<close> naming the approval
  there is, and reads the database once. It holds whatever the deploy of the first firing does, as
  long as it does not withdraw approvals.
\<close>

theorem policy_fires_once:
  assumes "pp_active policy" "firePolicy deploy policy release w = (Inr outcome, w1)" "quiet w1"
    and "\<And>T C iv. keeps (covers T C) (deploy iv)"
    and "pp_destTargetId later = pp_destTargetId policy" "pp_active later"
  shows "\<exists>a \<in> set (approvals w1). ap_releaseId a = r_id release \<and> ap_destTargetId a = pp_destTargetId policy \<and> ap_deletedAt a = None \<and>
    firePolicy again later release w1 = (Inr (queued later a Duplicate
      (Some (''existing approval '' @ ap_id a @ '' ('' @ approvalStatus_text (ap_status a) @ '')''))), tick w1)"
proof -
  have start: "covers (t_id ` set (targets w)) {} w" by (simp add: covers_def)
  have "(r_id release, pp_destTargetId policy) \<in> approvedPairs (approvals w1)"
    by (rule tripleD [OF firePolicy_approves [where T = "t_id ` set (targets w)" and C = "{}" and deploy = deploy and release = release, OF assms(1) assms(4)] start])
      (simp_all add: assms(2) covers_def)
  from existing_run [OF assms(3) this] show ?thesis
    using assms(5,6) by (auto simp: firePolicy_def bindM_def ret_def)
qed

section \<open>A tick deploys through open gates only\<close>

text \<open>The newest \<open>min_pass_count\<close> checks of a deployment all passed, the last one within the window.\<close>

definition provenHealthy :: "'z world_scheme \<Rightarrow> healthGate \<Rightarrow> int \<Rightarrow> string \<Rightarrow> bool" where
  "provenHealthy w gate nowMs i \<longleftrightarrow>
     (let recent = take (nat (hg_minPassCount gate)) (orderByDesc hc_checkedAt
            (filter (\<lambda>c. hc_deploymentId c = i \<and> hc_deletedAt c = None) (healthChecks w))) in
      int (length recent) = hg_minPassCount gate \<and> (\<forall>c \<in> set recent. hc_status c = HPass) \<and>
      (case dateParse (hc_checkedAt (hd recent)) of None \<Rightarrow> False | Some t \<Rightarrow> nowMs - t \<le> hg_windowMinutes gate * 60000))"

text \<open>The gate of an approval, as the tables stand when the deploy is invoked.\<close>

definition gateOpen :: "int \<Rightarrow> invocation \<Rightarrow> 'z world_scheme \<Rightarrow> bool" where
  "gateOpen nowMs iv w \<longleftrightarrow>
     (let a = iv_approval iv; p = iv_policy iv in
      a \<in> set (approvals w) \<and> ap_deletedAt a = None \<and> ap_status a = AAutoApproved \<and>
      p \<in> set (promotionPolicies w) \<and> pp_deletedAt p = None \<and> pp_id p = ap_policyId a \<and>
      iv_releaseId iv = ap_releaseId a \<and> iv_destTargetId iv = pp_destTargetId p \<and>
      (if ap_requiresHealthGate a then
         \<not> notYet a nowMs \<and>
         (case readHealthGate p of None \<Rightarrow> False | Some gate \<Rightarrow>
            \<exists>d \<in> set (deployments w). pp_sourceTargetId p = Some (d_targetId d) \<and> d_status d = DActive \<and> d_deletedAt d = None \<and>
              d_releaseId d = ap_releaseId a \<and> provenHealthy w gate nowMs (d_id d))
       else (case ap_autoApproveAt a of None \<Rightarrow> False | Some t \<Rightarrow> t \<le> toISOString nowMs)))"

definition guarded :: "(invocation \<Rightarrow> 'z world_scheme \<Rightarrow> bool) \<Rightarrow> 'z invoker \<Rightarrow> 'z invoker" where
  "guarded ok deploy iv w = (if ok iv w then deploy iv w else (Inl (NamedError ''Error'' ''closed gate''), w))"

definition core :: "approval \<Rightarrow> string \<times> string \<times> string option \<times> bool" where
  "core a = (ap_policyId a, ap_releaseId a, ap_autoApproveAt a, ap_requiresHealthGate a)"

text \<open>Approvals keep their id, policy, release, delay and gate, whatever else happens to them.\<close>

definition pinned :: "approval set \<Rightarrow> 'z world_scheme \<Rightarrow> bool" where
  "pinned X w \<longleftrightarrow> distinct (map ap_id (approvals w)) \<and>
     (\<forall>a \<in> X. \<exists>b \<in> set (approvals w). ap_id b = ap_id a \<and> core b = core a)"

lemma pinned_core:
  assumes "pinned X w" "a \<in> X" "b \<in> set (approvals w)" "ap_id b = ap_id a"
  shows "core b = core a"
proof -
  obtain c where c: "c \<in> set (approvals w)" "ap_id c = ap_id a" "core c = core a" and d: "distinct (map ap_id (approvals w))"
    using assms(1,2) by (auto simp: pinned_def)
  have "b = c" using inj_onD [OF conjunct2 [OF d [unfolded distinct_map]] _ assms(3) c(1)] c(2) assms(4) by simp
  with c(3) show ?thesis by simp
qed

lemma pinned_env [simp]:
  "pinned X (w\<lparr>stmtN := n\<rparr>) = pinned X w" "pinned X (w\<lparr>clockN := n\<rparr>) = pinned X w" "pinned X (w\<lparr>ulidN := n\<rparr>) = pinned X w"
  by (simp_all add: pinned_def)

lemma positiveInt_ge: "positiveInt n = Some k \<Longrightarrow> 1 \<le> k"
proof -
  assume "positiveInt n = Some k"
  then obtain q where q: "n = Some q" "1 \<le> q" "snd (quotient_of q) = 1" "k = fst (quotient_of q)"
    by (auto simp: positiveInt_def split: option.splits if_splits)
  then have "q = of_int k" using quotient_of_div [of q k 1] by (cases "quotient_of q") simp
  with q(2) show "1 \<le> k" by simp
qed

lemma readHealthGate_ge: "readHealthGate p = Some gate \<Longrightarrow> 1 \<le> hg_minPassCount gate"
  by (auto simp: readHealthGate_def dest!: positiveInt_ge split: option.splits json.splits prod.splits)

lemma healthGate_proven:
  assumes "1 \<le> hg_minPassCount gate"
    and "isHealthGateOpen (map (\<lambda>c. (hc_status c, hc_checkedAt c)) (limitTo (hg_minPassCount gate)
      (orderByDesc hc_checkedAt (filter (\<lambda>c. hc_deploymentId c = i \<and> hc_deletedAt c = None) (healthChecks w))))) gate nowMs = None"
  shows "provenHealthy w gate nowMs i"
proof -
  define recent where "recent = take (nat (hg_minPassCount gate)) (orderByDesc hc_checkedAt
            (filter (\<lambda>c. hc_deploymentId c = i \<and> hc_deletedAt c = None) (healthChecks w)))"
  have "isHealthGateOpen (map (\<lambda>c. (hc_status c, hc_checkedAt c)) recent) gate nowMs = None"
    using assms by (simp add: recent_def limitTo_def)
  moreover have "length recent \<le> nat (hg_minPassCount gate)" by (simp add: recent_def)
  ultimately show ?thesis
    using assms(1) unfolding provenHealthy_def recent_def [symmetric] Let_def
    by (cases recent) (auto simp: isHealthGateOpen_def Let_def find_None_iff take_map split: if_splits option.splits)
qed

definition gateTables :: "'z world_scheme \<Rightarrow> promotionPolicy list \<times> deployment list \<times> healthCheck list" where
  "gateTables w = (promotionPolicies w, deployments w, healthChecks w)"

lemma gateTables_env [simp]:
  "gateTables (w\<lparr>stmtN := n\<rparr>) = gateTables w" "gateTables (w\<lparr>clockN := n\<rparr>) = gateTables w"
  "gateTables (w\<lparr>approvals := A\<rparr>) = gateTables w"
  by (simp_all add: gateTables_def)

lemma pinned_update:
  assumes "pinned X w" and "\<And>b. ap_id (f b) = ap_id b" and "\<And>b. core (f b) = core b"
    and "approvals u = map (\<lambda>b. if p b then f b else b) (approvals w)"
  shows "pinned X u"
proof -
  have "map ap_id (map (\<lambda>b. if p b then f b else b) (approvals w)) = map ap_id (approvals w)" using assms(2) by simp
  moreover have "\<exists>b \<in> set (map (\<lambda>b. if p b then f b else b) (approvals w)). ap_id b = ap_id a \<and> core b = core a" if a: "a \<in> X" for a
  proof -
    obtain b where b: "b \<in> set (approvals w)" "ap_id b = ap_id a" "core b = core a" using assms(1) a by (auto simp: pinned_def)
    then show ?thesis by (intro bexI [of _ "if p b then f b else b"]) (auto simp: assms(2,3))
  qed
  ultimately show ?thesis using assms(1) unfolding pinned_def assms(4) by metis
qed

lemma patch_core [simp]: "ap_id (approval_patch q now ex b) = ap_id b" "core (approval_patch q now ex b) = core b"
  "ap_deletedAt (approval_patch q now ex b) = ap_deletedAt b"
  by (simp_all add: approval_patch_def core_def)

lemma approval_update_keeps:
  "keeps (\<lambda>w. pinned X w \<and> gateTables w = V) (approval_update i q)"
proof -
  have "keeps (\<lambda>w. pinned X w \<and> gateTables w = V) (updateWhere approvals approvals_update approvals_chk p (approval_patch q now ex))"
    for p now ex
    by (auto simp: keeps_def updateWhere_def stmt_def constrained_def intro: pinned_update [OF _ patch_core(1,2)] split: option.splits)
  moreover have "keeps (\<lambda>w. pinned X w \<and> gateTables w = V) (getLive approvals ap_id ap_deletedAt i)"
    "keeps (\<lambda>w. pinned X w \<and> gateTables w = V) nowIso"
    by (auto simp: keeps_def getLive_def selectOne_def stmt_def readM_def nowIso_run split: option.splits)
  ultimately show ?thesis
    unfolding approval_update_def patchRow_def mappingErrors_def by (intro keeps_intros)
qed

lemma approval_update_flips:
  "triple (\<lambda>w. pinned X w \<and> gateTables w = V) (approval_update i (autoApprove now reason))
     (\<lambda>_ w. (pinned X w \<and> gateTables w = V) \<and>
       (\<forall>b \<in> set (approvals w). ap_id b = i \<longrightarrow> ap_status b = AAutoApproved)) (\<lambda>_ _. True)"
  unfolding triple_def
proof (intro allI impI)
  fix w :: "'a world_scheme"
  assume w: "pinned X w \<and> gateTables w = V"
  have "case approval_update i (autoApprove now reason) w of
      (Inr a, w') \<Rightarrow> \<forall>b \<in> set (approvals w'). ap_id b = i \<longrightarrow> ap_status b = AAutoApproved | (Inl e, w') \<Rightarrow> True"
    by (auto simp: approval_update_def patchRow_def bindM_def getLive_def selectOne_def stmt_def readM_def nowIso_run mappingErrors_def
        catchM_def updateWhere_def constrained_def throwM_def ret_def approval_patch_def autoApprove_def orElse_def
        dest!: find_Some_D split: option.split)
  moreover have "pinned X (snd (approval_update i (autoApprove now reason) w)) \<and>
      gateTables (snd (approval_update i (autoApprove now reason) w)) = V"
    using keepsD [OF approval_update_keeps w] .
  ultimately show "case approval_update i (autoApprove now reason) w of
      (Inr a, w') \<Rightarrow> (pinned X w' \<and> gateTables w' = V) \<and> (\<forall>b \<in> set (approvals w'). ap_id b = i \<longrightarrow> ap_status b = AAutoApproved)
    | (Inl e, w') \<Rightarrow> True"
    by (auto split: prod.splits sum.splits)
qed

lemma openGate_guarded:
  fixes w :: "'z world_scheme"
  assumes "pinned X w" "a \<in> X"
    and ok: "\<And>b (u :: 'z world_scheme). gateTables u = gateTables w \<Longrightarrow> b \<in> set (approvals u) \<Longrightarrow> ap_deletedAt b = None \<Longrightarrow>
      ap_status b = AAutoApproved \<Longrightarrow> core b = core a \<Longrightarrow>
      ok \<lparr>iv_releaseId = r_id release, iv_destTargetId = pp_destTargetId policy, iv_approval = b, iv_policy = policy\<rparr> u"
  shows "openGate (guarded ok deploy) now reason a policy release w = openGate deploy now reason a policy release w"
  unfolding openGate_def
proof (rule bindM_cong [OF approval_update_flips [where X = X and V = "gateTables w"]])
  show "pinned X w \<and> gateTables w = gateTables w" using assms(1) by simp
next
  fix u :: "'z world_scheme"
  assume u: "(pinned X u \<and> gateTables u = gateTables w) \<and> (\<forall>b \<in> set (approvals u). ap_id b = ap_id a \<longrightarrow> ap_status b = AAutoApproved)"
  have "dispatchDeploy (guarded ok deploy) policy b release v = dispatchDeploy deploy policy b release v"
    if b: "b \<in> set (approvals u)" "ap_id b = ap_id a" "ap_deletedAt b = None" and v: "v = tick u" for b v
  proof -
    have "core b = core a" using pinned_core b(1,2) u assms(2) by blast
    then show ?thesis
      using b u v by (simp add: dispatchDeploy_def bindM_def nowIso_run catchM_def guarded_def ok)
  qed
  then show "bindM (approval_get (ap_id a)) (\<lambda>fresh. case fresh of None \<Rightarrow> ret 0
        | Some f \<Rightarrow> bindM (dispatchDeploy (guarded ok deploy) policy f release) (\<lambda>_. ret 1)) u
    = bindM (approval_get (ap_id a)) (\<lambda>fresh. case fresh of None \<Rightarrow> ret 0
        | Some f \<Rightarrow> bindM (dispatchDeploy deploy policy f release) (\<lambda>_. ret 1)) u"
    by (auto simp: bindM_def approval_get_def getLive_def selectOne_def stmt_def readM_def ret_def dest!: find_Some_D split: option.splits)
qed

lemma pinned_reads [keeps_intros]:
  "keeps (pinned X) (selectOne get p)" "keeps (pinned X) (selectAll get p ord)" "keeps (pinned X) nowIso" "keeps (pinned X) dateNow"
  by (auto simp: keeps_def selectOne_def selectAll_def stmt_def readM_def nowIso_run dateNow_run split: option.splits)

lemma pinned_openGate:
  assumes "\<And>iv. keeps (pinned X) (deploy iv)"
  shows "keeps (pinned X) (openGate deploy now reason a policy release)"
proof -
  have "keeps (pinned X) (approval_update i q)" for i q
    using keepsD [OF approval_update_keeps [where V = "gateTables w" for w]] by (intro keepsI) blast
  then show ?thesis
    unfolding openGate_def dispatchDeploy_def approval_get_def getLive_def by (intro keeps_intros assms)
qed

lemma pinned_ticks:
  assumes "\<And>iv. keeps (pinned X) (deploy iv)"
  shows "keeps (pinned X) (tickTimeDelay deploy now a)" "keeps (pinned X) (tickHealthGated deploy nowMs a)"
  unfolding tickTimeDelay_def tickHealthGated_def policy_get_def release_get_def getLive_def deployment_getActiveForTarget_def
    healthCheck_listForDeployment_def Let_def
  by (intro keeps_intros pinned_openGate assms)+

lemma select_cong:
  "f (find p (get (tick w))) (tick w) = g (find p (get (tick w))) (tick w) \<Longrightarrow> bindM (selectOne get p) f w = bindM (selectOne get p) g w"
  "f' (ord (filter p (get (tick w)))) (tick w) = g' (ord (filter p (get (tick w)))) (tick w) \<Longrightarrow>
    bindM (selectAll get p ord) f' w = bindM (selectAll get p ord) g' w"
  by (auto simp: bindM_def selectOne_def selectAll_def stmt_def readM_def split: option.split)

lemma tickTimeDelay_guarded:
  fixes w :: "'z world_scheme"
  assumes "pinned X w" "a \<in> X" "due_for_auto_approve (toISOString nowMs) a"
  shows "tickTimeDelay (guarded (gateOpen nowMs) deploy) (toISOString nowMs) a w = tickTimeDelay deploy (toISOString nowMs) a w"
proof (cases "ap_requiresHealthGate a")
  case False
  have "openGate (guarded (gateOpen nowMs) deploy) now reason a policy release u = openGate deploy now reason a policy release u"
    if "promotionPolicies u = promotionPolicies w" "approvals u = approvals w" "policy \<in> set (promotionPolicies w)" "pp_deletedAt policy = None"
      "pp_id policy = ap_policyId a" "r_id release = ap_releaseId a" for now reason policy release and u :: "'z world_scheme"
    using that assms False
    by (intro openGate_guarded [where X = X])
      (auto simp: gateOpen_def Let_def core_def gateTables_def pinned_def due_for_auto_approve_def)
  then show ?thesis
    using False
    by (auto simp: tickTimeDelay_def policy_get_def release_get_def getLive_def bindM_def selectOne_def stmt_def readM_def ret_def
        dest!: find_Some_D split: option.split)
qed (simp add: tickTimeDelay_def)

lemma tickHealthGated_guarded:
  fixes w :: "'z world_scheme"
  assumes "pinned X w" "a \<in> X" "ap_requiresHealthGate a"
  shows "tickHealthGated (guarded (gateOpen nowMs) deploy) nowMs a w = tickHealthGated deploy nowMs a w"
proof -
  have "openGate (guarded (gateOpen nowMs) deploy) now reason a policy release u = openGate deploy now reason a policy release u"
    if "gateTables u = gateTables w" "approvals u = approvals w" "policy \<in> set (promotionPolicies w)" "pp_deletedAt policy = None"
      "pp_id policy = ap_policyId a" "r_id release = ap_releaseId a" "\<not> notYet a nowMs" "readHealthGate policy = Some gate"
      "pp_sourceTargetId policy = Some (d_targetId d)" "d \<in> set (deployments w)" "d_status d = DActive" "d_deletedAt d = None"
      "d_releaseId d = r_id release" "provenHealthy w gate nowMs (d_id d)"
    for now reason policy release gate d and u :: "'z world_scheme"
    using that assms
    by (intro openGate_guarded [where X = X])
      (auto simp: gateOpen_def Let_def core_def gateTables_def pinned_def notYet_def provenHealthy_def)
  note og = this
  show ?thesis
    unfolding tickHealthGated_def policy_get_def release_get_def getLive_def deployment_getActiveForTarget_def
      healthCheck_listForDeployment_def Let_def
    apply (rule select_cong)
    apply (auto simp: truthy_def split: option.split dest!: find_Some_D intro!: select_cong)
    apply (rule og; (assumption | rule healthGate_proven [OF readHealthGate_ge], assumption | simp))
    apply assumption
    done
qed

lemma countM_cong:
  assumes "\<And>x. keeps I (f x)" and "\<And>x u. x \<in> set xs \<Longrightarrow> I u \<Longrightarrow> g x u = f x u"
  shows "I w \<Longrightarrow> countM g n xs w = countM f n xs w"
  using assms(2)
proof (induction xs arbitrary: n w)
  case (Cons x xs)
  have "bindM (f x) (\<lambda>d. countM g (n + d) xs) w = bindM (f x) (\<lambda>d. countM f (n + d) xs) w"
    by (rule bindM_step [OF assms(1) Cons.prems(1)]) (rule Cons.IH, simp_all add: Cons.prems(2))
  then show ?case using Cons.prems by (simp add: countM_def bindM_def ret_def split: prod.splits sum.splits)
qed (simp add: countM_def)

lemma keeps_countM: "(\<And>x. keeps I (f x)) \<Longrightarrow> keeps I (countM f n xs)"
  unfolding countM_def by (intro keeps_intros)

lemma pinned_rows: "distinct (map ap_id (approvals w)) \<Longrightarrow> set rows \<subseteq> set (approvals w) \<Longrightarrow> pinned (set rows) w"
  by (auto simp: pinned_def)

text \<open>
  C23. Every deploy a tick starts goes through an open gate: its approval is live and was flipped by
  the tick, its policy is the live one of the approval, it deploys the approval's release to the
  policy's target, and, as the tables stand at that moment, either the delay has elapsed or the
  release is active on the source target with enough recent passing checks. So wrapping the deploy
  in a check of all this changes nothing, whatever the deploys do besides keeping approvals in place.
\<close>

theorem tick_deploys_through_open_gates:
  assumes "distinct (map ap_id (approvals w))" and k: "\<And>X iv. keeps (pinned X) (deploy iv)"
  shows "runPromotionTick (guarded (gateOpen (clocks w (clockN w))) deploy) w = runPromotionTick deploy w"
proof -
  let ?now = "clocks w (clockN w)"
  let ?safe = "guarded (gateOpen ?now) deploy"
  have delays: "countM (tickTimeDelay ?safe (toISOString ?now)) 0 rows u = countM (tickTimeDelay deploy (toISOString ?now)) 0 rows u"
    if "pinned {} u" "rows = orderBy ord (filter (due_for_auto_approve (toISOString ?now)) (approvals u))"
    for rows u and ord :: "approval \<Rightarrow> string"
    by (rule countM_cong [where I = "pinned (set rows)"])
      (use that in \<open>auto simp: orderBy_def pinned_def intro!: pinned_ticks k tickTimeDelay_guarded [where X = "set rows"]\<close>)
  have gated: "countM (tickHealthGated ?safe ?now) n rows u = countM (tickHealthGated deploy ?now) n rows u"
    if "pinned {} u" "rows = orderBy ord (filter (\<lambda>r. ap_status r = APending \<and> ap_requiresHealthGate r \<and> ap_deletedAt r = None) (approvals u))"
    for n rows u and ord :: "approval \<Rightarrow> string"
    by (rule countM_cong [where I = "pinned (set rows)"])
      (use that in \<open>auto simp: orderBy_def pinned_def intro!: pinned_ticks k tickHealthGated_guarded [where X = "set rows"]\<close>)
  have start: "pinned {} (w\<lparr>clockN := Suc (clockN w)\<rparr>)" using assms(1) by (simp add: pinned_def)
  have rest: "bindM approval_listPendingHealthGated (countM (tickHealthGated ?safe ?now) n) u
      = bindM approval_listPendingHealthGated (countM (tickHealthGated deploy ?now) n) u" if "pinned {} u" for n u
    unfolding approval_listPendingHealthGated_def using that by (intro select_cong gated) simp_all
  have "bindM (countM (tickTimeDelay ?safe (toISOString ?now)) 0 rows) f u = bindM (countM (tickTimeDelay deploy (toISOString ?now)) 0 rows) g u"
    if "pinned {} u" "rows = orderBy ord (filter (due_for_auto_approve (toISOString ?now)) (approvals u))"
      "\<And>n v. pinned {} v \<Longrightarrow> f n v = g n v" for rows u f g and ord :: "approval \<Rightarrow> string"
  proof -
    have "bindM (countM (tickTimeDelay ?safe (toISOString ?now)) 0 rows) f u = bindM (countM (tickTimeDelay deploy (toISOString ?now)) 0 rows) f u"
      using delays [OF that(1,2)] by (simp add: bindM_def)
    also have "\<dots> = bindM (countM (tickTimeDelay deploy (toISOString ?now)) 0 rows) g u"
      by (rule bindM_step [where I = "pinned {}"]) (use that in \<open>auto intro!: keeps_countM pinned_ticks k\<close>)
    finally show ?thesis .
  qed
  note rows = this
  have "bindM (approval_listPendingAutoApprove (toISOString ?now)) (\<lambda>dueRows. bindM (countM (tickTimeDelay ?safe (toISOString ?now)) 0 dueRows)
        (\<lambda>n. bindM approval_listPendingHealthGated (countM (tickHealthGated ?safe ?now) n))) (w\<lparr>clockN := Suc (clockN w)\<rparr>)
    = bindM (approval_listPendingAutoApprove (toISOString ?now)) (\<lambda>dueRows. bindM (countM (tickTimeDelay deploy (toISOString ?now)) 0 dueRows)
        (\<lambda>n. bindM approval_listPendingHealthGated (countM (tickHealthGated deploy ?now) n))) (w\<lparr>clockN := Suc (clockN w)\<rparr>)"
    unfolding approval_listPendingAutoApprove_def using start by (intro select_cong rows rest) simp_all
  then show ?thesis by (simp add: runPromotionTick_def bindM_def [of dateNow] dateNow_run)
qed

section \<open>Witnesses\<close>

definition labPolicy :: "promotionGateKind \<Rightarrow> promotionPolicy" where
  "labPolicy gate = \<lparr>pp_id = ''pp1'', pp_orgId = ''o1'', pp_productId = ''p1'', pp_sourceTargetId = Some ''lab'', pp_destTargetId = ''edge'',
     pp_gateKind = gate, pp_gateConfig = JObj [(''delay_seconds'', JNum 60)], pp_active = True, pp_description = None,
     pp_createdAt = ''2023-11-14T22:13:20.000Z'', pp_updatedAt = ''2023-11-14T22:13:20.000Z'', pp_deletedAt = None\<rparr>"

definition labApproval :: approval where
  "labApproval = \<lparr>ap_id = ''ap1'', ap_orgId = ''o1'', ap_policyId = ''pp1'', ap_releaseId = ''r2'', ap_destTargetId = ''edge'',
     ap_status = APending, ap_autoApproveAt = Some ''2023-11-14T22:13:19.000Z'', ap_decidedBy = None, ap_decidedAt = None, ap_reason = None,
     ap_deployAttemptedAt = None, ap_deployOutcome = None, ap_deployDeploymentId = None, ap_requiresHealthGate = False,
     ap_createdAt = ''2023-11-14T22:13:20.000Z'', ap_updatedAt = ''2023-11-14T22:13:20.000Z'', ap_deletedAt = None\<rparr>"

definition acceptDeploy :: "'z invoker" where
  "acceptDeploy iv = ret \<lparr>di_deploymentId = Some ''d9'', di_success = True, di_errorMessage = None\<rparr>"

definition gateWorld :: "promotionGateKind \<Rightarrow> approval list \<Rightarrow> dworld" where
  "gateWorld gate A = labWorld\<lparr>promotionPolicies := [labPolicy gate], approvals := A\<rparr>"

lemmas gate_eval = gateWorld_def labPolicy_def labApproval_def acceptDeploy_def lab_defs

lemma manual_policy_queues:
  assumes w: "quiet w" "approvals w = []" and p: "pp_active p" "pp_gateKind p = GManual"
    and refs: "pp_orgId p \<in> o_id ` set (orgs w)" "pp_id p \<in> pp_id ` set (promotionPolicies w)"
      "r_id release \<in> r_id ` set (releases w)" "pp_destTargetId p \<in> t_id ` set (targets w)"
  shows "\<exists>a w1. firePolicy deploy p release w = (Inr (queued p a QueuedManual None), w1) \<and> quiet w1"
proof -
  have none: "approval_getForReleaseAndTarget r t w = (Inr None, tick w)" for r t
    using w by (simp add: approval_getForReleaseAndTarget_def bindM_def selectAll_quiet ret_def orderByDesc_def limitTo_def firstRow_def)
  let ?w = "w\<lparr>stmtN := Suc (stmtN w), clockN := Suc (clockN w)\<rparr>"
  have "\<exists>a w1. approval_create (pp_orgId p) (pp_id p) (r_id release) (pp_destTargetId p) APending None None ?w = (Inr a, w1) \<and> quiet w1"
    unfolding approval_create_def using w refs
    by (subst approvals.createRow_quiet) (auto simp: approvals_chk_def firstViolation_def unique_on_def refs_def quiet_def)
  then obtain a w1 where a: "approval_create (pp_orgId p) (pp_id p) (r_id release) (pp_destTargetId p) APending None None ?w = (Inr a, w1)"
    "quiet w1" by blast
  then show ?thesis
    using p by (auto simp: firePolicy_def bindM_def none dateNow_run ret_def Let_def split: option.split)
qed

theorem policy_fires_once_witness:
  "\<exists>outcome w1 a. firePolicy acceptDeploy (labPolicy GManual) (labRelease ''r2'') (gateWorld GManual []) = (Inr outcome, w1) \<and>
     po_action outcome = QueuedManual \<and>
     fst (firePolicy acceptDeploy (labPolicy GAuto) (labRelease ''r2'') w1) = Inr (queued (labPolicy GAuto) a Duplicate
       (Some (''existing approval '' @ ap_id a @ '' ('' @ approvalStatus_text (ap_status a) @ '')'')))"
proof -
  have "\<exists>a w1. firePolicy acceptDeploy (labPolicy GManual) (labRelease ''r2'') (gateWorld GManual []) =
      (Inr (queued (labPolicy GManual) a QueuedManual None), w1) \<and> quiet w1"
    by (rule manual_policy_queues) (simp_all add: gate_eval world_eval)
  then obtain a w1 where run: "firePolicy acceptDeploy (labPolicy GManual) (labRelease ''r2'') (gateWorld GManual []) =
      (Inr (queued (labPolicy GManual) a QueuedManual None), w1)" "quiet w1" by blast
  have p: "pp_active (labPolicy g)" "pp_destTargetId (labPolicy g) = pp_destTargetId (labPolicy GManual)" for g
    by (simp_all add: labPolicy_def)
  have k: "keeps I (acceptDeploy iv)" for I iv by (simp add: acceptDeploy_def keeps_ret)
  obtain b where "firePolicy acceptDeploy (labPolicy GAuto) (labRelease ''r2'') w1 = (Inr (queued (labPolicy GAuto) b Duplicate
       (Some (''existing approval '' @ ap_id b @ '' ('' @ approvalStatus_text (ap_status b) @ '')''))), tick w1)"
    using policy_fires_once [OF p(1) run k p(2,1), of acceptDeploy] by blast
  then have "fst (firePolicy acceptDeploy (labPolicy GAuto) (labRelease ''r2'') w1) = Inr (queued (labPolicy GAuto) b Duplicate
       (Some (''existing approval '' @ ap_id b @ '' ('' @ approvalStatus_text (ap_status b) @ '')'')))"
    by simp
  moreover have "po_action (queued (labPolicy GManual) a QueuedManual None) = QueuedManual" by (simp add: queued_def)
  ultimately show ?thesis using run(1) by blast
qed

theorem tick_deploys_through_open_gates_witness:
  "runPromotionTick (guarded (gateOpen 1700000000000) acceptDeploy) (gateWorld GTimeDelay [labApproval])
     = runPromotionTick acceptDeploy (gateWorld GTimeDelay [labApproval])"
proof -
  have "distinct (map ap_id (approvals (gateWorld GTimeDelay [labApproval])))"
    "clocks (gateWorld GTimeDelay [labApproval]) (clockN (gateWorld GTimeDelay [labApproval])) = 1700000000000"
    by (simp_all add: gate_eval world_eval)
  with tick_deploys_through_open_gates [of "gateWorld GTimeDelay [labApproval]" acceptDeploy]
  show ?thesis by (simp add: acceptDeploy_def keeps_ret)
qed

end
