(* ===== verification/Js_Path.thy ===== *)
theory Js_Path
  imports Prelude
begin

text \<open>
  The functions of Node's \<open>path\<close> module (POSIX flavour) the sources use: \<open>normalize\<close>, \<open>join\<close> and
  \<open>basename\<close>, on character lists.
\<close>

text \<open>The segments of a path with \<open>.\<close> and \<open>..\<close> resolved; \<open>acc\<close> holds the kept ones, last first.\<close>

fun resolveSegs :: "bool \<Rightarrow> string list \<Rightarrow> string list \<Rightarrow> string list" where
  "resolveSegs up acc [] = rev acc"
| "resolveSegs up acc (s # ss) =
     (if s = [] \<or> s = ''.'' then resolveSegs up acc ss
      else if s = ''..'' then
        (case acc of
           a # as \<Rightarrow> if a \<noteq> ''..'' then resolveSegs up as ss
                     else resolveSegs up (if up then ''..'' # acc else acc) ss
         | [] \<Rightarrow> resolveSegs up (if up then [''..''] else []) ss)
      else resolveSegs up (s # acc) ss)"

definition isAbsolutePath :: "string \<Rightarrow> bool" where
  "isAbsolutePath p \<longleftrightarrow> (case p of c # _ \<Rightarrow> c = CHR ''/'' | [] \<Rightarrow> False)"

definition normalizePath :: "string \<Rightarrow> string" where
  "normalizePath p =
     (if p = [] then ''.''
      else
        let absolute = isAbsolutePath p; trailing = (last p = CHR ''/'');
            body = join_with ''/'' (resolveSegs (\<not> absolute) [] (split_on (CHR ''/'') p)) in
        if body = [] then (if absolute then ''/'' else if trailing then ''./'' else ''.'')
        else (if absolute then ''/'' else []) @ body @ (if trailing then ''/'' else []))"

definition joinPaths :: "string list \<Rightarrow> string" where
  "joinPaths ps = (let given = filter (\<lambda>p. p \<noteq> []) ps in if given = [] then ''.'' else normalizePath (join_with ''/'' given))"

definition baseName :: "string \<Rightarrow> string" where
  "baseName p = rev (takeWhile (\<lambda>c. c \<noteq> CHR ''/'') (dropWhile (\<lambda>c. c = CHR ''/'') (rev p)))"

end
