(* ===== verification/K8s.thy ===== *)
theory K8s
  imports Js Js_Path Repos_Catalog
begin

text \<open>
  The Kubernetes drivers (\<open>host/src/k8s\<close>): the argument vectors of \<open>kubectl\<close> and \<open>helm\<close>, the
  classification of their failures, the reading of their status output, and the executor that
  chooses between them.  Spawning a process, \<open>stat\<close> and \<open>JSON.parse\<close> are parameters.
\<close>

section \<open>The environment\<close>

datatype k8sBundleKind = HelmChart | Manifest

datatype k8sDriverErrorCode = KubectlFailed | KubectlNotFound | HelmFailed | HelmNotFound | BundlePathMissing
  | ClusterAuthFailed | NamespaceMissing

datatype k8sDriverError = K8sDriverError (k8s_code: k8sDriverErrorCode) (k8s_message: string)

record k8sExecResult =
  kx_stdout :: string
  kx_stderr :: string
  kx_exitCode :: int

text \<open>What an exec rejects with: \<open>ENOENT\<close>, or anything else, and its message.\<close>

datatype execFailure = Enoent string | ExecError string

datatype fileKind = IsFile | IsDirectory | IsOther

record 's k8sEnv =
  kn_exec :: "string \<Rightarrow> string list \<Rightarrow> int \<Rightarrow> 's \<Rightarrow> (execFailure + k8sExecResult) \<times> 's"
  kn_now :: "'s \<Rightarrow> int \<times> 's"
  kn_stat :: "string \<Rightarrow> fileKind option"
  kn_parse :: "string \<Rightarrow> json option"
  kn_kubectlBin :: string
  kn_helmBin :: string

type_synonym ('s, 'a) K = "('s, k8sDriverError, 'a) M"

definition k8sNow :: "'s k8sEnv \<Rightarrow> ('s, int) K" where
  "k8sNow env s = (let (t, s') = kn_now env s in (Inr t, s'))"

definition K8S_DEFAULT_TIMEOUT_MS :: int where
  "K8S_DEFAULT_TIMEOUT_MS = 300000"

definition K8S_DEFAULT_HEALTH_TIMEOUT_MS :: int where
  "K8S_DEFAULT_HEALTH_TIMEOUT_MS = 300000"

definition K8S_STDOUT_TAIL_BYTES :: nat where
  "K8S_STDOUT_TAIL_BYTES = 4096"

section \<open>Bundles\<close>

fun bundleKind_text :: "k8sBundleKind \<Rightarrow> string" where
  "bundleKind_text HelmChart = ''helm_chart''"
| "bundleKind_text Manifest = ''manifest''"

definition detectBundleKind :: "'s k8sEnv \<Rightarrow> string \<Rightarrow> ('s, k8sBundleKind) K" where
  "detectBundleKind env uri = (case kn_stat env uri of
       None \<Rightarrow> throwM (K8sDriverError BundlePathMissing (''bundle path does not exist: '' @ uri))
     | Some IsFile \<Rightarrow> ret Manifest
     | Some IsDirectory \<Rightarrow> ret (if kn_stat env (joinPaths [uri, ''Chart.yaml'']) = Some IsFile then HelmChart else Manifest)
     | Some IsOther \<Rightarrow> throwM (K8sDriverError BundlePathMissing (''bundle path is neither a file nor a directory: '' @ uri)))"

definition hasKustomization :: "'s k8sEnv \<Rightarrow> string \<Rightarrow> bool" where
  "hasKustomization env uri \<longleftrightarrow> kn_stat env uri = Some IsDirectory \<and>
     (kn_stat env (joinPaths [uri, ''kustomization.yaml'']) \<noteq> None \<or>
      kn_stat env (joinPaths [uri, ''kustomization.yml'']) \<noteq> None)"

section \<open>Argument vectors\<close>

definition contextAndNamespace :: "string \<Rightarrow> string option \<Rightarrow> string \<Rightarrow> string list" where
  "contextAndNamespace flag context namespace =
     (if truthy context then [flag, the context] else []) @ [''--namespace'', namespace]"

definition buildApplyArgs :: "'s k8sEnv \<Rightarrow> string \<Rightarrow> string \<Rightarrow> string option \<Rightarrow> string list" where
  "buildApplyArgs env bundleUri namespace context =
     [''apply''] @ contextAndNamespace ''--context'' context namespace @
     (if kn_stat env bundleUri = Some IsDirectory \<and> hasKustomization env bundleUri then [''-k'', bundleUri] else [''-f'', bundleUri])"

definition buildRollbackArgs :: "string \<Rightarrow> string \<Rightarrow> string option \<Rightarrow> int option \<Rightarrow> string list" where
  "buildRollbackArgs releaseId namespace context toRevision =
     [''rollout'', ''undo''] @ contextAndNamespace ''--context'' context namespace @ [releaseId] @
     (case toRevision of None \<Rightarrow> [] | Some n \<Rightarrow> [''--to-revision='' @ showInt n])"

definition buildStatusArgs :: "string \<Rightarrow> string option \<Rightarrow> string option \<Rightarrow> string list" where
  "buildStatusArgs namespace context selector =
     [''get'', ''deployments''] @ contextAndNamespace ''--context'' context namespace @
     (if truthy selector then [''-l'', the selector] else []) @ [''-o'', ''json'']"

text \<open>\<open>Math.max(1, Math.ceil(waitMs / 1000))\<close>.\<close>

definition waitSeconds :: "int \<Rightarrow> int" where
  "waitSeconds waitMs = max 1 (- ((- waitMs) div 1000))"

definition buildHealthArgs :: "string \<Rightarrow> string option \<Rightarrow> string option \<Rightarrow> int \<Rightarrow> string list" where
  "buildHealthArgs namespace context selector waitMs =
     [''wait'', ''--for=condition=Ready'', ''pod''] @ contextAndNamespace ''--context'' context namespace @
     (if truthy selector then [''-l'', the selector] else [''--all'']) @ [''--timeout='' @ showInt (waitSeconds waitMs) @ ''s'']"

definition buildHelmApplyArgs :: "string \<Rightarrow> string \<Rightarrow> string \<Rightarrow> string option \<Rightarrow> string list" where
  "buildHelmApplyArgs releaseName chartPath namespace context =
     [''upgrade'', ''--install'', releaseName, chartPath] @ contextAndNamespace ''--kube-context'' context namespace @ [''--create-namespace'']"

definition buildHelmRollbackArgs :: "string \<Rightarrow> string \<Rightarrow> string option \<Rightarrow> int option \<Rightarrow> string list" where
  "buildHelmRollbackArgs releaseName namespace context toRevision =
     [''rollback'', releaseName] @ (case toRevision of None \<Rightarrow> [] | Some n \<Rightarrow> [showInt n]) @
     contextAndNamespace ''--kube-context'' context namespace"

definition buildHelmStatusArgs :: "string \<Rightarrow> string \<Rightarrow> string option \<Rightarrow> string list" where
  "buildHelmStatusArgs releaseName namespace context =
     [''status'', releaseName] @ contextAndNamespace ''--kube-context'' context namespace @ [''-o'', ''json'']"

section \<open>Output\<close>

definition isYamlSuffix :: "string \<Rightarrow> nat option" where
  "isYamlSuffix s = (let l = toLowerCase s in
     if endsWith l ''.yaml'' then Some 5 else if endsWith l ''.yml'' then Some 4 else None)"

definition orSignalmanRelease :: "string \<Rightarrow> string" where
  "orSignalmanRelease base = (if base \<noteq> [] then base else ''signalman-release'')"

definition deriveReleaseName :: "string \<Rightarrow> string" where
  "deriveReleaseName bundleUri = (let base = baseName bundleUri in
     orSignalmanRelease (case isYamlSuffix base of None \<Rightarrow> base | Some k \<Rightarrow> take (length base - k) base))"

definition helmReleaseName :: "string \<Rightarrow> string" where
  "helmReleaseName bundleUri = orSignalmanRelease (baseName bundleUri)"

definition tailStdout :: "string \<Rightarrow> string" where
  "tailStdout s = (if length s \<le> K8S_STDOUT_TAIL_BYTES then s
     else [CHR 0xE2, CHR 0x80, CHR 0xA6] @ ''(truncated)'' @ drop (length s - K8S_STDOUT_TAIL_BYTES) s)"

text \<open>\<open>/namespaces?\s+"[^"]+"\s+not\s+found/i\<close>, with the whole text in lower case.\<close>

definition spaces :: "string \<Rightarrow> string option" where
  "spaces s = (case s of c # _ \<Rightarrow> if jsSpace c then Some (dropWhile jsSpace s) else None | [] \<Rightarrow> None)"

definition literal :: "string \<Rightarrow> string \<Rightarrow> string option" where
  "literal w s = (if startsWith s w then Some (drop (length w) s) else None)"

definition quotedName :: "string \<Rightarrow> string option" where
  "quotedName s = (case s of
       c # cs \<Rightarrow> (let body = takeWhile (\<lambda>x. x \<noteq> CHR 0x22) cs; rest = dropWhile (\<lambda>x. x \<noteq> CHR 0x22) cs in
         if c = CHR 0x22 \<and> body \<noteq> [] \<and> rest \<noteq> [] then Some (tl rest) else None)
     | [] \<Rightarrow> None)"

definition namespaceNotFoundHere :: "string \<Rightarrow> bool" where
  "namespaceNotFoundHere s =
     (case Option.bind (literal ''namespace'' s) (\<lambda>r. Option.bind (spaces (if startsWith r ''s'' then drop 1 r else r))
       (\<lambda>r. Option.bind (quotedName r) (\<lambda>r. Option.bind (spaces r) (\<lambda>r. Option.bind (literal ''not'' r)
       (\<lambda>r. Option.bind (spaces r) (literal ''found'')))))) of None \<Rightarrow> False | Some _ \<Rightarrow> True)"

fun namespaceNotFound :: "string \<Rightarrow> bool" where
  "namespaceNotFound [] = False"
| "namespaceNotFound (c # cs) = (namespaceNotFoundHere (c # cs) \<or> namespaceNotFound cs)"

definition classifyStderr :: "string \<Rightarrow> k8sDriverErrorCode option" where
  "classifyStderr stderr =
     (let lower = toLowerCase stderr in
      if includesStr lower ''unable to load credentials'' \<or> includesStr lower ''forbidden'' \<or> includesStr lower ''unauthorized'' \<or>
         includesStr lower ''the server has asked for the client to provide credentials'' \<or>
         includesStr lower ''error: you must be logged in to the server''
      then Some ClusterAuthFailed
      else if namespaceNotFound lower then Some NamespaceMissing
      else None)"

definition notFoundMessage :: "string \<Rightarrow> string \<Rightarrow> string \<Rightarrow> string \<Rightarrow> string" where
  "notFoundMessage tool bin url envVar = tool @ '' binary '' @ [CHR 0x27] @ bin @ [CHR 0x27] @ '' not found on PATH. Install '' @ tool
     @ '' ('' @ url @ '') or set '' @ envVar @ '' to an absolute path.''"

section \<open>The drivers\<close>

datatype k8sDriver = Kubectl | Helm

fun driver_text :: "k8sDriver \<Rightarrow> string" where
  "driver_text Kubectl = ''kubectl''"
| "driver_text Helm = ''helm''"

text \<open>One call of the injected exec, with a rejection turned into \<open>onFailure\<close>.\<close>

definition execTool :: "'s k8sEnv \<Rightarrow> string \<Rightarrow> string list \<Rightarrow> int \<Rightarrow> (execFailure \<Rightarrow> k8sDriverError) \<Rightarrow> ('s, k8sExecResult) K" where
  "execTool env bin args timeoutMs onFailure s = (case kn_exec env bin args timeoutMs s of
       (Inl e, s') \<Rightarrow> (Inl (onFailure e), s')
     | (Inr r, s') \<Rightarrow> (Inr r, s'))"

definition kubectlMissing :: "'s k8sEnv \<Rightarrow> k8sDriverError" where
  "kubectlMissing env = K8sDriverError KubectlNotFound
     (notFoundMessage ''kubectl'' (kn_kubectlBin env) ''https://kubernetes.io/docs/tasks/tools/'' ''SIGNALMAN_KUBECTL_BIN'')"

definition helmMissing :: "'s k8sEnv \<Rightarrow> k8sDriverError" where
  "helmMissing env = K8sDriverError HelmNotFound
     (notFoundMessage ''helm'' (kn_helmBin env) ''https://helm.sh/docs/intro/install/'' ''SIGNALMAN_HELM_BIN'')"

definition runKubectl :: "'s k8sEnv \<Rightarrow> string list \<Rightarrow> int \<Rightarrow> ('s, k8sExecResult) K" where
  "runKubectl env args timeoutMs =
     bindM (execTool env (kn_kubectlBin env) args timeoutMs (\<lambda>e. case e of
         Enoent _ \<Rightarrow> kubectlMissing env
       | ExecError m \<Rightarrow> K8sDriverError KubectlFailed (''kubectl exec failed: '' @ m))) (\<lambda>result.
     if kx_exitCode result \<noteq> 0 then
       throwM (K8sDriverError (orElse (classifyStderr (kx_stderr result)) KubectlFailed)
         (''kubectl exited '' @ showInt (kx_exitCode result) @ '': '' @ tailStdout (kx_stderr result)))
     else ret result)"

definition runHelm :: "'s k8sEnv \<Rightarrow> string list \<Rightarrow> int \<Rightarrow> ('s, k8sExecResult) K" where
  "runHelm env args timeoutMs =
     bindM (execTool env (kn_helmBin env) args timeoutMs (\<lambda>e. case e of
         Enoent _ \<Rightarrow> helmMissing env
       | ExecError m \<Rightarrow> K8sDriverError HelmFailed (''helm exec failed: '' @ m))) (\<lambda>result.
     if kx_exitCode result \<noteq> 0 then
       throwM (K8sDriverError (orElse (classifyStderr (kx_stderr result)) HelmFailed)
         (''helm exited '' @ showInt (kx_exitCode result) @ '': '' @ tailStdout (kx_stderr result)))
     else ret result)"

record k8sApplyResult =
  ka_releaseName :: string
  ka_namespace :: string
  ka_driver :: k8sDriver
  ka_bundleKind :: k8sBundleKind
  ka_stdoutTail :: string
  ka_durationMs :: int

record k8sRollbackResult =
  kr_releaseId :: string
  kr_namespace :: string
  kr_driver :: k8sDriver
  kr_toRevision :: "int option"
  kr_stdoutTail :: string
  kr_durationMs :: int

record k8sHealthResult =
  kh_namespace :: string
  kh_ready :: bool
  kh_detail :: "string option"
  kh_durationMs :: int

definition kubectlApply ::
  "'s k8sEnv \<Rightarrow> string \<Rightarrow> string \<Rightarrow> string option \<Rightarrow> string option \<Rightarrow> int option \<Rightarrow> ('s, k8sApplyResult) K" where
  "kubectlApply env bundleUri namespace context releaseName timeoutMs =
     bindM (detectBundleKind env bundleUri) (\<lambda>kind.
     if kind \<noteq> Manifest then throwM (K8sDriverError KubectlFailed (''KubectlDriver cannot apply a '' @ bundleKind_text kind
       @ '' bundle; dispatch through HelmDriver instead.''))
     else
       bindM (k8sNow env) (\<lambda>start.
       bindM (runKubectl env (buildApplyArgs env bundleUri namespace context) (orElse timeoutMs K8S_DEFAULT_TIMEOUT_MS)) (\<lambda>result.
       bindM (k8sNow env) (\<lambda>t.
       ret \<lparr>ka_releaseName = orElse releaseName (deriveReleaseName bundleUri), ka_namespace = namespace, ka_driver = Kubectl,
            ka_bundleKind = kind, ka_stdoutTail = tailStdout (kx_stdout result), ka_durationMs = t - start\<rparr>))))"

definition helmApply ::
  "'s k8sEnv \<Rightarrow> string \<Rightarrow> string \<Rightarrow> string option \<Rightarrow> string option \<Rightarrow> int option \<Rightarrow> ('s, k8sApplyResult) K" where
  "helmApply env bundleUri namespace context releaseName timeoutMs =
     bindM (detectBundleKind env bundleUri) (\<lambda>kind.
     if kind \<noteq> HelmChart then throwM (K8sDriverError HelmFailed (''HelmDriver cannot apply a '' @ bundleKind_text kind
       @ '' bundle; dispatch through KubectlDriver instead.''))
     else
       let name = orElse releaseName (helmReleaseName bundleUri) in
       bindM (k8sNow env) (\<lambda>start.
       bindM (runHelm env (buildHelmApplyArgs name bundleUri namespace context) (orElse timeoutMs K8S_DEFAULT_TIMEOUT_MS)) (\<lambda>result.
       bindM (k8sNow env) (\<lambda>t.
       ret \<lparr>ka_releaseName = name, ka_namespace = namespace, ka_driver = Helm,
            ka_bundleKind = kind, ka_stdoutTail = tailStdout (kx_stdout result), ka_durationMs = t - start\<rparr>))))"

definition kubectlRollback ::
  "'s k8sEnv \<Rightarrow> string \<Rightarrow> string \<Rightarrow> string option \<Rightarrow> int option \<Rightarrow> int option \<Rightarrow> ('s, k8sRollbackResult) K" where
  "kubectlRollback env releaseId namespace context toRevision timeoutMs =
     bindM (k8sNow env) (\<lambda>start.
     bindM (runKubectl env (buildRollbackArgs releaseId namespace context toRevision) (orElse timeoutMs K8S_DEFAULT_TIMEOUT_MS)) (\<lambda>result.
     bindM (k8sNow env) (\<lambda>t.
     ret \<lparr>kr_releaseId = releaseId, kr_namespace = namespace, kr_driver = Kubectl, kr_toRevision = toRevision,
          kr_stdoutTail = tailStdout (kx_stdout result), kr_durationMs = t - start\<rparr>)))"

definition helmRollback ::
  "'s k8sEnv \<Rightarrow> string \<Rightarrow> string \<Rightarrow> string option \<Rightarrow> int option \<Rightarrow> int option \<Rightarrow> ('s, k8sRollbackResult) K" where
  "helmRollback env releaseId namespace context toRevision timeoutMs =
     bindM (k8sNow env) (\<lambda>start.
     bindM (runHelm env (buildHelmRollbackArgs releaseId namespace context toRevision) (orElse timeoutMs K8S_DEFAULT_TIMEOUT_MS)) (\<lambda>result.
     bindM (k8sNow env) (\<lambda>t.
     ret \<lparr>kr_releaseId = releaseId, kr_namespace = namespace, kr_driver = Helm, kr_toRevision = toRevision,
          kr_stdoutTail = tailStdout (kx_stdout result), kr_durationMs = t - start\<rparr>)))"

definition kubectlHealth ::
  "'s k8sEnv \<Rightarrow> string \<Rightarrow> string option \<Rightarrow> string option \<Rightarrow> int option \<Rightarrow> ('s, k8sHealthResult) K" where
  "kubectlHealth env namespace context selector timeoutMs =
     (let waitMs = orElse timeoutMs K8S_DEFAULT_HEALTH_TIMEOUT_MS in
      bindM (k8sNow env) (\<lambda>start.
      bindM (execTool env (kn_kubectlBin env) (buildHealthArgs namespace context selector waitMs) (waitMs + 5000) (\<lambda>e. case e of
          Enoent _ \<Rightarrow> kubectlMissing env
        | ExecError m \<Rightarrow> K8sDriverError KubectlFailed (''kubectl wait exec failed: '' @ m))) (\<lambda>result.
      if kx_exitCode result = 0 then
        bindM (k8sNow env) (\<lambda>t. ret \<lparr>kh_namespace = namespace, kh_ready = True, kh_detail = None, kh_durationMs = t - start\<rparr>)
      else case classifyStderr (kx_stderr result) of
        Some code \<Rightarrow> throwM (K8sDriverError code (trim (kx_stderr result)))
      | None \<Rightarrow> bindM (k8sNow env) (\<lambda>t. ret \<lparr>kh_namespace = namespace, kh_ready = False,
          kh_detail = Some (tailStdout (if kx_stderr result \<noteq> [] then kx_stderr result else kx_stdout result)),
          kh_durationMs = t - start\<rparr>))))"

section \<open>Status\<close>

datatype workloadState = Healthy | Degraded | UnknownState

text \<open>The counts are whatever numbers the output holds.\<close>

record k8sWorkloadStatus =
  kw_name :: string
  kw_kind :: string
  kw_replicas :: rat
  kw_readyReplicas :: rat
  kw_availableReplicas :: rat
  kw_state :: workloadState

record k8sStatusResult =
  ks_namespace :: string
  ks_workloads :: "k8sWorkloadStatus list"
  ks_allHealthy :: bool

text \<open>The fields have the types the source declares; of another type they count as absent.\<close>

definition jpath :: "json \<Rightarrow> string list \<Rightarrow> json option" where
  "jpath j ks = foldl (\<lambda>acc k. Option.bind acc (\<lambda>v. jget v k)) (Some j) ks"

definition textAt :: "json \<Rightarrow> string list \<Rightarrow> string \<Rightarrow> string" where
  "textAt j ks dflt = (case jpath j ks of Some (JStr s) \<Rightarrow> s | _ \<Rightarrow> dflt)"

definition numAt :: "json \<Rightarrow> string list \<Rightarrow> rat" where
  "numAt j ks = (case jpath j ks of Some (JNum q) \<Rightarrow> q | _ \<Rightarrow> 0)"

definition workloadStateOf :: "rat \<Rightarrow> rat \<Rightarrow> workloadState" where
  "workloadStateOf replicas ready = (if replicas = 0 then UnknownState else if ready = replicas then Healthy else Degraded)"

definition deploymentWorkload :: "json \<Rightarrow> k8sWorkloadStatus option" where
  "deploymentWorkload item = (case item of
       JObj _ \<Rightarrow> (let replicas = numAt item [''status'', ''replicas'']; ready = numAt item [''status'', ''readyReplicas''] in
         Some \<lparr>kw_name = textAt item [''metadata'', ''name''] [], kw_kind = textAt item [''kind''] ''Deployment'',
           kw_replicas = replicas, kw_readyReplicas = ready, kw_availableReplicas = numAt item [''status'', ''availableReplicas''],
           kw_state = workloadStateOf replicas ready\<rparr>)
     | JArr _ \<Rightarrow> Some \<lparr>kw_name = [], kw_kind = ''Deployment'', kw_replicas = 0, kw_readyReplicas = 0, kw_availableReplicas = 0,
         kw_state = UnknownState\<rparr>
     | _ \<Rightarrow> None)"

definition parseDeploymentsJson :: "'s k8sEnv \<Rightarrow> string \<Rightarrow> k8sWorkloadStatus list" where
  "parseDeploymentsJson env stdout =
     (case Option.bind (if trim stdout = [] then None else kn_parse env (trim stdout)) (\<lambda>p. jget p ''items'') of
        Some (JArr items) \<Rightarrow> List.map_filter deploymentWorkload items
      | _ \<Rightarrow> [])"

definition helmState :: "string \<Rightarrow> workloadState" where
  "helmState status = (if status = ''deployed'' then Healthy else if startsWith status ''pending'' then UnknownState else Degraded)"

definition parseHelmStatusJson :: "'s k8sEnv \<Rightarrow> string \<Rightarrow> string \<Rightarrow> k8sWorkloadStatus option" where
  "parseHelmStatusJson env stdout releaseName =
     (let found = (\<lambda>p. Some \<lparr>kw_name = textAt p [''name''] releaseName, kw_kind = ''HelmRelease'', kw_replicas = 0, kw_readyReplicas = 0,
            kw_availableReplicas = 0, kw_state = helmState (toLowerCase (textAt p [''info'', ''status''] []))\<rparr>) in
      case (if trim stdout = [] then None else kn_parse env (trim stdout)) of
        Some (JObj kvs) \<Rightarrow> found (JObj kvs)
      | Some (JArr xs) \<Rightarrow> found (JArr xs)
      | _ \<Rightarrow> None)"

definition kubectlStatus :: "'s k8sEnv \<Rightarrow> string \<Rightarrow> string option \<Rightarrow> string option \<Rightarrow> int option \<Rightarrow> ('s, k8sStatusResult) K" where
  "kubectlStatus env namespace context selector timeoutMs =
     bindM (runKubectl env (buildStatusArgs namespace context selector) (orElse timeoutMs K8S_DEFAULT_TIMEOUT_MS)) (\<lambda>result.
     let workloads = parseDeploymentsJson env (kx_stdout result) in
     ret \<lparr>ks_namespace = namespace, ks_workloads = workloads,
          ks_allHealthy = (workloads \<noteq> [] \<and> list_all (\<lambda>w. kw_state w = Healthy) workloads)\<rparr>)"

definition helmStatus :: "'s k8sEnv \<Rightarrow> string \<Rightarrow> string option \<Rightarrow> string option \<Rightarrow> int option \<Rightarrow> ('s, k8sStatusResult) K" where
  "helmStatus env namespace context releaseName timeoutMs =
     (if \<not> truthy releaseName then throwM (K8sDriverError HelmFailed ''HelmDriver.status requires a releaseName'')
      else
        bindM (runHelm env (buildHelmStatusArgs (the releaseName) namespace context) (orElse timeoutMs K8S_DEFAULT_TIMEOUT_MS)) (\<lambda>result.
        let workload = parseHelmStatusJson env (kx_stdout result) (the releaseName) in
        ret \<lparr>ks_namespace = namespace, ks_workloads = (case workload of None \<Rightarrow> [] | Some w \<Rightarrow> [w]),
             ks_allHealthy = (case workload of None \<Rightarrow> False | Some w \<Rightarrow> kw_state w = Healthy)\<rparr>))"

section \<open>The executor\<close>

record runK8sDeployOptions =
  kd_bundleUri :: string
  kd_namespace :: string
  kd_context :: "string option"
  kd_releaseName :: "string option"
  kd_waitForHealth :: "bool option"
  kd_healthTimeoutMs :: "int option"

record runK8sDeployResult =
  kd_apply :: k8sApplyResult
  kd_health :: "k8sHealthResult option"
  kd_bundleKind :: k8sBundleKind

definition runK8sDeploy :: "'s k8sEnv \<Rightarrow> runK8sDeployOptions \<Rightarrow> ('s, runK8sDeployResult) K" where
  "runK8sDeploy env opts =
     bindM (detectBundleKind env (kd_bundleUri opts)) (\<lambda>kind.
     bindM ((if kind = HelmChart then helmApply else kubectlApply) env (kd_bundleUri opts) (kd_namespace opts) (kd_context opts)
       (kd_releaseName opts) None) (\<lambda>apply.
     bindM (if kd_waitForHealth opts \<noteq> Some False
            then bindM (kubectlHealth env (kd_namespace opts) (kd_context opts) None (kd_healthTimeoutMs opts)) (\<lambda>h. ret (Some h))
            else ret None) (\<lambda>health.
     ret \<lparr>kd_apply = apply, kd_health = health, kd_bundleKind = kind\<rparr>)))"

definition runK8sRollback ::
  "'s k8sEnv \<Rightarrow> string \<Rightarrow> string \<Rightarrow> string option \<Rightarrow> int option \<Rightarrow> k8sDriver option \<Rightarrow> ('s, k8sRollbackResult) K" where
  "runK8sRollback env releaseId namespace context toRevision driver =
     (if orElse driver Kubectl = Helm then helmRollback else kubectlRollback) env releaseId namespace context toRevision None"

definition runK8sStatus ::
  "'s k8sEnv \<Rightarrow> string \<Rightarrow> string option \<Rightarrow> string option \<Rightarrow> string option \<Rightarrow> k8sDriver option \<Rightarrow> ('s, k8sStatusResult) K" where
  "runK8sStatus env namespace context selector releaseName driver =
     (if orElse driver Kubectl = Helm then
        if \<not> truthy releaseName then throwM (K8sDriverError HelmFailed (''runK8sStatus(driver='' @ [CHR 0x27] @ ''helm'' @ [CHR 0x27] @ '') requires releaseName''))
        else helmStatus env namespace context releaseName None
      else kubectlStatus env namespace context selector None)"

definition runK8sHealth ::
  "'s k8sEnv \<Rightarrow> string \<Rightarrow> string option \<Rightarrow> string option \<Rightarrow> int option \<Rightarrow> ('s, k8sHealthResult) K" where
  "runK8sHealth env namespace context selector timeoutMs = kubectlHealth env namespace context selector timeoutMs"

section \<open>The wait and the process that carries it\<close>

lemma keeps_execTool:
  assumes "keeps I (kn_exec env b a t)"
  shows "keeps I (execTool env b a t h)"
proof (rule keepsI)
  fix s assume "I s"
  with keepsD [OF assms, of s] show "I (snd (execTool env b a t h s))"
    by (auto simp: execTool_def split: prod.splits sum.splits)
qed

lemma keeps_k8sNow: "(\<And>s. I s \<Longrightarrow> I (snd (kn_now env s))) \<Longrightarrow> keeps I (k8sNow env)"
  by (auto simp: keeps_def k8sNow_def case_prod_beta Let_def)

lemma waitSeconds_bounds:
  "1 \<le> waitSeconds m" "m \<le> waitSeconds m * 1000" "- 4000 < m \<Longrightarrow> waitSeconds m * 1000 < m + 5000"
  by (auto simp: waitSeconds_def max_def)

text \<open>
  C29. A health wait is cut by its own deadline.  The one process the health check starts is told on
  its command line to wait a whole number of seconds, at least one and no less than the timeout the
  caller asked for, and the process itself is given strictly more time than that: whatever the tool
  keeps when it is called in this way, the health check keeps.  So a wait that runs out is reported
  by the tool as pods that are not ready, and not as a killed process.
\<close>

theorem health_wait_within_process_timeout:
  assumes "- 4000 < orElse timeoutMs K8S_DEFAULT_HEALTH_TIMEOUT_MS" and "\<And>s. I s \<Longrightarrow> I (snd (kn_now env s))"
    and "\<And>args n t. last args = ''--timeout='' @ showInt n @ ''s'' \<Longrightarrow> 1 \<le> n \<Longrightarrow>
       orElse timeoutMs K8S_DEFAULT_HEALTH_TIMEOUT_MS \<le> n * 1000 \<Longrightarrow> n * 1000 < t \<Longrightarrow> keeps I (kn_exec env (kn_kubectlBin env) args t)"
  shows "keeps I (kubectlHealth env namespace context selector timeoutMs)"
proof -
  have "last (buildHealthArgs namespace context selector m) = ''--timeout='' @ showInt (waitSeconds m) @ ''s''" for m
    by (simp add: buildHealthArgs_def)
  then have "keeps I (kn_exec env (kn_kubectlBin env) (buildHealthArgs namespace context selector m) (m + 5000))"
    if "m = orElse timeoutMs K8S_DEFAULT_HEALTH_TIMEOUT_MS" for m
    using assms(1,3) waitSeconds_bounds [of m] that by auto
  then show ?thesis
    unfolding kubectlHealth_def Let_def
    by (auto intro!: keeps_intros keeps_execTool keeps_k8sNow assms(2) split: option.split)
qed

text \<open>A tool that writes down how it is called.\<close>

definition recordedWaits :: "(string list \<times> int) list k8sEnv" where
  "recordedWaits = \<lparr>kn_exec = (\<lambda>_ args t s. (Inr \<lparr>kx_stdout = [], kx_stderr = [], kx_exitCode = 1\<rparr>, s @ [(args, t)])), kn_now = (\<lambda>s. (0, s)),
     kn_stat = (\<lambda>_. None), kn_parse = (\<lambda>_. None), kn_kubectlBin = ''kubectl'', kn_helmBin = ''helm''\<rparr>"

theorem health_wait_within_process_timeout_witness:
  "snd (kubectlHealth recordedWaits ''prod'' None None (Some 1500) []) \<in> lists {(args, t) | args n t. last args = ''--timeout='' @ showInt n @ ''s'' \<and> 1500 \<le> n * 1000 \<and> n * 1000 < t}"
proof -
  let ?I = "\<lambda>s. s \<in> lists {(args, t) | args n t. last args = ''--timeout='' @ showInt n @ ''s'' \<and> 1500 \<le> n * 1000 \<and> n * 1000 < t}"
  have "keeps ?I (kubectlHealth recordedWaits ''prod'' None None (Some 1500))"
    by (rule health_wait_within_process_timeout) (auto simp: recordedWaits_def keeps_def)
  then show ?thesis by (rule keepsD) simp
qed

end
