(* ===== verification/Cloud_Types.thy ===== *)
theory Cloud_Types
  imports Js Types
begin

text \<open>
  The vocabulary of the cloud layer (\<open>cloud/types.ts\<close>): providers, network modes, the handle of an
  instance and what a caller asks for.  Tags are the entries of an object in their order.
\<close>

datatype cloudProvider = Aws | Azure

datatype networkMode = PublicMtls | AwsSsm | AzureBastion

fun provider_text :: "cloudProvider \<Rightarrow> string" where
  "provider_text Aws = ''aws''"
| "provider_text Azure = ''azure''"

fun networkMode_text :: "networkMode \<Rightarrow> string" where
  "networkMode_text PublicMtls = ''public_mtls''"
| "networkMode_text AwsSsm = ''aws_ssm''"
| "networkMode_text AzureBastion = ''azure_bastion''"

record cloudInstanceHandle =
  ch_id :: string
  ch_backend :: cloudProvider
  ch_name :: string
  ch_region :: string
  ch_tags :: "(string \<times> string) list option"
  ch_networkMode :: "networkMode option"

record instanceNetwork =
  in_subnetId :: "string option"
  in_securityGroupIds :: "string list option"
  in_assignPublicIp :: "bool option"
  in_mode :: "networkMode option"

record cloudInstanceConfig =
  ic_region :: string
  ic_instanceType :: string
  ic_imageRef :: string
  ic_name :: string
  ic_orgId :: "string option"
  ic_ttlMinutes :: "int option"
  ic_sshPublicKey :: "string option"
  ic_tags :: "(string \<times> string) list option"
  ic_network :: "instanceNetwork option"

definition DEFAULT_INSTANCE_TTL_MINUTES :: int where
  "DEFAULT_INSTANCE_TTL_MINUTES = 60"

definition SIGNALMAN_MANAGED_TAG_KEY :: string where
  "SIGNALMAN_MANAGED_TAG_KEY = ''signalman-managed''"

definition SIGNALMAN_ORG_TAG_KEY :: string where
  "SIGNALMAN_ORG_TAG_KEY = ''signalman-org''"

definition SIGNALMAN_MANAGED_TAG_VALUE :: string where
  "SIGNALMAN_MANAGED_TAG_VALUE = ''true''"

definition SIGNALMAN_TTL_EXPIRES_AT_TAG_KEY :: string where
  "SIGNALMAN_TTL_EXPIRES_AT_TAG_KEY = ''signalman-ttl-expires-at''"

definition SIGNALMAN_TTL_MINUTES_TAG_KEY :: string where
  "SIGNALMAN_TTL_MINUTES_TAG_KEY = ''signalman-ttl-minutes''"

end
