(* ===== verification/Adapters.thy ===== *)
theory Adapters
  imports Release_Verbs Deploy_Facts K8s Cloud_Types
begin

text \<open>
  The deploy paths of \<open>verbs/control-plane.ts\<close> for the targets that are not virtual machines on a
  hypervisor: Kubernetes, a cloud instance and an OpenTofu stack.  They keep the deployment row the
  way the executor does.  The drivers of the cloud side (the SDK calls, the tunnels, the TCP probe,
  the bundle installer and \<open>tofu\<close>) are parameters; progress output is left out, and so is the
  quoted value at the end of two messages on a malformed connection.
\<close>

section \<open>What the paths share\<close>

definition readyRelease :: "string \<Rightarrow> ('z, release) DB" where
  "readyRelease releaseId =
     bindM (bindM (release_get releaseId) (require (''release not found: '' @ releaseId))) (\<lambda>release.
     if r_status release \<noteq> RReady
     then fail (''release '' @ r_id release @ '' is not ready (status='' @ releaseStatus_text (r_status release) @ '')'')
     else ret release)"

definition rowCtx :: "string \<Rightarrow> string \<Rightarrow> release \<Rightarrow> target \<Rightarrow> artifact list \<Rightarrow> deployment option \<Rightarrow> deployment \<Rightarrow> deployCtx" where
  "rowCtx orgId actor release target arts prev d =
     \<lparr>c_orgId = orgId, c_actor = actor, c_root = [], c_release = release, c_target = target, c_artifacts = arts,
      c_previous = prev, c_deployment = d, c_handle = [], c_checkpoint = []\<rparr>"

text \<open>Create the row, audit the start, mark it deploying.\<close>

definition rowStart ::
  "string \<Rightarrow> string \<Rightarrow> release \<Rightarrow> target \<Rightarrow> artifact list \<Rightarrow> deployment option \<Rightarrow> (string \<times> json) list \<Rightarrow> ('z, deployCtx) DB" where
  "rowStart orgId actor release target arts prev extra =
     bindM (deployment_create orgId (r_id release) (t_id target) (map_option d_id prev)) (\<lambda>d.
     bindM (audit_append orgId actor ''release.deploy.started'' ''deployment'' (d_id d)
       (Some (JObj ([(''releaseId'', JStr (r_id release)), (''targetId'', JStr (t_id target)),
         (''kind'', JStr (targetKind_text (t_kind target)))] @ extra)))) (\<lambda>_.
     bindM nowIso (\<lambda>startedAt.
     bindM (deployment_update (d_id d) \<lparr>dp_status = Some DDeploying, dp_startedAt = Some startedAt, dp_completedAt = None,
       dp_healthSummary = None\<rparr>) (\<lambda>_.
     ret (rowCtx orgId actor release target arts prev d)))))"

definition completedAudit :: "deployCtx \<Rightarrow> (string \<times> json) list \<Rightarrow> ('z, unit) DB" where
  "completedAudit c extra =
     bindM (audit_append (c_orgId c) (c_actor c) ''release.deploy.completed'' ''deployment'' (d_id (c_deployment c))
       (Some (JObj (auditDetail c @ (case c_previous c of None \<Rightarrow> [] | Some p \<Rightarrow> [(''supersededId'', JStr (d_id p))]) @ extra))))
       (\<lambda>_. ret ())"

definition failedAudit :: "deployCtx \<Rightarrow> (string \<times> json) list \<Rightarrow> string \<Rightarrow> ('z, unit) DB" where
  "failedAudit c extra m =
     bindM (audit_append (c_orgId c) (c_actor c) ''release.deploy.failed'' ''deployment'' (d_id (c_deployment c))
       (Some (JObj (auditDetail c @ extra @ [(''error'', JStr m)])))) (\<lambda>_. ret ())"

definition failedPatch :: "string \<Rightarrow> healthSummary option \<Rightarrow> deploymentPatch" where
  "failedPatch t summary = \<lparr>dp_status = Some DFailed, dp_startedAt = None, dp_completedAt = Some t,
     dp_healthSummary = map_option Some summary\<rparr>"

text \<open>The catch block: mark the row failed unless it is, audit, rethrow.\<close>

definition rowFail :: "deployCtx \<Rightarrow> (string \<times> json) list \<Rightarrow> err \<Rightarrow> ('z, 'a) DB" where
  "rowFail c extra e =
     bindM (deployment_get (d_id (c_deployment c))) (\<lambda>current.
     bindM (if (case current of None \<Rightarrow> False | Some d \<Rightarrow> d_status d \<noteq> DFailed) then
              bindM nowIso (\<lambda>t.
              bindM (deployment_update (d_id (c_deployment c)) (failedPatch t None)) (\<lambda>_.
              failedAudit c extra (err_message e)))
            else ret ()) (\<lambda>_.
     throwM e))"

definition rowResult :: "deployCtx \<Rightarrow> deployment \<Rightarrow> healthSummary \<Rightarrow> deployResult" where
  "rowResult c finalized summary = \<lparr>x_deployment = finalized, x_release = c_release c, x_target = c_target c,
     x_artifacts = c_artifacts c, x_healthSummary = summary\<rparr>"

definition healthCounts :: "nat \<Rightarrow> nat \<Rightarrow> nat \<Rightarrow> string \<Rightarrow> healthSummary" where
  "healthCounts n p f t = \<lparr>s_total = n, s_pass = p, s_fail = f, s_degraded = 0, s_lastCheckedAt = Some t\<rparr>"

section \<open>Kubernetes\<close>

record k8sConnection =
  kc_bundleUri :: string
  kc_namespace :: string
  kc_clusterContext :: "string option"
  kc_releaseName :: "string option"

definition textField :: "json \<Rightarrow> string \<Rightarrow> string option" where
  "textField j k = (case jget j k of Some (JStr s) \<Rightarrow> Some s | _ \<Rightarrow> None)"

definition readK8sConnection :: "target \<Rightarrow> ('s, err, k8sConnection) M" where
  "readK8sConnection target =
     (let c = t_connection target in
      if \<not> truthy (textField c ''bundleUri'') then fail (''k8s target '' @ quoted (t_name target) @ '' missing connection.bundleUri'')
      else if \<not> truthy (textField c ''namespace'') then fail (''k8s target '' @ quoted (t_name target) @ '' missing connection.namespace'')
      else ret \<lparr>kc_bundleUri = the (textField c ''bundleUri''), kc_namespace = the (textField c ''namespace''),
                kc_clusterContext = textField c ''clusterContext'', kc_releaseName = textField c ''releaseName''\<rparr>)"

text \<open>A driver error as the verbs see it.\<close>

definition liftK8s :: "('s, 'a) K \<Rightarrow> ('s, err, 'a) M" where
  "liftK8s m s = (case m s of (Inl e, s') \<Rightarrow> (Inl (NamedError ''K8sDriverError'' (k8s_message e)), s') | (Inr x, s') \<Rightarrow> (Inr x, s'))"

definition k8sBody :: "'z dworld_scheme k8sEnv \<Rightarrow> k8sConnection \<Rightarrow> deployCtx \<Rightarrow> ('z, deployResult) DM" where
  "k8sBody env conn c =
     bindM (liftK8s (runK8sDeploy env \<lparr>kd_bundleUri = kc_bundleUri conn, kd_namespace = kc_namespace conn,
       kd_context = kc_clusterContext conn, kd_releaseName = kc_releaseName conn, kd_waitForHealth = None, kd_healthTimeoutMs = None\<rparr>)) (\<lambda>result.
     let up = (case kd_health result of None \<Rightarrow> True | Some h \<Rightarrow> kh_ready h);
         detail = (case kd_health result of None \<Rightarrow> None | Some h \<Rightarrow> kh_detail h) in
     bindM (healthCheck_append (d_id (c_deployment c)) ''k8s_pods_ready'' (if up then HPass else HFail) None
       (Some (orElse detail (''applied via '' @ driver_text (ka_driver (kd_apply result)))))) (\<lambda>_.
     bindM nowIso (\<lambda>checkedAt.
     let summary = healthCounts 1 (if up then 1 else 0) (if up then 0 else 1) checkedAt in
     if \<not> up then
       bindM nowIso (\<lambda>t.
       bindM (deployment_update (d_id (c_deployment c)) (failedPatch t (Some summary))) (\<lambda>_.
       bindM (failedAudit c [] (orElse detail ''pods not ready'')) (\<lambda>_.
       fail (''k8s health check failed: '' @ orElse detail ''pods not ready''))))
     else
       bindM (deployPromote c summary) (\<lambda>finalized.
       bindM (completedAudit c [(''bundleKind'', JStr (bundleKind_text (kd_bundleKind result))),
         (''driver'', JStr (driver_text (ka_driver (kd_apply result))))]) (\<lambda>_.
       ret (rowResult c finalized summary))))))"

definition runK8sReleaseDeploy ::
  "'z dworld_scheme k8sEnv \<Rightarrow> string \<Rightarrow> string \<Rightarrow> target \<Rightarrow> string option \<Rightarrow> ('z, deployResult) DM" where
  "runK8sReleaseDeploy env orgId releaseId target actor =
     bindM (readyRelease releaseId) (\<lambda>release.
     bindM (readK8sConnection target) (\<lambda>conn.
     bindM (artifact_listForRelease (r_id release)) (\<lambda>arts.
     bindM (deployment_getActiveForTarget (t_id target)) (\<lambda>prev.
     bindM (rowStart orgId (orElse actor ''cli'') release target arts prev []) (\<lambda>c.
     catchM (k8sBody env conn c) (rowFail c []))))))"

definition runK8sReleaseRollback ::
  "'z dworld_scheme k8sEnv \<Rightarrow> string \<Rightarrow> target \<Rightarrow> string option \<Rightarrow> string option \<Rightarrow> ('z, deployResult) DM" where
  "runK8sReleaseRollback env orgId target toReleaseId actor =
     bindM (bindM (deployment_getActiveForTarget (t_id target))
       (require (''no active deployment on k8s target '' @ quoted (t_name target) @ '' to roll back''))) (\<lambda>active.
     bindM (bindM (release_get (d_releaseId active)) (require (''active deployment '' @ d_id active @ '' references missing release''))) (\<lambda>release.
     bindM (readK8sConnection target) (\<lambda>conn.
     bindM (artifact_listForRelease (r_id release)) (\<lambda>arts.
     bindM (liftK8s (runK8sRollback env (''deployment/'' @ (if truthy (kc_releaseName conn) then the (kc_releaseName conn) else r_id release))
       (kc_namespace conn) (kc_clusterContext conn) None None)) (\<lambda>_.
     bindM nowIso (\<lambda>t.
     bindM (deployment_update (d_id active) \<lparr>dp_status = Some DRolledBack, dp_startedAt = None, dp_completedAt = Some t,
       dp_healthSummary = None\<rparr>) (\<lambda>_.
     bindM (audit_append orgId (orElse actor ''cli-rollback'') ''release.rollback.completed'' ''deployment'' (d_id active)
       (Some (JObj [(''releaseId'', JStr (r_id release)), (''targetId'', JStr (t_id target)), (''driver'', JStr ''kubectl'')]))) (\<lambda>_.
     bindM (deployment_get (d_id active)) (\<lambda>finalized.
     ret \<lparr>x_deployment = orElse finalized active, x_release = release, x_target = target, x_artifacts = arts,
          x_healthSummary = orElse (d_healthSummary active)
            \<lparr>s_total = 0, s_pass = 0, s_fail = 0, s_degraded = 0, s_lastCheckedAt = None\<rparr>\<rparr>)))))))))"

section \<open>Cloud instances\<close>

record cloudVmConnection =
  cv_provider :: cloudProvider
  cv_region :: string
  cv_instanceId :: string
  cv_name :: string
  cv_networkMode :: "networkMode option"
  cv_port :: "int option"
  cv_bundlePath :: "string option"
  cv_tunnel :: "json option"

definition readProvider :: "json \<Rightarrow> cloudProvider option" where
  "readProvider c = (case jget c ''provider'' of
       Some (JStr s) \<Rightarrow> if s = ''aws'' then Some Aws else if s = ''azure'' then Some Azure else None
     | _ \<Rightarrow> None)"

text \<open>An optional field: \<open>None\<close> is malformed, \<open>Some None\<close> absent.\<close>

definition readNetworkMode :: "json \<Rightarrow> networkMode option option" where
  "readNetworkMode c = (case jget c ''network_mode'' of
       None \<Rightarrow> Some None
     | Some v \<Rightarrow> if v = JStr ''public_mtls'' then Some (Some PublicMtls) else if v = JStr ''aws_ssm'' then Some (Some AwsSsm)
         else if v = JStr ''azure_bastion'' then Some (Some AzureBastion) else None)"

definition readPort :: "json \<Rightarrow> int option option" where
  "readPort c = (case jget c ''guest_agent_port'' of
       None \<Rightarrow> Some None
     | Some (JNum q) \<Rightarrow> if snd (quotient_of q) = 1 \<and> 1 \<le> q \<and> q \<le> 65535 then Some (Some (fst (quotient_of q))) else None
     | Some _ \<Rightarrow> None)"

definition readOptionalText :: "json \<Rightarrow> string \<Rightarrow> string option option" where
  "readOptionalText c k = (case jget c k of
       None \<Rightarrow> Some None
     | Some (JStr s) \<Rightarrow> if s = [] then None else Some (Some s)
     | Some _ \<Rightarrow> None)"

definition readOptionalObject :: "json \<Rightarrow> string \<Rightarrow> json option option" where
  "readOptionalObject c k = (case jget c k of
       None \<Rightarrow> Some None
     | Some (JObj kvs) \<Rightarrow> Some (Some (JObj kvs))
     | Some _ \<Rightarrow> None)"

definition readCloudVmConnection :: "target \<Rightarrow> ('s, err, cloudVmConnection) M" where
  "readCloudVmConnection target =
     (let c = t_connection target; pre = ''cloud_vm target '' @ quoted (t_name target) @ '': connection.'' in
      case readProvider c of
        None \<Rightarrow> fail (pre @ ''provider must be '' @ quoted ''aws'' @ '' or '' @ quoted ''azure'')
      | Some provider \<Rightarrow>
          if \<not> truthy (textField c ''region'') then fail (pre @ ''region must be a non-empty string'')
          else if \<not> truthy (textField c ''instance_id'') then fail (pre @ ''instance_id must be a non-empty string'')
          else if \<not> truthy (textField c ''name'') then fail (pre @ ''name must be a non-empty string'')
          else case readNetworkMode c of
            None \<Rightarrow> fail (pre @ ''network_mode must be one of public_mtls / aws_ssm / azure_bastion'')
          | Some mode \<Rightarrow> (case readPort c of
              None \<Rightarrow> fail (pre @ ''guest_agent_port must be an integer in [1, 65535]'')
            | Some port \<Rightarrow> (case readOptionalText c ''install_bundle_path'' of
                None \<Rightarrow> fail (pre @ ''install_bundle_path must be a non-empty string when set'')
              | Some path \<Rightarrow> (case readOptionalObject c ''tunnel_options'' of
                  None \<Rightarrow> fail (pre @ ''tunnel_options must be a JSON object when set'')
                | Some tunnel \<Rightarrow> ret \<lparr>cv_provider = provider, cv_region = the (textField c ''region''),
                    cv_instanceId = the (textField c ''instance_id''), cv_name = the (textField c ''name''),
                    cv_networkMode = mode, cv_port = port, cv_bundlePath = path, cv_tunnel = tunnel\<rparr>))))"

text \<open>JavaScript truth of a decoded value.\<close>

fun jsTruthy :: "json option \<Rightarrow> bool" where
  "jsTruthy None = False"
| "jsTruthy (Some JNull) = False"
| "jsTruthy (Some (JBool b)) = b"
| "jsTruthy (Some (JNum q)) = (q \<noteq> 0)"
| "jsTruthy (Some (JStr s)) = (s \<noteq> [])"
| "jsTruthy (Some (JArr _)) = True"
| "jsTruthy (Some (JObj _)) = True"

datatype connectionDescriptor =
    DescPublicMtls int "string option"
  | DescAwsSsm string string int "json option"
  | DescAzureBastion json json string int json

definition getConnectionDescriptor ::
  "cloudInstanceHandle \<Rightarrow> int option \<Rightarrow> json option \<Rightarrow> json option \<Rightarrow> json option \<Rightarrow> json option \<Rightarrow> ('s, err, connectionDescriptor) M" where
  "getConnectionDescriptor handle port0 subscriptionId resourceGroup awsProfile bastionName =
     (let port = orElse port0 443 in
      case orElse (ch_networkMode handle) PublicMtls of
        PublicMtls \<Rightarrow> ret (DescPublicMtls port None)
      | AwsSsm \<Rightarrow>
          if ch_backend handle \<noteq> Aws then
            fail (''network mode '' @ quoted ''aws_ssm'' @ '' is only valid for AWS handles; got handle backend='' @ provider_text (ch_backend handle))
          else ret (DescAwsSsm (ch_region handle) (ch_id handle) port (if jsTruthy awsProfile then awsProfile else None))
      | AzureBastion \<Rightarrow>
          if ch_backend handle \<noteq> Azure then
            fail (''network mode '' @ quoted ''azure_bastion'' @ '' is only valid for Azure handles; got handle backend='' @ provider_text (ch_backend handle))
          else if \<not> jsTruthy subscriptionId then
            fail (''azure_bastion connection descriptor requires opts.subscriptionId (handle alone doesn''
              @ [CHR 0x27] @ ''t carry it '' @ emDash @ '' pass it from the Azure backend'' @ [CHR 0x27] @ ''s known config).'')
          else if \<not> jsTruthy resourceGroup then
            fail (''azure_bastion connection descriptor requires opts.resourceGroup (handle alone doesn''
              @ [CHR 0x27] @ ''t carry it '' @ emDash @ '' pass it from the Azure backend'' @ [CHR 0x27] @ ''s known config).'')
          else if \<not> jsTruthy bastionName then
            fail (''azure_bastion connection descriptor requires opts.bastionName (`az network bastion tunnel` needs the Bastion host name; ''
              @ ''a resource group can hold multiple Bastions so it can'' @ [CHR 0x27] @ ''t be inferred).'')
          else ret (DescAzureBastion (the subscriptionId) (the resourceGroup) (ch_name handle) port (the bastionName)))"

fun withResolvedHost :: "connectionDescriptor \<Rightarrow> string \<Rightarrow> connectionDescriptor" where
  "withResolvedHost (DescPublicMtls port _) host = DescPublicMtls port (Some host)"
| "withResolvedHost d host = d"

datatype packageStatus = Installed | Skipped | FailedPackage

fun packageStatus_text :: "packageStatus \<Rightarrow> string" where
  "packageStatus_text Installed = ''installed''"
| "packageStatus_text Skipped = ''skipped''"
| "packageStatus_text FailedPackage = ''failed''"

record packageResult =
  pk_package :: string
  pk_source :: string
  pk_status :: packageStatus
  pk_error :: "string option"
  pk_durationMs :: int

record installResult =
  ir_totalPackages :: nat
  ir_installed :: nat
  ir_skipped :: nat
  ir_failed :: nat
  ir_perPackage :: "packageResult list"

record tofuResult =
  tf_outputs :: json
  tf_add :: int
  tf_change :: int
  tf_destroy :: int
  tf_durationMs :: int

text \<open>
  The lookup of the cloud backend, its \<open>getInstanceIp\<close>, the dialer (its result is the local port) and its \<open>close\<close>, the
  TCP probe, the bundle file read and parsed, the installer, and \<open>TofuDriver.applyModule\<close>.
\<close>

record 'z cloudEnv =
  ce_getCloudBackend :: "cloudProvider \<Rightarrow> ('z, unit) DM"
  ce_getInstanceIp :: "cloudProvider \<Rightarrow> cloudInstanceHandle \<Rightarrow> ('z, string option) DM"
  ce_dial :: "connectionDescriptor \<Rightarrow> ('z, int) DM"
  ce_close :: "int \<Rightarrow> ('z, unit) DM"
  ce_probe :: "string \<Rightarrow> int \<Rightarrow> ('z, bool \<times> string) DM"
  ce_bundle :: "string \<Rightarrow> ('z, json) DM"
  ce_install :: "string \<Rightarrow> int \<Rightarrow> json \<Rightarrow> string \<Rightarrow> ('z, installResult) DM"
  ce_applyModule :: "string \<Rightarrow> string \<Rightarrow> (string \<times> json) list \<Rightarrow> ('z, tofuResult) DM"

definition tunnelOption :: "cloudVmConnection \<Rightarrow> string \<Rightarrow> json option" where
  "tunnelOption conn k = (case cv_tunnel conn of None \<Rightarrow> None | Some t \<Rightarrow> jget t k)"

definition checkTunnel :: "cloudVmConnection \<Rightarrow> ('s, err, unit) M" where
  "checkTunnel conn =
     (if orElse (cv_networkMode conn) PublicMtls = AzureBastion \<and>
         (\<not> jsTruthy (tunnelOption conn ''azure_bastion_name'') \<or> \<not> jsTruthy (tunnelOption conn ''azure_subscription_id'') \<or>
          \<not> jsTruthy (tunnelOption conn ''azure_resource_group''))
      then fail (''cloud_vm deploy: network_mode='' @ quoted ''azure_bastion'' @ '' requires connection.tunnel_options.''
        @ [CHR 0x7B] @ ''azure_bastion_name, azure_subscription_id, azure_resource_group'' @ [CHR 0x7D]
        @ ''. The Bastion host name is not inferable from the cloud handle alone '' @ emDash @ '' set it on the target row.'')
      else ret ())"

text \<open>The address to dial, and the tunnel that was opened for it.\<close>

definition openPath :: "'z cloudEnv \<Rightarrow> cloudVmConnection \<Rightarrow> ('z, string \<times> int \<times> int option) DM" where
  "openPath env conn =
     (let mode = orElse (cv_networkMode conn) PublicMtls; port = orElse (cv_port conn) 443;
          handle = \<lparr>ch_id = cv_instanceId conn, ch_backend = cv_provider conn, ch_name = cv_name conn, ch_region = cv_region conn,
            ch_tags = None, ch_networkMode = Some mode\<rparr> in
      bindM (ce_getCloudBackend env (cv_provider conn)) (\<lambda>_.
      if mode = PublicMtls then
        bindM (ce_getInstanceIp env (cv_provider conn) handle) (\<lambda>ip.
        if \<not> truthy ip then
          fail (''cloud_vm deploy: backend returned no public IP for '' @ cv_instanceId conn
            @ '' (instance may not be running or may have no public network interface)'')
        else ret (the ip, port, None))
      else
        bindM (getConnectionDescriptor handle (Some port) (tunnelOption conn ''azure_subscription_id'')
          (tunnelOption conn ''azure_resource_group'') (tunnelOption conn ''aws_profile'') (tunnelOption conn ''azure_bastion_name'')) (\<lambda>desc.
        bindM (ce_dial env desc) (\<lambda>localPort. ret (''127.0.0.1'', localPort, Some localPort)))))"

definition closeTunnel :: "'z cloudEnv \<Rightarrow> int option \<Rightarrow> ('z, unit) DM" where
  "closeTunnel env tunnel = (case tunnel of None \<Rightarrow> ret () | Some p \<Rightarrow> tryM (ce_close env p))"

definition packageDetail :: "packageResult \<Rightarrow> string" where
  "packageDetail pkg = (if truthy (pk_error pkg) then pk_source pkg @ '': '' @ the (pk_error pkg)
     else pk_source pkg @ '': '' @ packageStatus_text (pk_status pkg) @ '' ('' @ showInt (pk_durationMs pkg) @ ''ms)'')"

definition recordPackages :: "string \<Rightarrow> packageResult list \<Rightarrow> ('z, unit) DB" where
  "recordPackages deploymentId pkgs = foldM (\<lambda>_ pkg.
     bindM (healthCheck_append deploymentId (''install:'' @ pk_package pkg)
       (if pk_status pkg = Installed \<or> pk_status pkg = Skipped then HPass else HFail) None (Some (packageDetail pkg))) (\<lambda>_. ret ())) () pkgs"

definition installFailure :: "installResult \<Rightarrow> string" where
  "installFailure r = ''install-bundle failed: '' @ showNat (ir_failed r) @ ''/'' @ showNat (ir_totalPackages r)
     @ '' packages errored (first failure: ''
     @ orElse (Option.bind (find (\<lambda>p. pk_status p = FailedPackage) (ir_perPackage r)) pk_error) ''unknown'' @ '')''"

text \<open>The install step: the counts it adds to the health summary.\<close>

definition installStep ::
  "'z cloudEnv \<Rightarrow> cloudVmConnection \<Rightarrow> deployCtx \<Rightarrow> string \<Rightarrow> int \<Rightarrow> ('z, (nat \<times> nat \<times> nat) option) DM" where
  "installStep env conn c host port =
     (case cv_bundlePath conn of
        None \<Rightarrow> ret None
      | Some path \<Rightarrow>
          bindM (ce_bundle env path) (\<lambda>bundle.
          bindM (ce_install env host port bundle (t_name (c_target c))) (\<lambda>r.
          bindM (recordPackages (d_id (c_deployment c)) (ir_perPackage r)) (\<lambda>_.
          if 0 < ir_failed r then fail (installFailure r)
          else ret (Some (ir_totalPackages r, ir_installed r + ir_skipped r, ir_failed r))))))"

definition vmSummary :: "(nat \<times> nat \<times> nat) option \<Rightarrow> string \<Rightarrow> healthSummary" where
  "vmSummary inst t = (case inst of
       None \<Rightarrow> healthCounts 1 1 0 t
     | Some (n, p, f) \<Rightarrow> healthCounts (1 + n) (1 + p) f t)"

definition installJson :: "(nat \<times> nat \<times> nat) option \<Rightarrow> json" where
  "installJson inst = (case inst of
       None \<Rightarrow> JNull
     | Some (n, p, f) \<Rightarrow> JObj [(''total'', JNum (of_nat n)), (''pass'', JNum (of_nat p)), (''fail'', JNum (of_nat f))])"

text \<open>Promotion with the time read before the previous row is superseded.\<close>

definition promoteAt :: "deployCtx \<Rightarrow> string \<Rightarrow> healthSummary \<Rightarrow> ('z, deployment) DM" where
  "promoteAt c t summary = bindM (supersedePrevious c) (\<lambda>_. deployment_update (d_id (c_deployment c)) (activated t summary))"

text \<open>What follows once the address is known; the tunnel is closed on every way out.\<close>

definition cloudVmReach ::
  "'z cloudEnv \<Rightarrow> cloudVmConnection \<Rightarrow> deployCtx \<Rightarrow> string \<times> int \<times> int option \<Rightarrow> ('z, deployResult) DM" where
  "cloudVmReach env conn c path = (case path of (host, port, tunnel) \<Rightarrow>
     bindM (ce_probe env host port) (\<lambda>(ok, detail).
     bindM (healthCheck_append (d_id (c_deployment c)) ''cloud_vm_reachable'' (if ok then HPass else HFail) None (Some detail)) (\<lambda>_.
     if \<not> ok then fail (''cloud_vm_reachable probe failed: '' @ detail)
     else
       bindM (installStep env conn c host port) (\<lambda>inst.
       bindM nowIso (\<lambda>t.
       bindM (promoteAt c t (vmSummary inst t)) (\<lambda>finalized.
       bindM (completedAudit c [(''network_mode'', JStr (networkMode_text (orElse (cv_networkMode conn) PublicMtls))),
         (''dial_address'', JStr host), (''dial_port'', JNum (of_int port)), (''install_bundle'', installJson inst)]) (\<lambda>_.
       bindM (closeTunnel env tunnel) (\<lambda>_.
       ret (rowResult c finalized (vmSummary inst t))))))))))"

definition cloudVmBody :: "'z cloudEnv \<Rightarrow> cloudVmConnection \<Rightarrow> deployCtx \<Rightarrow> ('z, deployResult) DM" where
  "cloudVmBody env conn c =
     bindM (openPath env conn) (\<lambda>path.
     catchM (cloudVmReach env conn c path) (\<lambda>e. bindM (closeTunnel env (snd (snd path))) (\<lambda>_. throwM e)))"

definition runCloudVmReleaseDeploy ::
  "'z cloudEnv \<Rightarrow> string \<Rightarrow> string \<Rightarrow> target \<Rightarrow> string option \<Rightarrow> ('z, deployResult) DM" where
  "runCloudVmReleaseDeploy env orgId releaseId target actor =
     bindM (readCloudVmConnection target) (\<lambda>conn.
     bindM (readyRelease releaseId) (\<lambda>release.
     bindM (artifact_listForRelease (r_id release)) (\<lambda>arts.
     bindM (checkTunnel conn) (\<lambda>_.
     bindM (deployment_getActiveForTarget (t_id target)) (\<lambda>prev.
     bindM (rowStart orgId (orElse actor ''cli'') release target arts prev
       [(''provider'', JStr (provider_text (cv_provider conn))), (''instance_id'', JStr (cv_instanceId conn))]) (\<lambda>c.
     catchM (cloudVmBody env conn c) (rowFail c [])))))))"

section \<open>OpenTofu stacks\<close>

record cloudStackConnection =
  cs_stackName :: string
  cs_modulePath :: string
  cs_imageVarName :: "string option"
  cs_extraVars :: "json option"

definition readCloudStackConnection :: "target \<Rightarrow> ('s, err, cloudStackConnection) M" where
  "readCloudStackConnection target =
     (let c = t_connection target; pre = ''cloud_stack target '' @ quoted (t_name target) @ '': connection.'' in
      if \<not> truthy (textField c ''stack_name'') then fail (pre @ ''stack_name must be a non-empty string'')
      else if \<not> truthy (textField c ''module_path'') then fail (pre @ ''module_path must be a non-empty string'')
      else case readOptionalText c ''image_var_name'' of
        None \<Rightarrow> fail (pre @ ''image_var_name must be a non-empty string when set'')
      | Some imageVar \<Rightarrow> (case readOptionalObject c ''extra_vars'' of
          None \<Rightarrow> fail (pre @ ''extra_vars must be a JSON object when set'')
        | Some extra \<Rightarrow> ret \<lparr>cs_stackName = the (textField c ''stack_name''), cs_modulePath = the (textField c ''module_path''),
            cs_imageVarName = imageVar, cs_extraVars = extra\<rparr>))"

text \<open>Assignment to a property: the value is replaced in place, a new key goes to the end.\<close>

definition setField :: "(string \<times> json) list \<Rightarrow> string \<Rightarrow> json \<Rightarrow> (string \<times> json) list" where
  "setField kvs k v = (if k \<in> set (map fst kvs) then map (\<lambda>(k', v'). if k' = k then (k', v) else (k', v')) kvs else kvs @ [(k, v)])"

definition stackVars :: "cloudStackConnection \<Rightarrow> release \<Rightarrow> (string \<times> json) list" where
  "stackVars conn release =
     (let extra = (case cs_extraVars conn of Some (JObj kvs) \<Rightarrow> kvs | _ \<Rightarrow> []);
          vars = setField (setField (setField extra ''release_tag'' (JStr (r_tag release))) ''release_id'' (JStr (r_id release)))
            ''release_commit_sha'' (JStr (r_commitSha release)) in
      case cs_imageVarName conn of None \<Rightarrow> vars | Some k \<Rightarrow> setField vars k (JStr (r_tag release)))"

definition changeText :: "tofuResult \<Rightarrow> string" where
  "changeText r = ''add='' @ showInt (tf_add r) @ '' change='' @ showInt (tf_change r) @ '' destroy='' @ showInt (tf_destroy r)
     @ '' durationMs='' @ showInt (tf_durationMs r)"

definition changeJson :: "tofuResult \<Rightarrow> json" where
  "changeJson r = JObj [(''add'', JNum (of_int (tf_add r))), (''change'', JNum (of_int (tf_change r))),
     (''destroy'', JNum (of_int (tf_destroy r)))]"

definition cloudStackBody :: "'z cloudEnv \<Rightarrow> cloudStackConnection \<Rightarrow> deployCtx \<Rightarrow> ('z, deployResult) DM" where
  "cloudStackBody env conn c =
     bindM (ce_applyModule env (cs_stackName conn) (cs_modulePath conn) (stackVars conn (c_release c))) (\<lambda>r.
     bindM (healthCheck_append (d_id (c_deployment c)) ''stack_apply'' HPass None (Some (changeText r))) (\<lambda>_.
     bindM nowIso (\<lambda>t.
     bindM (promoteAt c t (healthCounts 1 1 0 t)) (\<lambda>finalized.
     bindM (completedAudit c [(''stack_name'', JStr (cs_stackName conn)), (''outputs'', tf_outputs r), (''change_summary'', changeJson r)]) (\<lambda>_.
     ret (rowResult c finalized (healthCounts 1 1 0 t)))))))"

definition cloudStackCatch :: "cloudStackConnection \<Rightarrow> deployCtx \<Rightarrow> err \<Rightarrow> ('z, 'a) DB" where
  "cloudStackCatch conn c e =
     bindM (healthCheck_append (d_id (c_deployment c)) ''stack_apply'' HFail None (Some (err_message e))) (\<lambda>_.
     rowFail c [(''stack_name'', JStr (cs_stackName conn))] e)"

definition runCloudStackReleaseDeploy ::
  "'z cloudEnv \<Rightarrow> string \<Rightarrow> string \<Rightarrow> target \<Rightarrow> string option \<Rightarrow> ('z, deployResult) DM" where
  "runCloudStackReleaseDeploy env orgId releaseId target actor =
     bindM (readCloudStackConnection target) (\<lambda>conn.
     bindM (readyRelease releaseId) (\<lambda>release.
     bindM (artifact_listForRelease (r_id release)) (\<lambda>arts.
     bindM (deployment_getActiveForTarget (t_id target)) (\<lambda>prev.
     bindM (rowStart orgId (orElse actor ''cli'') release target arts prev
       [(''stack_name'', JStr (cs_stackName conn)), (''module_path'', JStr (cs_modulePath conn))]) (\<lambda>c.
     catchM (cloudStackBody env conn c) (cloudStackCatch conn c))))))"

section \<open>Routing and rollback\<close>

definition runCloudReleaseDeploy ::
  "'z cloudEnv \<Rightarrow> string \<Rightarrow> string \<Rightarrow> target \<Rightarrow> string option \<Rightarrow> ('z, deployResult) DM" where
  "runCloudReleaseDeploy env orgId releaseId target actor =
     (if t_kind target = CloudVm then runCloudVmReleaseDeploy env orgId releaseId target actor
      else if t_kind target = CloudStack then runCloudStackReleaseDeploy env orgId releaseId target actor
      else fail (''runCloudReleaseDeploy: unsupported target.kind '' @ targetKind_text (t_kind target)))"

definition priorRelease :: "target \<Rightarrow> ('z, string) DB" where
  "priorRelease target =
     bindM (bindM (deployment_getActiveForTarget (t_id target))
       (require (''cloud rollback: target '' @ quoted (t_name target) @ '' has no active deployment to roll back from''))) (\<lambda>active.
     if \<not> truthy (d_previousDeploymentId active) then
       fail (''cloud rollback: target '' @ quoted (t_name target) @ '' has no prior deployment (this is the first deploy; nothing to roll back to). ''
         @ ''Re-run a manual release deploy with the desired release id explicitly.'')
     else
       bindM (bindM (deployment_get (the (d_previousDeploymentId active)))
         (require (''cloud rollback: prior deployment '' @ the (d_previousDeploymentId active)
           @ '' not found (audit-log inconsistency; investigate before retrying)''))) (\<lambda>prior.
       ret (d_releaseId prior)))"

definition rollbackAudit :: "string \<Rightarrow> string \<Rightarrow> string \<Rightarrow> target \<Rightarrow> string \<Rightarrow> (string \<times> json) list \<Rightarrow> ('z, unit) DB" where
  "rollbackAudit orgId actor action target toReleaseId extra =
     bindM (audit_append orgId actor action ''target'' (t_id target)
       (Some (JObj ([(''kind'', JStr (targetKind_text (t_kind target))), (''toReleaseId'', JStr toReleaseId)] @ extra)))) (\<lambda>_. ret ())"

definition runCloudReleaseRollback ::
  "'z cloudEnv \<Rightarrow> string \<Rightarrow> target \<Rightarrow> string option \<Rightarrow> string option \<Rightarrow> ('z, deployResult) DM" where
  "runCloudReleaseRollback env orgId target requested actor0 =
     (let actor = orElse actor0 ''cli'' in
      bindM (if truthy requested then ret (the requested) else priorRelease target) (\<lambda>toReleaseId.
      bindM (rollbackAudit orgId actor ''release.rollback.started'' target toReleaseId [(''requested'', jsonOf requested)]) (\<lambda>_.
      catchM
        (bindM (runCloudReleaseDeploy env orgId toReleaseId target (Some actor)) (\<lambda>result.
         bindM (rollbackAudit orgId actor ''release.rollback.completed'' target toReleaseId
           [(''deploymentId'', JStr (d_id (x_deployment result)))]) (\<lambda>_.
         ret result)))
        (\<lambda>e.
         bindM (rollbackAudit orgId actor ''release.rollback.failed'' target toReleaseId [(''error'', JStr (err_message e))]) (\<lambda>_.
         throwM e)))))"

text \<open>The verbs that drive a cluster without a deployment row.\<close>

definition runK8sDeployVerb ::
  "'s k8sEnv \<Rightarrow> string \<Rightarrow> string \<Rightarrow> string option \<Rightarrow> string option \<Rightarrow> bool option \<Rightarrow> int option \<Rightarrow> ('s, runK8sDeployResult) K" where
  "runK8sDeployVerb env bundleUri namespace clusterContext releaseName waitForHealth healthTimeoutMs =
     runK8sDeploy env \<lparr>kd_bundleUri = bundleUri, kd_namespace = namespace, kd_context = clusterContext, kd_releaseName = releaseName,
       kd_waitForHealth = waitForHealth, kd_healthTimeoutMs = healthTimeoutMs\<rparr>"

definition runK8sRollbackVerb ::
  "'s k8sEnv \<Rightarrow> string \<Rightarrow> string \<Rightarrow> string option \<Rightarrow> int option \<Rightarrow> k8sDriver option \<Rightarrow> ('s, k8sRollbackResult) K" where
  "runK8sRollbackVerb env releaseId namespace clusterContext toRevision driver =
     runK8sRollback env releaseId namespace clusterContext toRevision driver"

definition runK8sStatusVerb ::
  "'s k8sEnv \<Rightarrow> string \<Rightarrow> string option \<Rightarrow> string option \<Rightarrow> string option \<Rightarrow> k8sDriver option \<Rightarrow> ('s, k8sStatusResult) K" where
  "runK8sStatusVerb env namespace clusterContext selector releaseName driver =
     runK8sStatus env namespace clusterContext selector releaseName driver"

text \<open>The environment of the deploy verb with the three paths plugged in.\<close>

definition adapterEnv ::
  "denv \<Rightarrow> 'z dworld_ext transport \<Rightarrow> 'z dworld_scheme k8sEnv \<Rightarrow> 'z cloudEnv \<Rightarrow> 'z verbEnv" where
  "adapterEnv denv tr kenv cenv = \<lparr>ve_denv = denv, ve_transport = tr,
     ve_k8sDeploy = runK8sReleaseDeploy kenv, ve_cloudDeploy = runCloudReleaseDeploy cenv,
     ve_k8sRollback = runK8sReleaseRollback kenv, ve_cloudRollback = runCloudReleaseRollback cenv\<rparr>"

end
