(* ===== verification/Adapter_Facts.thy ===== *)
theory Adapter_Facts
  imports Adapters Deploy_Live Cascade
begin

text \<open>
  What the Kubernetes and cloud paths promise of the deployment rows, as long as the drivers leave
  the control plane's database alone: the same atomicity as the executor's, and no row left behind
  in a running state.
\<close>

section \<open>Drivers that leave the database alone\<close>

definition k8sOffDb :: "'z dworld_scheme k8sEnv \<Rightarrow> bool" where
  "k8sOffDb env \<longleftrightarrow> (\<forall>D Os. (\<forall>b a t. keeps (holds D Os) (kn_exec env b a t)) \<and> (\<forall>w. holds D Os w \<longrightarrow> holds D Os (snd (kn_now env w))))"

definition cloudOffDb :: "'z cloudEnv \<Rightarrow> bool" where
  "cloudOffDb env \<longleftrightarrow> (\<forall>D Os. (\<forall>p. keeps (holds D Os) (ce_getCloudBackend env p)) \<and> (\<forall>p h. keeps (holds D Os) (ce_getInstanceIp env p h)) \<and> (\<forall>d. keeps (holds D Os) (ce_dial env d)) \<and>
     (\<forall>p. keeps (holds D Os) (ce_close env p)) \<and> (\<forall>h p. keeps (holds D Os) (ce_probe env h p)) \<and>
     (\<forall>p. keeps (holds D Os) (ce_bundle env p)) \<and> (\<forall>h p b n. keeps (holds D Os) (ce_install env h p b n)) \<and>
     (\<forall>s m v. keeps (holds D Os) (ce_applyModule env s m v)))"

lemma keeps_liftK8s [keeps_intros]: "keeps I m \<Longrightarrow> keeps I (liftK8s m)"
  by (auto simp: keeps_def liftK8s_def split: prod.splits sum.splits)

lemma keeps_k8s:
  assumes "\<And>b a t. keeps I (kn_exec env b a t)" and "\<And>s. I s \<Longrightarrow> I (snd (kn_now env s))"
  shows "keeps I (runK8sDeploy env opts)" "keeps I (runK8sRollback env r n c v d)"
proof -
  have d: "keeps I (detectBundleKind env u)" for u
    unfolding detectBundleKind_def by (auto split: option.split fileKind.split intro: keeps_intros)
  have "keeps I (k8sNow env)" using assms(2) by (rule keeps_k8sNow)
  note k = keeps_execTool [OF assms(1)] this d
  show "keeps I (runK8sDeploy env opts)"
    unfolding runK8sDeploy_def helmApply_def kubectlApply_def kubectlHealth_def runKubectl_def runHelm_def Let_def
    by (auto intro!: keeps_intros k)
  show "keeps I (runK8sRollback env r n c v d)"
    unfolding runK8sRollback_def helmRollback_def kubectlRollback_def runKubectl_def runHelm_def
    by (auto intro!: keeps_intros k)
qed


section \<open>The row of a running deployment\<close>

text \<open>The one new row is not active, and every target has the active deployments it had.\<close>

definition unpromoted :: "deployment list \<Rightarrow> org list \<Rightarrow> deployCtx \<Rightarrow> 'z world_scheme \<Rightarrow> bool" where
  "unpromoted D Os c w \<longleftrightarrow> (\<exists>D1 n. holds D1 Os w \<and> ((\<forall>t. activeOn t D1 = activeOn t D) \<and> n \<in> set D1 \<and>
     d_id n = d_id (c_deployment c) \<and> d_deletedAt n = None \<and> d_status n \<noteq> DActive \<and>
     map d_id D1 = map d_id D @ [d_id n])) \<and> c_orgId c \<in> o_id ` set Os"

text \<open>Nothing is active that was not, and every new row is marked failed.\<close>

definition settled :: "deployment list \<Rightarrow> org list \<Rightarrow> 'z world_scheme \<Rightarrow> bool" where
  "settled D Os w \<longleftrightarrow> (\<exists>D'. holds D' Os w \<and> ((\<forall>t. activeOn t D' = activeOn t D) \<and>
     (\<forall>d \<in> set D'. d_id d \<notin> d_id ` set D \<longrightarrow> d_status d = DFailed)))"

lemma prepared_unpromoted: "prepared D Os opts c w \<Longrightarrow> unpromoted D Os c w"
  unfolding prepared_def unpromoted_def running_def by fastforce

lemma settled_refl: "holds D Os w \<Longrightarrow> settled D Os w"
  by (auto simp: settled_def)

lemma keeps_unpromoted: "(\<And>D1. keeps (holds D1 Os) m) \<Longrightarrow> keeps (unpromoted D Os c) m"
  unfolding unpromoted_def by (intro keeps_pure keeps_ex) simp

lemma prepared_step:
  assumes "\<And>D1. keeps (holds D1 Os) m" and "\<And>x. triple (prepared D Os opts c) (f x) Q (\<lambda>_. unpromoted D Os c)"
  shows "triple (prepared D Os opts c) (bindM m f) Q (\<lambda>_. unpromoted D Os c)"
  by (rule triple_step [OF keeps_prepared [OF assms(1)] _ assms(2)]) (rule prepared_unpromoted)

lemma rowStart_triple:
  assumes "orgId \<in> o_id ` set Os" "prev = activeFor (t_id target) D" "q_targetId opts = t_id target" "q_releaseId opts = r_id release"
  shows "triple (holds D Os) (rowStart orgId actor release target arts prev extra) (prepared D Os opts) (\<lambda>_. settled D Os)"
  unfolding rowStart_def
  apply (rule triple_seq [OF create_triple], erule settled_refl, rule triple_pure)
  apply (rule triple_bindM [OF audit_triple [OF assms(1)]])
  apply (rule triple_bindM [OF nowIso_triple])
  apply (rule triple_bindM)
   prefer 2
   apply (rule triple_return, assumption)
  by (rule start_triple) (auto simp: rowCtx_def assms)

definition failedRow :: "deployment list \<Rightarrow> org list \<Rightarrow> deployCtx \<Rightarrow> 'z world_scheme \<Rightarrow> bool" where
  "failedRow D Os c w \<longleftrightarrow> (\<exists>D1 n. holds D1 Os w \<and> ((\<forall>t. activeOn t D1 = activeOn t D) \<and> n \<in> set D1 \<and>
     d_id n = d_id (c_deployment c) \<and> d_deletedAt n = None \<and> d_status n = DFailed \<and>
     map d_id D1 = map d_id D @ [d_id n])) \<and> c_orgId c \<in> o_id ` set Os"

lemma failedRow_unpromoted: "failedRow D Os c w \<Longrightarrow> unpromoted D Os c w"
  unfolding failedRow_def unpromoted_def by fastforce

lemma failedRow_settled:
  assumes "failedRow D Os c w"
  shows "settled D Os w"
proof -
  obtain D1 n where h: "holds D1 Os w" and same: "\<forall>t. activeOn t D1 = activeOn t D"
    and n: "n \<in> set D1" "d_status n = DFailed" and ids: "map d_id D1 = map d_id D @ [d_id n]"
    using assms by (auto simp: failedRow_def)
  have "d_status d = DFailed" if "d \<in> set D1" "d_id d \<notin> d_id ` set D" for d
  proof -
    have "d_id d \<in> set (map d_id D1)" using that(1) by simp
    then have "d_id d = d_id n" using that(2) by (simp add: ids)
    then have "d = n" using that(1) n(1) holds_distinct [OF h] by (auto simp: distinct_map inj_on_def)
    with n(2) show ?thesis by simp
  qed
  with h same show ?thesis by (auto simp: settled_def)
qed

lemma keeps_failedRow: "(\<And>D1. keeps (holds D1 Os) m) \<Longrightarrow> keeps (failedRow D Os c) m"
  unfolding failedRow_def by (intro keeps_pure keeps_ex) simp

lemma markFailed:
  "triple (unpromoted D Os c) (deployment_update (d_id (c_deployment c)) (failedPatch t s)) (\<lambda>_. failedRow D Os c) E"
  unfolding unpromoted_def
proof (intro triple_pure triple_ex)
  fix D1 n
  assume org: "c_orgId c \<in> o_id ` set Os" and n: "(\<forall>t. activeOn t D1 = activeOn t D) \<and> n \<in> set D1 \<and>
     d_id n = d_id (c_deployment c) \<and> d_deletedAt n = None \<and> d_status n \<noteq> DActive \<and> map d_id D1 = map d_id D @ [d_id n]"
  let ?p = "failedPatch t s"
  have off: "orElse (dp_status ?p) (d_status n) \<noteq> DActive" by (simp add: failedPatch_def)
  show "triple (holds D1 Os) (deployment_update (d_id (c_deployment c)) ?p) (\<lambda>_. failedRow D Os c) E"
  proof (rule triple_weaken [OF update_triple [where d = n]])
    fix r and w :: "'a world_scheme"
    assume "\<exists>now. r = deployment_patch ?p now n n \<and> holds (patched (d_id (c_deployment c)) ?p now n D1) Os w"
    then obtain now where w: "holds (patched (d_id (c_deployment c)) ?p now n D1) Os w" by blast
    have dist: "distinct (map d_id D1)" using holds_distinct [OF w] by simp
    have "activeOn t (patched (d_id (c_deployment c)) ?p now n D1) = activeOn t D" for t
      using n off by (subst activeOn_same_off [OF dist]) (auto simp: liveActive_def)
    moreover have "deployment_patch ?p now n n \<in> set (patched (d_id (c_deployment c)) ?p now n D1)"
      using n by (auto simp: patched_def)
    moreover have "map d_id (patched (d_id (c_deployment c)) ?p now n D1) = map d_id D @ [d_id n]" using n by simp
    ultimately show "failedRow D Os c w"
      unfolding failedRow_def using w n org
      by (intro conjI exI [of _ "patched (d_id (c_deployment c)) ?p now n D1"] exI [of _ "deployment_patch ?p now n n"])
        (auto simp: failedPatch_def)
  qed (use n off in auto)
qed

lemma failedAudit_triple:
  "triple (failedRow D Os c) (failedAudit c extra m) (\<lambda>_. failedRow D Os c) E"
  unfolding failedRow_def failedAudit_def
  apply (intro triple_pure triple_ex)
  subgoal for D1 n
    by (rule triple_bindM [OF audit_triple triple_return]) auto
  done

lemma unpromoted_row:
  assumes "unpromoted D Os c w"
  obtains n where "deployment_get (d_id (c_deployment c)) w = (Inr (Some n), tick w)" "unpromoted D Os c (tick w)"
    "d_status n = DFailed \<Longrightarrow> failedRow D Os c (tick w)"
proof -
  obtain D1 n where h: "holds D1 Os w" and n: "\<forall>t. activeOn t D1 = activeOn t D" "n \<in> set D1" "d_id n = d_id (c_deployment c)"
      "d_deletedAt n = None" "map d_id D1 = map d_id D @ [d_id n]" and org: "c_orgId c \<in> o_id ` set Os"
    using assms by (auto simp: unpromoted_def)
  have D: "deployments w = D1" "quiet w" and h': "holds D1 Os (tick w)" using h by (simp_all add: holds_def)
  have "find (\<lambda>r. d_deletedAt r = None \<and> d_id r = d_id n) D1 = Some n"
    by (rule unique_on_find) (use n(2,4) holds_distinct [OF h] in \<open>auto simp: unique_on_def distinct_map inj_on_def\<close>)
  then have "deployment_get (d_id (c_deployment c)) w = (Inr (Some n), tick w)"
    using D n(3) by (simp add: deployment_get_def getLive_def selectOne_quiet conj_commute)
  moreover have "unpromoted D Os c (tick w)" using assms by (simp add: unpromoted_def)
  moreover have "d_status n = DFailed \<Longrightarrow> failedRow D Os c (tick w)"
    using n org h' unfolding failedRow_def by blast
  ultimately show thesis by (rule that)
qed

lemma rowFail_triple: "triple (unpromoted D Os c) (rowFail c extra e) Q (\<lambda>_. settled D Os)"
proof -
  have mark: "triple (unpromoted D Os c) (bindM nowIso (\<lambda>t. bindM (deployment_update (d_id (c_deployment c)) (failedPatch t None)) (\<lambda>_.
      failedAudit c extra (err_message e)))) (\<lambda>_. settled D Os) (\<lambda>_. settled D Os)"
    apply (rule triple_bindM [where R = "\<lambda>_. unpromoted D Os c"])
     apply (rule triple_run)
    subgoal using keepsD [OF keeps_unpromoted [OF holds_nowIso(1)]] by (auto simp: nowIso_run)
    apply (rule triple_bindM [OF markFailed])
    by (rule triple_weaken [OF failedAudit_triple]) (auto intro: failedRow_settled)
  show ?thesis
    unfolding triple_def
  proof (intro allI impI)
    fix w :: "'a world_scheme"
    assume "unpromoted D Os c w"
    then obtain n where n: "deployment_get (d_id (c_deployment c)) w = (Inr (Some n), tick w)" "unpromoted D Os c (tick w)"
      "d_status n = DFailed \<Longrightarrow> failedRow D Os c (tick w)" by (rule unpromoted_row) blast
    show "case rowFail c extra e w of (Inr x, s') \<Rightarrow> Q x s' | (Inl e, s') \<Rightarrow> settled D Os s'"
    proof (cases "d_status n = DFailed")
      case True
      then show ?thesis using n failedRow_settled [OF n(3)] by (simp add: rowFail_def bindM_def ret_def throwM_def)
    next
      case False
      show ?thesis
        by (rule tripleD [OF mark n(2)]) (use n(1) False in \<open>simp_all add: rowFail_def bindM_def [of "deployment_get _"] bindM_def [of "bindM _ _"] throwM_def\<close>)
    qed
  qed
qed


section \<open>Kubernetes\<close>

lemma prepared_nowIso: "keeps (prepared D Os opts c) nowIso"
  by (rule keeps_prepared) (rule holds_nowIso)

lemma prepared_check: "keeps (prepared D Os opts c) (healthCheck_append i name s lat detail)"
  by (rule keeps_prepared) (rule holds_healthCheck)

lemma prepared_mark:
  "triple (prepared D Os opts c) (deployment_update (d_id (c_deployment c)) (failedPatch t s)) (\<lambda>_. failedRow D Os c) E"
  by (rule triple_weaken [OF markFailed]) (auto intro: prepared_unpromoted)

lemma completedAudit_triple:
  "c_orgId c \<in> o_id ` set Os \<Longrightarrow> triple (promoted D Os opts r) (completedAudit c extra) (\<lambda>_. promoted D Os opts r) E"
  unfolding completedAudit_def
  by (rule triple_bindM [OF promoted_step [OF audit_triple] triple_return]) auto

lemma k8sBody_triple:
  assumes "k8sOffDb env"
  shows "triple (prepared D Os opts c) (k8sBody env conn c) (\<lambda>r. promoted D Os opts (x_deployment r)) (\<lambda>_. unpromoted D Os c)"
proof (rule prepared_cases)
  assume org: "c_orgId c \<in> o_id ` set Os"
  have deploy: "keeps (holds D1 Os) (liftK8s (runK8sDeploy env o1))" for D1 o1
    using assms by (intro keeps_liftK8s keeps_k8s) (auto simp: k8sOffDb_def)
  show ?thesis
    unfolding k8sBody_def Let_def fail_def
    apply (rule prepared_step [OF deploy])
    apply (rule prepared_step, rule holds_healthCheck)
    apply (rule prepared_step, rule holds_nowIso)
    apply (rule triple_if)
     apply (rule prepared_step, rule holds_nowIso)
     apply (rule triple_bindM [OF prepared_mark])
     apply (rule triple_bindM [OF failedAudit_triple])
     apply (rule triple_throw, erule failedRow_unpromoted)
    apply (rule triple_bindM [OF deployPromote_triple], rule triple_pure)
    apply (rule triple_bindM [OF completedAudit_triple [OF org]])
    by (rule triple_return) (simp add: rowResult_def)
qed

section \<open>Cloud instances and stacks\<close>

lemma promoteAt_triple:
  "triple (prepared D Os opts c) (promoteAt c t s) (\<lambda>r w. promoted D Os opts r w \<and> d_id r = d_id (c_deployment c)) E"
  unfolding promoteAt_def
  by (rule triple_bindM [OF supersede_triple activate_vacated]) (simp add: activated_def)

lemma holds_closeTunnel: "cloudOffDb env \<Longrightarrow> keeps (holds D Os) (closeTunnel env tun)"
  unfolding closeTunnel_def by (cases tun) (auto simp: cloudOffDb_def intro!: keeps_intros)

lemma closeTunnel_returns: "\<exists>w'. closeTunnel env tun w = (Inr (), w')"
  by (auto simp: closeTunnel_def tryM_def catchM_def ret_def split: option.split prod.split sum.split)

lemma close_triple: "cloudOffDb env \<Longrightarrow> triple (holds D Os) (closeTunnel env tun) (\<lambda>_. holds D Os) E"
  by (rule triple_run) (metis closeTunnel_returns keepsD [OF holds_closeTunnel] snd_conv)

lemma holds_openPath:
  assumes "cloudOffDb env"
  shows "keeps (holds D Os) (openPath env conn)"
proof -
  have "keeps (holds D Os) (getConnectionDescriptor h p s g a b)" for h p s g a b
    unfolding getConnectionDescriptor_def fail_def Let_def by (auto split: networkMode.split intro!: keeps_intros)
  then show ?thesis
    using assms unfolding openPath_def fail_def Let_def by (auto simp: cloudOffDb_def intro!: keeps_intros)
qed

lemma holds_installStep:
  assumes "cloudOffDb env"
  shows "keeps (holds D Os) (installStep env conn c host port)"
  using assms unfolding installStep_def recordPackages_def fail_def
  by (cases "cv_bundlePath conn") (auto simp: cloudOffDb_def intro!: keeps_intros)

lemma cloudVmReach_triple:
  assumes "cloudOffDb env" and org: "c_orgId c \<in> o_id ` set Os"
  shows "triple (prepared D Os opts c) (cloudVmReach env conn c path)
    (\<lambda>r. promoted D Os opts (x_deployment r)) (\<lambda>_. unpromoted D Os c)"
  unfolding cloudVmReach_def fail_def
  apply (rule triple_prod)+
  apply (rule prepared_step)
  subgoal using assms(1) by (simp add: cloudOffDb_def)
  apply (rule triple_prod)
  apply (rule prepared_step, rule holds_healthCheck)
  apply (rule triple_if, rule triple_throw, erule prepared_unpromoted)
  apply (rule prepared_step [OF holds_installStep [OF assms(1)]])
  apply (rule prepared_step, rule holds_nowIso)
  apply (rule triple_bindM [OF promoteAt_triple], rule triple_pure)
  apply (rule triple_bindM [OF completedAudit_triple [OF org]])
  apply (rule triple_bindM [OF promoted_step [OF close_triple [OF assms(1)]]])
  by (rule triple_return) (simp add: rowResult_def)

lemma cloudVmBody_triple:
  assumes "cloudOffDb env"
  shows "triple (prepared D Os opts c) (cloudVmBody env conn c) (\<lambda>r. promoted D Os opts (x_deployment r)) (\<lambda>_. unpromoted D Os c)"
proof (rule prepared_cases)
  assume org: "c_orgId c \<in> o_id ` set Os"
  show ?thesis
    unfolding cloudVmBody_def
    apply (rule prepared_step [OF holds_openPath [OF assms]])
    apply (rule triple_catchM [OF cloudVmReach_triple [OF assms org]])
    apply (rule triple_step [OF keeps_unpromoted [OF holds_closeTunnel [OF assms]]], assumption)
    by (rule triple_throw)
qed

lemma cloudStackBody_triple:
  assumes "cloudOffDb env"
  shows "triple (prepared D Os opts c) (cloudStackBody env conn c) (\<lambda>r. promoted D Os opts (x_deployment r)) (\<lambda>_. unpromoted D Os c)"
proof (rule prepared_cases)
  assume org: "c_orgId c \<in> o_id ` set Os"
  show ?thesis
    unfolding cloudStackBody_def
    apply (rule prepared_step)
    subgoal using assms by (simp add: cloudOffDb_def)
    apply (rule prepared_step, rule holds_healthCheck)
    apply (rule prepared_step, rule holds_nowIso)
    apply (rule triple_bindM [OF promoteAt_triple], rule triple_pure)
    apply (rule triple_bindM [OF completedAudit_triple [OF org]])
    by (rule triple_return) (simp add: rowResult_def)
qed

lemma unpromoted_check:
  "triple (unpromoted D Os c) (healthCheck_append (d_id (c_deployment c)) name s lat detail) (\<lambda>_. unpromoted D Os c) E"
  unfolding unpromoted_def
  apply (intro triple_pure triple_ex)
  subgoal for D1 n
    by (rule triple_weaken [OF healthCheck_triple [where D = D1]]) (auto simp: image_iff intro: sym)
  done

lemma cloudStackCatch_triple: "triple (unpromoted D Os c) (cloudStackCatch conn c e) Q (\<lambda>_. settled D Os)"
  unfolding cloudStackCatch_def by (rule triple_bindM [OF unpromoted_check rowFail_triple])

section \<open>The paths as a whole\<close>

lemma readyRelease_triple:
  "triple (holds D Os) (readyRelease i) (\<lambda>r w. holds D Os w \<and> r_id r = i) (\<lambda>_. holds D Os)"
  unfolding readyRelease_def require_def fail_def
  apply (rule triple_bindM [where R = "\<lambda>r w. holds D Os w \<and> r_id r = i"])
   apply (rule triple_bindM [OF release_get_triple], rule triple_pure)
   apply (rule triple_option, rule triple_throw, assumption)
   apply (rule triple_return, simp)
  by (rule triple_if, rule triple_throw, simp, rule triple_return)

text \<open>What every path does once its parameters are read.\<close>

lemma path_triple:
  assumes "orgId \<in> o_id ` set Os"
    and "\<And>c opts. triple (prepared D Os opts c) (body c) (\<lambda>r. promoted D Os opts (x_deployment r)) (\<lambda>_. unpromoted D Os c)"
    and "\<And>c e Q. triple (unpromoted D Os c) (handler c e) Q (\<lambda>_. settled D Os)"
    and "q_targetId opts = t_id target" and "q_releaseId opts = r_id release"
  shows "triple (holds D Os)
    (bindM (deployment_getActiveForTarget (t_id target)) (\<lambda>prev. bindM (rowStart orgId actor release target arts prev extra) (\<lambda>c.
      catchM (body c) (handler c)))) (\<lambda>r. promoted D Os opts (x_deployment r)) (\<lambda>_. settled D Os)"
  apply (rule triple_bindM [OF getActive_triple], rule triple_pure)
  apply (rule triple_bindM [OF rowStart_triple [where opts = opts]])
      apply (use assms in simp_all)
  by (rule triple_catchM [OF assms(2) assms(3)])

lemma holds_readConnections:
  "keeps I (readK8sConnection target)" "keeps I (readCloudVmConnection target)" "keeps I (readCloudStackConnection target)"
  "keeps I (checkTunnel vmConn)"
  unfolding readK8sConnection_def readCloudVmConnection_def readCloudStackConnection_def checkTunnel_def fail_def Let_def
  by (auto split: option.split intro!: keeps_intros)

lemma settled_step:
  assumes "keeps (holds D Os) m" and "\<And>x. triple (holds D Os) (f x) Q (\<lambda>_. settled D Os)"
  shows "triple (holds D Os) (bindM m f) Q (\<lambda>_. settled D Os)"
  by (rule triple_step [OF assms(1) _ assms(2)]) (rule settled_refl)

definition adapterOptions :: "string \<Rightarrow> string \<Rightarrow> target \<Rightarrow> deployOptions" where
  "adapterOptions orgId releaseId target =
     \<lparr>q_orgId = orgId, q_releaseId = releaseId, q_targetId = t_id target, q_actor = None, q_guestStagingRoot = None\<rparr>"

lemma adapter_triple:
  assumes "orgId \<in> o_id ` set Os"
  shows
    "k8sOffDb kenv \<Longrightarrow> triple (holds D Os) (runK8sReleaseDeploy kenv orgId releaseId target actor)
       (\<lambda>r. promoted D Os (adapterOptions orgId releaseId target) (x_deployment r)) (\<lambda>_. settled D Os)"
    "cloudOffDb cenv \<Longrightarrow> triple (holds D Os) (runCloudReleaseDeploy cenv orgId releaseId target actor)
       (\<lambda>r. promoted D Os (adapterOptions orgId releaseId target) (x_deployment r)) (\<lambda>_. settled D Os)"
proof -
  note path = path_triple [OF assms _ rowFail_triple] path_triple [OF assms _ cloudStackCatch_triple]
  show k: "triple (holds D Os) (runK8sReleaseDeploy kenv orgId releaseId target actor)
       (\<lambda>r. promoted D Os (adapterOptions orgId releaseId target) (x_deployment r)) (\<lambda>_. settled D Os)" if "k8sOffDb kenv"
    unfolding runK8sReleaseDeploy_def artifact_listForRelease_def
    apply (rule triple_seq [OF readyRelease_triple settled_refl], assumption)
    apply (rule triple_pure)
    apply (rule settled_step, rule holds_readConnections)
    apply (rule settled_step, rule keeps_intros)
    by (rule path(1) [OF k8sBody_triple [OF that]]) (simp_all add: adapterOptions_def)
  have vm: "triple (holds D Os) (runCloudVmReleaseDeploy cenv orgId releaseId target actor)
       (\<lambda>r. promoted D Os (adapterOptions orgId releaseId target) (x_deployment r)) (\<lambda>_. settled D Os)" if "cloudOffDb cenv"
    unfolding runCloudVmReleaseDeploy_def artifact_listForRelease_def
    apply (rule settled_step, rule holds_readConnections)
    apply (rule triple_seq [OF readyRelease_triple settled_refl], assumption)
    apply (rule triple_pure)
    apply (rule settled_step, rule keeps_intros)
    apply (rule settled_step, rule holds_readConnections)
    by (rule path(1) [OF cloudVmBody_triple [OF that]]) (simp_all add: adapterOptions_def)
  have stack: "triple (holds D Os) (runCloudStackReleaseDeploy cenv orgId releaseId target actor)
       (\<lambda>r. promoted D Os (adapterOptions orgId releaseId target) (x_deployment r)) (\<lambda>_. settled D Os)" if "cloudOffDb cenv"
    unfolding runCloudStackReleaseDeploy_def artifact_listForRelease_def
    apply (rule settled_step, rule holds_readConnections)
    apply (rule triple_seq [OF readyRelease_triple settled_refl], assumption)
    apply (rule triple_pure)
    apply (rule settled_step, rule keeps_intros)
    by (rule path(2) [OF cloudStackBody_triple [OF that]]) (simp_all add: adapterOptions_def)
  show "triple (holds D Os) (runCloudReleaseDeploy cenv orgId releaseId target actor)
       (\<lambda>r. promoted D Os (adapterOptions orgId releaseId target) (x_deployment r)) (\<lambda>_. settled D Os)" if "cloudOffDb cenv"
    unfolding runCloudReleaseDeploy_def fail_def
    by (intro triple_if vm stack that triple_throw settled_refl)
qed

text \<open>
  C5. A deployment to a cluster, a cloud instance or a stack is atomic and leaves no row behind.
  While the storage works and the drivers leave the database alone, \<open>runK8sReleaseDeploy\<close> and
  \<open>runCloudReleaseDeploy\<close> either return a new deployment of the requested release that is the one
  active deployment of the target, with the one active before superseded and every other target as
  it was; or they throw, every target keeps its active deployments, and every row the attempt
  created is marked failed, wherever the driver, the probe, the installer or the tunnel gave up.
\<close>

theorem adapter_deploy_settles:
  assumes "quiet w" and "db_ok w" and "freshIds w" and "k8sOffDb kenv" and "cloudOffDb cenv"
    and "orgId \<in> o_id ` set (orgs w)" and "deploy \<in> {runK8sReleaseDeploy kenv, runCloudReleaseDeploy cenv}"
  defines "D \<equiv> deployments w"
  shows "case deploy orgId releaseId target actor w of
     (Inr r, w') \<Rightarrow>
       activeOn (t_id target) (deployments w') = [x_deployment r] \<and>
       d_releaseId (x_deployment r) = releaseId \<and> d_id (x_deployment r) \<notin> d_id ` set D \<and>
       (\<forall>t. t \<noteq> t_id target \<longrightarrow> activeOn t (deployments w') = activeOn t D) \<and>
       (\<forall>p \<in> set (activeOn (t_id target) D).
          \<exists>p' \<in> set (deployments w'). d_id p' = d_id p \<and> d_status p' = DSuperseded)
   | (Inl e, w') \<Rightarrow> (\<forall>t. activeOn t (deployments w') = activeOn t D) \<and>
       (\<forall>d \<in> set (deployments w'). d_id d \<notin> d_id ` set D \<longrightarrow> d_status d = DFailed)"
proof -
  have h: "holds D (orgs w) w" using assms by (simp add: holds_def)
  have t: "triple (holds D (orgs w)) (deploy orgId releaseId target actor)
       (\<lambda>r. promoted D (orgs w) (adapterOptions orgId releaseId target) (x_deployment r)) (\<lambda>_. settled D (orgs w))"
    using assms(4-7) by (auto intro: adapter_triple)
  show ?thesis
    by (rule tripleD [OF t h]) (auto simp: promoted_def settled_def holds_def adapterOptions_def)
qed

section \<open>Rolling a cluster back\<close>

lemma rolledBack_triple:
  assumes "activeFor t D = Some a" and "dp_status p = Some DRolledBack"
  shows "triple (holds D Os) (deployment_update (d_id a) p) (\<lambda>_ w. \<exists>D'. holds D' Os w \<and> (activeOn t D' = [] \<and>
     (\<forall>t'. t' \<noteq> t \<longrightarrow> activeOn t' D' = activeOn t' D) \<and> (\<exists>a' \<in> set D'. d_id a' = d_id a \<and> d_status a' = DRolledBack))) E"
proof (rule triple_fact [where A = "distinct (map d_id D) \<and> activeOn t D = [a]"])
  show "holds D Os w \<Longrightarrow> distinct (map d_id D) \<and> activeOn t D = [a]" for w :: "'a world_scheme"
    by (simp add: active_at_most_one [OF _ assms(1)] holds_distinct)
  assume one: "distinct (map d_id D) \<and> activeOn t D = [a]"
  note a = activeFor_Some [OF assms(1)]
  have off: "activeOn t' (patched (d_id a) p now a D) = filter (\<lambda>r. d_id r \<noteq> d_id a) (activeOn t' D)" for t' now
    by (rule activeOn_patched_off) (simp add: assms(2))
  have "r = a" if "r \<in> set D" "d_id r = d_id a" for r
    using that a one by (auto simp: distinct_map inj_on_def)
  then have "activeOn t' (patched (d_id a) p now a D) = activeOn t' D" if "t' \<noteq> t" for t' now
    using that a off by (auto simp: activeOn_def intro!: filter_cong)
  moreover have "activeOn t (patched (d_id a) p now a D) = []" for now using off one by simp
  moreover have "deployment_patch p now a a \<in> set (patched (d_id a) p now a D)" for now
    using a by (auto simp: patched_def)
  ultimately have "\<exists>D'. holds D' Os w \<and> (activeOn t D' = [] \<and>
     (\<forall>t'. t' \<noteq> t \<longrightarrow> activeOn t' D' = activeOn t' D) \<and> (\<exists>a' \<in> set D'. d_id a' = d_id a \<and> d_status a' = DRolledBack))"
    if "holds (patched (d_id a) p now a D) Os w" for now and w :: "'a world_scheme"
    using that assms(2) by (intro exI [of _ "patched (d_id a) p now a D"]) (auto intro!: bexI [where x = "deployment_patch p now a a"])
  then show ?thesis
    by (intro triple_weaken [OF update_triple [where d = a]]) (use a assms(2) in \<open>auto simp: liveActive_def\<close>)
qed

lemma runK8sReleaseRollback_triple:
  assumes "k8sOffDb env" and "orgId \<in> o_id ` set Os"
  shows "triple (holds D Os) (runK8sReleaseRollback env orgId target to actor)
    (\<lambda>r w. \<exists>D'. holds D' Os w \<and> (activeOn (t_id target) D' = [] \<and>
       (\<forall>t. t \<noteq> t_id target \<longrightarrow> activeOn t D' = activeOn t D) \<and>
       (\<exists>a a'. activeFor (t_id target) D = Some a \<and> a' \<in> set D' \<and> d_id a' = d_id a \<and> d_status a' = DRolledBack)))
    (\<lambda>_. holds D Os)"
proof -
  have undo: "keeps (holds D1 Os) (liftK8s (runK8sRollback env r n c v d))" for D1 r n c v d
    using assms(1) by (intro keeps_liftK8s keeps_k8s) (auto simp: k8sOffDb_def)
  have active: "triple (holds D Os) (bindM (deployment_getActiveForTarget t) (require m))
      (\<lambda>a w. holds D Os w \<and> activeFor t D = Some a) (\<lambda>_. holds D Os)" for t m
    unfolding require_def fail_def
    apply (rule triple_bindM [OF getActive_triple], rule triple_pure)
    by (rule triple_option, rule triple_throw, assumption, rule triple_return, simp)
  have release: "keeps (holds D Os) (bindM (release_get i) (require m))" for i m
    unfolding release_get_def getLive_def by (intro keeps_intros)
  show ?thesis
    unfolding runK8sReleaseRollback_def artifact_listForRelease_def
    apply (rule triple_bindM [OF active], rule triple_pure)
    apply (rule triple_step [OF release], assumption)
    apply (rule triple_step [OF holds_readConnections(1)], assumption)
    apply (rule triple_step, intro keeps_intros, assumption)
    apply (rule triple_step [OF undo], assumption)
    apply (rule triple_step, rule holds_nowIso, assumption)
    apply (rule triple_bindM [OF rolledBack_triple], assumption, simp)
    apply (intro triple_ex triple_pure)
    apply (rule triple_bindM [OF audit_triple [OF assms(2)]])
    apply (rule triple_bindM)
     apply (unfold deployment_get_def)
     apply (rule getLive_triple, simp)
    by (rule triple_return) blast
qed

text \<open>
  C30. A rolled-back cluster target has no active deployment.  While the storage works and the tools
  leave the database alone, a \<open>runK8sReleaseRollback\<close> that returns marks the deployment that was active
  on the target rolled back and leaves the target with none, whether or not the deployment records a
  predecessor that was superseded by it; the other targets keep theirs.  One that throws changes no
  deployment at all.
\<close>

theorem k8s_rollback_vacates:
  assumes "quiet w" and "db_ok w" and "freshIds w" and "k8sOffDb env" and "orgId \<in> o_id ` set (orgs w)"
  defines "D \<equiv> deployments w"
  shows "case runK8sReleaseRollback env orgId target toReleaseId actor w of
     (Inr r, w') \<Rightarrow>
       activeOn (t_id target) (deployments w') = [] \<and>
       (\<forall>t. t \<noteq> t_id target \<longrightarrow> activeOn t (deployments w') = activeOn t D) \<and>
       (\<exists>a a'. activeOn (t_id target) D = [a] \<and> a' \<in> set (deployments w') \<and> d_id a' = d_id a \<and> d_status a' = DRolledBack)
   | (Inl e, w') \<Rightarrow> deployments w' = D"
proof -
  have h: "holds D (orgs w) w" using assms by (simp add: holds_def)
  show ?thesis
    by (rule tripleD [OF runK8sReleaseRollback_triple [OF assms(4,5)] h, of target toReleaseId actor])
      (use active_at_most_one [OF h] in \<open>auto simp: holds_def\<close>)
qed

section \<open>A cluster in the laboratory\<close>

text \<open>A target whose bundle is a directory of manifests, and tools that succeed and touch nothing.\<close>

definition labCluster :: target where
  "labCluster = (labTarget ''lab'')\<lparr>t_kind := K8sTest, t_connection := JObj [(''bundleUri'', JStr ''/b''), (''namespace'', JStr ''prod'')]\<rparr>"

definition labTools :: "'z dworld_scheme k8sEnv" where
  "labTools = \<lparr>kn_exec = (\<lambda>_ _ _ w. (Inr \<lparr>kx_stdout = [], kx_stderr = [], kx_exitCode = 0\<rparr>, w)), kn_now = (\<lambda>w. (0, w)),
     kn_stat = (\<lambda>p. if p = ''/b'' then Some IsDirectory else None), kn_parse = (\<lambda>_. None),
     kn_kubectlBin = ''kubectl'', kn_helmBin = ''helm''\<rparr>"

definition labCloud :: "'z cloudEnv" where
  "labCloud = \<lparr>ce_getCloudBackend = (\<lambda>_. ret ()), ce_getInstanceIp = (\<lambda>_ _. ret None), ce_dial = (\<lambda>_. ret 0), ce_close = (\<lambda>_. ret ()), ce_probe = (\<lambda>_ _. ret (True, [])),
     ce_bundle = (\<lambda>_. ret JNull), ce_install = (\<lambda>_ _ _ _. throwM (JsError [])), ce_applyModule = (\<lambda>_ _ _. throwM (JsError []))\<rparr>"

lemma lab_offDb: "k8sOffDb labTools" "cloudOffDb labCloud"
  by (auto simp: k8sOffDb_def cloudOffDb_def labTools_def labCloud_def keeps_def ret_def throwM_def)

theorem adapter_deploy_settles_witness:
  "activeOn ''edge'' (deployments (snd (runK8sReleaseDeploy labTools ''o1'' ''r2'' labCluster None labWorld))) = [labDeployment ''d2'' ''edge'']"
proof -
  have "activeOn ''edge'' (deployments labWorld) = [labDeployment ''d2'' ''edge'']" "''edge'' \<noteq> t_id labCluster"
    "''o1'' \<in> o_id ` set (orgs labWorld)"
    by (simp_all add: lab_defs labCluster_def activeOn_def liveActive_def world_eval)
  with adapter_deploy_settles [OF labWorld_ok lab_offDb, where orgId = "''o1''" and deploy = "runK8sReleaseDeploy labTools"
      and releaseId = "''r2''" and target = labCluster and actor = None]
  show ?thesis by (auto split: prod.splits sum.splits)
qed

theorem k8s_rollback_vacates_witness:
  "activeOn ''edge'' (deployments (snd (runK8sReleaseRollback labTools ''o1'' labCluster None None labWorld))) = [labDeployment ''d2'' ''edge'']"
proof -
  have "activeOn ''edge'' (deployments labWorld) = [labDeployment ''d2'' ''edge'']" "''edge'' \<noteq> t_id labCluster"
    "''o1'' \<in> o_id ` set (orgs labWorld)"
    by (simp_all add: lab_defs labCluster_def activeOn_def liveActive_def world_eval)
  with k8s_rollback_vacates [OF labWorld_ok lab_offDb(1), of "''o1''" labCluster None None]
  show ?thesis by (auto split: prod.splits sum.splits)
qed

section \<open>The paths in a promotion cascade\<close>

text \<open>Tools that add no target and remove no approval.\<close>

definition calmTools :: "'z dworld_ext transport \<Rightarrow> 'z dworld_scheme k8sEnv \<Rightarrow> 'z cloudEnv \<Rightarrow> bool" where
  "calmTools tr kenv env \<longleftrightarrow> (\<forall>T C. (\<forall>url hs b. keeps (covers T C) (tr_fetch tr url hs b)) \<and>
     (\<forall>send to subject b. tr_email tr = Some send \<longrightarrow> keeps (covers T C) (send to subject b)) \<and>
     (\<forall>b a t. keeps (covers T C) (kn_exec kenv b a t)) \<and> (\<forall>w. covers T C w \<longrightarrow> covers T C (snd (kn_now kenv w))) \<and>
     (\<forall>p. keeps (covers T C) (ce_getCloudBackend env p)) \<and> (\<forall>p h. keeps (covers T C) (ce_getInstanceIp env p h)) \<and> (\<forall>d. keeps (covers T C) (ce_dial env d)) \<and>
     (\<forall>p. keeps (covers T C) (ce_close env p)) \<and> (\<forall>h p. keeps (covers T C) (ce_probe env h p)) \<and>
     (\<forall>p. keeps (covers T C) (ce_bundle env p)) \<and> (\<forall>h p b n. keeps (covers T C) (ce_install env h p b n)) \<and>
     (\<forall>s m v. keeps (covers T C) (ce_applyModule env s m v)))"

lemma readyRelease_yields: "yields (readyRelease i) (\<lambda>r. r_id r = i)"
  unfolding readyRelease_def require_def fail_def release_get_def
  by (intro yields_bind [where R = "\<lambda>r. r_id r = i"] yields_bind_some [OF getLive_yields] yields_intros) auto

lemma rowStart_yields: "yields (rowStart orgId actor release target arts prev extra) (\<lambda>c. c_release c = release)"
  unfolding rowStart_def by (intro yields_bindM) (auto intro!: yields_intros simp: rowCtx_def)

lemma row_gates [gate_intros]:
  "keeps (covers T C) (rowStart o' actor release target arts prev extra)" "keeps (covers T C) (rowFail c extra e)"
  "keeps (covers T C) (completedAudit c extra)" "keeps (covers T C) (failedAudit c extra m)"
  "keeps (covers T C) (deployPromote c s)" "keeps (covers T C) (promoteAt c t s)"
  "keeps (covers T C) (readyRelease i)"
  unfolding rowStart_def rowFail_def completedAudit_def failedAudit_def deployPromote_def promoteAt_def supersedePrevious_def
    deployment_get_def getLive_def readyRelease_def release_get_def fail_def
  by (intro keeps_intros gate_intros)+

lemma body_yields:
  "yields (cloudVmBody cenv vmConn c) (\<lambda>res. x_release res = c_release c)"
  "yields (cloudStackBody cenv stConn c) (\<lambda>res. x_release res = c_release c)"
  "yields (rowFail c extra e) Q" "yields (cloudStackCatch stConn c e) Q"
  unfolding cloudVmBody_def cloudVmReach_def cloudStackBody_def rowFail_def cloudStackCatch_def fail_def
  by (intro yields_catchM yields_intros; simp add: rowResult_def)+

lemma cloudDeploy_release: "yields (runCloudReleaseDeploy cenv o' r t a) (\<lambda>res. r_id (x_release res) = r)"
proof -
  have row: "yields (bindM (rowStart o' x rel t arts prev extra) (\<lambda>c. catchM (b c) (h c))) (\<lambda>res. r_id (x_release res) = r)"
    if "r_id rel = r" "\<And>c. yields (b c) (\<lambda>res. x_release res = c_release c)" "\<And>c e. yields (h c e) (\<lambda>res. r_id (x_release res) = r)"
    for x rel arts prev extra b h
    by (rule yields_bind [OF rowStart_yields], rule yields_catchM) (use that in \<open>auto simp: yields_def\<close>)
  show ?thesis
    unfolding runCloudReleaseDeploy_def runCloudVmReleaseDeploy_def runCloudStackReleaseDeploy_def fail_def
    by (intro yields_branch yields_basic(1); rule yields_bindM; rule yields_bind [OF readyRelease_yields];
      intro yields_bindM row body_yields)
qed

lemma adapterEnv_calm:
  assumes "calmTools tr kenv cenv"
  shows "calm (adapterEnv denv tr kenv cenv)"
proof -
  have k: "keeps (covers T C) (liftK8s (runK8sDeploy kenv opts))" for T C opts
    using assms by (intro keeps_liftK8s keeps_k8s) (simp_all add: calmTools_def)
  have k8s: "keeps (covers T C) (runK8sReleaseDeploy kenv o' r t a)" for T C o' r t a
    unfolding runK8sReleaseDeploy_def k8sBody_def Let_def fail_def artifact_listForRelease_def deployment_getActiveForTarget_def
    by (intro keeps_intros gate_intros k holds_readConnections)
  have tunnel: "keeps (covers T C) (closeTunnel cenv tun)" for T C tun
    using assms unfolding closeTunnel_def calmTools_def by (auto split: option.split intro!: keeps_intros)
  have desc: "keeps I (getConnectionDescriptor h p s g x y)" for I h p s g x y
    unfolding getConnectionDescriptor_def fail_def Let_def by (auto split: networkMode.split intro!: keeps_intros)
  have vm: "keeps (covers T C) (runCloudVmReleaseDeploy cenv o' r t a)" for T C o' r t a
    unfolding runCloudVmReleaseDeploy_def cloudVmBody_def openPath_def cloudVmReach_def installStep_def recordPackages_def
      Let_def fail_def artifact_listForRelease_def deployment_getActiveForTarget_def
    using assms by (intro keeps_intros gate_intros tunnel desc holds_readConnections) (simp_all add: calmTools_def)
  have stack: "keeps (covers T C) (runCloudStackReleaseDeploy cenv o' r t a)" for T C o' r t a
    unfolding runCloudStackReleaseDeploy_def cloudStackBody_def cloudStackCatch_def artifact_listForRelease_def
      deployment_getActiveForTarget_def
    using assms by (intro keeps_intros gate_intros holds_readConnections) (simp_all add: calmTools_def)
  have cloud: "keeps (covers T C) (runCloudReleaseDeploy cenv o' r t a)" for T C o' r t a
    unfolding runCloudReleaseDeploy_def fail_def by (intro keeps_intros vm stack)
  show ?thesis
    using assms k8s cloud cloudDeploy_release [where cenv = cenv] unfolding calm_def adapterEnv_def calmTools_def by simp
qed

text \<open>A transport that answers, with the tools of the laboratory.\<close>

definition labVerbEnv :: "unit verbEnv" where
  "labVerbEnv = adapterEnv (labEnv (Inr ())) \<lparr>tr_fetch = (\<lambda>_ _ _. ret 204), tr_email = None, tr_smtp = False, tr_hmac = (\<lambda>_ _. [])\<rparr>
     labTools labCloud"

lemma labVerbEnv_calm: "calm labVerbEnv"
  unfolding labVerbEnv_def
  by (rule adapterEnv_calm) (simp add: calmTools_def labTools_def labCloud_def keeps_ret keeps_throwM, simp add: keeps_def)

theorem promotion_cascade_ends_witness:
  "runReleaseDeploy 100 labVerbEnv \<lparr>rd_releaseId = Some ''r2'', rd_productName = None, rd_tag = None, rd_targetName = ''lab'',
      rd_actor = None\<rparr> labWorld =
   runReleaseDeploy 4 labVerbEnv \<lparr>rd_releaseId = Some ''r2'', rd_productName = None, rd_tag = None, rd_targetName = ''lab'',
      rd_actor = None\<rparr> labWorld"
proof -
  have "length (targets labWorld) = 2" by (simp add: lab_defs)
  then show ?thesis
    using promotion_cascade_ends [OF labVerbEnv_calm, of labWorld 100] by (simp del: runReleaseDeploy.simps)
qed

end
