(* ===== verification/Slots.thy ===== *)
theory Slots
  imports Adapter_Facts
begin

text \<open>
  What the deploy and rollback paths are for, without rows: every target runs one release or none.
  Each path refines an update of that table, and so does every sequence of them.
\<close>

section \<open>The abstract table\<close>

type_synonym slots = "string \<Rightarrow> string option"

definition slotsIn :: "deployment list \<Rightarrow> slots" where
  "slotsIn D t = map_option d_releaseId (activeFor t D)"

text \<open>A call that fails changes nothing; one that succeeds sets the slot of its target.\<close>

definition slotUpdate :: "(string \<times> string option) option \<Rightarrow> slots \<Rightarrow> slots" where
  "slotUpdate outcome s = (case outcome of None \<Rightarrow> s | Some (t, r) \<Rightarrow> s(t := r))"

definition movedTo :: "slots \<Rightarrow> org list \<Rightarrow> 'z world_scheme \<Rightarrow> bool" where
  "movedTo s Os w \<longleftrightarrow> (\<exists>D'. holds D' Os w \<and> slotsIn D' = s)"

lemma movedTo_refl: "holds D Os w \<Longrightarrow> movedTo (slotsIn D) Os w"
  by (auto simp: movedTo_def)

lemma slots_same:
  assumes "\<And>t. activeOn t D' = activeOn t D"
  shows "slotsIn D' = slotsIn D"
  using assms by (simp add: fun_eq_iff slotsIn_def activeFor_activeOn)

lemma sameActive_moved: "sameActive D Os w \<Longrightarrow> movedTo (slotsIn D) Os w"
  unfolding sameActive_def movedTo_def using slots_same by blast

lemma settled_moved: "settled D Os w \<Longrightarrow> movedTo (slotsIn D) Os w"
  unfolding settled_def movedTo_def using slots_same by blast

lemma promoted_moved:
  assumes "promoted D Os opts r w"
  shows "movedTo ((slotsIn D)(q_targetId opts \<mapsto> q_releaseId opts)) Os w"
proof -
  obtain D' where D': "holds D' Os w" "activeOn (q_targetId opts) D' = [r]" "d_releaseId r = q_releaseId opts"
    "\<And>t. t \<noteq> q_targetId opts \<Longrightarrow> activeOn t D' = activeOn t D"
    using assms by (auto simp: promoted_def)
  then have "slotsIn D' = (slotsIn D)(q_targetId opts \<mapsto> q_releaseId opts)"
    by (auto simp: fun_eq_iff slotsIn_def activeFor_activeOn)
  with D'(1) show ?thesis by (auto simp: movedTo_def)
qed

definition outcome :: "('a \<Rightarrow> string) \<Rightarrow> ('a \<Rightarrow> 'r \<Rightarrow> string option) \<Rightarrow> 'a \<Rightarrow> 'e + 'r \<Rightarrow> (string \<times> string option) option" where
  "outcome target after a res = (case res of Inl _ \<Rightarrow> None | Inr r \<Rightarrow> Some (target a, after a r))"

text \<open>Calls made one after the other, each from the state the one before it left.\<close>

fun runAll :: "('a \<Rightarrow> ('s, 'e, 'r) M) \<Rightarrow> 'a list \<Rightarrow> 's \<Rightarrow> ('e + 'r) list \<times> 's" where
  "runAll run [] w = ([], w)"
| "runAll run (a # as) w = (let (res, w1) = run a w; (rest, w2) = runAll run as w1 in (res # rest, w2))"

section \<open>What a path promises\<close>

text \<open>
  A path runs on an argument, for a target, under conditions that may mention the organisations; what
  the target runs afterwards is read off the argument and the result.
\<close>

locale deploy_path =
  fixes run :: "'a \<Rightarrow> ('z, deployResult) DM" and target :: "'a \<Rightarrow> string" and ok :: "org list \<Rightarrow> 'a \<Rightarrow> bool"
    and after :: "'a \<Rightarrow> deployResult \<Rightarrow> string option"
  assumes run_triple: "ok Os a \<Longrightarrow> triple (holds D Os) (run a)
    (\<lambda>r. movedTo ((slotsIn D)(target a := after a r)) Os) (\<lambda>_. movedTo (slotsIn D) Os)"
begin

text \<open>One call after the other: the table moves by their outcomes alone.\<close>

lemma sequence:
  assumes "holds D Os w" and "list_all (ok Os) as"
  shows "movedTo (fold slotUpdate (map2 (outcome target after) as (fst (runAll run as w))) (slotsIn D)) Os (snd (runAll run as w))"
  using assms
proof (induction as arbitrary: D w)
  case Nil
  then show ?case by (simp add: movedTo_refl)
next
  case (Cons a as)
  have "ok Os a" using Cons.prems(2) by simp
  note t = tripleD [OF run_triple [OF this] Cons.prems(1)]
  have step: "\<exists>D'. holds D' Os (snd (run a w)) \<and> slotsIn D' = slotUpdate (outcome target after a (fst (run a w))) (slotsIn D)"
    by (rule t) (auto simp: movedTo_def outcome_def slotUpdate_def)
  then obtain D' where "holds D' Os (snd (run a w))" "slotsIn D' = slotUpdate (outcome target after a (fst (run a w))) (slotsIn D)" by blast
  with Cons.IH [of D' "snd (run a w)"] Cons.prems(2) show ?case by (simp add: case_prod_beta Let_def)
qed

end

section \<open>The paths of the program\<close>

datatype 'z pathCall =
    VmDeploy denv deployOptions
  | VmRollback denv rollbackOptions
  | ClusterDeploy "'z dworld_scheme k8sEnv" string string target "string option"
  | ClusterRollback "'z dworld_scheme k8sEnv" string target "string option" "string option"
  | CloudDeploy "'z cloudEnv" string string target "string option"
  | CloudRollback "'z cloudEnv" string target "string option" "string option"

fun perform :: "'z pathCall \<Rightarrow> ('z, deployResult) DM" where
  "perform (VmDeploy env opts) = runDeploy env opts"
| "perform (VmRollback env opts) = runRollback env opts"
| "perform (ClusterDeploy env orgId releaseId target actor) = runK8sReleaseDeploy env orgId releaseId target actor"
| "perform (ClusterRollback env orgId target toReleaseId actor) = runK8sReleaseRollback env orgId target toReleaseId actor"
| "perform (CloudDeploy env orgId releaseId target actor) = runCloudReleaseDeploy env orgId releaseId target actor"
| "perform (CloudRollback env orgId target toReleaseId actor) = runCloudReleaseRollback env orgId target toReleaseId actor"

fun pathTarget :: "'z pathCall \<Rightarrow> string" where
  "pathTarget (VmDeploy env opts) = q_targetId opts"
| "pathTarget (VmRollback env opts) = k_targetId opts"
| "pathTarget (ClusterDeploy env orgId releaseId target actor) = t_id target"
| "pathTarget (ClusterRollback env orgId target toReleaseId actor) = t_id target"
| "pathTarget (CloudDeploy env orgId releaseId target actor) = t_id target"
| "pathTarget (CloudRollback env orgId target toReleaseId actor) = t_id target"

text \<open>
  A deploy runs the release it was asked for, a rollback of a machine or a cloud target the release
  of the deployment it returns, and a rolled back cluster target none.
\<close>

fun pathAfter :: "'z pathCall \<Rightarrow> deployResult \<Rightarrow> string option" where
  "pathAfter (VmDeploy env opts) r = Some (q_releaseId opts)"
| "pathAfter (ClusterDeploy env orgId releaseId target actor) r = Some releaseId"
| "pathAfter (CloudDeploy env orgId releaseId target actor) r = Some releaseId"
| "pathAfter (ClusterRollback env orgId target toReleaseId actor) r = None"
| "pathAfter _ r = Some (d_releaseId (x_deployment r))"

text \<open>The backend can drop checkpoints, the drivers leave the database alone, the organisation is there.\<close>

fun pathOk :: "org list \<Rightarrow> 'z pathCall \<Rightarrow> bool" where
  "pathOk Os (VmDeploy env opts) \<longleftrightarrow> (\<forall>h cp. b_deleteCheckpoint (e_backend env) h cp = Inr ())"
| "pathOk Os (VmRollback env opts) \<longleftrightarrow> (\<forall>h cp. b_deleteCheckpoint (e_backend env) h cp = Inr ())"
| "pathOk Os (ClusterDeploy env orgId releaseId target actor) \<longleftrightarrow> k8sOffDb env \<and> orgId \<in> o_id ` set Os"
| "pathOk Os (ClusterRollback env orgId target toReleaseId actor) \<longleftrightarrow> k8sOffDb env \<and> orgId \<in> o_id ` set Os"
| "pathOk Os (CloudDeploy env orgId releaseId target actor) \<longleftrightarrow> cloudOffDb env \<and> orgId \<in> o_id ` set Os"
| "pathOk Os (CloudRollback env orgId target toReleaseId actor) \<longleftrightarrow> cloudOffDb env \<and> orgId \<in> o_id ` set Os"

lemma promoted_moved_to:
  assumes "promoted D Os opts r w"
  shows "movedTo ((slotsIn D)(q_targetId opts \<mapsto> d_releaseId r)) Os w"
  using promoted_moved [OF assms] assms by (auto simp: promoted_def)

lemma deploy_moves:
  "triple (holds D Os) m (\<lambda>r. promoted D Os opts (x_deployment r)) (\<lambda>_. settled D Os) \<Longrightarrow>
   triple (holds D Os) m (\<lambda>r. movedTo ((slotsIn D)(q_targetId opts \<mapsto> d_releaseId (x_deployment r))) Os) (\<lambda>_. movedTo (slotsIn D) Os)"
  by (rule triple_weaken, assumption) (auto intro: promoted_moved_to settled_moved)

lemma runDeploy_moves:
  assumes "\<And>h cp. b_deleteCheckpoint (e_backend env) h cp = Inr ()"
  shows "triple (holds D Os) (runDeploy env opts)
    (\<lambda>_. movedTo ((slotsIn D)(q_targetId opts \<mapsto> q_releaseId opts)) Os) (\<lambda>_. movedTo (slotsIn D) Os)"
  by (rule triple_weaken [OF runDeploy_triple [OF assms]]) (auto intro: promoted_moved sameActive_moved)

lemma runRollback_moves:
  assumes "\<And>h cp. b_deleteCheckpoint (e_backend env) h cp = Inr ()"
  shows "triple (holds D Os) (runRollback env opts)
    (\<lambda>r. movedTo ((slotsIn D)(k_targetId opts \<mapsto> d_releaseId (x_deployment r))) Os) (\<lambda>_. movedTo (slotsIn D) Os)"
proof -
  have run: "triple (holds D Os) (runDeploy env \<lparr>q_orgId = k_orgId opts, q_releaseId = i, q_targetId = k_targetId opts, q_actor = a,
      q_guestStagingRoot = None\<rparr>)
      (\<lambda>r. movedTo ((slotsIn D)(k_targetId opts \<mapsto> d_releaseId (x_deployment r))) Os) (\<lambda>_. movedTo (slotsIn D) Os)" for i a
    by (rule triple_weaken [OF runDeploy_triple [OF assms]]) (auto dest: promoted_moved_to intro: sameActive_moved)
  have pick: "keeps (holds D Os) (if c then ret x else bindM (deployment_listForTarget t n) (\<lambda>history.
      case find p history of None \<Rightarrow> throwM e | Some d \<Rightarrow> ret (d_releaseId d)))" for c x t n p and e :: err
    unfolding deployment_listForTarget_def by (intro keeps_intros)
  show ?thesis
    unfolding runRollback_def
    apply (rule triple_bindM [OF target_get_triple], rule triple_pure)
    apply (rule triple_option, rule triple_throw, erule movedTo_refl)
    by (rule triple_step [OF pick _ run]) (rule movedTo_refl)
qed

lemma adapter_moves:
  assumes "triple (holds D Os) m (\<lambda>r. promoted D Os (adapterOptions orgId releaseId target) (x_deployment r)) (\<lambda>_. settled D Os)"
  shows "triple (holds D Os) m (\<lambda>_. movedTo ((slotsIn D)(t_id target \<mapsto> releaseId)) Os) (\<lambda>_. movedTo (slotsIn D) Os)"
  by (rule triple_weaken [OF assms]) (auto dest: promoted_moved intro: settled_moved simp: adapterOptions_def)

lemma rollbackAudit_moves:
  assumes "orgId \<in> o_id ` set Os"
  shows "triple (movedTo s Os) (rollbackAudit orgId actor action target i extra) (\<lambda>_. movedTo s Os) E"
  unfolding rollbackAudit_def movedTo_def
  apply (intro triple_ex triple_pure)
  subgoal for D by (rule triple_bindM [OF audit_triple [OF assms]], rule triple_return) auto
  done

lemma cloudDeploy_moves:
  "cloudOffDb env \<Longrightarrow> orgId \<in> o_id ` set Os \<Longrightarrow> triple (holds D Os) (runCloudReleaseDeploy env orgId releaseId target actor)
    (\<lambda>r. movedTo ((slotsIn D)(t_id target \<mapsto> d_releaseId (x_deployment r))) Os) (\<lambda>_. movedTo (slotsIn D) Os)"
  using deploy_moves [OF adapter_triple(2), of orgId Os env D releaseId target actor] by (simp add: adapterOptions_def)

lemma runCloudReleaseRollback_moves:
  assumes "cloudOffDb env" and org: "orgId \<in> o_id ` set Os"
  shows "triple (holds D Os) (runCloudReleaseRollback env orgId target to actor)
    (\<lambda>r. movedTo ((slotsIn D)(t_id target \<mapsto> d_releaseId (x_deployment r))) Os) (\<lambda>_. movedTo (slotsIn D) Os)"
proof -
  have pick: "keeps (holds D Os) (if c then ret x else priorRelease target)" for c x
    unfolding priorRelease_def deployment_getActiveForTarget_def deployment_get_def getLive_def fail_def by (intro keeps_intros)
  have started: "triple (holds D Os) (rollbackAudit orgId act action target i extra) (\<lambda>_. holds D Os) E" for act action i extra E
    unfolding rollbackAudit_def by (rule triple_bindM [OF audit_triple [OF org]], rule triple_return)
  show ?thesis
    unfolding runCloudReleaseRollback_def Let_def
    apply (rule triple_step [OF pick], erule movedTo_refl)
    apply (rule triple_bindM [OF started])
    apply (rule triple_catchM)
     apply (rule triple_bindM [OF cloudDeploy_moves [OF assms]])
     apply (rule triple_bindM [OF rollbackAudit_moves [OF org]])
     apply (rule triple_return, assumption)
    apply (rule triple_bindM [OF rollbackAudit_moves [OF org]])
    by (rule triple_throw)
qed

lemma runK8sReleaseRollback_moves:
  assumes "k8sOffDb env" and "orgId \<in> o_id ` set Os"
  shows "triple (holds D Os) (runK8sReleaseRollback env orgId target to actor)
    (\<lambda>_. movedTo ((slotsIn D)(t_id target := None)) Os) (\<lambda>_. movedTo (slotsIn D) Os)"
proof (rule triple_weaken [OF runK8sReleaseRollback_triple [OF assms]])
  fix r and w :: "'a dworld_scheme"
  assume "\<exists>D'. holds D' Os w \<and> (activeOn (t_id target) D' = [] \<and> (\<forall>t. t \<noteq> t_id target \<longrightarrow> activeOn t D' = activeOn t D) \<and>
      (\<exists>a a'. activeFor (t_id target) D = Some a \<and> a' \<in> set D' \<and> d_id a' = d_id a \<and> d_status a' = DRolledBack))"
  then obtain D' where D': "holds D' Os w" "activeOn (t_id target) D' = []" "\<And>t. t \<noteq> t_id target \<Longrightarrow> activeOn t D' = activeOn t D" by blast
  then have "slotsIn D' = (slotsIn D)(t_id target := None)" by (auto simp: fun_eq_iff slotsIn_def activeFor_activeOn)
  with D'(1) show "movedTo ((slotsIn D)(t_id target := None)) Os w" by (auto simp: movedTo_def)
qed (auto intro: movedTo_refl)

interpretation paths: deploy_path perform pathTarget pathOk pathAfter
proof
  fix Os D and a :: "'z pathCall"
  assume ok: "pathOk Os a"
  show "triple (holds D Os) (perform a) (\<lambda>r. movedTo ((slotsIn D)(pathTarget a := pathAfter a r)) Os) (\<lambda>_. movedTo (slotsIn D) Os)"
  proof (cases a)
    case (VmDeploy env opts)
    with ok show ?thesis by (simp add: runDeploy_moves)
  next
    case (ClusterDeploy env orgId releaseId target actor)
    with ok show ?thesis by (simp add: adapter_moves [OF adapter_triple(1)])
  next
    case (CloudDeploy env orgId releaseId target actor)
    with ok show ?thesis by (simp add: adapter_moves [OF adapter_triple(2)])
  qed (use ok in \<open>auto intro: runRollback_moves runCloudReleaseRollback_moves runK8sReleaseRollback_moves\<close>)
qed

section \<open>Refinement\<close>

definition slotsOf :: "'z world_scheme \<Rightarrow> slots" where
  "slotsOf w = slotsIn (deployments w)"

text \<open>
  C31. The deploy and rollback paths refine a table of slots.  However a sequence of deploys and
  rollbacks mixes the paths for machines, clusters, cloud instances and stacks, on a quiet consistent
  database whose ids do not repeat: which release each target runs at the end is what a plain
  table holds after the outcomes of the calls, one after the other, where a call that threw changes
  nothing, a deploy that returned sets the slot of its target to its release, a rollback to that of the
  deployment it returns, and the rollback of a cluster empties it.  What the backends, the drivers and
  the guests answer only decides which calls throw.
\<close>

theorem paths_refine_slots:
  assumes "quiet w" and "db_ok w" and "freshIds w" and "list_all (pathOk (orgs w)) cs"
  shows "slotsOf (snd (runAll perform cs w)) =
    fold slotUpdate (map2 (outcome pathTarget pathAfter) cs (fst (runAll perform cs w))) (slotsOf w)"
  using paths.sequence [of "deployments w" "orgs w" w cs] assms
  by (auto simp: holds_def movedTo_def slotsOf_def)

text \<open>A deploy to the machine, then a deploy to a cluster and its rollback.\<close>

definition labCalls :: "unit pathCall list" where
  "labCalls = [VmDeploy (labEnv (Inr ())) labOptions, ClusterDeploy labTools ''o1'' ''r2'' (labCluster\<lparr>t_id := ''edge''\<rparr>) None,
     ClusterRollback labTools ''o1'' (labCluster\<lparr>t_id := ''edge''\<rparr>) None None]"

theorem paths_refine_slots_witness:
  "slotsOf (snd (runAll perform labCalls labWorld)) =
    fold slotUpdate (map2 (outcome pathTarget pathAfter) labCalls (fst (runAll perform labCalls labWorld)))
      ((\<lambda>_. None)(''lab'' := Some ''r1'', ''edge'' := Some ''r1''))"
proof -
  have "slotsOf labWorld = (\<lambda>_. None)(''lab'' := Some ''r1'', ''edge'' := Some ''r1'')"
    by (auto simp: slotsOf_def slotsIn_def activeFor_def fun_eq_iff lab_defs liveActive_def)
  moreover have "list_all (pathOk (orgs labWorld)) labCalls"
    using lab_offDb by (simp add: labCalls_def lab_defs world_eval)
  ultimately show ?thesis using paths_refine_slots [OF labWorld_ok, of labCalls] by simp
qed

end
