(* ===== verification/Build_Manifest.thy ===== *)
theory Build_Manifest
  imports Js Sql
begin

text \<open>
  The release manifest (\<open>control-plane/build/manifest.ts\<close>): its entries, their order, and the
  canonical JSON that is hashed and signed.  The lemmas show that \<open>buildManifest\<close> is a stable sort by
  component and that the canonical text determines the manifest.
\<close>

section \<open>Manifests\<close>

datatype manifestKind = BlobEntry | ImageRefEntry

record manifestEntry =
  me_component :: string
  me_kind :: manifestKind
  me_sha256 :: "string option"
  me_imageRef :: "string option"

record releaseManifest =
  rm_product :: string
  rm_tag :: string
  rm_commitSha :: string
  rm_artifacts :: "manifestEntry list"

text \<open>The keys of a \<open>Map\<close> in the order of their first insertion.\<close>

definition insertionOrder :: "'a list \<Rightarrow> 'a list" where
  "insertionOrder xs = rev (remdups (rev xs))"

definition buildManifest :: "string \<Rightarrow> string \<Rightarrow> string \<Rightarrow> manifestEntry list \<Rightarrow> releaseManifest" where
  "buildManifest product tag commitSha entries =
     (let byComponent = (\<lambda>c. filter (\<lambda>e. me_component e = c) entries);
          sortedComponents = sort (insertionOrder (map me_component entries)) in
      \<lparr>rm_product = product, rm_tag = tag, rm_commitSha = commitSha, rm_artifacts = concat (map byComponent sortedComponents)\<rparr>)"

section \<open>Canonical JSON\<close>

text \<open>
  The values a manifest is made of; the value of a key is \<open>None\<close> when it is \<open>undefined\<close>.
\<close>

datatype mval =
    MNum int
  | MStr string
  | MArr "mval list"
  | MObj "(string \<times> mval option) list"

definition hexDigit :: "nat \<Rightarrow> char" where
  "hexDigit n = char_of (if n < 10 then 48 + n else 87 + n)"

text \<open>\<open>JSON.stringify\<close> on a string.\<close>

definition jsonEscape :: "char \<Rightarrow> string" where
  "jsonEscape c =
     (let n = (of_char c :: nat) in
      if n = 34 then [CHR 0x5C, CHR 0x22]
      else if n = 92 then [CHR 0x5C, CHR 0x5C]
      else if n = 8 then [CHR 0x5C, CHR ''b'']
      else if n = 9 then [CHR 0x5C, CHR ''t'']
      else if n = 10 then [CHR 0x5C, CHR ''n'']
      else if n = 12 then [CHR 0x5C, CHR ''f'']
      else if n = 13 then [CHR 0x5C, CHR ''r'']
      else if n < 32 then [CHR 0x5C, CHR ''u'', CHR ''0'', CHR ''0'', hexDigit (n div 16), hexDigit (n mod 16)]
      else [c])"

definition quoteJson :: "string \<Rightarrow> string" where
  "quoteJson s = [CHR 0x22] @ concat (map jsonEscape s) @ [CHR 0x22]"

definition definedFields :: "(string \<times> 'a option) list \<Rightarrow> (string \<times> 'a) list" where
  "definedFields fs = map (map_prod id the) (filter (\<lambda>(k, v). v \<noteq> None) fs)"

primrec canonicalize :: "mval \<Rightarrow> string" where
  "canonicalize (MNum i) = showInt i"
| "canonicalize (MStr s) = quoteJson s"
| "canonicalize (MArr vs) = ''['' @ join_with '','' (map canonicalize vs) @ '']''"
| "canonicalize (MObj fs) =
     [CHR 0x7B] @ join_with '','' (map (\<lambda>(k, t). quoteJson k @ '':'' @ t)
       (sort_key fst (definedFields (map (map_prod id (map_option canonicalize)) fs)))) @ [CHR 0x7D]"

fun manifestKind_text :: "manifestKind \<Rightarrow> string" where
  "manifestKind_text BlobEntry = ''blob''"
| "manifestKind_text ImageRefEntry = ''image_ref''"

definition entryValue :: "manifestEntry \<Rightarrow> mval" where
  "entryValue e = MObj [(''component'', Some (MStr (me_component e))), (''kind'', Some (MStr (manifestKind_text (me_kind e)))),
     (''sha256'', map_option MStr (me_sha256 e)), (''image_ref'', map_option MStr (me_imageRef e))]"

definition manifestValue :: "releaseManifest \<Rightarrow> mval" where
  "manifestValue m = MObj [(''schema_version'', Some (MNum 1)), (''product'', Some (MStr (rm_product m))), (''tag'', Some (MStr (rm_tag m))),
     (''commit_sha'', Some (MStr (rm_commitSha m))), (''artifacts'', Some (MArr (map entryValue (rm_artifacts m))))]"

definition canonicalManifestBytes :: "releaseManifest \<Rightarrow> string" where
  "canonicalManifestBytes m = canonicalize (manifestValue m)"

definition hashManifest :: "(string \<Rightarrow> string) \<Rightarrow> releaseManifest \<Rightarrow> string" where
  "hashManifest sha256 m = sha256 (canonicalManifestBytes m)"

section \<open>The order of the entries\<close>

lemma sorted_groups:
  assumes "sorted ks" and "distinct ks" and "f ` set ys \<subseteq> set ks" and "sorted (map f ys)"
  shows "concat (map (\<lambda>k. filter (\<lambda>x. f x = k) ys) ks) = ys"
  using assms
proof (induction ks arbitrary: ys)
  case Nil
  then show ?case by simp
next
  case (Cons k ks)
  let ?rest = "filter (\<lambda>x. f x \<noteq> k) ys"
  have front: "filter (\<lambda>x. f x = k) zs @ filter (\<lambda>x. f x \<noteq> k) zs = zs" if "sorted (map f zs)" and "\<forall>z\<in>set zs. k \<le> f z" for zs
    using that
  proof (induction zs)
    case (Cons z zs)
    moreover have "filter (\<lambda>x. f x = k) zs = []" if "f z \<noteq> k" using that Cons.prems by (fastforce simp: filter_empty_conv)
    ultimately show ?case by fastforce
  qed simp
  have "\<forall>z\<in>set ys. k \<le> f z" using Cons.prems by auto
  then have "filter (\<lambda>x. f x = k) ys @ ?rest = ys" by (rule front [OF Cons.prems(4)])
  moreover have "concat (map (\<lambda>c. filter (\<lambda>x. f x = c) ?rest) ks) = ?rest"
    using Cons.prems by (intro Cons.IH) (auto simp: sorted_filter)
  moreover have "map (\<lambda>c. filter (\<lambda>x. f x = c) ?rest) ks = map (\<lambda>c. filter (\<lambda>x. f x = c) ys) ks"
    using Cons.prems(2) by (auto intro!: filter_cong)
  ultimately show ?case by (metis concat.simps(2) list.simps(9))
qed

lemma insertionOrder_facts [simp]: "set (insertionOrder xs) = set xs" "distinct (insertionOrder xs)"
  by (simp_all add: insertionOrder_def)

lemma buildManifest_sorts: "rm_artifacts (buildManifest product tag commitSha entries) = sort_key me_component entries"
proof -
  let ?ks = "sort (insertionOrder (map me_component entries))"
  have "concat (map (\<lambda>k. filter (\<lambda>x. me_component x = k) (sort_key me_component entries)) ?ks) = sort_key me_component entries"
    by (rule sorted_groups) auto
  then show ?thesis by (simp add: buildManifest_def Let_def sort_key_stable)
qed

section \<open>The canonical text determines the value\<close>

text \<open>Prefix codes: no code word is a proper prefix of another one with a fitting continuation.\<close>

definition decodes :: "('a \<Rightarrow> string) \<Rightarrow> (string \<Rightarrow> bool) \<Rightarrow> 'a set \<Rightarrow> 'a \<Rightarrow> bool" where
  "decodes f fence A x \<longleftrightarrow> (\<forall>y\<in>A. \<forall>r r'. fence r \<longrightarrow> fence r' \<longrightarrow> f x @ r = f y @ r' \<longrightarrow> x = y \<and> r = r')"

lemma decodesD: "decodes f fence A x \<Longrightarrow> y \<in> A \<Longrightarrow> fence r \<Longrightarrow> fence r' \<Longrightarrow> f x @ r = f y @ r' \<Longrightarrow> x = y \<and> r = r'"
  by (simp add: decodes_def)

text \<open>Reading one escaped character back.\<close>

definition hexValue :: "char \<Rightarrow> nat" where
  "hexValue c = (let n = of_char c in if n < 58 then n - 48 else n - 87)"

fun readEscaped :: "string \<Rightarrow> (char \<times> string) option" where
  "readEscaped (c # s) =
     (if c \<noteq> CHR 0x5C then Some (c, s)
      else (case s of
        [] \<Rightarrow> None
      | d # s' \<Rightarrow>
          if d = CHR ''b'' then Some (CHR 0x08, s') else if d = CHR ''t'' then Some (CHR 0x09, s')
          else if d = CHR ''n'' then Some (CHR 0x0A, s') else if d = CHR ''f'' then Some (CHR 0x0C, s')
          else if d = CHR ''r'' then Some (CHR 0x0D, s')
          else if d = CHR ''u'' then Some (char_of (16 * hexValue (s' ! 2) + hexValue (s' ! 3)), drop 4 s')
          else Some (d, s')))"
| "readEscaped [] = None"

lemma hexValue_hexDigit: "n < 16 \<Longrightarrow> hexValue (hexDigit n) = n"
  by (simp add: hexValue_def hexDigit_def Let_def)

lemma readEscaped_jsonEscape: "readEscaped (jsonEscape c @ r) = Some (c, r)"
proof -
  define n :: nat where "n = of_char c"
  have c: "c = char_of n" by (simp add: n_def)
  consider "n \<in> {34, 92, 8, 9, 10, 12, 13}" | "n < 32" "n \<notin> {34, 92, 8, 9, 10, 12, 13}" | "n \<ge> 32" "n \<notin> {34, 92}" by force
  then show ?thesis
  proof cases
    case 1
    then show ?thesis by (auto simp: c jsonEscape_def) code_simp+
  next
    case 2
    then have "jsonEscape c = [CHR 0x5C, CHR ''u'', CHR ''0'', CHR ''0'', hexDigit (n div 16), hexDigit (n mod 16)]"
      by (simp add: jsonEscape_def n_def [symmetric])
    moreover have "hexValue (hexDigit (n div 16)) = n div 16" "hexValue (hexDigit (n mod 16)) = n mod 16"
      using 2 by (simp_all add: hexValue_hexDigit)
    ultimately show ?thesis by (simp add: numeral_3_eq_3 numeral_2_eq_2 c)
  next
    case 3
    then have "c \<noteq> CHR 0x5C" by (auto simp: n_def)
    with 3 show ?thesis by (simp add: jsonEscape_def n_def [symmetric])
  qed
qed

lemma jsonEscape_prefix: "jsonEscape c @ r = jsonEscape d @ r' \<Longrightarrow> c = d \<and> r = r'"
  by (metis readEscaped_jsonEscape option.inject prod.inject)

lemma jsonEscape_head: "\<exists>x xs. jsonEscape c = x # xs \<and> x \<noteq> CHR 0x22"
  by (auto simp: jsonEscape_def Let_def)

lemma quoteJson_prefix:
  assumes "quoteJson s @ r = quoteJson s' @ r'"
  shows "s = s' \<and> r = r'"
proof -
  have "concat (map jsonEscape s) @ CHR 0x22 # r = concat (map jsonEscape s') @ CHR 0x22 # r' \<Longrightarrow> s = s' \<and> r = r'"
  proof (induction s arbitrary: s')
    case Nil
    show ?case
    proof (cases s')
      case (Cons d t)
      with jsonEscape_head [of d] Nil show ?thesis by auto
    qed (use Nil in simp)
  next
    case (Cons c s)
    show ?case
    proof (cases s')
      case Nil
      with jsonEscape_head [of c] Cons.prems show ?thesis by auto
    next
      case (Cons d t)
      then have "jsonEscape c @ (concat (map jsonEscape s) @ CHR 0x22 # r) = jsonEscape d @ (concat (map jsonEscape t) @ CHR 0x22 # r')"
        using Cons.prems by simp
      from jsonEscape_prefix [OF this] Cons.IH [of t] Cons show ?thesis by simp
    qed
  qed
  with assms show ?thesis by (simp add: quoteJson_def)
qed

text \<open>A number is followed by something that is no digit.\<close>

definition fence :: "string \<Rightarrow> bool" where
  "fence r \<longleftrightarrow> (case r of [] \<Rightarrow> True | c # _ \<Rightarrow> \<not> isDigit c)"

lemma takeWhile_fence: "list_all p s \<Longrightarrow> (case r of [] \<Rightarrow> True | c # _ \<Rightarrow> \<not> p c) \<Longrightarrow> takeWhile p (s @ r) = s"
  by (induction s) (auto split: list.splits)

lemma showInt_prefix:
  assumes "showInt i @ r = showInt j @ r'" and "fence r" and "fence r'"
  shows "i = j \<and> r = r'"
proof -
  have nat: "m = n \<and> q = q'" if "showNat m @ q = showNat n @ q'" "fence q" "fence q'" for m n q q'
  proof -
    have "takeWhile isDigit (showNat m @ q) = showNat m" "takeWhile isDigit (showNat n @ q') = showNat n"
      using that(2,3) showNat_digits by (auto simp: fence_def intro!: takeWhile_fence)
    with that(1) have "showNat m = showNat n" by simp
    with that(1) digitsVal_showNat show ?thesis by (metis option.inject append_same_eq same_append_eq)
  qed
  have dash: "showNat m @ q \<noteq> CHR ''-'' # q'" for m q q'
    using showNat_digits [of m] by (cases "showNat m") (auto dest: isDigit_not_sign)
  show ?thesis
  proof (cases "i < 0"; cases "j < 0")
    assume "i < 0" "j < 0"
    with assms nat [of "nat (- i)" r "nat (- j)" r'] have "nat (- i) = nat (- j) \<and> r = r'" by (simp add: showInt_def)
    with \<open>i < 0\<close> \<open>j < 0\<close> show ?thesis by linarith
  next
    assume "\<not> i < 0" "\<not> j < 0"
    with assms nat [of "nat i" r "nat j" r'] have "nat i = nat j \<and> r = r'" by (simp add: showInt_def)
    with \<open>\<not> i < 0\<close> \<open>\<not> j < 0\<close> show ?thesis by linarith
  next
    assume "i < 0" "\<not> j < 0"
    with assms(1) dash [of "nat j" r' "showNat (nat (- i)) @ r"] show ?thesis by (simp add: showInt_def)
  next
    assume "\<not> i < 0" "j < 0"
    with assms(1) dash [of "nat i" r "showNat (nat (- j)) @ r'"] show ?thesis by (simp add: showInt_def)
  qed
qed

lemma join_with_Cons: "join_with sep (x # xs) = x @ (if xs = [] then [] else sep @ join_with sep xs)"
  by (cases xs) simp_all

lemma items_prefix:
  assumes "\<forall>x\<in>set xs. decodes f fence A x" and "set ys \<subseteq> A" and "\<And>x. x \<in> set xs \<union> A \<Longrightarrow> \<exists>c cs. f x = c # cs \<and> c \<noteq> close"
    and "close \<noteq> CHR '',''" and "\<not> isDigit close"
    and "join_with '','' (map f xs) @ close # r = join_with '','' (map f ys) @ close # r'"
  shows "xs = ys \<and> r = r'"
  using assms(1-3,6)
proof (induction xs arbitrary: ys)
  case Nil
  show ?case
  proof (cases ys)
    case (Cons y ys')
    with Nil.prems(2) Nil.prems(3) [of y] obtain c cs where "f y = c # cs" "c \<noteq> close" by auto
    with Nil.prems Cons show ?thesis by (simp add: join_with_Cons)
  qed (use Nil in simp)
next
  case (Cons x xs)
  show ?case
  proof (cases ys)
    case Nil
    with Cons.prems(3) [of x] Cons.prems(4) show ?thesis by (auto simp: join_with_Cons)
  next
    case ys: (Cons y ys')
    let ?R = "if xs = [] then close # r else CHR '','' # join_with '','' (map f xs) @ close # r"
    let ?R' = "if ys' = [] then close # r' else CHR '','' # join_with '','' (map f ys') @ close # r'"
    have "\<not> isDigit (CHR '','')" by (simp add: isDigit_def digitVal_def)
    with assms(5) have "fence ?R" "fence ?R'" by (simp_all add: fence_def)
    moreover have "f x @ ?R = f y @ ?R'" using Cons.prems(4) ys by (auto simp: join_with_Cons split: if_splits)
    ultimately have e: "x = y \<and> ?R = ?R'"
      using decodesD [of f fence A x y ?R ?R'] Cons.prems(1,2) ys by simp
    show ?thesis
    proof (cases "xs = []")
      case True
      with e assms(4) ys show ?thesis by (auto split: if_splits)
    next
      case False
      with e assms(4) have "join_with '','' (map f xs) @ close # r = join_with '','' (map f ys') @ close # r'" by (auto split: if_splits)
      from Cons.IH [OF _ _ _ this] Cons.prems(1-3) ys have "xs = ys' \<and> r = r'" by auto
      with e ys show ?thesis by simp
    qed
  qed
qed

text \<open>A value with the keys of every object sorted and the undefined ones dropped.\<close>

primrec tidy :: "mval \<Rightarrow> mval" where
  "tidy (MNum i) = MNum i"
| "tidy (MStr s) = MStr s"
| "tidy (MArr vs) = MArr (map tidy vs)"
| "tidy (MObj fs) = MObj (map (map_prod id Some) (sort_key fst (definedFields (map (map_prod id (map_option tidy)) fs))))"

inductive tidied :: "mval \<Rightarrow> bool" where
  "tidied (MNum i)"
| "tidied (MStr s)"
| "list_all tidied vs \<Longrightarrow> tidied (MArr vs)"
| "list_all (\<lambda>(k, v). tidied v) fs \<Longrightarrow> sorted (map fst fs) \<Longrightarrow> tidied (MObj (map (map_prod id Some) fs))"

definition fieldText :: "string \<times> mval \<Rightarrow> string" where
  "fieldText kv = quoteJson (fst kv) @ '':'' @ canonicalize (snd kv)"

lemma canonicalize_fields:
  assumes "sorted (map fst fs)"
  shows "canonicalize (MObj (map (map_prod id Some) fs)) = CHR 0x7B # join_with '','' (map fieldText fs) @ [CHR 0x7D]"
proof -
  have "definedFields (map (map_prod id (map_option canonicalize)) (map (map_prod id Some) fs)) = map (map_prod id canonicalize) fs"
    by (induction fs) (auto simp: definedFields_def)
  moreover have "sort_key fst (map (map_prod id canonicalize) fs) = map (map_prod id canonicalize) fs"
    using assms by (intro sort_key_id_if_sorted) (simp add: o_def)
  moreover have "map (\<lambda>(k, t). quoteJson k @ '':'' @ t) (map (map_prod id canonicalize) fs) = map fieldText fs"
    by (simp add: fieldText_def o_def split_beta)
  ultimately show ?thesis by (simp only: canonicalize.simps) simp
qed

lemma canonicalize_head:
  assumes "tidied v"
  shows "\<exists>c cs. canonicalize v = c # cs \<and> c \<noteq> CHR '']'' \<and> (case v of MNum _ \<Rightarrow> isDigit c \<or> c = CHR ''-'' | MStr _ \<Rightarrow> c = CHR 0x22
     | MArr _ \<Rightarrow> c = CHR ''['' | MObj _ \<Rightarrow> c = CHR 0x7B)"
proof (cases v)
  case (MNum i)
  have "\<not> isDigit (CHR '']'')" by (simp add: isDigit_def digitVal_def)
  with MNum showNat_digits [of "nat i"] show ?thesis by (cases "showNat (nat i)") (auto simp: showInt_def)
qed (simp_all add: quoteJson_def)

lemma canonicalize_starts: "tidied v \<Longrightarrow> \<exists>c. (\<exists>cs. canonicalize v = c # cs) \<and> c \<noteq> CHR '']''"
  using canonicalize_head by blast

lemma field_prefix:
  assumes "decodes canonicalize fence A (snd kv)"
  shows "decodes fieldText fence {kv. snd kv \<in> A} kv"
  unfolding decodes_def
proof (intro ballI allI impI)
  fix kv' r r' assume a: "kv' \<in> {kv. snd kv \<in> A}" "fence r" "fence r'" and e: "fieldText kv @ r = fieldText kv' @ r'"
  from e have "quoteJson (fst kv) @ ('':'' @ canonicalize (snd kv) @ r) = quoteJson (fst kv') @ ('':'' @ canonicalize (snd kv') @ r')"
    by (simp add: fieldText_def)
  from quoteJson_prefix [OF this] have "fst kv = fst kv'" "canonicalize (snd kv) @ r = canonicalize (snd kv') @ r'" by simp_all
  with decodesD [OF assms _ a(2,3)] a(1) show "kv = kv' \<and> r = r'" by (auto simp: prod_eq_iff)
qed

lemma not_digits [simp]: "\<not> isDigit (CHR 0x22)" "\<not> isDigit (CHR ''['')" "\<not> isDigit (CHR '']'')" "\<not> isDigit (CHR 0x7B)" "\<not> isDigit (CHR 0x7D)"
  by (simp_all add: isDigit_def digitVal_def)

lemma heads_apart:
  assumes "tidied v" and "tidied v'" and "canonicalize v @ r = canonicalize v' @ r'"
  shows "(case v of MNum _ \<Rightarrow> (case v' of MNum _ \<Rightarrow> True | _ \<Rightarrow> False) | MStr _ \<Rightarrow> (case v' of MStr _ \<Rightarrow> True | _ \<Rightarrow> False)
     | MArr _ \<Rightarrow> (case v' of MArr _ \<Rightarrow> True | _ \<Rightarrow> False) | MObj _ \<Rightarrow> (case v' of MObj _ \<Rightarrow> True | _ \<Rightarrow> False))"
  using canonicalize_head [OF assms(1)] canonicalize_head [OF assms(2)] assms(3) by (auto split: mval.splits)

lemma canonicalize_prefix: "tidied v \<Longrightarrow> decodes canonicalize fence {v. tidied v} v"
proof (induction v rule: tidied.induct)
  case (1 i)
  show ?case
    unfolding decodes_def
  proof (intro ballI allI impI)
    fix y r r' assume y: "y \<in> {v. tidied v}" "fence r" "fence r'" and e: "canonicalize (MNum i) @ r = canonicalize y @ r'"
    with heads_apart [OF tidied.intros(1) _ e] obtain j where "y = MNum j" by (auto split: mval.splits)
    with e y show "MNum i = y \<and> r = r'" using showInt_prefix [of i r j r'] by simp
  qed
next
  case (2 s)
  show ?case
    unfolding decodes_def
  proof (intro ballI allI impI)
    fix y r r' assume y: "y \<in> {v. tidied v}" "fence r" "fence r'" and e: "canonicalize (MStr s) @ r = canonicalize y @ r'"
    with heads_apart [OF tidied.intros(2) _ e] obtain t where "y = MStr t" by (auto split: mval.splits)
    with e show "MStr s = y \<and> r = r'" using quoteJson_prefix [of s r t r'] by simp
  qed
next
  case (3 vs)
  show ?case
    unfolding decodes_def
  proof (intro ballI allI impI)
    fix y r r' assume y: "y \<in> {v. tidied v}" "fence r" "fence r'" and e: "canonicalize (MArr vs) @ r = canonicalize y @ r'"
    from 3 have "tidied (MArr vs)" by (auto intro: tidied.intros simp: list_all_iff)
    with heads_apart [OF this _ e] y obtain ws where ws: "y = MArr ws" by (auto split: mval.splits)
    with y have "list_all tidied ws" by (auto elim: tidied.cases)
    with 3 e ws have "vs = ws \<and> r = r'"
      by (intro items_prefix [of vs canonicalize "{v. tidied v}" ws "CHR '']''"]) (auto simp: list_all_iff intro: canonicalize_starts)
    with ws show "MArr vs = y \<and> r = r'" by simp
  qed
next
  case (4 fs)
  have t: "tidied (MObj (map (map_prod id Some) fs))" using 4 by (intro tidied.intros) (auto simp: list_all_iff)
  show ?case
    unfolding decodes_def
  proof (intro ballI allI impI)
    fix y r r' assume y: "y \<in> {v. tidied v}" "fence r" "fence r'" and e: "canonicalize (MObj (map (map_prod id Some) fs)) @ r = canonicalize y @ r'"
    with heads_apart [OF t _ e] obtain gs' where "y = MObj gs'" by (auto split: mval.splits)
    with y(1) obtain gs where gs: "y = MObj (map (map_prod id Some) gs)" "list_all (\<lambda>(k, v). tidied v) gs" "sorted (map fst gs)"
      by (auto elim: tidied.cases)
    have texts: "join_with '','' (map fieldText fs) @ CHR 0x7D # r = join_with '','' (map fieldText gs) @ CHR 0x7D # r'"
      using e canonicalize_fields [OF "4"(2)] canonicalize_fields [OF gs(3)] by (simp add: gs(1) del: canonicalize.simps)
    have "\<forall>kv\<in>set fs. decodes fieldText fence {kv. snd kv \<in> {v. tidied v}} kv"
      using "4"(1) by (auto simp: list_all_iff simp del: mem_Collect_eq intro!: field_prefix)
    moreover have "set gs \<subseteq> {kv. snd kv \<in> {v. tidied v}}" using gs(2) by (auto simp: list_all_iff)
    ultimately have "fs = gs \<and> r = r'"
      by (rule items_prefix [OF _ _ _ _ _ texts]) (simp_all add: fieldText_def quoteJson_def)
    with gs show "MObj (map (map_prod id Some) fs) = y \<and> r = r'" by simp
  qed
qed

lemma insort_key_map_snd: "insort_key fst (map_prod id f x) (map (map_prod id f) ys) = map (map_prod id f) (insort_key fst x ys)"
  by (induction ys) auto

lemma sort_key_map_snd: "sort_key fst (map (map_prod id f) xs) = map (map_prod id f) (sort_key fst xs)"
  by (induction xs) (simp_all add: insort_key_map_snd [unfolded id_def] id_def)

lemma definedFields_map: "definedFields (map (map_prod id (map_option f)) fs) = map (map_prod id f) (definedFields fs)"
  by (induction fs) (auto simp: definedFields_def)

lemma definedFields_mem: "(k, v) \<in> set (definedFields fs) \<longleftrightarrow> (k, Some v) \<in> set fs"
  by (force simp: definedFields_def)

lemma tidied_tidy: "tidied (tidy v)"
proof (induction v)
  case (MObj fs)
  let ?gs = "map (map_prod id tidy) (sort_key fst (definedFields fs))"
  have "tidied (tidy v)" if "(k, v) \<in> set (definedFields fs)" for k v
    using MObj.IH [of "(k, Some v)" "Some v" v] that by (simp add: definedFields_mem snds.simps)
  then have "list_all (\<lambda>(k, v). tidied v) ?gs" by (auto simp: list_all_iff)
  then have "tidied (MObj (map (map_prod id Some) ?gs))" by (intro tidied.intros) (simp_all add: o_def)
  then show ?case by (simp add: definedFields_map sort_key_map_snd)
qed (auto intro: tidied.intros simp: list_all_iff)

lemma canonicalize_tidy: "canonicalize (tidy v) = canonicalize v"
proof (induction v)
  case (MObj fs)
  let ?ds = "sort_key fst (definedFields fs)"
  have d: "canonicalize (tidy v) = canonicalize v" if "(k, v) \<in> set ?ds" for k v
    using MObj.IH [of "(k, Some v)" "Some v" v] that by (simp add: definedFields_mem snds.simps)
  have "canonicalize (tidy (MObj fs)) = CHR 0x7B # join_with '','' (map fieldText (map (map_prod id tidy) ?ds)) @ [CHR 0x7D]"
    by (simp only: tidy.simps definedFields_map sort_key_map_snd) (subst canonicalize_fields, simp_all add: o_def)
  also have "map fieldText (map (map_prod id tidy) ?ds) = map (\<lambda>(k, t). quoteJson k @ '':'' @ t) (map (map_prod id canonicalize) ?ds)"
    using d by (auto simp: fieldText_def)
  finally show ?case by (simp add: definedFields_map sort_key_map_snd)
qed (simp_all cong: map_cong)

lemma canonicalize_determines: "canonicalize v = canonicalize v' \<Longrightarrow> tidy v = tidy v'"
  using decodesD [OF canonicalize_prefix [OF tidied_tidy [of v]], of "tidy v'" "[]" "[]"] tidied_tidy [of v']
  by (simp add: canonicalize_tidy fence_def)

lemma manifestValue_determines: "tidy (manifestValue m) = tidy (manifestValue m') \<Longrightarrow> m = m'"
proof -
  have kind: "manifestKind_text a = manifestKind_text b \<longleftrightarrow> a = b" for a b by (cases a; cases b) simp_all
  have entry: "tidy (entryValue e) = tidy (entryValue e') \<Longrightarrow> e = e'" for e e'
    by (cases "me_sha256 e"; cases "me_imageRef e"; cases "me_sha256 e'"; cases "me_imageRef e'")
      (simp_all add: entryValue_def definedFields_def kind)
  have entries: "map (tidy \<circ> entryValue) es = map (tidy \<circ> entryValue) es' \<Longrightarrow> es = es'" for es es'
    by (rule map_injective) (auto simp: inj_def dest: entry)
  assume "tidy (manifestValue m) = tidy (manifestValue m')"
  then show "m = m'" by (auto simp: manifestValue_def definedFields_def dest!: entries)
qed

text \<open>
  C9. The bytes that are hashed and signed determine the manifest.  Two manifests with the same canonical
  text have the same product, tag, commit and list of entries, whatever characters their strings hold:
  no quote, comma or bracket inside a name can imitate the structure of another manifest.
\<close>

theorem canonical_manifest_injective:
  "canonicalManifestBytes m = canonicalManifestBytes m' \<longleftrightarrow> m = m'"
  unfolding canonicalManifestBytes_def by (blast dest: canonicalize_determines manifestValue_determines)

end
