(* ===== verification/Signing.thy ===== *)
theory Signing
  imports Repos_Ops Js Js_Path
begin

text \<open>
  The signing service of \<open>control-plane/signing\<close>: requests, envelopes, the provider that keeps its keys
  on disk, the provider that composes two others, and the audit rows.  The cryptographic primitives,
  the PEM and DER codecs, base64, the key directory and \<open>Date.parse\<close> are parameters.  A byte string is a
  character list.  The algorithm of an entry is a text, as it is in an envelope that comes from
  outside.
\<close>

section \<open>Requests, envelopes, errors\<close>

record sigEntry =
  se_signatureB64 :: string
  se_signedBy :: string
  se_algorithm :: string
  se_signedAt :: string

record signEnvelope =
  en_signatures :: "sigEntry list"
  en_nonce :: string
  en_payloadSha256 :: string

record publicKeyRef =
  kr_keyId :: string
  kr_provider :: string
  kr_algorithm :: string
  kr_publicKeyB64 :: string
  kr_fingerprint :: string

datatype actorKind = UserActor | MachineActor | ServiceActor

record actorRef =
  ac_kind :: actorKind
  ac_cn :: string
  ac_orgId :: string

record signRequest =
  rq_keyId :: string
  rq_payload :: string
  rq_nonce :: string
  rq_requestedAt :: string
  rq_purpose :: string
  rq_actor :: actorRef

datatype verifyMode = Transition | Strict | ClassicalOnly

fun verifyMode_text :: "verifyMode \<Rightarrow> string" where
  "verifyMode_text Transition = ''transition''"
| "verifyMode_text Strict = ''strict''"
| "verifyMode_text ClassicalOnly = ''classical-only''"

datatype signingErrorCode =
    FingerprintMismatch | BadSignature | UnknownAlgorithm | AlgorithmNotImplemented | KeyNotFound | KeyRevoked | ClockSkew
  | NonceReplay | NonceMalformed | PayloadEmpty | PurposeEmpty | ActorMissing | HybridPairIncomplete | IoError | InternalError

fun errorCode_text :: "signingErrorCode \<Rightarrow> string" where
  "errorCode_text FingerprintMismatch = ''fingerprint-mismatch''"
| "errorCode_text BadSignature = ''bad-signature''"
| "errorCode_text UnknownAlgorithm = ''unknown-algorithm''"
| "errorCode_text AlgorithmNotImplemented = ''algorithm-not-implemented''"
| "errorCode_text KeyNotFound = ''key-not-found''"
| "errorCode_text KeyRevoked = ''key-revoked''"
| "errorCode_text ClockSkew = ''clock-skew''"
| "errorCode_text NonceReplay = ''nonce-replay''"
| "errorCode_text NonceMalformed = ''nonce-malformed''"
| "errorCode_text PayloadEmpty = ''payload-empty''"
| "errorCode_text PurposeEmpty = ''purpose-empty''"
| "errorCode_text ActorMissing = ''actor-missing''"
| "errorCode_text HybridPairIncomplete = ''hybrid-pair-incomplete''"
| "errorCode_text IoError = ''io-error''"
| "errorCode_text InternalError = ''internal-error''"

text \<open>What a signing call throws: a \<open>SigningError\<close>, an error of the storage, or what a primitive threw.\<close>

datatype signFailure = SigningError signingErrorCode string | StorageFailure err | ThrownError string

fun failure_message :: "signFailure \<Rightarrow> string" where
  "failure_message (SigningError c m) = m"
| "failure_message (StorageFailure e) = err_message e"
| "failure_message (ThrownError m) = m"

fun failure_code :: "signFailure \<Rightarrow> string" where
  "failure_code (SigningError c m) = errorCode_text c"
| "failure_code _ = ''internal-error''"

datatype verifyResult = Verified | Refused signingErrorCode string

type_synonym ('z, 'a) SG = "('z world_scheme, signFailure, 'a) M"

definition liftDb :: "('z, 'a) DB \<Rightarrow> ('z, 'a) SG" where
  "liftDb m w = (case m w of (Inl e, w') \<Rightarrow> (Inl (StorageFailure e), w') | (Inr x, w') \<Rightarrow> (Inr x, w'))"

definition orThrow :: "signFailure + 'a \<Rightarrow> ('z, 'a) SG" where
  "orThrow r = (case r of Inl e \<Rightarrow> throwM e | Inr x \<Rightarrow> ret x)"

definition classicalAlgorithm :: "string \<Rightarrow> bool" where
  "classicalAlgorithm alg \<longleftrightarrow> alg \<noteq> ''ml-dsa-65''"

definition SUPPORTED_ALGORITHMS :: "string list" where
  "SUPPORTED_ALGORITHMS = [''ed25519'', ''ecdsa-p256-sha256'', ''ml-dsa-65'']"

definition notImplementedMessage :: "string \<Rightarrow> string" where
  "notImplementedMessage alg = ''algorithm '' @ [CHR 0x22] @ alg @ [CHR 0x22]
     @ '' is declared in the SigAlgorithm union but not yet implemented in this provider. ''
     @ ''Ed25519 + ECDSA P-256 ship in Milestone 1a; ml-dsa-65 + hybrid ship in Milestone 1b.''"

section \<open>The parameters\<close>

datatype keyMaterial = KeyObject string | RawKey string

datatype keyKind = KeyEd25519 | KeyEc "string option" | KeyOther "string option"

datatype fileRead = FileBytes string | FileMissing | FileFailed string

record 'z signEnv =
  cy_sha256 :: "string \<Rightarrow> string"
  cy_createPrivateKey :: "string \<Rightarrow> string + string"
  cy_createPublicKey :: "string \<Rightarrow> string + string"
  cy_publicOf :: "string \<Rightarrow> string"
  cy_fromDer :: "string \<Rightarrow> string + string"
  cy_der :: "string \<Rightarrow> string"
  cy_keyKind :: "string \<Rightarrow> keyKind"
  cy_base64 :: "string \<Rightarrow> string"
  cy_unbase64 :: "string \<Rightarrow> string"
  cy_sign :: "string \<Rightarrow> keyMaterial \<Rightarrow> string \<Rightarrow> 'z world_scheme \<Rightarrow> (string + string) \<times> 'z world_scheme"
  cy_verify :: "string \<Rightarrow> keyMaterial \<Rightarrow> string \<Rightarrow> string \<Rightarrow> string + bool"
  cy_exists :: "string \<Rightarrow> bool"
  cy_read :: "string \<Rightarrow> fileRead"
  cy_parseDate :: "string \<Rightarrow> int option"

record resolvedSubKey =
  ks_algorithm :: string
  ks_privateKey :: keyMaterial
  ks_publicKey :: keyMaterial
  ks_fingerprint :: string

record resolvedKey =
  rk_keyId :: string
  rk_alias :: "string option"
  rk_subKeys :: "resolvedSubKey list"

record localDisk =
  lp_keysDir :: string
  lp_clockSkewToleranceMs :: int
  lp_nonceLengthBytes :: nat
  lp_inlineKey :: "resolvedKey option"
  lp_auditLog :: bool
  lp_nonceRepo :: bool
  lp_auditOrgId :: "string option"

section \<open>Key files\<close>

definition dq :: string where
  "dq = [CHR 0x22]"

definition fingerprintFromBytes :: "'z signEnv \<Rightarrow> string \<Rightarrow> string" where
  "fingerprintFromBytes env der = take 16 (cy_sha256 env der)"

definition inlineKeyIdFor :: "'z signEnv \<Rightarrow> string \<Rightarrow> string" where
  "inlineKeyIdFor env der = ''inline:'' @ cy_sha256 env der"

definition hexChar :: "char \<Rightarrow> bool" where
  "hexChar c \<longleftrightarrow> (let n = (of_char c :: nat) in (48 \<le> n \<and> n \<le> 57) \<or> (97 \<le> n \<and> n \<le> 102) \<or> (65 \<le> n \<and> n \<le> 70))"

definition isHex :: "string \<Rightarrow> nat \<Rightarrow> bool" where
  "isHex s expected \<longleftrightarrow> length s = expected \<and> list_all hexChar s"

definition readBytesFromDisk :: "'z signEnv \<Rightarrow> string \<Rightarrow> signFailure + string" where
  "readBytesFromDisk env p = (case cy_read env p of
       FileBytes b \<Rightarrow> Inr b
     | FileMissing \<Rightarrow> Inl (SigningError KeyNotFound (''key file not found at '' @ p))
     | FileFailed m \<Rightarrow> Inl (SigningError KeyNotFound (''failed to read key file at '' @ p @ '': '' @ m)))"

definition isMldsa65File :: "string \<Rightarrow> bool" where
  "isMldsa65File b \<longleftrightarrow> startsWith b ''MLDA''"

text \<open>A raw key of the given length behind the magic header; the hexadecimal rendering of a wrong header is left out.\<close>

definition readMldsa65 :: "'z signEnv \<Rightarrow> string \<Rightarrow> nat \<Rightarrow> string \<Rightarrow> signFailure + string" where
  "readMldsa65 env what expected p = (case readBytesFromDisk env p of
       Inl e \<Rightarrow> Inl e
     | Inr b \<Rightarrow>
         if \<not> isMldsa65File b then Inl (SigningError IoError (''expected ML-DSA-65 magic header (MLDA) at '' @ p))
         else if length (drop 4 b) \<noteq> expected then
           Inl (SigningError IoError (''ML-DSA-65 '' @ what @ '' key at '' @ p @ '' is '' @ showNat (length (drop 4 b)) @ '' bytes; expected ''
             @ showNat expected))
         else Inr (drop 4 b))"

definition readMldsa65Public :: "'z signEnv \<Rightarrow> string \<Rightarrow> signFailure + string" where
  "readMldsa65Public env p = readMldsa65 env ''public'' 1952 p"

definition readMldsa65Secret :: "'z signEnv \<Rightarrow> string \<Rightarrow> signFailure + string" where
  "readMldsa65Secret env p = readMldsa65 env ''secret'' 4032 p"

definition loadClassicalPrivateKey :: "'z signEnv \<Rightarrow> string \<Rightarrow> signFailure + string" where
  "loadClassicalPrivateKey env p = (case readBytesFromDisk env p of
       Inl e \<Rightarrow> Inl e
     | Inr pem \<Rightarrow> (case cy_createPrivateKey env pem of
           Inl m \<Rightarrow> Inl (SigningError IoError (''failed to parse private key at '' @ p @ '': '' @ m))
         | Inr k \<Rightarrow> Inr k))"

definition loadClassicalPublicKey :: "'z signEnv \<Rightarrow> string \<Rightarrow> signFailure + string" where
  "loadClassicalPublicKey env p = (case readBytesFromDisk env p of
       Inl e \<Rightarrow> Inl e
     | Inr pem \<Rightarrow> (case cy_createPublicKey env pem of
           Inl m \<Rightarrow> Inl (SigningError IoError (''failed to parse public key at '' @ p @ '': '' @ m))
         | Inr k \<Rightarrow> Inr k))"

definition detectClassicalAlgorithm :: "'z signEnv \<Rightarrow> string \<Rightarrow> signFailure + string" where
  "detectClassicalAlgorithm env k = (case cy_keyKind env k of
       KeyEd25519 \<Rightarrow> Inr ''ed25519''
     | KeyEc curve \<Rightarrow>
         if curve = Some ''prime256v1'' \<or> curve = Some ''P-256'' then Inr ''ecdsa-p256-sha256''
         else Inl (SigningError UnknownAlgorithm (''EC key uses curve '' @ orElse curve ''unknown''
           @ ''; only prime256v1 (P-256) is supported in v0.5.0''))
     | KeyOther t \<Rightarrow> Inl (SigningError UnknownAlgorithm (''key type '' @ orElse t ''unknown''
         @ '' is not in the supported classical algorithm set (ed25519, ecdsa-p256-sha256)'')))"

definition classicalSubKey :: "'z signEnv \<Rightarrow> string \<Rightarrow> string \<Rightarrow> string \<Rightarrow> resolvedSubKey" where
  "classicalSubKey env alg priv pub = \<lparr>ks_algorithm = alg, ks_privateKey = KeyObject priv, ks_publicKey = KeyObject pub,
     ks_fingerprint = fingerprintFromBytes env (cy_der env pub)\<rparr>"

definition pqSubKey :: "'z signEnv \<Rightarrow> string \<Rightarrow> string \<Rightarrow> resolvedSubKey" where
  "pqSubKey env priv pub = \<lparr>ks_algorithm = ''ml-dsa-65'', ks_privateKey = RawKey priv, ks_publicKey = RawKey pub,
     ks_fingerprint = fingerprintFromBytes env pub\<rparr>"

definition resolveAbsoluteClassical :: "'z signEnv \<Rightarrow> string \<Rightarrow> signFailure + resolvedKey" where
  "resolveAbsoluteClassical env absKeyPath =
     (let pubKeyPath = (if endsWith absKeyPath ''.key'' then take (length absKeyPath - 4) absKeyPath @ ''.pub'' else absKeyPath @ ''.pub'') in
      bindE (loadClassicalPrivateKey env absKeyPath) (\<lambda>priv.
      bindE (loadClassicalPublicKey env pubKeyPath) (\<lambda>pub.
      bindE (detectClassicalAlgorithm env priv) (\<lambda>alg.
      Inr \<lparr>rk_keyId = absKeyPath, rk_alias = None, rk_subKeys = [classicalSubKey env alg priv pub]\<rparr>))))"

definition resolveHybrid :: "'z signEnv \<Rightarrow> string \<Rightarrow> string \<Rightarrow> (string \<Rightarrow> string) \<Rightarrow> signFailure + resolvedKey" where
  "resolveHybrid env keyId aliasBase file =
     bindE (loadClassicalPrivateKey env (file ''-ed25519.key'')) (\<lambda>edPriv.
     bindE (loadClassicalPublicKey env (file ''-ed25519.pub'')) (\<lambda>edPub.
     bindE (detectClassicalAlgorithm env edPriv) (\<lambda>alg.
     if alg \<noteq> ''ed25519'' then Inl (SigningError HybridPairIncomplete (''hybrid classical half at '' @ file ''-ed25519.key'' @ '' is ''
       @ alg @ '', not ed25519''))
     else
       bindE (readMldsa65Secret env (file ''-mldsa65.key'')) (\<lambda>pqPriv.
       bindE (readMldsa65Public env (file ''-mldsa65.pub'')) (\<lambda>pqPub.
       Inr \<lparr>rk_keyId = keyId, rk_alias = Some aliasBase,
            rk_subKeys = [classicalSubKey env ''ed25519'' edPriv edPub, pqSubKey env pqPriv pqPub]\<rparr>)))))"

definition resolveFlat :: "'z signEnv \<Rightarrow> string \<Rightarrow> string \<Rightarrow> string \<Rightarrow> (string \<Rightarrow> string) \<Rightarrow> signFailure + resolvedKey" where
  "resolveFlat env keysDir keyId aliasBase file =
     (if \<not> cy_exists env (file ''.key'') \<or> \<not> cy_exists env (file ''.pub'') then
        Inl (SigningError KeyNotFound (''no key files found for alias '' @ dq @ aliasBase @ dq @ '' under '' @ keysDir
          @ '' (looked for hybrid pair and flat '' @ aliasBase @ ''.'' @ [CHR 0x7B] @ ''pub,key'' @ [CHR 0x7D] @ '')''))
      else
        bindE (readBytesFromDisk env (file ''.key'')) (\<lambda>head.
        if isMldsa65File head then
          bindE (readMldsa65Secret env (file ''.key'')) (\<lambda>pqPriv.
          bindE (readMldsa65Public env (file ''.pub'')) (\<lambda>pqPub.
          Inr \<lparr>rk_keyId = keyId, rk_alias = Some aliasBase, rk_subKeys = [pqSubKey env pqPriv pqPub]\<rparr>))
        else
          bindE (loadClassicalPrivateKey env (file ''.key'')) (\<lambda>priv.
          bindE (loadClassicalPublicKey env (file ''.pub'')) (\<lambda>pub.
          bindE (detectClassicalAlgorithm env priv) (\<lambda>alg.
          Inr \<lparr>rk_keyId = keyId, rk_alias = Some aliasBase, rk_subKeys = [classicalSubKey env alg priv pub]\<rparr>)))))"

text \<open>The files of an alias, by suffix.\<close>

definition resolveByAlias :: "'z signEnv \<Rightarrow> string \<Rightarrow> string \<Rightarrow> string \<Rightarrow> signFailure + resolvedKey" where
  "resolveByAlias env keysDir keyId aliasBase =
     (let file = (\<lambda>suffix. joinPaths [keysDir, aliasBase @ suffix]);
          classicalPresent = (cy_exists env (file ''-ed25519.key'') \<and> cy_exists env (file ''-ed25519.pub''));
          pqPresent = (cy_exists env (file ''-mldsa65.key'') \<and> cy_exists env (file ''-mldsa65.pub'')) in
      if classicalPresent \<and> pqPresent then resolveHybrid env keyId aliasBase file
      else if classicalPresent \<noteq> pqPresent then
        Inl (SigningError HybridPairIncomplete (''hybrid alias '' @ dq @ aliasBase @ dq @ '' is missing one half: classical=''
          @ (if classicalPresent then ''true'' else ''false'') @ '', pq='' @ (if pqPresent then ''true'' else ''false'')))
      else resolveFlat env keysDir keyId aliasBase file)"

definition resolveForSign :: "'z signEnv \<Rightarrow> localDisk \<Rightarrow> string \<Rightarrow> signFailure + resolvedKey" where
  "resolveForSign env p keyId =
     (if (case lp_inlineKey p of None \<Rightarrow> False | Some k \<Rightarrow> keyId = rk_keyId k \<or> keyId = ''inline'') then Inr (the (lp_inlineKey p))
      else if isAbsolutePath keyId then resolveAbsoluteClassical env keyId
      else if includesStr keyId ''/'' \<or> includesStr keyId ''..'' then
        Inl (SigningError KeyNotFound (''keyId '' @ dq @ keyId @ dq
          @ '' contains path separators; only simple aliases or absolute paths are allowed''))
      else resolveByAlias env (lp_keysDir p) keyId (if keyId = ''default'' then ''signing'' else keyId))"

section \<open>Signing\<close>

definition runSign :: "'z signEnv \<Rightarrow> string \<Rightarrow> keyMaterial \<Rightarrow> string \<Rightarrow> ('z, string) SG" where
  "runSign env alg k payload =
     (if alg \<in> set SUPPORTED_ALGORITHMS then
        (\<lambda>w. case cy_sign env alg k payload w of (Inl m, w') \<Rightarrow> (Inl (ThrownError m), w') | (Inr b, w') \<Rightarrow> (Inr b, w'))
      else throwM (SigningError AlgorithmNotImplemented (notImplementedMessage alg)))"

definition validateRequest :: "'z signEnv \<Rightarrow> localDisk \<Rightarrow> int \<Rightarrow> signRequest \<Rightarrow> signFailure + unit" where
  "validateRequest env p now req =
     (if rq_payload req = [] then Inl (SigningError PayloadEmpty ''SignRequest.payload must be a non-empty Uint8Array'')
      else if trim (rq_purpose req) = [] then Inl (SigningError PurposeEmpty ''SignRequest.purpose must be a non-empty string'')
      else if ac_cn (rq_actor req) = [] \<or> ac_orgId (rq_actor req) = [] then
        Inl (SigningError ActorMissing ''SignRequest.actor must be populated with cn + orgId (Milestone 1a legacy callers may synthesize)'')
      else if \<not> isHex (rq_nonce req) (lp_nonceLengthBytes p * 2) then
        Inl (SigningError NonceMalformed (''SignRequest.nonce must be '' @ showNat (lp_nonceLengthBytes p * 2)
          @ '' lowercase-hex chars; got '' @ dq @ rq_nonce req @ dq))
      else case cy_parseDate env (rq_requestedAt req) of
        None \<Rightarrow> Inl (SigningError ClockSkew (''SignRequest.requestedAt is not a valid RFC 3339 timestamp: '' @ dq @ rq_requestedAt req @ dq))
      | Some requestedAtMs \<Rightarrow>
          let skewMs = \<bar>now - requestedAtMs\<bar> in
          if skewMs > lp_clockSkewToleranceMs p then
            Inl (SigningError ClockSkew (''SignRequest.requestedAt skew is '' @ showInt skewMs @ ''ms; policy allows up to ''
              @ showInt (lp_clockSkewToleranceMs p) @ ''ms''))
          else Inr ())"

definition signEntry :: "'z signEnv \<Rightarrow> string \<Rightarrow> string \<Rightarrow> resolvedSubKey \<Rightarrow> ('z, sigEntry) SG" where
  "signEntry env payload signedAt k =
     (if ks_algorithm k \<notin> set SUPPORTED_ALGORITHMS then throwM (SigningError AlgorithmNotImplemented (notImplementedMessage (ks_algorithm k)))
      else
        bindM (runSign env (ks_algorithm k) (ks_privateKey k) payload) (\<lambda>sigBytes.
        ret \<lparr>se_signatureB64 = cy_base64 env sigBytes, se_signedBy = ks_fingerprint k, se_algorithm = ks_algorithm k,
             se_signedAt = signedAt\<rparr>))"

definition signSync :: "'z signEnv \<Rightarrow> localDisk \<Rightarrow> signRequest \<Rightarrow> ('z, signEnvelope) SG" where
  "signSync env p req =
     bindM (liftDb dateNow) (\<lambda>now.
     bindM (orThrow (validateRequest env p now req)) (\<lambda>_.
     bindM (orThrow (resolveForSign env p (rq_keyId req))) (\<lambda>resolved.
     if rk_subKeys resolved = [] then throwM (SigningError InternalError ''ResolvedKey carries no sub-keys'')
     else
       bindM (liftDb nowIso) (\<lambda>signedAt.
       bindM (foldM (\<lambda>es k. bindM (signEntry env (rq_payload req) signedAt k) (\<lambda>e. ret (es @ [e]))) [] (rk_subKeys resolved)) (\<lambda>entries.
       ret \<lparr>en_signatures = entries, en_nonce = rq_nonce req, en_payloadSha256 = cy_sha256 env (rq_payload req)\<rparr>)))))"

section \<open>Audit rows\<close>

fun actorKind_text :: "actorKind \<Rightarrow> string" where
  "actorKind_text UserActor = ''user''"
| "actorKind_text MachineActor = ''machine''"
| "actorKind_text ServiceActor = ''service''"

definition actorString :: "actorRef \<Rightarrow> string" where
  "actorString a = actorKind_text (ac_kind a) @ '':'' @ ac_cn a"

definition signingRow :: "string \<Rightarrow> signRequest \<Rightarrow> string \<Rightarrow> string \<Rightarrow> (string \<times> json) list \<Rightarrow> ('z, unit) SG" where
  "signingRow orgId req action entityId detail =
     bindM (liftDb (audit_append orgId (actorString (rq_actor req)) action ''signing_key'' entityId (Some (JObj detail)))) (\<lambda>_. ret ())"

definition writeRequestedRow :: "string \<Rightarrow> signRequest \<Rightarrow> string \<Rightarrow> string \<Rightarrow> string \<Rightarrow> ('z, unit) SG" where
  "writeRequestedRow orgId req provider fingerprint payloadSha256 =
     signingRow orgId req ''signing.requested'' fingerprint
       [(''provider'', JStr provider), (''keyId'', JStr (rq_keyId req)), (''nonce'', JStr (rq_nonce req)),
        (''requestedAt'', JStr (rq_requestedAt req)), (''purpose'', JStr (rq_purpose req)), (''payloadSha256'', JStr payloadSha256)]"

definition pickPrimaryFingerprint :: "sigEntry list \<Rightarrow> string" where
  "pickPrimaryFingerprint entries = se_signedBy (case find (\<lambda>e. classicalAlgorithm (se_algorithm e)) entries of
     Some e \<Rightarrow> e | None \<Rightarrow> hd entries)"

definition writeCompletedRow :: "string \<Rightarrow> signRequest \<Rightarrow> string \<Rightarrow> signEnvelope \<Rightarrow> ('z, unit) SG" where
  "writeCompletedRow orgId req provider e =
     signingRow orgId req ''signing.completed'' (pickPrimaryFingerprint (en_signatures e))
       [(''provider'', JStr provider), (''keyId'', JStr (rq_keyId req)), (''nonce'', JStr (en_nonce e)),
        (''payloadSha256'', JStr (en_payloadSha256 e)),
        (''algorithms'', JArr (map (\<lambda>s. JObj [(''algorithm'', JStr (se_algorithm s)), (''signedBy'', JStr (se_signedBy s)),
          (''signedAt'', JStr (se_signedAt s))]) (en_signatures e)))]"

definition writeFailedRow :: "string \<Rightarrow> signRequest \<Rightarrow> string \<Rightarrow> string option \<Rightarrow> string \<Rightarrow> string \<Rightarrow> ('z, unit) SG" where
  "writeFailedRow orgId req provider fingerprint code message =
     signingRow orgId req ''signing.failed'' (orElse fingerprint (''nonce:'' @ rq_nonce req))
       [(''provider'', JStr provider), (''keyId'', JStr (rq_keyId req)), (''nonce'', JStr (rq_nonce req)),
        (''errorCode'', JStr code), (''errorMessage'', JStr message)]"

section \<open>LocalDiskProvider.sign\<close>

definition primaryFingerprint :: "resolvedKey \<Rightarrow> string option" where
  "primaryFingerprint k = (case find (\<lambda>s. classicalAlgorithm (ks_algorithm s)) (rk_subKeys k) of
       Some s \<Rightarrow> Some (ks_fingerprint s)
     | None \<Rightarrow> (case rk_subKeys k of [] \<Rightarrow> None | s # _ \<Rightarrow> Some (ks_fingerprint s)))"

definition whenM :: "bool \<Rightarrow> ('z, unit) SG \<Rightarrow> ('z, unit) SG" where
  "whenM b m = (if b then m else ret ())"

definition replayFailure :: "signRequest \<Rightarrow> signFailure" where
  "replayFailure req = SigningError NonceReplay (''signing nonce '' @ rq_nonce req @ '' has already been used by actor '' @ ac_cn (rq_actor req))"

text \<open>Record the nonce; whatever the insertion throws is reported as a replay.\<close>

definition claimNonce :: "localDisk \<Rightarrow> string \<Rightarrow> signRequest \<Rightarrow> string \<Rightarrow> ('z, unit) SG" where
  "claimNonce p orgId req fingerprint =
     catchM (liftDb (nonce_insert \<lparr>sn_orgId = orgId, sn_actorCn = ac_cn (rq_actor req), sn_nonce = rq_nonce req,
         sn_requestedAt = rq_requestedAt req, sn_fingerprint = Some fingerprint\<rparr>))
       (\<lambda>_. bindM (whenM (lp_auditLog p) (writeFailedRow orgId req ''local-disk'' (Some fingerprint) ''nonce-replay''
              (failure_message (replayFailure req)))) (\<lambda>_.
            throwM (replayFailure req)))"

definition signWithAudit :: "'z signEnv \<Rightarrow> localDisk \<Rightarrow> signRequest \<Rightarrow> ('z, signEnvelope) SG" where
  "signWithAudit env p req =
     (let orgId = orElse (lp_auditOrgId p) (ac_orgId (rq_actor req)) in
      bindM (catchM (orThrow (resolveForSign env p (rq_keyId req))) (\<lambda>e.
        bindM (whenM (lp_auditLog p) (writeFailedRow orgId req ''local-disk'' None (failure_code e) (failure_message e))) (\<lambda>_.
        throwM e))) (\<lambda>resolved.
      let fingerprint = orElse (primaryFingerprint resolved) ''unknown'' in
      bindM (whenM (lp_auditLog p) (writeRequestedRow orgId req ''local-disk'' fingerprint (cy_sha256 env (rq_payload req)))) (\<lambda>_.
      bindM (whenM (lp_nonceRepo p) (claimNonce p orgId req fingerprint)) (\<lambda>_.
      bindM (catchM (signSync env p req) (\<lambda>e.
        bindM (whenM (lp_auditLog p) (writeFailedRow orgId req ''local-disk'' (Some fingerprint) (failure_code e) (failure_message e))) (\<lambda>_.
        throwM e))) (\<lambda>envelope.
      bindM (whenM (lp_auditLog p) (writeCompletedRow orgId req ''local-disk'' envelope)) (\<lambda>_.
      ret envelope))))))"

definition localSign :: "'z signEnv \<Rightarrow> localDisk \<Rightarrow> signRequest \<Rightarrow> ('z, signEnvelope) SG" where
  "localSign env p req = (if \<not> lp_auditLog p \<and> \<not> lp_nonceRepo p then signSync env p req else signWithAudit env p req)"

section \<open>LocalDiskProvider.verify\<close>

definition materializePublicKey :: "'z signEnv \<Rightarrow> publicKeyRef \<Rightarrow> signFailure + keyMaterial" where
  "materializePublicKey env k =
     (if kr_algorithm k = ''ml-dsa-65'' then Inr (RawKey (cy_unbase64 env (kr_publicKeyB64 k)))
      else case cy_fromDer env (cy_unbase64 env (kr_publicKeyB64 k)) of Inl m \<Rightarrow> Inl (ThrownError m) | Inr pub \<Rightarrow> Inr (KeyObject pub))"

definition runVerify :: "'z signEnv \<Rightarrow> string \<Rightarrow> keyMaterial \<Rightarrow> string \<Rightarrow> string \<Rightarrow> signFailure + bool" where
  "runVerify env alg pub payload sig =
     (if alg \<in> set SUPPORTED_ALGORITHMS then
        (case cy_verify env alg pub payload sig of Inl m \<Rightarrow> Inl (ThrownError m) | Inr b \<Rightarrow> Inr b)
      else Inl (SigningError AlgorithmNotImplemented (notImplementedMessage alg)))"

definition matchingKey :: "publicKeyRef list \<Rightarrow> sigEntry \<Rightarrow> publicKeyRef option" where
  "matchingKey keys e = find (\<lambda>k. kr_algorithm k = se_algorithm e \<and> kr_fingerprint k = se_signedBy e) keys"

definition noMatch :: "sigEntry \<Rightarrow> signingErrorCode \<times> string" where
  "noMatch e = (FingerprintMismatch, ''no PublicKeyRef matched entry (algorithm='' @ se_algorithm e @ '', signedBy='' @ se_signedBy e @ '')'')"

text \<open>One entry: \<open>None\<close> when it verifies, else the reason.\<close>

definition verifyEntry ::
  "'z signEnv \<Rightarrow> publicKeyRef list \<Rightarrow> string \<Rightarrow> sigEntry \<Rightarrow> signFailure + (signingErrorCode \<times> string) option" where
  "verifyEntry env keys payload e =
     (if se_algorithm e \<notin> set SUPPORTED_ALGORITHMS then Inr (Some (AlgorithmNotImplemented, notImplementedMessage (se_algorithm e)))
      else case matchingKey keys e of
        None \<Rightarrow> Inr (Some (noMatch e))
      | Some k \<Rightarrow>
          bindE (materializePublicKey env k) (\<lambda>pub.
          bindE (runVerify env (se_algorithm e) pub payload (cy_unbase64 env (se_signatureB64 e))) (\<lambda>ok.
          Inr (if ok then None
               else Some (BadSignature, ''signature is cryptographically invalid for '' @ se_algorithm e @ '' entry'')))))"

fun verifyLoop ::
  "verifyMode \<Rightarrow> (sigEntry \<Rightarrow> signFailure + (signingErrorCode \<times> string) option) \<Rightarrow> sigEntry list \<Rightarrow> bool
     \<Rightarrow> (signingErrorCode \<times> string) option \<Rightarrow> signFailure + verifyResult" where
  "verifyLoop mode check [] anyVerified firstFailure =
     Inr (if mode = Transition then
            if anyVerified then Verified
            else (case firstFailure of None \<Rightarrow> Refused BadSignature ''no entry verified in transition mode'' | Some (c, m) \<Rightarrow> Refused c m)
          else Verified)"
| "verifyLoop mode check (e # es) anyVerified firstFailure =
     (case check e of
        Inl f \<Rightarrow> Inl f
      | Inr None \<Rightarrow> verifyLoop mode check es True firstFailure
      | Inr (Some (c, m)) \<Rightarrow>
          if mode = Strict \<or> mode = ClassicalOnly then Inr (Refused c m)
          else verifyLoop mode check es anyVerified (case firstFailure of None \<Rightarrow> Some (c, m) | Some f \<Rightarrow> Some f))"

definition considered :: "verifyMode \<Rightarrow> sigEntry list \<Rightarrow> sigEntry list" where
  "considered mode es = (if mode = ClassicalOnly then filter (\<lambda>e. classicalAlgorithm (se_algorithm e)) es else es)"

text \<open>The checks both providers make before they look at an entry.\<close>

definition envelopeRefusal :: "'z signEnv \<Rightarrow> signEnvelope \<Rightarrow> string \<Rightarrow> publicKeyRef list \<Rightarrow> verifyResult option" where
  "envelopeRefusal env e payload keys =
     (if en_signatures e = [] then Some (Refused BadSignature ''SignEnvelope.signatures is empty'')
      else if keys = [] then Some (Refused FingerprintMismatch ''verify() requires at least one PublicKeyRef'')
      else if cy_sha256 env payload \<noteq> en_payloadSha256 e then
        Some (Refused BadSignature (''payloadSha256 mismatch '' @ emDash @ '' envelope claims '' @ en_payloadSha256 e @ '', computed ''
          @ cy_sha256 env payload))
      else None)"

definition verifySync ::
  "'z signEnv \<Rightarrow> signEnvelope \<Rightarrow> string \<Rightarrow> publicKeyRef list \<Rightarrow> verifyMode \<Rightarrow> signFailure + verifyResult" where
  "verifySync env e payload keys mode =
     (case envelopeRefusal env e payload keys of
        Some r \<Rightarrow> Inr r
      | None \<Rightarrow>
          if considered mode (en_signatures e) = [] then
            Inr (Refused BadSignature (''no signatures matched verifier mode '' @ dq @ verifyMode_text mode @ dq @ '' (envelope is PQ-only?)''))
          else verifyLoop mode (verifyEntry env keys payload) (considered mode (en_signatures e)) False None)"

section \<open>HybridProvider\<close>

text \<open>A provider as the composition sees it.\<close>

record 'z provider =
  pv_supportedAlgorithms :: "string list"
  pv_sign :: "signRequest \<Rightarrow> ('z, signEnvelope) SG"
  pv_verify :: "signEnvelope \<Rightarrow> string \<Rightarrow> publicKeyRef list \<Rightarrow> verifyMode \<Rightarrow> ('z, verifyResult) SG"

record 'z hybrid =
  hy_classical :: "'z provider"
  hy_pq :: "'z provider"
  hy_classicalKeyId :: string
  hy_pqKeyId :: string

definition hybridProvider :: "'z provider \<Rightarrow> 'z provider \<Rightarrow> string \<Rightarrow> string \<Rightarrow> signFailure + 'z hybrid" where
  "hybridProvider classical pq classicalKeyId pqKeyId =
     (if \<not> list_ex classicalAlgorithm (pv_supportedAlgorithms classical) then
        Inl (SigningError InternalError (''HybridProvider: classical leaf must support at least one of '' @ [CHR 0x7B]
          @ ''ed25519, ecdsa-p256-sha256'' @ [CHR 0x7D]))
      else if ''ml-dsa-65'' \<notin> set (pv_supportedAlgorithms pq) then
        Inl (SigningError InternalError ''HybridProvider: pq leaf must support ml-dsa-65'')
      else Inr \<lparr>hy_classical = classical, hy_pq = pq, hy_classicalKeyId = classicalKeyId, hy_pqKeyId = pqKeyId\<rparr>)"

definition blend :: "signRequest \<Rightarrow> signEnvelope \<Rightarrow> signEnvelope \<Rightarrow> signFailure + signEnvelope" where
  "blend req c q =
     (let cs = filter (\<lambda>e. classicalAlgorithm (se_algorithm e)) (en_signatures c);
          qs = filter (\<lambda>e. \<not> classicalAlgorithm (se_algorithm e)) (en_signatures q) in
      if cs = [] then Inl (SigningError InternalError ''HybridProvider.sign: classical leaf returned no classical entries'')
      else if qs = [] then Inl (SigningError InternalError ''HybridProvider.sign: pq leaf returned no ml-dsa-65 entries'')
      else if en_payloadSha256 c \<noteq> en_payloadSha256 q then
        Inl (SigningError InternalError (''HybridProvider.sign: leaf payloadSha256 disagreement (classical='' @ en_payloadSha256 c
          @ '', pq='' @ en_payloadSha256 q @ '')''))
      else Inr \<lparr>en_signatures = cs @ qs, en_nonce = rq_nonce req, en_payloadSha256 = en_payloadSha256 c\<rparr>)"

text \<open>Both leaves run, the classical one first, whether or not the other throws.\<close>

definition hybridSign :: "'z hybrid \<Rightarrow> signRequest \<Rightarrow> ('z, signEnvelope) SG" where
  "hybridSign h req w =
     (case pv_sign (hy_classical h) (req\<lparr>rq_keyId := hy_classicalKeyId h\<rparr>) w of (c, w1) \<Rightarrow>
      case pv_sign (hy_pq h) (req\<lparr>rq_keyId := hy_pqKeyId h\<rparr>) w1 of (q, w2) \<Rightarrow>
        (bindE c (\<lambda>ce. bindE q (\<lambda>qe. blend req ce qe)), w2))"

definition leafFor :: "'z hybrid \<Rightarrow> string \<Rightarrow> 'z provider option" where
  "leafFor h alg = (if alg = ''ml-dsa-65'' then Some (hy_pq h)
     else if alg \<in> set (pv_supportedAlgorithms (hy_classical h)) then Some (hy_classical h) else None)"

text \<open>One entry at its leaf: \<open>None\<close> when it verifies, else the refusal.\<close>

definition leafEntry :: "'z hybrid \<Rightarrow> signEnvelope \<Rightarrow> publicKeyRef list \<Rightarrow> string \<Rightarrow> sigEntry \<Rightarrow> ('z, (signingErrorCode \<times> string) option) SG" where
  "leafEntry h env keys payload e =
     (case leafFor h (se_algorithm e) of
        None \<Rightarrow> ret (Some (AlgorithmNotImplemented, ''HybridProvider: no leaf supports algorithm '' @ se_algorithm e))
      | Some leaf \<Rightarrow> (case matchingKey keys e of
            None \<Rightarrow> ret (Some (noMatch e))
          | Some k \<Rightarrow>
              catchM (bindM (pv_verify leaf \<lparr>en_signatures = [e], en_nonce = en_nonce env, en_payloadSha256 = en_payloadSha256 env\<rparr>
                  payload [k] Strict) (\<lambda>r. ret (case r of Verified \<Rightarrow> None | Refused c m \<Rightarrow> Some (c, m))))
                (\<lambda>f. case f of
                    SigningError AlgorithmNotImplemented m \<Rightarrow> ret (Some (AlgorithmNotImplemented, m))
                  | _ \<Rightarrow> throwM f)))"

fun hybridLoop ::
  "verifyMode \<Rightarrow> (sigEntry \<Rightarrow> ('z, (signingErrorCode \<times> string) option) SG) \<Rightarrow> sigEntry list
     \<Rightarrow> (signingErrorCode \<times> string) option \<Rightarrow> ('z, verifyResult) SG" where
  "hybridLoop mode check [] firstFailure =
     ret (if mode = Transition then
            (case firstFailure of None \<Rightarrow> Refused BadSignature ''no entry verified in transition mode'' | Some (c, m) \<Rightarrow> Refused c m)
          else Verified)"
| "hybridLoop mode check (e # es) firstFailure =
     bindM (check e) (\<lambda>r. case r of
       None \<Rightarrow> if mode = Transition then ret Verified else hybridLoop mode check es firstFailure
     | Some (c, m) \<Rightarrow>
         if mode = Strict \<or> mode = ClassicalOnly then ret (Refused c m)
         else hybridLoop mode check es (case firstFailure of None \<Rightarrow> Some (c, m) | Some f \<Rightarrow> Some f))"

definition hybridVerify ::
  "'z signEnv \<Rightarrow> 'z hybrid \<Rightarrow> signEnvelope \<Rightarrow> string \<Rightarrow> publicKeyRef list \<Rightarrow> verifyMode \<Rightarrow> ('z, verifyResult) SG" where
  "hybridVerify env h e payload keys mode =
     (case envelopeRefusal env e payload keys of
        Some r \<Rightarrow> ret r
      | None \<Rightarrow>
          if considered mode (en_signatures e) = [] then
            ret (Refused BadSignature (''no signatures matched verifier mode '' @ dq @ verifyMode_text mode @ dq))
          else hybridLoop mode (leafEntry h e keys payload) (considered mode (en_signatures e)) None)"

definition localDiskProvider :: "'z signEnv \<Rightarrow> localDisk \<Rightarrow> 'z provider" where
  "localDiskProvider env p = \<lparr>pv_supportedAlgorithms = SUPPORTED_ALGORITHMS, pv_sign = localSign env p,
     pv_verify = (\<lambda>e payload keys mode. orThrow (verifySync env e payload keys mode))\<rparr>"

section \<open>Keys by PEM\<close>

definition publicKeyRefForSubKey :: "'z signEnv \<Rightarrow> string \<Rightarrow> resolvedSubKey \<Rightarrow> publicKeyRef" where
  "publicKeyRefForSubKey env keyId k = \<lparr>kr_keyId = keyId, kr_provider = ''local-disk'', kr_algorithm = ks_algorithm k,
     kr_publicKeyB64 = cy_base64 env (case ks_publicKey k of RawKey b \<Rightarrow> b | KeyObject pub \<Rightarrow> cy_der env pub),
     kr_fingerprint = ks_fingerprint k\<rparr>"

definition publicKeyRefFromPem :: "'z signEnv \<Rightarrow> string \<Rightarrow> signFailure + publicKeyRef" where
  "publicKeyRefFromPem env pem =
     (case cy_createPublicKey env pem of
        Inl m \<Rightarrow> Inl (ThrownError m)
      | Inr pub \<Rightarrow> bindE (detectClassicalAlgorithm env pub) (\<lambda>alg.
          Inr \<lparr>kr_keyId = inlineKeyIdFor env (cy_der env pub), kr_provider = ''local-disk'', kr_algorithm = alg,
               kr_publicKeyB64 = cy_base64 env (cy_der env pub), kr_fingerprint = fingerprintFromBytes env (cy_der env pub)\<rparr>))"

text \<open>\<open>LocalDiskProvider.fromInlinePem(privateKeyPem)\<close> with the default policy.\<close>

definition fromInlinePem :: "'z signEnv \<Rightarrow> string \<Rightarrow> string \<Rightarrow> signFailure + localDisk" where
  "fromInlinePem env keysDir privateKeyPem =
     (case cy_createPrivateKey env privateKeyPem of
        Inl m \<Rightarrow> Inl (SigningError IoError (''inline private-key PEM did not parse: '' @ m))
      | Inr priv \<Rightarrow> bindE (detectClassicalAlgorithm env priv) (\<lambda>alg.
          Inr \<lparr>lp_keysDir = keysDir, lp_clockSkewToleranceMs = 60000, lp_nonceLengthBytes = 16,
               lp_inlineKey = Some \<lparr>rk_keyId = inlineKeyIdFor env (cy_der env (cy_publicOf env priv)), rk_alias = None,
                 rk_subKeys = [classicalSubKey env alg priv (cy_publicOf env priv)]\<rparr>,
               lp_auditLog = False, lp_nonceRepo = False, lp_auditOrgId = None\<rparr>))"

section \<open>Verbs\<close>

fun signingAlgorithm_text :: "signingAlgorithm \<Rightarrow> string" where
  "signingAlgorithm_text Ed25519 = ''ed25519''"
| "signingAlgorithm_text EcdsaP256Sha256 = ''ecdsa-p256-sha256''"
| "signingAlgorithm_text MlDsa65 = ''ml-dsa-65''"

definition resolveTargets :: "string \<Rightarrow> string \<Rightarrow> ('z, signingProviderKey list) SG" where
  "resolveTargets orgId identifier =
     (if isHex identifier 16 then
        bindM (liftDb (signingKey_getByFingerprint orgId identifier)) (\<lambda>row. ret (case row of None \<Rightarrow> [] | Some r \<Rightarrow> [r]))
      else liftDb (signingKey_getByAlias orgId identifier))"

definition revokeOne :: "string \<Rightarrow> string \<Rightarrow> string \<Rightarrow> signingProviderKey \<Rightarrow> ('z, signingProviderKey option) SG" where
  "revokeOne orgId reason actor target =
     bindM (liftDb (signingKey_revoke orgId (sk_fingerprint target) actor reason)) (\<lambda>_.
     bindM (liftDb (audit_append orgId actor ''signing.key_revoked'' ''signing_key'' (sk_fingerprint target)
       (Some (JObj [(''provider'', JStr (sk_provider target)), (''fingerprint'', JStr (sk_fingerprint target)), (''reason'', JStr reason)])))) (\<lambda>_.
     liftDb (signingKey_getByFingerprint orgId (sk_fingerprint target))))"

definition runSigningKeysRevoke :: "string \<Rightarrow> string \<Rightarrow> string \<Rightarrow> string \<Rightarrow> ('z, signingProviderKey list) SG" where
  "runSigningKeysRevoke orgId identifier reason actor =
     bindM (resolveTargets orgId identifier) (\<lambda>targets.
     if targets = [] then throwM (SigningError KeyNotFound (''no key matched identifier '' @ dq @ identifier @ dq @ '' for org '' @ orgId))
     else foldM (\<lambda>revoked target. bindM (revokeOne orgId reason actor target) (\<lambda>updated.
       ret (revoked @ (case updated of None \<Rightarrow> [] | Some r \<Rightarrow> [r])))) [] targets)"

text \<open>The keys of the catalogue for the entries of an envelope, the entries it has keys for and those it has none for.\<close>

definition catalogRef :: "signingProviderKey \<Rightarrow> publicKeyRef" where
  "catalogRef r = \<lparr>kr_keyId = sk_keyId r, kr_provider = sk_provider r, kr_algorithm = signingAlgorithm_text (sk_algorithm r),
     kr_publicKeyB64 = sk_publicKeyB64 r, kr_fingerprint = sk_fingerprint r\<rparr>"

definition lookupKeys :: "string \<Rightarrow> sigEntry list \<Rightarrow> ('z, publicKeyRef list \<times> sigEntry list \<times> sigEntry list) SG" where
  "lookupKeys orgId entries = foldM (\<lambda>(refs, matched, missing) e.
     bindM (liftDb (signingKey_getByFingerprint orgId (se_signedBy e))) (\<lambda>row. ret (case row of
       None \<Rightarrow> (refs, matched, missing @ [e])
     | Some r \<Rightarrow> (refs @ [catalogRef r], matched @ [e], missing)))) ([], [], []) entries"

definition runSigningVerify ::
  "'z signEnv \<Rightarrow> string \<Rightarrow> signEnvelope \<Rightarrow> string \<Rightarrow> verifyMode option \<Rightarrow> ('z, verifyResult \<times> sigEntry list \<times> sigEntry list) SG" where
  "runSigningVerify env orgId e payload mode =
     bindM (lookupKeys orgId (en_signatures e)) (\<lambda>(refs, matched, missing).
     if refs = [] then ret (Refused KeyNotFound (''no public keys in the catalog matched the envelope'' @ [CHR 0x27]
       @ ''s signedBy fingerprints''), matched, missing)
     else bindM (orThrow (verifySync env e payload refs (orElse mode Transition))) (\<lambda>r. ret (r, matched, missing)))"

text \<open>\<open>Math.trunc\<close>, which \<open>new Date\<close> applies to a fractional time.  The quoted value in the message on bad hours is left out.\<close>

definition jsTrunc :: "rat \<Rightarrow> int" where
  "jsTrunc q = (if q < 0 then - \<lfloor>- q\<rfloor> else \<lfloor>q\<rfloor>)"

definition runSigningNonceSweep :: "rat option \<Rightarrow> ('z, nat \<times> string) SG" where
  "runSigningNonceSweep olderThanHours =
     (let hours = orElse olderThanHours 24 in
      if hours \<le> 0 then throwM (SigningError InternalError ''--older-than-hours must be > 0'')
      else
        bindM (liftDb dateNow) (\<lambda>now.
        bindM (liftDb (isoDate (jsTrunc (of_int now - hours * 3600000)))) (\<lambda>cutoff.
        bindM (liftDb (nonce_sweepOlderThan cutoff)) (\<lambda>n. ret (n, cutoff)))))"

end
