(* ===== verification/Build.thy ===== *)
theory Build
  imports Build_Manifest Probes Signing Git_Args
begin

text \<open>
  Building a release: the build file and its variables (\<open>build/yaml.ts\<close>), the executor
  (\<open>build/executor.ts\<close>) and the signing of manifests (\<open>build/signing.ts\<close>).  What runs outside, the
  processes, the working tree, the blob store, YAML and zod, is the record \<open>buildEnv\<close>; what it does may
  depend on everything that was run before, which the state keeps as \<open>ran\<close>.  Progress output is left
  out.
\<close>

section \<open>The build file\<close>

record buildStep =
  bs_cwd :: "string option"
  bs_command :: string
  bs_args :: "string list option"
  bs_env :: "(string \<times> string) list option"

datatype buildArtifact = BlobArtifact string "string option" | ImageRefArtifact string

record buildComponent =
  bc_name :: string
  bc_build :: buildStep
  bc_artifacts :: "buildArtifact list"

record buildYaml =
  by_components :: "buildComponent list"
  by_verification :: "(string \<times> string list) list option"
  by_probes :: "probe list option"

text \<open>A zod issue: the path to the offending value and a message.\<close>

type_synonym issue = "string list \<times> string"

text \<open>The names that repeat an earlier one, one issue each.\<close>

fun repeatedNames :: "string list \<Rightarrow> string list \<Rightarrow> string list" where
  "repeatedNames seen [] = []"
| "repeatedNames seen (n # ns) = (if n \<in> set seen then [n] else []) @ repeatedNames (n # seen) ns"

definition duplicateIssues :: "buildYaml \<Rightarrow> issue list" where
  "duplicateIssues y =
     map (\<lambda>n. ([''components''], ''duplicate component name: '' @ n)) (repeatedNames [] (map bc_name (by_components y)))
     @ (case by_probes y of None \<Rightarrow> []
        | Some ps \<Rightarrow> map (\<lambda>n. ([''probes''], ''duplicate probe name: '' @ n)) (repeatedNames [] (map probe_name ps)))"

definition issueText :: "issue \<Rightarrow> string" where
  "issueText i = (if fst i \<noteq> [] then join_with ''.'' (fst i) else ''<root>'') @ '': '' @ snd i"

definition invalidBuildYaml :: "issue list \<Rightarrow> err" where
  "invalidBuildYaml issues = NamedError ''BuildYamlValidationError''
     (''signalman.build.yaml is invalid:'' @ [CHR 0x0A] @ ''  '' @ join_with ([CHR 0x0A] @ ''  '') (map issueText issues))"

definition validateBuildYaml :: "(json \<Rightarrow> issue list + buildYaml) \<Rightarrow> json \<Rightarrow> err + buildYaml" where
  "validateBuildYaml schema raw = (case schema raw of
       Inl issues \<Rightarrow> Inl (invalidBuildYaml issues)
     | Inr y \<Rightarrow> if duplicateIssues y = [] then Inr y else Inl (invalidBuildYaml (duplicateIssues y)))"

section \<open>Variables\<close>

definition varStart :: "char \<Rightarrow> bool" where
  "varStart c \<longleftrightarrow> inRange 65 90 c \<or> c = CHR ''_''"

definition varChar :: "char \<Rightarrow> bool" where
  "varChar c \<longleftrightarrow> varStart c \<or> inRange 48 57 c"

text \<open>A match of the variable pattern at the front of a string: the name and what follows.\<close>

definition variableAt :: "string \<Rightarrow> (string \<times> string) option" where
  "variableAt s =
     (let name = takeWhile varChar (drop 2 s); rest = dropWhile varChar (drop 2 s) in
      if take 2 s = [CHR 0x24, CHR 0x7B] \<and> name \<noteq> [] \<and> varStart (hd name) \<and> rest \<noteq> [] \<and> hd rest = CHR 0x7D
      then Some (name, tl rest) else None)"

lemma variableAt_shorter: "variableAt s = Some (name, rest) \<Longrightarrow> length rest < length s"
proof -
  assume "variableAt s = Some (name, rest)"
  then have "rest = tl (dropWhile varChar (drop 2 s))" "dropWhile varChar (drop 2 s) \<noteq> []"
    by (auto simp: variableAt_def Let_def split: if_splits)
  moreover have "length (dropWhile varChar (drop 2 s)) \<le> length s"
    by (metis diff_le_self le_trans length_drop length_dropWhile_le)
  ultimately show ?thesis by (cases "dropWhile varChar (drop 2 s)") auto
qed

definition unknownVariable :: "string \<Rightarrow> string \<Rightarrow> err" where
  "unknownVariable name whereText = NamedError ''UnknownBuildVariableError''
     (''unknown build variable '' @ [CHR 0x24, CHR 0x7B] @ name @ [CHR 0x7D] @ '' referenced in '' @ whereText)"

function substituteVariables :: "(string \<rightharpoonup> string) \<Rightarrow> string \<Rightarrow> string \<Rightarrow> err + string" where
  "substituteVariables vars whereText [] = Inr []"
| "substituteVariables vars whereText (c # cs) =
     (case variableAt (c # cs) of
        None \<Rightarrow> map_sum id ((#) c) (substituteVariables vars whereText cs)
      | Some (name, rest) \<Rightarrow> (case vars name of
          None \<Rightarrow> Inl (unknownVariable name whereText)
        | Some v \<Rightarrow> map_sum id ((@) v) (substituteVariables vars whereText rest)))"
  by pat_completeness auto

termination substituteVariables
  by (relation "measure (\<lambda>(v, w, s). length s)") (auto dest: variableAt_shorter)

definition buildVariables :: "string \<Rightarrow> string \<Rightarrow> string \<rightharpoonup> string" where
  "buildVariables tag commitSha = [''TAG'' \<mapsto> tag, ''COMMIT_SHA'' \<mapsto> commitSha, ''COMMIT_SHORT'' \<mapsto> take 7 commitSha]"

text \<open>\<open>xs.map((x, i) => f(x, i))\<close> where \<open>f\<close> may throw.\<close>

fun mapIndexed :: "(nat \<Rightarrow> 'a \<Rightarrow> err + 'b) \<Rightarrow> nat \<Rightarrow> 'a list \<Rightarrow> err + 'b list" where
  "mapIndexed f i [] = Inr []"
| "mapIndexed f i (x # xs) = bindE (f i x) (\<lambda>y. bindE (mapIndexed f (Suc i) xs) (\<lambda>ys. Inr (y # ys)))"

definition indexed :: "string \<Rightarrow> string \<Rightarrow> nat \<Rightarrow> string \<Rightarrow> string" where
  "indexed name what i suffix = name @ what @ ''['' @ showNat i @ '']'' @ suffix"

definition substituteArtifact :: "(string \<rightharpoonup> string) \<Rightarrow> string \<Rightarrow> nat \<Rightarrow> buildArtifact \<Rightarrow> err + buildArtifact" where
  "substituteArtifact vars name i a = (case a of
       BlobArtifact path produce \<Rightarrow>
         bindE (substituteVariables vars (indexed name ''.artifacts'' i ''.path'') path) (\<lambda>path'.
         if truthy produce then
           bindE (substituteVariables vars (indexed name ''.artifacts'' i ''.produce'') (the produce)) (\<lambda>p. Inr (BlobArtifact path' (Some p)))
         else Inr (BlobArtifact path' None))
     | ImageRefArtifact ref \<Rightarrow>
         bindE (substituteVariables vars (indexed name ''.artifacts'' i ''.ref'') ref) (\<lambda>r. Inr (ImageRefArtifact r)))"

definition substituteComponent :: "(string \<rightharpoonup> string) \<Rightarrow> buildComponent \<Rightarrow> err + buildComponent" where
  "substituteComponent vars c =
     bindE (case bs_args (bc_build c) of
              None \<Rightarrow> Inr None
            | Some args \<Rightarrow> bindE (mapIndexed (\<lambda>i a. substituteVariables vars (indexed (bc_name c) ''.build.args'' i []) a) 0 args) (\<lambda>as. Inr (Some as))) (\<lambda>args.
     bindE (mapIndexed (substituteArtifact vars (bc_name c)) 0 (bc_artifacts c)) (\<lambda>arts.
     Inr (c\<lparr>bc_build := (bc_build c)\<lparr>bs_args := args\<rparr>, bc_artifacts := arts\<rparr>)))"

section \<open>What runs outside\<close>

record rawCommand =
  rc_componentName :: string
  rc_command :: string
  rc_args :: "string list"
  rc_cwd :: string
  rc_env :: "(string \<times> string) list"

datatype buildCall = RanCommand rawCommand | StoredBlob string

text \<open>How a child process ends: it could not be started, or it closed with an exit code (none after a signal).\<close>

datatype spawnOutcome = SpawnError string | Closed "int option" string

datatype fileStat = NoFile | RegularFile | OtherFile

record blobRef =
  bl_uri :: string
  bl_sha256 :: string
  bl_size :: int

record bworld = dworld +
  ran :: "buildCall list"

type_synonym ('z, 'a) BM = "('z bworld_scheme, err, 'a) M"

record 'z buildEnv =
  be_readYaml :: "buildCall list \<Rightarrow> string \<Rightarrow> string + json"
  be_schema :: "json \<Rightarrow> issue list + buildYaml"
  be_json :: "buildYaml \<Rightarrow> string"
  be_spawn :: "buildCall list \<Rightarrow> rawCommand \<Rightarrow> spawnOutcome"
  be_stat :: "buildCall list \<Rightarrow> string \<Rightarrow> fileStat"
  be_put :: "buildCall list \<Rightarrow> string \<Rightarrow> string \<Rightarrow> string + blobRef"
  be_windows :: bool
  be_cwd :: string
  be_hostPid :: string
  be_keysDir :: string
  be_freshNonce :: "buildCall list \<Rightarrow> string"
  be_sign :: "'z bworld_ext dworld_ext signEnv"

text \<open>\<open>path.resolve(a, b)\<close>: the rightmost absolute path wins, and no slash is left at the end.\<close>

definition resolvePath :: "string \<Rightarrow> string \<Rightarrow> string \<Rightarrow> string" where
  "resolvePath cwd a b =
     (let full = (if isAbsolutePath b then b else if isAbsolutePath a then a @ ''/'' @ b else cwd @ ''/'' @ a @ ''/'' @ b);
          p = normalizePath full in
      if length p > 1 \<and> last p = CHR ''/'' then butlast p else p)"

definition STDERR_TAIL_BYTES :: nat where
  "STDERR_TAIL_BYTES = 4096"

definition componentBuildError :: "string \<Rightarrow> int option \<Rightarrow> string \<Rightarrow> err" where
  "componentBuildError component code stderrTail = NamedError ''ComponentBuildError''
     (''component '' @ [CHR 0x27] @ component @ [CHR 0x27] @ '' build failed (exit='' @ (case code of None \<Rightarrow> ''signal'' | Some c \<Rightarrow> showInt c)
       @ ''):'' @ [CHR 0x0A] @ stderrTail)"

definition runRawCommand :: "'z buildEnv \<Rightarrow> rawCommand \<Rightarrow> ('z, unit) BM" where
  "runRawCommand env c w =
     (let w' = w\<lparr>ran := ran w @ [RanCommand c]\<rparr> in
      case be_spawn env (ran w) c of
        SpawnError m \<Rightarrow> (Inl (JsError m), w')
      | Closed code err \<Rightarrow>
          if code = Some 0 then (Inr (), w')
          else (Inl (componentBuildError (rc_componentName c) code (drop (length err - STDERR_TAIL_BYTES) err)), w'))"

definition runComponentBuild :: "'z buildEnv \<Rightarrow> string \<Rightarrow> buildComponent \<Rightarrow> ('z, unit) BM" where
  "runComponentBuild env workDir c =
     (let b = bc_build c in
      runRawCommand env \<lparr>rc_componentName = bc_name c, rc_command = bs_command b, rc_args = orElse (bs_args b) [],
        rc_cwd = (if truthy (bs_cwd b) then resolvePath (be_cwd env) workDir (the (bs_cwd b)) else workDir),
        rc_env = orElse (bs_env b) []\<rparr>)"

definition runShellCommand :: "'z buildEnv \<Rightarrow> string \<Rightarrow> string \<Rightarrow> ('z, unit) BM" where
  "runShellCommand env command cwd =
     runRawCommand env \<lparr>rc_componentName = ''<produce>'', rc_command = (if be_windows env then ''cmd.exe'' else ''sh''),
       rc_args = (if be_windows env then [''/d'', ''/s'', ''/c'', command] else [''-c'', command]), rc_cwd = cwd, rc_env = []\<rparr>"

definition missingArtifact :: "string \<Rightarrow> string \<Rightarrow> err" where
  "missingArtifact component path = NamedError ''MissingArtifactError''
     (''component '' @ [CHR 0x27] @ component @ [CHR 0x27] @ '' build completed but declared artifact '' @ path @ '' was not produced'')"

text \<open>\<open>blobs.put\<close> streams the file at a path into the store.\<close>

definition putBlob :: "'z buildEnv \<Rightarrow> string \<Rightarrow> string \<Rightarrow> ('z, blobRef) BM" where
  "putBlob env orgId path w = (case be_put env (ran w) orgId path of
       Inl m \<Rightarrow> (Inl (JsError m), w\<lparr>ran := ran w @ [StoredBlob path]\<rparr>)
     | Inr b \<Rightarrow> (Inr b, w\<lparr>ran := ran w @ [StoredBlob path]\<rparr>))"

definition captureArtifact ::
  "'z buildEnv \<Rightarrow> string \<Rightarrow> string \<Rightarrow> string \<Rightarrow> string \<Rightarrow> buildArtifact \<Rightarrow> ('z, artifact \<times> manifestEntry) BM" where
  "captureArtifact env orgId releaseId workDir component art = (case art of
       ImageRefArtifact ref \<Rightarrow>
         bindM (artifact_create releaseId component AImageRef None None None (Some ref)) (\<lambda>row.
         ret (row, \<lparr>me_component = component, me_kind = ImageRefEntry, me_sha256 = None, me_imageRef = Some ref\<rparr>))
     | BlobArtifact path produce \<Rightarrow>
         (let filePath = resolvePath (be_cwd env) workDir path in
          bindM (readM (\<lambda>w. be_stat env (ran w) filePath)) (\<lambda>st.
          if st \<noteq> RegularFile then throwM (missingArtifact component path)
          else
            bindM (putBlob env orgId filePath) (\<lambda>blob.
            bindM (artifact_create releaseId component ABlob (Some (bl_sha256 blob)) (Some (bl_size blob)) (Some (bl_uri blob)) None) (\<lambda>row.
            ret (row, \<lparr>me_component = component, me_kind = BlobEntry, me_sha256 = Some (bl_sha256 blob), me_imageRef = None\<rparr>))))))"

section \<open>Signing manifests\<close>

fun signErr :: "signFailure \<Rightarrow> err" where
  "signErr (SigningError AlgorithmNotImplemented m) = NamedError ''AlgorithmNotImplementedError'' m"
| "signErr (SigningError c m) = NamedError ''SigningError'' m"
| "signErr (StorageFailure e) = e"
| "signErr (ThrownError m) = JsError m"

text \<open>A step of the signing service inside code that catches errors as such.\<close>

definition signing :: "('z, 'a) SG \<Rightarrow> ('z, 'a) DB" where
  "signing m w = (case m w of (Inl f, w') \<Rightarrow> (Inl (signErr f), w') | (Inr x, w') \<Rightarrow> (Inr x, w'))"

fun keyKind_text :: "keyKind \<Rightarrow> string" where
  "keyKind_text KeyEd25519 = ''ed25519''"
| "keyKind_text (KeyEc curve) = ''ec''"
| "keyKind_text (KeyOther t) = orElse t ''undefined''"

definition LEGACY_ACTOR :: actorRef where
  "LEGACY_ACTOR = \<lparr>ac_kind = ServiceActor, ac_cn = ''legacy-build-signing'', ac_orgId = ''default''\<rparr>"

definition fingerprintPublicKey :: "'z signEnv \<Rightarrow> string \<Rightarrow> err + string" where
  "fingerprintPublicKey env pem = (case cy_createPublicKey env pem of
       Inl m \<Rightarrow> Inl (JsError m) | Inr pub \<Rightarrow> Inr (take 16 (cy_sha256 env (cy_der env pub))))"

definition signManifest :: "'z signEnv \<Rightarrow> string \<Rightarrow> string \<Rightarrow> releaseManifest \<Rightarrow> string \<Rightarrow> ('z, string \<times> string) DB" where
  "signManifest env keysDir nonce manifest privateKeyPem = (case cy_createPrivateKey env privateKeyPem of
       Inl m \<Rightarrow> throwM (JsError m)
     | Inr k \<Rightarrow>
         if cy_keyKind env k \<noteq> KeyEd25519 then throwM (JsError (''signing key must be Ed25519, got '' @ keyKind_text (cy_keyKind env k)))
         else
           bindM (signing (orThrow (fromInlinePem env keysDir privateKeyPem))) (\<lambda>provider.
           bindM nowIso (\<lambda>requestedAt.
           bindM (signing (signSync env provider \<lparr>rq_keyId = ''inline'', rq_payload = canonicalManifestBytes manifest, rq_nonce = nonce,
             rq_requestedAt = requestedAt, rq_purpose = ''release.manifest.legacy'', rq_actor = LEGACY_ACTOR\<rparr>)) (\<lambda>envelope.
           case en_signatures envelope of
             [] \<Rightarrow> throwM (JsError ''LocalDiskProvider.signSync returned an empty envelope'')
           | entry # _ \<Rightarrow> ret (se_signatureB64 entry, se_signedBy entry)))))"

definition verifyManifest :: "'z signEnv \<Rightarrow> releaseManifest \<Rightarrow> string \<Rightarrow> string \<Rightarrow> string \<Rightarrow> err + unit" where
  "verifyManifest env manifest signatureB64 signedByFingerprint publicKeyPem =
     (case cy_createPublicKey env publicKeyPem of
        Inl m \<Rightarrow> Inl (JsError m)
      | Inr pub \<Rightarrow>
          if cy_keyKind env pub \<noteq> KeyEd25519 then
            Inl (NamedError ''SignatureVerificationError'' (''public key must be Ed25519, got '' @ keyKind_text (cy_keyKind env pub)))
          else
            bindE (fingerprintPublicKey env publicKeyPem) (\<lambda>fp.
            if fp \<noteq> signedByFingerprint then
              Inl (NamedError ''SignatureVerificationError'' (''public-key fingerprint mismatch: release signed by '' @ signedByFingerprint
                @ '', you provided '' @ fp))
            else
              let bytes = canonicalManifestBytes manifest in
              bindE (map_sum signErr id (publicKeyRefFromPem env publicKeyPem)) (\<lambda>publicKeyRef.
              bindE (map_sum signErr id (verifySync env
                \<lparr>en_signatures = [\<lparr>se_signatureB64 = signatureB64, se_signedBy = signedByFingerprint, se_algorithm = ''ed25519'',
                   se_signedAt = toISOString 0\<rparr>],
                 en_nonce = replicate 32 CHR ''0'', en_payloadSha256 = cy_sha256 env bytes\<rparr> bytes [publicKeyRef] Strict)) (\<lambda>result.
              if result \<noteq> Verified then
                Inl (NamedError ''SignatureVerificationError'' ''signature is cryptographically invalid (manifest tampered or wrong key)'')
              else Inr ()))))"

section \<open>The executor\<close>

record buildOptions =
  bo_orgId :: string
  bo_productId :: string
  bo_tag :: string
  bo_commitSha :: string
  bo_workDir :: string
  bo_runnerId :: "string option"
  bo_actor :: "string option"
  bo_signingKeyPem :: "string option"

record buildResult =
  br_release :: release
  br_manifest :: releaseManifest
  br_manifestSha256 :: string
  br_artifacts :: "artifact list"
  br_signature :: "(string \<times> string) option"

definition releaseAlreadyExists :: "string \<Rightarrow> string \<Rightarrow> err" where
  "releaseAlreadyExists productName tag = NamedError ''ReleaseAlreadyExistsError''
     (''release '' @ productName @ ''@'' @ tag @ '' already exists with status=ready; refusing to rebuild ''
       @ ''(soft-delete it to force a rebuild, or use a different tag)'')"

text \<open>The build file of a product, or the error that replaces whatever reading it threw.\<close>

definition readBuildYaml :: "'z buildEnv \<Rightarrow> string \<Rightarrow> product \<Rightarrow> ('z, buildYaml) BM" where
  "readBuildYaml env workDir product =
     (let path = joinPaths [workDir, p_buildYamlPath product];
          failure = (\<lambda>m. throwM (JsError (''failed to read or validate '' @ p_buildYamlPath product @ '' at '' @ path @ '': '' @ m))) in
      bindM (readM (\<lambda>w. be_readYaml env (ran w) path)) (\<lambda>r. case r of
        Inl m \<Rightarrow> failure m
      | Inr doc \<Rightarrow> (case validateBuildYaml (be_schema env) doc of Inl e \<Rightarrow> failure (err_message e) | Inr y \<Rightarrow> ret y)))"

definition throwing :: "'e + 'a \<Rightarrow> ('s, 'e, 'a) M" where
  "throwing r = (case r of Inl e \<Rightarrow> throwM e | Inr x \<Rightarrow> ret x)"

definition captureAll ::
  "'z buildEnv \<Rightarrow> buildOptions \<Rightarrow> string \<Rightarrow> buildComponent \<Rightarrow> artifact list \<times> manifestEntry list \<Rightarrow> ('z, artifact list \<times> manifestEntry list) BM" where
  "captureAll env opts releaseId component acc =
     foldM (\<lambda>(rows, entries) art.
       bindM (captureArtifact env (bo_orgId opts) releaseId (bo_workDir opts) (bc_name component) art) (\<lambda>(row, entry).
       ret (rows @ [row], entries @ [entry]))) acc (bc_artifacts component)"

definition produceStep :: "'z buildEnv \<Rightarrow> string \<Rightarrow> buildArtifact \<Rightarrow> ('z, unit) BM" where
  "produceStep env workDir art = (case art of
       BlobArtifact path produce \<Rightarrow> if truthy produce then runShellCommand env (the produce) workDir else ret ()
     | ImageRefArtifact ref \<Rightarrow> ret ())"

definition buildComponentStep ::
  "'z buildEnv \<Rightarrow> buildOptions \<Rightarrow> string \<Rightarrow> artifact list \<times> manifestEntry list \<Rightarrow> buildComponent \<Rightarrow> ('z, artifact list \<times> manifestEntry list) BM" where
  "buildComponentStep env opts releaseId acc componentRaw =
     bindM (throwing (substituteComponent (buildVariables (bo_tag opts) (bo_commitSha opts)) componentRaw)) (\<lambda>component.
     bindM (runComponentBuild env (bo_workDir opts) component) (\<lambda>_.
     bindM (foldM (\<lambda>_ art. produceStep env (bo_workDir opts) art) () (bc_artifacts component)) (\<lambda>_.
     captureAll env opts releaseId component acc)))"

definition optionalSignature :: "'z buildEnv \<Rightarrow> buildOptions \<Rightarrow> releaseManifest \<Rightarrow> ('z, (string \<times> string) option) BM" where
  "optionalSignature env opts manifest =
     (if truthy (bo_signingKeyPem opts) then
        bindM (readM (\<lambda>w. be_freshNonce env (ran w))) (\<lambda>nonce.
        bindM (signManifest (be_sign env) (be_keysDir env) nonce manifest (the (bo_signingKeyPem opts))) (\<lambda>s. ret (Some s)))
      else ret None)"

definition readyPatch :: "string \<Rightarrow> string \<Rightarrow> string \<Rightarrow> string \<Rightarrow> (string \<times> string) option \<Rightarrow> releasePatch" where
  "readyPatch manifestSha256 builtAt runnerId yamlJson signature =
     \<lparr>rp_manifestSha256 = Some manifestSha256, rp_signedBy = map_option snd signature, rp_signatureB64 = map_option fst signature,
      rp_builtAt = Some builtAt, rp_builtByRunnerId = Some runnerId, rp_status = Some RReady, rp_buildYamlJson = Some yamlJson\<rparr>"

definition runnerIdOf :: "'z buildEnv \<Rightarrow> buildOptions \<Rightarrow> string" where
  "runnerIdOf env opts = orElse (bo_runnerId opts) (be_hostPid env)"

definition buildBody :: "'z buildEnv \<Rightarrow> buildOptions \<Rightarrow> product \<Rightarrow> buildYaml \<Rightarrow> release \<Rightarrow> ('z, buildResult) BM" where
  "buildBody env opts product parsed release =
     bindM (foldM (buildComponentStep env opts (r_id release)) ([], []) (by_components parsed)) (\<lambda>(artifactRows, manifestEntries).
     let manifest = buildManifest (p_name product) (bo_tag opts) (bo_commitSha opts) manifestEntries;
         manifestSha256 = hashManifest (cy_sha256 (be_sign env)) manifest in
     bindM (optionalSignature env opts manifest) (\<lambda>signature.
     bindM nowIso (\<lambda>builtAt.
     bindM (release_update (r_id release) (readyPatch manifestSha256 builtAt (runnerIdOf env opts) (be_json env parsed) signature)) (\<lambda>finished.
     bindM (audit_append (bo_orgId opts) (orElse (bo_actor opts) ''cli'') ''release.build.completed'' ''release'' (r_id release)
       (Some (JObj ([(''tag'', JStr (bo_tag opts)), (''manifestSha256'', JStr manifestSha256), (''artifactCount'', JNum (of_nat (length artifactRows)))]
         @ (case signature of None \<Rightarrow> [] | Some s \<Rightarrow> [(''signedBy'', JStr (snd s))]))))) (\<lambda>_.
     ret \<lparr>br_release = finished, br_manifest = manifest, br_manifestSha256 = manifestSha256, br_artifacts = artifactRows,
          br_signature = signature\<rparr>)))))"

definition failedStatus :: releasePatch where
  "failedStatus = \<lparr>rp_manifestSha256 = None, rp_signedBy = None, rp_signatureB64 = None, rp_builtAt = None, rp_builtByRunnerId = None,
     rp_status = Some RFailed, rp_buildYamlJson = None\<rparr>"

definition buildCatch :: "buildOptions \<Rightarrow> release \<Rightarrow> err \<Rightarrow> ('z, 'a) DB" where
  "buildCatch opts release e =
     bindM (tryM (bindM (release_update (r_id release) failedStatus) (\<lambda>_. ret ()))) (\<lambda>_.
     bindM (audit_append (bo_orgId opts) (orElse (bo_actor opts) ''cli'') ''release.build.failed'' ''release'' (r_id release)
       (Some (JObj [(''error'', JStr (err_message e)), (''name'', JStr (err_name e))]))) (\<lambda>_.
     throwM e))"

text \<open>What comes before the try block: the product, the tag, the build file and the new row.\<close>

definition buildPrepare :: "'z buildEnv \<Rightarrow> buildOptions \<Rightarrow> ('z, product \<times> buildYaml \<times> release) BM" where
  "buildPrepare env opts =
     bindM (product_get (bo_productId opts)) (\<lambda>p. case p of
       None \<Rightarrow> throwM (JsError (''product not found: '' @ bo_productId opts))
     | Some product \<Rightarrow>
         bindM (release_getByTag (bo_productId opts) (bo_tag opts)) (\<lambda>existing.
         bindM (case existing of
             None \<Rightarrow> ret ()
           | Some r \<Rightarrow> if r_status r = RReady then throwM (releaseAlreadyExists (p_name product) (bo_tag opts)) else release_softDelete (r_id r)) (\<lambda>_.
         bindM (readBuildYaml env (bo_workDir opts) product) (\<lambda>parsed.
         bindM (release_create (bo_orgId opts) (bo_productId opts) (bo_tag opts) (bo_commitSha opts) (Some RBuilding)) (\<lambda>release.
         bindM (audit_append (bo_orgId opts) (orElse (bo_actor opts) ''cli'') ''release.build.started'' ''release'' (r_id release)
           (Some (JObj [(''tag'', JStr (bo_tag opts)), (''commitSha'', JStr (bo_commitSha opts)), (''runnerId'', JStr (runnerIdOf env opts))]))) (\<lambda>_.
         ret (product, parsed, release)))))))"

definition runBuild :: "'z buildEnv \<Rightarrow> buildOptions \<Rightarrow> ('z, buildResult) BM" where
  "runBuild env opts =
     bindM (buildPrepare env opts) (\<lambda>(product, parsed, release).
     catchM (buildBody env opts product parsed release) (buildCatch opts release))"

section \<open>Verifying a release\<close>

record releaseVerifyResult =
  rv_release :: release
  rv_product :: product
  rv_verified :: bool
  rv_reason :: "string option"

definition artifactEntry :: "artifact \<Rightarrow> manifestEntry" where
  "artifactEntry a = (if af_kind a = ABlob
     then \<lparr>me_component = af_component a, me_kind = BlobEntry, me_sha256 = af_sha256 a, me_imageRef = None\<rparr>
     else \<lparr>me_component = af_component a, me_kind = ImageRefEntry, me_sha256 = None, me_imageRef = af_imageRef a\<rparr>)"

definition runReleaseVerify :: "'z signEnv \<Rightarrow> string \<Rightarrow> string \<Rightarrow> ('z, releaseVerifyResult) DB" where
  "runReleaseVerify env releaseId publicKeyPem =
     bindM (release_get releaseId) (\<lambda>r. case r of
       None \<Rightarrow> throwM (JsError (''release not found: '' @ releaseId))
     | Some release \<Rightarrow>
         bindM (product_get (r_productId release)) (\<lambda>p. case p of
           None \<Rightarrow> throwM (JsError (''release '' @ releaseId @ '' references a missing product ('' @ r_productId release @ '')''))
         | Some product \<Rightarrow>
             let answer = (\<lambda>reason. ret \<lparr>rv_release = release, rv_product = product, rv_verified = (reason = None), rv_reason = reason\<rparr>) in
             if \<not> truthy (r_signatureB64 release) \<or> \<not> truthy (r_signedBy release) then
               answer (Some ''release is unsigned (no signature_b64 / signed_by on the row)'')
             else
               bindM (artifact_listForRelease (r_id release)) (\<lambda>artifacts.
               let manifest = buildManifest (p_name product) (r_tag release) (r_commitSha release) (map artifactEntry artifacts);
                   reconstructedHash = hashManifest (cy_sha256 env) manifest in
               if r_manifestSha256 release \<noteq> None \<and> Some reconstructedHash \<noteq> r_manifestSha256 release then
                 answer (Some (''manifest reconstruction mismatch '' @ emDash @ '' stored '' @ the (r_manifestSha256 release) @ '', reconstructed ''
                   @ reconstructedHash @ ''. The catalog may have been tampered with between build and verify.''))
               else (case verifyManifest env manifest (the (r_signatureB64 release)) (the (r_signedBy release)) publicKeyPem of
                   Inr _ \<Rightarrow> answer None
                 | Inl e \<Rightarrow> answer (Some (err_message e))))))"

end
