(* ===== verification/Signing_Facts.thy ===== *)
theory Signing_Facts
  imports Signing Store_Facts
begin

text \<open>
  What the signing service promises: which envelopes a verifier accepts in which mode, that what was
  signed verifies, and that one request is signed at most once.
\<close>

section \<open>Which envelopes verify\<close>

definition entryVerifies :: "'z signEnv \<Rightarrow> publicKeyRef list \<Rightarrow> string \<Rightarrow> sigEntry \<Rightarrow> bool" where
  "entryVerifies env keys payload e \<longleftrightarrow> se_algorithm e \<in> set SUPPORTED_ALGORITHMS \<and> (\<exists>k pub.
     matchingKey keys e = Some k \<and> materializePublicKey env k = Inr pub \<and>
     cy_verify env (se_algorithm e) pub payload (cy_unbase64 env (se_signatureB64 e)) = Inr True)"

definition entryThrows :: "'z signEnv \<Rightarrow> publicKeyRef list \<Rightarrow> string \<Rightarrow> sigEntry \<Rightarrow> bool" where
  "entryThrows env keys payload e \<longleftrightarrow> isl (verifyEntry env keys payload e)"

lemma verifyEntry_iff: "verifyEntry env keys payload e = Inr None \<longleftrightarrow> entryVerifies env keys payload e"
  by (auto simp: verifyEntry_def entryVerifies_def bindE_def runVerify_def noMatch_def split: option.splits sum.splits)

lemma verifyLoop_all:
  "mode \<noteq> Transition \<Longrightarrow> verifyLoop mode check es a f = Inr Verified \<longleftrightarrow> list_all (\<lambda>e. check e = Inr None) es"
  by (induction es arbitrary: a) (cases mode; force split: sum.splits option.splits)+

lemma verifyLoop_some:
  "verifyLoop Transition check es a f = Inr Verified \<longleftrightarrow>
     list_all (\<lambda>e. \<not> isl (check e)) es \<and> (a \<or> list_ex (\<lambda>e. check e = Inr None) es)"
proof (induction es arbitrary: a f)
  case Nil
  then show ?case by (auto split: option.splits)
next
  case (Cons e es)
  then show ?case by (auto split: sum.splits option.splits)
qed

text \<open>
  C34. What a verifier accepts.  \<open>verifySync\<close> answers yes exactly when it was given a key, the payload has
  the hash the envelope claims, and: in strict mode there is an entry and every entry verifies
  under the key of its algorithm and fingerprint; in classical mode there is an entry that is not
  post-quantum and all of those verify; in transition mode one entry verifies and no primitive threw on
  any of them.
\<close>

theorem verify_accepts_iff:
  "verifySync env e payload keys mode = Inr Verified \<longleftrightarrow>
     keys \<noteq> [] \<and> cy_sha256 env payload = en_payloadSha256 e \<and>
     (case mode of
        Strict \<Rightarrow> en_signatures e \<noteq> [] \<and> list_all (entryVerifies env keys payload) (en_signatures e)
      | ClassicalOnly \<Rightarrow> list_ex (\<lambda>s. classicalAlgorithm (se_algorithm s)) (en_signatures e) \<and>
          list_all (entryVerifies env keys payload) (filter (\<lambda>s. classicalAlgorithm (se_algorithm s)) (en_signatures e))
      | Transition \<Rightarrow> list_ex (entryVerifies env keys payload) (en_signatures e) \<and>
          \<not> list_ex (entryThrows env keys payload) (en_signatures e))"
proof -
  have "filter p xs = [] \<longleftrightarrow> \<not> list_ex p xs" for p and xs :: "sigEntry list" by (induction xs) auto
  moreover have "list_all (\<lambda>e. \<not> isl (f e)) xs \<longleftrightarrow> \<not> list_ex (\<lambda>e. isl (f e)) xs" for f :: "sigEntry \<Rightarrow> signFailure + (signingErrorCode \<times> string) option" and xs
    by (induction xs) auto
  moreover have "list_ex p [] = False" for p :: "sigEntry \<Rightarrow> bool" by simp
  ultimately show ?thesis
    by (cases mode) (auto simp: verifySync_def envelopeRefusal_def considered_def verifyLoop_all verifyLoop_some verifyEntry_iff
        entryThrows_def [abs_def] split: option.splits)
qed

section \<open>Two leaves on disk\<close>

definition diskPair :: "'z signEnv \<Rightarrow> localDisk \<Rightarrow> localDisk \<Rightarrow> string \<Rightarrow> string \<Rightarrow> 'z hybrid" where
  "diskPair env p q c k = \<lparr>hy_classical = localDiskProvider env p, hy_pq = localDiskProvider env q, hy_classicalKeyId = c, hy_pqKeyId = k\<rparr>"

lemma diskPair_hybrid: "hybridProvider (localDiskProvider env p) (localDiskProvider env q) c k = Inr (diskPair env p q c k)"
  by (simp add: hybridProvider_def localDiskProvider_def diskPair_def SUPPORTED_ALGORITHMS_def classicalAlgorithm_def)

lemma matchingKey_single: "matchingKey keys e = Some k \<Longrightarrow> matchingKey [k] e = Some k"
  by (auto simp: matchingKey_def dest: find_Some_D)

lemma verifySync_single:
  assumes "matchingKey keys e = Some k" and "cy_sha256 env payload = en_payloadSha256 env'" and "en_signatures env' = [e]"
  shows "verifySync env env' payload [k] Strict = Inr Verified \<longleftrightarrow> entryVerifies env keys payload e"
  using assms matchingKey_single [OF assms(1)]
  by (simp add: verifySync_def envelopeRefusal_def considered_def verifyLoop_all verifyEntry_iff del: verifyLoop.simps)
    (simp add: entryVerifies_def)

lemma leafEntry_disk:
  assumes "cy_sha256 env payload = en_payloadSha256 e0"
  shows "fst (leafEntry (diskPair env p q c k) e0 keys payload e w) = Inr None \<longleftrightarrow> entryVerifies env keys payload e"
    "snd (leafEntry (diskPair env p q c k) e0 keys payload e w) = w"
proof -
  let ?h = "diskPair env p q c k"
  have leaf: "leafFor ?h (se_algorithm e) = (if se_algorithm e \<in> set SUPPORTED_ALGORITHMS
      then Some (if se_algorithm e = ''ml-dsa-65'' then localDiskProvider env q else localDiskProvider env p) else None)"
    by (simp add: leafFor_def diskPair_def localDiskProvider_def SUPPORTED_ALGORITHMS_def)
  note v = verifySync_single [of keys e _ env payload "\<lparr>en_signatures = [e], en_nonce = en_nonce e0, en_payloadSha256 = en_payloadSha256 e0\<rparr>"]
  show "fst (leafEntry ?h e0 keys payload e w) = Inr None \<longleftrightarrow> entryVerifies env keys payload e"
    using assms v
    by (auto simp: leafEntry_def leaf localDiskProvider_def noMatch_def catchM_def bindM_def orThrow_def ret_def throwM_def entryVerifies_def
        split: option.splits sum.splits verifyResult.splits signFailure.splits signingErrorCode.splits if_splits)
  show "snd (leafEntry ?h e0 keys payload e w) = w"
    by (auto simp: leafEntry_def leaf localDiskProvider_def catchM_def bindM_def orThrow_def ret_def throwM_def
        split: option.splits sum.splits verifyResult.splits signFailure.splits signingErrorCode.splits)
qed

lemma hybridLoop_all:
  assumes "mode \<noteq> Transition" and "\<And>e w. snd (check e w) = w"
  shows "fst (hybridLoop mode check es f w) = Inr Verified \<longleftrightarrow> list_all (\<lambda>e. fst (check e w) = Inr None) es"
    "snd (hybridLoop mode check es f w) = w"
proof -
  have "mode = Strict \<or> mode = ClassicalOnly" using assms(1) by (cases mode) simp_all
  note m = this
  show "fst (hybridLoop mode check es f w) = Inr Verified \<longleftrightarrow> list_all (\<lambda>e. fst (check e w) = Inr None) es"
  proof (induction es)
    case (Cons e es)
    show ?case using Cons m assms(1) assms(2) [of e w]
      by (cases "check e w") (auto simp: bindM_def ret_def split: sum.splits option.splits)
  qed (use assms(1) in \<open>simp add: ret_def\<close>)
  show "snd (hybridLoop mode check es f w) = w"
  proof (induction es)
    case (Cons e es)
    show ?case using Cons m assms(1) assms(2) [of e w]
      by (cases "check e w") (auto simp: bindM_def ret_def split: sum.splits option.splits)
  qed (simp add: ret_def)
qed

lemma hybridVerify_disk:
  assumes "mode \<noteq> Transition"
  shows "fst (hybridVerify env (diskPair env p q c k) e payload keys mode w) = Inr Verified \<longleftrightarrow>
      verifySync env e payload keys mode = Inr Verified"
    "snd (hybridVerify env (diskPair env p q c k) e payload keys mode w) = w"
proof -
  have "list_all (\<lambda>x. fst (leafEntry (diskPair env p q c k) e keys payload x w) = Inr None) es \<longleftrightarrow>
      list_all (\<lambda>x. verifyEntry env keys payload x = Inr None) es"
    if "cy_sha256 env payload = en_payloadSha256 e" for es
    by (simp add: leafEntry_disk(1) [OF that] verifyEntry_iff)
  then show "fst (hybridVerify env (diskPair env p q c k) e payload keys mode w) = Inr Verified \<longleftrightarrow>
      verifySync env e payload keys mode = Inr Verified"
    using assms by (auto simp: hybridVerify_def verifySync_def envelopeRefusal_def ret_def verifyLoop_all
        hybridLoop_all [OF _ leafEntry_disk(2)] simp del: verifyLoop.simps hybridLoop.simps)
  show "snd (hybridVerify env (diskPair env p q c k) e payload keys mode w) = w"
    using assms by (auto simp: hybridVerify_def envelopeRefusal_def ret_def hybridLoop_all [OF _ leafEntry_disk(2)] simp del: hybridLoop.simps)
qed

text \<open>
  C35. Strict verification does not notice a missing half.  If the composition of two disk providers
  accepts an envelope in strict mode, it also accepts, in strict mode, what is left when every
  post-quantum entry is taken out of it, as long as one other entry remains; so does the disk
  provider alone.  Strict mode speaks of the entries that are there, and nothing ties an envelope to
  the pair of keys it should carry.
\<close>

theorem strict_accepts_stripped_envelope:
  fixes e :: signEnvelope
  defines "stripped \<equiv> e\<lparr>en_signatures := filter (\<lambda>s. classicalAlgorithm (se_algorithm s)) (en_signatures e)\<rparr>"
  assumes "fst (hybridVerify env (diskPair env p q c k) e payload keys Strict w) = Inr Verified"
    and "list_ex (\<lambda>s. classicalAlgorithm (se_algorithm s)) (en_signatures e)"
  shows "hybridVerify env (diskPair env p q c k) stripped payload keys Strict w = (Inr Verified, w) \<and>
    verifySync env stripped payload keys Strict = Inr Verified"
proof -
  have "verifySync env e payload keys Strict = Inr Verified" using assms(2) hybridVerify_disk(1) [of Strict env p q c k e payload keys w] by simp
  moreover have "filter p xs \<noteq> []" if "list_ex p xs" for p and xs :: "sigEntry list" using that by (induction xs) auto
  moreover have "list_all p (filter q xs)" if "list_all p xs" for p q and xs :: "sigEntry list" using that by (induction xs) auto
  ultimately have v: "verifySync env stripped payload keys Strict = Inr Verified"
    using assms(3) unfolding stripped_def
    by (auto simp: verifySync_def envelopeRefusal_def considered_def verifyLoop_all simp del: verifyLoop.simps split: if_splits)
  moreover have "hybridVerify env (diskPair env p q c k) stripped payload keys Strict w = (Inr Verified, w)"
    using v hybridVerify_disk [of Strict env p q c k stripped payload keys w] by (simp add: prod_eq_iff)
  ultimately show ?thesis by simp
qed

section \<open>What was signed verifies\<close>

text \<open>The primitives for one key: a signature of the private half verifies under the public one.\<close>

definition soundKey :: "'z signEnv \<Rightarrow> string \<Rightarrow> resolvedSubKey \<Rightarrow> bool" where
  "soundKey env payload k \<longleftrightarrow> ks_algorithm k \<in> set SUPPORTED_ALGORITHMS \<and>
     (case ks_publicKey k of RawKey _ \<Rightarrow> ks_algorithm k = ''ml-dsa-65'' | KeyObject pub \<Rightarrow> ks_algorithm k \<noteq> ''ml-dsa-65'' \<and> cy_fromDer env (cy_der env pub) = Inr pub) \<and>
     (\<forall>w b w'. cy_sign env (ks_algorithm k) (ks_privateKey k) payload w = (Inr b, w') \<longrightarrow>
        cy_verify env (ks_algorithm k) (ks_publicKey k) payload b = Inr True)"

definition soundCodec :: "'z signEnv \<Rightarrow> bool" where
  "soundCodec env \<longleftrightarrow> (\<forall>b. cy_unbase64 env (cy_base64 env b) = b)"

lemma signEntry_verifies:
  assumes "signEntry env payload ts k w = (Inr e, w')" and "soundKey env payload k" and "soundCodec env"
    and "k \<in> set ks" and "distinct (map ks_algorithm ks)"
  shows "entryVerifies env (map (publicKeyRefForSubKey env i) ks) payload e"
proof -
  obtain b w1 where e: "e = \<lparr>se_signatureB64 = cy_base64 env b, se_signedBy = ks_fingerprint k, se_algorithm = ks_algorithm k, se_signedAt = ts\<rparr>"
    and b: "cy_sign env (ks_algorithm k) (ks_privateKey k) payload w = (Inr b, w1)"
    using assms(1,2) by (auto simp: signEntry_def soundKey_def runSign_def bindM_Inr_iff ret_def split: prod.splits sum.splits if_splits)
  have "find (\<lambda>r. kr_algorithm r = ks_algorithm k \<and> kr_fingerprint r = ks_fingerprint k) (map (publicKeyRefForSubKey env i) ks)
      = Some (publicKeyRefForSubKey env i k)"
    using assms(4,5) by (induction ks) (auto simp: publicKeyRefForSubKey_def image_iff)
  moreover have "materializePublicKey env (publicKeyRefForSubKey env i k) = Inr (ks_publicKey k)"
    using assms(2,3) by (auto simp: materializePublicKey_def publicKeyRefForSubKey_def soundKey_def soundCodec_def split: keyMaterial.splits)
  ultimately show ?thesis
    using assms(2,3) b by (auto simp: e entryVerifies_def matchingKey_def soundKey_def soundCodec_def)
qed

lemma signEntries_verify:
  assumes "foldM (\<lambda>es k. bindM (signEntry env payload ts k) (\<lambda>e. ret (es @ [e]))) es ks w = (Inr es', w')"
    and "list_all (soundKey env payload) ks0" and "soundCodec env" and "distinct (map ks_algorithm ks0)" and "set ks \<subseteq> set ks0"
    and "list_all (entryVerifies env (map (publicKeyRefForSubKey env i) ks0) payload) es"
  shows "list_all (entryVerifies env (map (publicKeyRefForSubKey env i) ks0) payload) es' \<and> length es' = length es + length ks"
  using assms
proof (induction ks arbitrary: es w)
  case Nil
  then show ?case by (simp add: ret_def)
next
  case (Cons k ks)
  obtain e w1 where e: "signEntry env payload ts k w = (Inr e, w1)"
    and rest: "foldM (\<lambda>es k. bindM (signEntry env payload ts k) (\<lambda>e. ret (es @ [e]))) (es @ [e]) ks w1 = (Inr es', w')"
    using Cons.prems(1) by (auto simp: bindM_Inr_iff ret_def)
  have "entryVerifies env (map (publicKeyRefForSubKey env i) ks0) payload e"
    using Cons.prems by (intro signEntry_verifies [OF e]) (auto simp: list_all_iff)
  with Cons.IH [OF rest] Cons.prems show ?case by simp
qed

lemma resolved_algorithms:
  assumes "resolveForSign env p keyId = Inr k" and "\<And>i. lp_inlineKey p = Some i \<Longrightarrow> length (rk_subKeys i) = 1"
  shows "distinct (map ks_algorithm (rk_subKeys k)) \<and> rk_subKeys k \<noteq> []"
proof -
  have one: "length (rk_subKeys i) = 1 \<Longrightarrow> distinct (map ks_algorithm (rk_subKeys i)) \<and> rk_subKeys i \<noteq> []" for i
    by (auto simp: length_Suc_conv)
  show ?thesis
    using assms one
    by (auto simp: resolveForSign_def resolveByAlias_def resolveAbsoluteClassical_def resolveHybrid_def resolveFlat_def Let_def bindE_Inr
        classicalSubKey_def pqSubKey_def split: if_splits option.splits)
qed

lemma orThrow_Inr: "orThrow r w = (Inr x, w') \<longleftrightarrow> r = Inr x \<and> w' = w"
  by (cases r) (auto simp: orThrow_def ret_def throwM_def)

lemma catch_rethrow_Inr: "catchM m (\<lambda>e. bindM (a e) (\<lambda>_. throwM (g e))) w = (Inr x, w') \<longleftrightarrow> m w = (Inr x, w')"
  by (auto simp: catchM_def bindM_def throwM_def split: prod.splits sum.splits)

lemma signSync_Inr:
  assumes "signSync env p req w = (Inr e, w')" and "resolveForSign env p (rq_keyId req) = Inr k"
  obtains ts w1 w2 es where "foldM (\<lambda>es k. bindM (signEntry env (rq_payload req) ts k) (\<lambda>e. ret (es @ [e]))) [] (rk_subKeys k) w1 = (Inr es, w2)"
    "e = \<lparr>en_signatures = es, en_nonce = rq_nonce req, en_payloadSha256 = cy_sha256 env (rq_payload req)\<rparr>"
  using assms unfolding signSync_def
  by (auto simp: bindM_Inr_iff orThrow_Inr ret_def throwM_def split: if_splits)

lemma localSign_Inr:
  assumes "localSign env p req w = (Inr e, w')"
  obtains w1 w2 where "signSync env p req w1 = (Inr e, w2)"
  using assms
  by (auto simp: localSign_def signWithAudit_def Let_def bindM_Inr_iff catch_rethrow_Inr ret_def split: if_splits)

text \<open>
  C33. What was signed verifies.  Whenever the disk provider returns an envelope for a request,
  the envelope and the payload are accepted, in strict and in transition mode, against the public
  references of the key the request named: whether that key is one file, a pair of files or an
  inline one, and with or without the audit log and the ledger of nonces.  Of the primitives it is
  asked that a signature made with the private half verifies under the public half, that
  a public key survives its encoding, and that base64 decodes what it encoded.
\<close>

theorem signed_envelope_verifies:
  assumes "localSign env p req w = (Inr e, w')" and "resolveForSign env p (rq_keyId req) = Inr k"
    and "list_all (soundKey env (rq_payload req)) (rk_subKeys k)" and "soundCodec env"
    and "\<And>i. lp_inlineKey p = Some i \<Longrightarrow> length (rk_subKeys i) = 1" and "mode \<noteq> ClassicalOnly"
  shows "verifySync env e (rq_payload req) (map (publicKeyRefForSubKey env (rk_keyId k)) (rk_subKeys k)) mode = Inr Verified"
proof -
  let ?keys = "map (publicKeyRefForSubKey env (rk_keyId k)) (rk_subKeys k)"
  obtain w1 w2 where "signSync env p req w1 = (Inr e, w2)" by (rule localSign_Inr [OF assms(1)])
  then obtain ts u1 u2 es where
    es: "foldM (\<lambda>es k. bindM (signEntry env (rq_payload req) ts k) (\<lambda>e. ret (es @ [e]))) [] (rk_subKeys k) u1 = (Inr es, u2)"
    and e: "e = \<lparr>en_signatures = es, en_nonce = rq_nonce req, en_payloadSha256 = cy_sha256 env (rq_payload req)\<rparr>"
    by (rule signSync_Inr [OF _ assms(2)])
  note k = resolved_algorithms [OF assms(2,5)]
  from signEntries_verify [OF es assms(3,4) _ subset_refl, of "rk_keyId k"] k
  have all: "list_all (entryVerifies env ?keys (rq_payload req)) es" and "es \<noteq> []" by auto
  then have "list_all (\<lambda>x. verifyEntry env ?keys (rq_payload req) x = Inr None) es"
    by (simp add: verifyEntry_iff)
  moreover from this \<open>es \<noteq> []\<close> have "list_all (\<lambda>x. \<not> isl (verifyEntry env ?keys (rq_payload req) x)) es"
    "list_ex (\<lambda>x. verifyEntry env ?keys (rq_payload req) x = Inr None) es"
    by (cases es; auto simp: list_all_iff)+
  ultimately show ?thesis
    using k \<open>es \<noteq> []\<close> assms(6) by (cases mode) (auto simp: e verifySync_def envelopeRefusal_def considered_def verifyLoop_all verifyLoop_some)
qed

section \<open>A key pair on disk\<close>

text \<open>A directory with the two halves of the default key; the primitives tag the payload with the algorithm.\<close>

definition labSigner :: "unit signEnv" where
  "labSigner = \<lparr>cy_sha256 = (\<lambda>b. b), cy_createPrivateKey = Inr, cy_createPublicKey = Inr, cy_publicOf = (\<lambda>k. k), cy_fromDer = Inr,
     cy_der = (\<lambda>k. k), cy_keyKind = (\<lambda>_. KeyEd25519), cy_base64 = (\<lambda>b. b), cy_unbase64 = (\<lambda>b. b),
     cy_sign = (\<lambda>alg k payload w. (Inr (alg @ payload), w)), cy_verify = (\<lambda>alg k payload sig. Inr (sig = alg @ payload)),
     cy_exists = (\<lambda>_. True),
     cy_read = (\<lambda>f. FileBytes (if f = ''/keys/signing-mldsa65.key'' then ''MLDA'' @ replicate 4032 CHR ''k''
       else if f = ''/keys/signing-mldsa65.pub'' then ''MLDA'' @ replicate 1952 CHR ''p'' else ''PEM'')),
     cy_parseDate = (\<lambda>_. Some 1700000000000)\<rparr>"

definition labDisk :: localDisk where
  "labDisk = \<lparr>lp_keysDir = ''/keys'', lp_clockSkewToleranceMs = 300000, lp_nonceLengthBytes = 2, lp_inlineKey = None,
     lp_auditLog = False, lp_nonceRepo = True, lp_auditOrgId = None\<rparr>"

definition labPair :: resolvedKey where
  "labPair = \<lparr>rk_keyId = ''default'', rk_alias = Some ''signing'',
     rk_subKeys = [classicalSubKey labSigner ''ed25519'' ''PEM'' ''PEM'', pqSubKey labSigner (replicate 4032 CHR ''k'') (replicate 1952 CHR ''p'')]\<rparr>"

definition labRequest :: signRequest where
  "labRequest = \<lparr>rq_keyId = ''default'', rq_payload = ''manifest'', rq_nonce = ''00ff'', rq_requestedAt = ''2023-11-14T22:13:20.000Z'',
     rq_purpose = ''release-manifest'', rq_actor = \<lparr>ac_kind = ServiceActor, ac_cn = ''ci'', ac_orgId = ''o1''\<rparr>\<rparr>"

lemma labFiles:
  "joinPaths [''/keys'', ''signing-ed25519.key''] = ''/keys/signing-ed25519.key''"
  "joinPaths [''/keys'', ''signing-ed25519.pub''] = ''/keys/signing-ed25519.pub''"
  "joinPaths [''/keys'', ''signing-mldsa65.key''] = ''/keys/signing-mldsa65.key''"
  "joinPaths [''/keys'', ''signing-mldsa65.pub''] = ''/keys/signing-mldsa65.pub''"
  by code_simp+

lemma labNames: "isAbsolutePath ''default'' = False" "includesStr ''default'' ''/'' = False" "includesStr ''default'' ''..'' = False"
  by code_simp+

lemmas lab_signing = labSigner_def labDisk_def labPair_def labRequest_def classicalSubKey_def pqSubKey_def

lemma labResolve: "resolveForSign labSigner labDisk ''default'' = Inr labPair"
  by (simp add: resolveForSign_def resolveByAlias_def Let_def labNames labFiles resolveHybrid_def bindE_def loadClassicalPrivateKey_def
      loadClassicalPublicKey_def readBytesFromDisk_def detectClassicalAlgorithm_def readMldsa65Secret_def readMldsa65Public_def
      readMldsa65_def isMldsa65File_def startsWith_def lab_signing)

definition labEnvelope :: signEnvelope where
  "labEnvelope = \<lparr>en_signatures =
      [\<lparr>se_signatureB64 = ''ed25519manifest'', se_signedBy = ''PEM'', se_algorithm = ''ed25519'', se_signedAt = toISOString 1700000001000\<rparr>,
       \<lparr>se_signatureB64 = ''ml-dsa-65manifest'', se_signedBy = replicate 16 CHR ''p'', se_algorithm = ''ml-dsa-65'',
         se_signedAt = toISOString 1700000001000\<rparr>],
     en_nonce = ''00ff'', en_payloadSha256 = ''manifest''\<rparr>"

definition labKeys :: "publicKeyRef list" where
  "labKeys = map (publicKeyRefForSubKey labSigner ''default'') (rk_subKeys labPair)"

lemma labRequest_sel: "rq_keyId labRequest = ''default''" "rq_payload labRequest = ''manifest''" "rq_nonce labRequest = ''00ff''"
  by (simp_all add: labRequest_def)

lemma labValid: "validateRequest labSigner labDisk 1700000000000 labRequest = Inr ()"
  by code_simp

lemma labEntries:
  "foldM (\<lambda>es k. bindM (signEntry labSigner ''manifest'' (toISOString 1700000001000) k) (\<lambda>e. ret (es @ [e]))) [] (rk_subKeys labPair) w
     = (Inr (en_signatures labEnvelope), w)"
  by (simp add: bindM_def ret_def signEntry_def runSign_def SUPPORTED_ALGORITHMS_def labEnvelope_def lab_signing fingerprintFromBytes_def)

lemma labSync:
  assumes "clocks w (clockN w) = 1700000000000" and "clocks w (Suc (clockN w)) = 1700000001000"
  shows "signSync labSigner labDisk labRequest w = (Inr labEnvelope, w\<lparr>clockN := Suc (Suc (clockN w))\<rparr>)"
proof -
  have "rk_subKeys labPair \<noteq> []" "cy_sha256 labSigner = (\<lambda>b. b)" by (simp_all add: lab_signing)
  moreover have "labEnvelope = \<lparr>en_signatures = en_signatures labEnvelope, en_nonce = ''00ff'', en_payloadSha256 = ''manifest''\<rparr>"
    by (simp add: labEnvelope_def)
  ultimately show ?thesis
    using assms by (simp add: signSync_def bindM_run liftDb_def dateNow_def nowIso_def orThrow_def labResolve labRequest_sel labValid ret_def
        labEntries [unfolded ret_def] del: foldM.simps)
qed

lemma labVerifies: "verifySync labSigner labEnvelope ''manifest'' labKeys Strict = Inr Verified"
  by (simp add: verifySync_def envelopeRefusal_def considered_def verifyEntry_def matchingKey_def materializePublicKey_def runVerify_def bindE_def
      SUPPORTED_ALGORITHMS_def labEnvelope_def labKeys_def publicKeyRefForSubKey_def fingerprintFromBytes_def lab_signing)

theorem strict_accepts_stripped_envelope_witness:
  "hybridVerify labSigner (diskPair labSigner labDisk labDisk ''default'' ''default'')
     (labEnvelope\<lparr>en_signatures := filter (\<lambda>s. classicalAlgorithm (se_algorithm s)) (en_signatures labEnvelope)\<rparr>) ''manifest'' labKeys Strict orgWorld
     = (Inr Verified, orgWorld) \<and> length (en_signatures labEnvelope) = 2"
  using strict_accepts_stripped_envelope
    [of labSigner labDisk labDisk "''default''" "''default''" labEnvelope "''manifest''" labKeys orgWorld]
  by (simp add: hybridVerify_disk(1) labVerifies) (simp add: labEnvelope_def classicalAlgorithm_def)

lemma labSound: "list_all (soundKey labSigner payload) (rk_subKeys labPair)" "soundCodec labSigner" "lp_inlineKey labDisk = None"
  by (simp_all add: soundKey_def soundCodec_def SUPPORTED_ALGORITHMS_def lab_signing)

text \<open>A request the ledger has not seen, signed.\<close>

definition labLedger :: world where
  "labLedger = orgWorld\<lparr>signingNonces := [\<lparr>sn_orgId = ''o1'', sn_actorCn = ''ci'', sn_nonce = ''00ff'',
     sn_requestedAt = ''2023-11-14T22:13:20.000Z'', sn_fingerprint = Some ''PEM''\<rparr>], stmtN := 1, clockN := 2\<rparr>"

lemma labSigns: "localSign labSigner labDisk labRequest orgWorld = (Inr labEnvelope, labLedger)"
proof -
  let ?w = "labLedger\<lparr>clockN := 0\<rparr>"
  have f: "primaryFingerprint labPair = Some ''PEM''" by (simp add: primaryFingerprint_def lab_signing fingerprintFromBytes_def classicalAlgorithm_def)
  have c: "claimNonce labDisk ''o1'' labRequest ''PEM'' orgWorld = (Inr (), ?w)"
    by (simp add: claimNonce_def catchM_def liftDb_def nonce_insert_def insertInto_def stmt_def constrained_def signingNonces_chk_def
        firstViolation_def unique_on_def labRequest_def labLedger_def world_eval)
  have s: "signSync labSigner labDisk labRequest ?w = (Inr labEnvelope, labLedger)"
    by (subst labSync) (simp_all add: labLedger_def world_eval)
  have d: "lp_nonceRepo labDisk" "\<not> lp_auditLog labDisk" "orElse (lp_auditOrgId labDisk) (ac_orgId (rq_actor labRequest)) = ''o1''"
    by (simp_all add: labDisk_def labRequest_def)
  show ?thesis
    by (simp add: localSign_def signWithAudit_def Let_def d f c s labRequest_sel labResolve orThrow_def bindM_run catchM_run whenM_def ret_def)
qed

theorem signed_envelope_verifies_witness:
  "localSign labSigner labDisk labRequest orgWorld = (Inr labEnvelope, labLedger) \<and>
   verifySync labSigner labEnvelope ''manifest'' labKeys Transition = Inr Verified"
  using signed_envelope_verifies [OF labSigns, of labPair Transition] labResolve labSound labSigns
  by (simp add: labRequest_sel labKeys_def [symmetric]) (simp add: labKeys_def labPair_def)

end
