(* ===== verification/Signing_Ledger.thy ===== *)
theory Signing_Ledger
  imports Signing_Facts
begin

text \<open>
  The signing service over time: a request is signed at most once, and what the catalogue of keys has to say
  about it.
\<close>

section \<open>One signature per request\<close>

text \<open>The ledger of nonces has only grown and time has only passed.\<close>

definition ledgerGrows :: "'z world_scheme \<Rightarrow> 'z world_scheme \<Rightarrow> bool" where
  "ledgerGrows w0 w \<longleftrightarrow> set (signingNonces w0) \<subseteq> set (signingNonces w) \<and> clocks w = clocks w0 \<and> clockN w0 \<le> clockN w"

lemma ledgerGrows_refl [simp]: "ledgerGrows w w"
  by (simp add: ledgerGrows_def)

lemma keeps_liftDb [keeps_intros]: "keeps I m \<Longrightarrow> keeps I (liftDb m)"
  by (force simp: keeps_def liftDb_def split: prod.splits sum.splits)

lemma keeps_orThrow [keeps_intros]: "keeps I (orThrow r)"
  by (simp add: keeps_def orThrow_def ret_def throwM_def split: sum.splits)

lemma keeps_whenM [keeps_intros]: "keeps I m \<Longrightarrow> keeps I (whenM b m)"
  by (simp add: whenM_def keeps_def ret_def)

lemma grows_env: "keeps (ledgerGrows w0) dateNow" "keeps (ledgerGrows w0) nowIso" "keeps (ledgerGrows w0) newId"
  by (simp_all add: keeps_def ledgerGrows_def nowIso_def dateNow_def newId_def bindM_def ret_def)

lemma ledgerGrows_trans: "ledgerGrows a b \<Longrightarrow> ledgerGrows b c \<Longrightarrow> ledgerGrows a c"
  by (auto simp: ledgerGrows_def)

lemma grows_stmt:
  assumes "\<And>w. ledgerGrows w (snd (m w))"
  shows "keeps (ledgerGrows w0) (stmt m)"
proof (rule keepsI)
  fix w assume "ledgerGrows w0 w"
  then have g: "ledgerGrows w0 (w\<lparr>stmtN := Suc (stmtN w)\<rparr>)" by (simp add: ledgerGrows_def)
  with ledgerGrows_trans [OF g assms] show "ledgerGrows w0 (snd (stmt m w))"
    by (auto simp: stmt_def split: option.splits)
qed

lemma grows_nonce_insert: "keeps (ledgerGrows w0) (nonce_insert n)"
  unfolding nonce_insert_def insertInto_def
  by (intro keeps_intros grows_stmt) (auto simp: constrained_def ledgerGrows_def split: option.splits)

lemma grows_audit: "keeps (ledgerGrows w0) (audit_append a b c d e f)"
  unfolding audit_append_def createRow_def mappingErrors_def insertInto_def
  by (intro keeps_intros grows_env grows_stmt) (auto simp: constrained_def ledgerGrows_def split: option.splits)

text \<open>A primitive signs without touching the database or the clock.\<close>

definition pureSigner :: "'z signEnv \<Rightarrow> bool" where
  "pureSigner env \<longleftrightarrow> (\<forall>alg k payload w. ledgerGrows w (snd (cy_sign env alg k payload w)))"

lemma grows_runSign: "pureSigner env \<Longrightarrow> keeps (ledgerGrows w0) (runSign env alg k payload)"
  by (auto simp: runSign_def keeps_def throwM_def pureSigner_def split: prod.splits sum.splits) (metis ledgerGrows_trans snd_conv)+

lemma grows_rows: "keeps (ledgerGrows w0) (signingRow a req b c d)"
  unfolding signingRow_def by (intro keeps_intros grows_audit)

lemma grows_signSync: "pureSigner env \<Longrightarrow> keeps (ledgerGrows w0) (signSync env p req)"
  unfolding signSync_def signEntry_def by (intro keeps_intros grows_env grows_runSign)

lemma grows_claim: "keeps (ledgerGrows w0) (claimNonce p orgId req f)"
  unfolding claimNonce_def writeFailedRow_def by (intro keeps_intros grows_rows grows_nonce_insert)

lemma growsD: "keeps (ledgerGrows w) m \<Longrightarrow> m w = (r, w') \<Longrightarrow> ledgerGrows w w'"
  using keepsD [of "ledgerGrows w" m w] by simp

lemma grows_localSign: "pureSigner env \<Longrightarrow> keeps (ledgerGrows w0) (localSign env p req)"
  unfolding localSign_def signWithAudit_def Let_def writeFailedRow_def writeRequestedRow_def writeCompletedRow_def
  by (intro keeps_intros grows_signSync grows_rows grows_claim)

text \<open>
  What may happen between two requests: signing, with any key and settings, a sweep of nonces older than
  the tolerance or more, and anything that keeps the ledger.
\<close>

definition sweepCutoff :: "rat option \<Rightarrow> 'z world_scheme \<Rightarrow> int" where
  "sweepCutoff h w = jsTrunc (of_int (clocks w (clockN w)) - orElse h 24 * 3600000)"

inductive serviceSteps :: "'z signEnv \<Rightarrow> int \<Rightarrow> 'z world_scheme \<Rightarrow> 'z world_scheme \<Rightarrow> bool" for env tolerance w0 where
  idle: "serviceSteps env tolerance w0 w0"
| signing: "serviceSteps env tolerance w0 (snd (localSign env p req w))" if "serviceSteps env tolerance w0 w"
| sweep: "serviceSteps env tolerance w0 (snd (runSigningNonceSweep h w))"
    if "serviceSteps env tolerance w0 w" and "of_int tolerance \<le> orElse h 24 * 3600000" and "iso_range (sweepCutoff h w)"
| elsewhere: "serviceSteps env tolerance w0 w'" if "serviceSteps env tolerance w0 w" and "ledgerGrows w w'"

text \<open>The nonce is in the ledger, or its request has become too old to be signed.\<close>

definition nonceSpent :: "string \<times> string \<times> string \<Rightarrow> int \<Rightarrow> int \<Rightarrow> 'z world_scheme \<Rightarrow> bool" where
  "nonceSpent key t tolerance w \<longleftrightarrow> mono (clocks w) \<and>
     ((\<exists>r\<in>set (signingNonces w). nonceKey r = key \<and> sn_requestedAt r = toISOString t) \<or> t + tolerance < clocks w (clockN w))"

lemma nonceSpent_grows: "nonceSpent key t tolerance w \<Longrightarrow> ledgerGrows w w' \<Longrightarrow> nonceSpent key t tolerance w'"
  by (fastforce simp: nonceSpent_def ledgerGrows_def dest: monoD)

lemma jsTrunc_less: "of_int (jsTrunc q) < q + 1"
  by (simp add: jsTrunc_def) linarith

lemma nonceSpent_sweep:
  assumes "nonceSpent key t tolerance w" and "of_int tolerance \<le> orElse h 24 * 3600000" and "iso_range (sweepCutoff h w)" and "iso_range t"
  shows "nonceSpent key t tolerance (snd (runSigningNonceSweep h w))"
proof -
  let ?w = "w\<lparr>clockN := Suc (clockN w)\<rparr>" and ?c = "sweepCutoff h w"
  have late: "t + tolerance < clocks w (clockN w)" if "t < ?c"
  proof -
    have "(of_int t :: rat) < of_int (clocks w (clockN w)) - orElse h 24 * 3600000"
      using that jsTrunc_less [of "of_int (clocks w (clockN w)) - orElse h 24 * 3600000"] unfolding sweepCutoff_def by linarith
    with assms(2) have "(of_int (t + tolerance) :: rat) < of_int (clocks w (clockN w))" by simp
    then show ?thesis by linarith
  qed
  have m: "mono (clocks w)" using assms(1) by (simp add: nonceSpent_def)
  then have "clocks w (clockN w) \<le> clocks w (Suc (clockN w))" by (simp add: monoD)
  moreover have "toISOString t < toISOString ?c \<longleftrightarrow> t < ?c" by (rule toISOString_less_iff [OF assms(4,3)])
  ultimately show ?thesis
    using assms(1) late
    by (auto simp: runSigningNonceSweep_def Let_def throwM_def liftDb_def bindM_def dateNow_def isoDate_def ret_def nonce_sweepOlderThan_def
        deleteWhere_def stmt_def nonceSpent_def sweepCutoff_def [symmetric] split: option.splits)
qed

lemma nonce_insert_Inr:
  assumes "nonce_insert n w = (Inr (), w')"
  shows "n \<in> set (signingNonces w')" and "nonceKey n \<notin> nonceKey ` set (signingNonces w)"
  using assms nonces_chk_used [of n w "w\<lparr>stmtN := Suc (stmtN w)\<rparr>"]
  by (auto simp: nonce_insert_def insertInto_def constrained_def stmt_def catchM_def throwM_def split: option.splits prod.splits if_splits)

text \<open>The nonce's key in the ledger.\<close>

definition requestKey :: "localDisk \<Rightarrow> signRequest \<Rightarrow> string \<times> string \<times> string" where
  "requestKey p req = (orElse (lp_auditOrgId p) (ac_orgId (rq_actor req)), ac_cn (rq_actor req), rq_nonce req)"

lemma claimNonce_Inr:
  assumes "claimNonce p (orElse (lp_auditOrgId p) (ac_orgId (rq_actor req))) req f w = (Inr (), w')"
  shows "\<exists>r\<in>set (signingNonces w'). nonceKey r = requestKey p req \<and> sn_requestedAt r = rq_requestedAt req"
    and "requestKey p req \<notin> nonceKey ` set (signingNonces w)"
proof -
  let ?n = "\<lparr>sn_orgId = orElse (lp_auditOrgId p) (ac_orgId (rq_actor req)), sn_actorCn = ac_cn (rq_actor req), sn_nonce = rq_nonce req,
         sn_requestedAt = rq_requestedAt req, sn_fingerprint = Some f\<rparr>"
  have n: "nonceKey ?n = requestKey p req" by (simp add: nonceKey_def requestKey_def)
  have i: "nonce_insert ?n w = (Inr (), w')"
    using assms by (auto simp: claimNonce_def catch_rethrow_Inr liftDb_def split: prod.splits sum.splits)
  show "\<exists>r\<in>set (signingNonces w'). nonceKey r = requestKey p req \<and> sn_requestedAt r = rq_requestedAt req"
    using nonce_insert_Inr(1) [OF i] n by (intro bexI [of _ ?n]) simp_all
  show "requestKey p req \<notin> nonceKey ` set (signingNonces w)" using nonce_insert_Inr(2) [OF i] n by simp
qed

lemma signSync_fresh:
  assumes "signSync env p req w = (Inr e, w')" and "cy_parseDate env (rq_requestedAt req) = Some t"
  shows "clocks w (clockN w) \<le> t + lp_clockSkewToleranceMs p"
  using assms by (auto simp: signSync_def bindM_Inr_iff orThrow_Inr liftDb_def dateNow_def validateRequest_def Let_def split: if_splits)

lemma localSign_ledger:
  assumes "localSign env p req w = (Inr e, w')" and "lp_nonceRepo p" and "pureSigner env"
  obtains w1 w2 where "ledgerGrows w w1" "requestKey p req \<notin> nonceKey ` set (signingNonces w1)"
    "\<exists>r\<in>set (signingNonces w2). nonceKey r = requestKey p req \<and> sn_requestedAt r = rq_requestedAt req"
    "ledgerGrows w1 w2" "ledgerGrows w2 w'" "fst (signSync env p req w2) = Inr e"
proof -
  let ?o = "orElse (lp_auditOrgId p) (ac_orgId (rq_actor req))"
  obtain k w1 w2 w3 where "resolveForSign env p (rq_keyId req) = Inr k"
    and a: "whenM (lp_auditLog p) (writeRequestedRow ?o req ''local-disk'' (orElse (primaryFingerprint k) ''unknown'') (cy_sha256 env (rq_payload req))) w
      = (Inr (), w1)"
    and b: "claimNonce p ?o req (orElse (primaryFingerprint k) ''unknown'') w1 = (Inr (), w2)"
    and c: "signSync env p req w2 = (Inr e, w3)"
    and d: "whenM (lp_auditLog p) (writeCompletedRow ?o req ''local-disk'' e) w3 = (Inr (), w')"
    using assms(1,2) by (auto simp: localSign_def signWithAudit_def Let_def bindM_Inr_iff catch_rethrow_Inr orThrow_Inr ret_def whenM_def [of True])
  have "ledgerGrows w w1" by (rule growsD [OF keeps_whenM a]) (unfold writeRequestedRow_def, rule grows_rows)
  moreover have "ledgerGrows w1 w2" by (rule growsD [OF grows_claim b])
  moreover have "ledgerGrows w2 w3" by (rule growsD [OF grows_signSync [OF assms(3)] c])
  moreover have "ledgerGrows w3 w'" by (rule growsD [OF keeps_whenM d]) (unfold writeCompletedRow_def, rule grows_rows)
  ultimately show ?thesis
    using that [of w1 w2] claimNonce_Inr [OF b] c ledgerGrows_trans [of w2 w3 w'] by simp
qed

lemma serviceSteps_spent:
  assumes "serviceSteps env tolerance w0 w" and "nonceSpent key t tolerance w0" and "pureSigner env" and "iso_range t"
  shows "nonceSpent key t tolerance w"
  using assms
proof (induction rule: serviceSteps.induct)
  case (signing w p req)
  then show ?case using nonceSpent_grows keepsD [OF grows_localSign ledgerGrows_refl] by blast
next
  case (sweep w h)
  then show ?case using nonceSpent_sweep by blast
next
  case (elsewhere w w')
  then show ?case using nonceSpent_grows by blast
qed

lemma spent_not_signed:
  assumes "nonceSpent (requestKey p req) t (lp_clockSkewToleranceMs p) w" and "lp_nonceRepo p" and "pureSigner env"
    and "cy_parseDate env (rq_requestedAt req) = Some t"
  shows "isl (fst (localSign env p req w))"
proof (rule ccontr)
  assume "\<not> isl (fst (localSign env p req w))"
  then obtain e w' where i: "localSign env p req w = (Inr e, w')" by (metis isl_def prod.collapse sum.collapse(2))
  obtain w1 w2 where g: "ledgerGrows w w1" "ledgerGrows w1 w2" and n: "requestKey p req \<notin> nonceKey ` set (signingNonces w1)"
    and s: "fst (signSync env p req w2) = Inr e"
    by (rule localSign_ledger [OF i assms(2,3)])
  have "nonceSpent (requestKey p req) t (lp_clockSkewToleranceMs p) w1" by (rule nonceSpent_grows [OF assms(1) g(1)])
  with n have late: "t + lp_clockSkewToleranceMs p < clocks w1 (clockN w1)" "mono (clocks w1)" by (force simp: nonceSpent_def)+
  then have "t + lp_clockSkewToleranceMs p < clocks w2 (clockN w2)"
    using g(2) by (auto simp: ledgerGrows_def dest!: monoD [of "clocks w1" "clockN w1" "clockN w2"])
  with signSync_fresh [of env p req w2 e "snd (signSync env p req w2)" t] s assms(4) show False by (simp add: prod_eq_iff)
qed


lemma labPure: "pureSigner labSigner"
  by (simp add: pureSigner_def labSigner_def)

lemma labClock: "mono (clocks orgWorld)" "iso_range 1700000000000" "toISOString 1700000000000 = ''2023-11-14T22:13:20.000Z''"
    "cy_parseDate labSigner s = Some 1700000000000" "lp_nonceRepo labDisk"
  by (simp_all add: mono_def world_eval iso_range_def labSigner_def labDisk_def date_eval)


section \<open>The catalogue of keys\<close>

text \<open>A computation that never looks at the catalogue and never changes it.\<close>

definition blind :: "('z world_scheme, 'e, 'a) M \<Rightarrow> bool" where
  "blind m \<longleftrightarrow> (\<forall>w ks. m (w\<lparr>signingProviderKeys := ks\<rparr>) = (fst (m w), (snd (m w))\<lparr>signingProviderKeys := ks\<rparr>))"

lemma blindD: "blind m \<Longrightarrow> m (w\<lparr>signingProviderKeys := ks\<rparr>) = (fst (m w), (snd (m w))\<lparr>signingProviderKeys := ks\<rparr>)"
  by (simp add: blind_def)

lemma blind_ret: "blind (ret x)" "blind (throwM e)"
  by (simp_all add: blind_def ret_def throwM_def)

lemma blind_bindM: "blind m \<Longrightarrow> (\<And>x. blind (f x)) \<Longrightarrow> blind (bindM m f)"
  by (auto simp: blind_def bindM_def split: prod.splits sum.splits)

lemma blind_catchM: "blind m \<Longrightarrow> (\<And>x. blind (f x)) \<Longrightarrow> blind (catchM m f)"
  by (auto simp: blind_def catchM_def split: prod.splits sum.splits)

lemma blind_if: "blind a \<Longrightarrow> blind b \<Longrightarrow> blind (if c then a else b)"
  by simp

lemma blind_foldM: "(\<And>a x. blind (f a x)) \<Longrightarrow> blind (foldM f a xs)"
  by (induction xs arbitrary: a) (auto intro: blind_ret blind_bindM)

lemma blind_liftDb: "blind m \<Longrightarrow> blind (liftDb m)"
  by (auto simp: blind_def liftDb_def split: prod.splits sum.splits)

lemma blind_orThrow: "blind (orThrow r)"
  by (simp add: orThrow_def blind_ret split: sum.splits)

lemma blind_whenM: "blind m \<Longrightarrow> blind (whenM b m)"
  by (simp add: whenM_def blind_ret)

lemma blind_env: "blind dateNow" "blind nowIso" "blind newId"
  by (simp_all add: blind_def nowIso_def dateNow_def newId_def bindM_def ret_def)

lemma blind_stmt:
  assumes "blind m"
  shows "blind (stmt m)"
  unfolding blind_def
proof (intro allI)
  fix w :: "'a world_scheme" and ks
  have "(w\<lparr>signingProviderKeys := ks\<rparr>)\<lparr>stmtN := Suc (stmtN w)\<rparr> = (w\<lparr>stmtN := Suc (stmtN w)\<rparr>)\<lparr>signingProviderKeys := ks\<rparr>" by simp
  then have "m ((w\<lparr>signingProviderKeys := ks\<rparr>)\<lparr>stmtN := Suc (stmtN w)\<rparr>) =
      (fst (m (w\<lparr>stmtN := Suc (stmtN w)\<rparr>)), (snd (m (w\<lparr>stmtN := Suc (stmtN w)\<rparr>)))\<lparr>signingProviderKeys := ks\<rparr>)"
    by (simp only: blindD [OF assms])
  then show "stmt m (w\<lparr>signingProviderKeys := ks\<rparr>) = (fst (stmt m w), (snd (stmt m w))\<lparr>signingProviderKeys := ks\<rparr>)"
    by (cases "faults w (stmtN w)") (simp_all add: stmt_def split: prod.splits)
qed

lemmas blind_intros = blind_ret blind_bindM blind_catchM blind_if blind_foldM blind_liftDb blind_orThrow blind_whenM blind_env

lemma blind_insertInto:
  assumes "\<And>w ks t. chk (w\<lparr>signingProviderKeys := ks\<rparr>) t = chk w t" and "\<And>w ks. get (w\<lparr>signingProviderKeys := ks\<rparr>) = get w"
    and "\<And>f w ks. upd f (w\<lparr>signingProviderKeys := ks\<rparr>) = (upd f w)\<lparr>signingProviderKeys := ks\<rparr>"
  shows "blind (insertInto get upd chk r)"
  unfolding insertInto_def
  by (intro blind_stmt) (auto simp: blind_def constrained_def assms split: option.splits)

lemma blind_nonce_insert: "blind (nonce_insert n)"
  unfolding nonce_insert_def by (intro blind_intros blind_insertInto) (simp_all add: signingNonces_chk_def)

lemma blind_audit: "blind (audit_append a b c d e f)"
  unfolding audit_append_def createRow_def mappingErrors_def
  by (intro blind_intros blind_insertInto) (simp_all add: auditLog_chk_def)

lemma blind_runSign: "(\<And>alg k payload. blind (cy_sign env alg k payload)) \<Longrightarrow> blind (runSign env alg k payload)"
  by (auto simp: runSign_def blind_def throwM_def split: prod.splits sum.splits)

lemma blind_localSign: "(\<And>alg k payload. blind (cy_sign env alg k payload)) \<Longrightarrow> blind (localSign env p req)"
  unfolding localSign_def signWithAudit_def signSync_def signEntry_def claimNonce_def writeFailedRow_def writeRequestedRow_def
    writeCompletedRow_def signingRow_def Let_def
  by (intro blind_intros blind_audit blind_nonce_insert blind_runSign)

text \<open>
  C36. Signing never consults the catalogue.  Whatever the catalogue of keys holds, a revoked key
  included, the disk provider gives the same answer to a request, writes the same rows and leaves the
  catalogue as it was: revoking a key does not stop it from signing.
\<close>

theorem signing_ignores_catalogue:
  assumes "\<And>alg k payload. blind (cy_sign env alg k payload)"
  shows "localSign env p req (w\<lparr>signingProviderKeys := ks\<rparr>)
    = (fst (localSign env p req w), (snd (localSign env p req w))\<lparr>signingProviderKeys := ks\<rparr>)"
  by (rule blindD [OF blind_localSign [OF assms]])

definition revokedKey :: signingProviderKey where
  "revokedKey = \<lparr>sk_id = ''k1'', sk_orgId = ''o1'', sk_provider = ''local-disk'', sk_keyId = ''default'', sk_algorithm = Ed25519,
     sk_fingerprint = ''PEM'', sk_publicKeyB64 = ''PEM'', sk_pairId = None, sk_pairRole = None, sk_hybridAlias = None, sk_label = None,
     sk_addedBy = ''cli'', sk_addedAt = ''2023-11-01T00:00:00.000Z'', sk_revokedAt = Some ''2023-11-02T00:00:00.000Z'',
     sk_revokedBy = Some ''cli'', sk_revokeReason = Some ''leaked'', sk_rotatedTo = None, sk_createdAt = ''2023-11-01T00:00:00.000Z'',
     sk_updatedAt = ''2023-11-02T00:00:00.000Z'', sk_deletedAt = None\<rparr>"

theorem signing_ignores_catalogue_witness:
  "fst (localSign labSigner labDisk labRequest (orgWorld\<lparr>signingProviderKeys := [revokedKey]\<rparr>)) = Inr labEnvelope \<and>
   sk_revokedAt revokedKey \<noteq> None"
proof -
  have "blind (cy_sign labSigner alg k payload)" for alg k payload by (simp add: blind_def labSigner_def)
  from signing_ignores_catalogue [where env = labSigner, OF this, where w = orgWorld and ks = "[revokedKey]" and p = labDisk and req = labRequest]
  show ?thesis by (simp add: labSigns revokedKey_def)
qed

end
