(* ===== verification/Build_Facts.thy ===== *)
theory Build_Facts
  imports Build Signing_Ledger Frames
begin

text \<open>
  What a build promises: it never touches a release that is ready, it ends with its own release ready or
  failed, and a release that was built with a signing key verifies.
\<close>

section \<open>The tables a build works on\<close>

definition shelf :: "release list \<Rightarrow> artifact list \<Rightarrow> product list \<Rightarrow> 'z world_scheme \<Rightarrow> bool" where
  "shelf R A P w \<longleftrightarrow> quiet w \<and> db_ok w \<and> releases w = R \<and> artifacts w = A \<and> products w = P"

definition shelfView :: "'z world_scheme \<Rightarrow> (nat \<Rightarrow> (nat \<times> string) option) \<times> release list \<times> artifact list \<times> product list" where
  "shelfView w = (faults w, releases w, artifacts w, products w)"

interpretation shelves: frame shelfView
  by unfold_locales (simp_all add: shelfView_def)

lemma shelf_frame:
  assumes "keeps db_ok m" and "\<And>Q. keeps (shelves.sees Q) m"
  shows "keeps (shelf R A P) (m :: ('z world_scheme, 'e, 'a) M)"
proof (rule keepsI)
  fix w :: "'z world_scheme" assume s: "shelf R A P w"
  have "shelves.sees (\<lambda>(f, r, a, p). (\<forall>n. f n = None) \<and> r = R \<and> a = A \<and> p = P) (snd (m w))"
    by (rule keepsD [OF assms(2)]) (use s in \<open>simp add: shelves.sees_def shelfView_def shelf_def quiet_def\<close>)
  moreover have "db_ok (snd (m w))" by (rule keepsD [OF assms(1)]) (use s in \<open>simp add: shelf_def\<close>)
  ultimately show "shelf R A P (snd (m w))" by (simp add: shelves.sees_def shelfView_def shelf_def quiet_def)
qed

named_theorems shelf_intros "operations that leave the tables of a build alone"

lemma shelf_env [shelf_intros]: "keeps (shelf R A P) nowIso" "keeps (shelf R A P) newId" "keeps (shelf R A P) dateNow"
  by (auto intro!: shelf_frame keeps_intros shelves.frame_env)

lemma shelf_audit [shelf_intros]: "keeps (shelf R A P) (audit_append a b c d e f)"
  by (intro shelf_frame keeps_intros) (auto simp: audit_append_def shelfView_def intro!: shelves.frame_createRow)

lemma shelf_select [shelf_intros]: "keeps (shelf R A P) (selectOne get p)" "keeps (shelf R A P) (selectAll get p ord)"
  by (intro shelf_frame keeps_intros shelves.frame_select)+

lemma shelf_reads [shelf_intros]:
  "keeps (shelf R A P) (product_get i)" "keeps (shelf R A P) (release_getByTag p t)" "keeps (shelf R A P) (release_get i)"
  unfolding product_get_def release_getByTag_def release_get_def getLive_def by (intro shelf_intros)+

lemma db_ok_ran [simp]: "db_ok (w\<lparr>ran := h\<rparr>) = db_ok w"
  by (simp add: db_ok_def chk_defs)

lemma shelf_ran [simp]: "shelf R A P (w\<lparr>ran := h\<rparr>) = shelf R A P w"
  by (simp add: shelf_def quiet_def)

lemma shelf_processes [shelf_intros]: "keeps (shelf R A P) (runRawCommand env c)" "keeps (shelf R A P) (putBlob env o' p)"
  by (auto simp: keeps_def runRawCommand_def putBlob_def Let_def split: spawnOutcome.splits sum.splits)

lemma shelf_throwing [shelf_intros]: "keeps (shelf R A P) (throwing r)"
  by (simp add: throwing_def keeps_ret keeps_throwM split: sum.split)

lemma shelf_steps [shelf_intros]:
  "keeps (shelf R A P) (runComponentBuild env d c)" "keeps (shelf R A P) (produceStep env d a)"
  by (simp_all add: runComponentBuild_def produceStep_def runShellCommand_def Let_def shelf_intros keeps_ret split: buildArtifact.split)

lemma shelf_readBuildYaml [shelf_intros]: "keeps (shelf R A P) (readBuildYaml env d p)"
  unfolding readBuildYaml_def Let_def by (intro keeps_intros)

text \<open>A primitive that signs and does nothing else.\<close>

definition silentSigner :: "'z signEnv \<Rightarrow> bool" where
  "silentSigner env \<longleftrightarrow> (\<forall>alg k payload w. snd (cy_sign env alg k payload w) = w)"

lemma keeps_signing [keeps_intros]: "keeps I m \<Longrightarrow> keeps I (signing m)"
  by (force simp: keeps_def signing_def split: prod.splits sum.splits)

lemma keeps_runSign: "silentSigner env \<Longrightarrow> keeps I (runSign env alg k payload)"
  by (auto simp: keeps_def runSign_def throwM_def silentSigner_def split: prod.splits sum.splits) (metis snd_conv)+

lemma shelf_signManifest:
  assumes "silentSigner env"
  shows "keeps (shelf R A P) (signManifest env dir nonce m pem)"
proof -
  have "keeps (shelf R A P) (signSync env p req)" for p req
    unfolding signSync_def signEntry_def by (intro keeps_intros shelf_intros keeps_runSign assms)
  then show ?thesis
    unfolding signManifest_def
    by (cases "cy_createPrivateKey env pem") (auto intro!: keeps_intros shelf_intros split: list.split)
qed

lemma shelf_optionalSignature: "silentSigner (be_sign env) \<Longrightarrow> keeps (shelf R A P) (optionalSignature env opts m)"
  unfolding optionalSignature_def by (intro keeps_intros shelf_signManifest)

text \<open>A private and a public PEM of one Ed25519 key, whose signatures of a payload verify and are not empty.\<close>

definition matchingPems :: "'z signEnv \<Rightarrow> string \<Rightarrow> string \<Rightarrow> string \<Rightarrow> bool" where
  "matchingPems env privatePem publicPem payload \<longleftrightarrow> (\<exists>k.
     cy_createPrivateKey env privatePem = Inr k \<and> cy_createPublicKey env publicPem = Inr (cy_publicOf env k) \<and>
     cy_keyKind env (cy_publicOf env k) = KeyEd25519 \<and>
     soundKey env payload (classicalSubKey env ''ed25519'' k (cy_publicOf env k)) \<and>
     (\<forall>w b w'. cy_sign env ''ed25519'' (KeyObject k) payload w = (Inr b, w') \<longrightarrow> cy_base64 env b \<noteq> [])) \<and>
   soundCodec env \<and> (\<forall>b. cy_sha256 env b \<noteq> [])"

lemma signing_Inr: "signing m w = (Inr x, w') \<longleftrightarrow> m w = (Inr x, w')"
  by (auto simp: signing_def split: prod.splits sum.splits)

lemma firstOr_Inr: "(case xs of [] \<Rightarrow> throwM e | x # _ \<Rightarrow> ret (f x)) w = (Inr y, w') \<longleftrightarrow> (\<exists>x r. xs = x # r \<and> y = f x \<and> w' = w)"
  by (auto simp: ret_def throwM_def split: list.split)

lemma signManifest_Inr:
  assumes "signManifest env dir nonce m pem w = (Inr (sig, by'), w')"
  obtains k ts w1 w2 e where "cy_createPrivateKey env pem = Inr k"
    "signEntry env (canonicalManifestBytes m) ts (classicalSubKey env ''ed25519'' k (cy_publicOf env k)) w1 = (Inr e, w2)"
    "sig = se_signatureB64 e" "by' = se_signedBy e"
proof -
  from assms obtain k where k: "cy_createPrivateKey env pem = Inr k" "cy_keyKind env k = KeyEd25519"
    by (auto simp: signManifest_def throwM_def split: sum.splits if_splits)
  then obtain p where p: "fromInlinePem env dir pem = Inr p"
    and r: "resolveForSign env p ''inline'' = Inr \<lparr>rk_keyId = inlineKeyIdFor env (cy_der env (cy_publicOf env k)), rk_alias = None,
        rk_subKeys = [classicalSubKey env ''ed25519'' k (cy_publicOf env k)]\<rparr>"
    by (simp add: fromInlinePem_def detectClassicalAlgorithm_def bindE_def resolveForSign_def)
  from assms k p obtain req w1 w2 envelope e rest where "signSync env p req w1 = (Inr envelope, w2)" "rq_keyId req = ''inline''"
    "rq_payload req = canonicalManifestBytes m" "en_signatures envelope = e # rest" "sig = se_signatureB64 e" "by' = se_signedBy e"
    by (simp add: signManifest_def bindM_Inr_iff orThrow_Inr signing_Inr firstOr_Inr) (elim exE conjE, rule that, assumption, simp_all)
  then show ?thesis
    by (elim signSync_Inr [where k = "\<lparr>rk_keyId = inlineKeyIdFor env (cy_der env (cy_publicOf env k)), rk_alias = None,
        rk_subKeys = [classicalSubKey env ''ed25519'' k (cy_publicOf env k)]\<rparr>"])
      (use r k in \<open>auto simp: bindM_Inr_iff ret_def intro!: that\<close>)
qed

lemma signManifest_verifies:
  assumes "signManifest env dir nonce m pem w = (Inr (sig, by'), w')" and "matchingPems env pem pub (canonicalManifestBytes m)"
  shows "sig \<noteq> [] \<and> by' \<noteq> [] \<and> verifyManifest env m sig by' pub = Inr ()"
proof -
  let ?bytes = "canonicalManifestBytes m"
  obtain k ts w1 w2 e where k: "cy_createPrivateKey env pem = Inr k"
    and e: "signEntry env ?bytes ts (classicalSubKey env ''ed25519'' k (cy_publicOf env k)) w1 = (Inr e, w2)"
    and eqs: "sig = se_signatureB64 e" "by' = se_signedBy e"
    by (rule signManifest_Inr [OF assms(1)])
  let ?sub = "classicalSubKey env ''ed25519'' k (cy_publicOf env k)"
  let ?ref = "publicKeyRefForSubKey env (inlineKeyIdFor env (cy_der env (cy_publicOf env k))) ?sub"
  have m: "soundKey env ?bytes ?sub" "soundCodec env" "cy_createPublicKey env pub = Inr (cy_publicOf env k)"
      "cy_keyKind env (cy_publicOf env k) = KeyEd25519" "cy_sha256 env b \<noteq> []" for b
    using assms(2) k by (auto simp: matchingPems_def)
  from e k assms(2) have shape: "se_algorithm e = ''ed25519'' \<and> se_signedBy e = fingerprintFromBytes env (cy_der env (cy_publicOf env k)) \<and>
      se_signatureB64 e \<noteq> []"
    by (auto simp: signEntry_def runSign_def classicalSubKey_def bindM_Inr_iff ret_def throwM_def matchingPems_def split: if_splits prod.splits sum.splits) blast
  have ref: "publicKeyRefFromPem env pub = Inr ?ref"
    using m by (simp add: publicKeyRefFromPem_def detectClassicalAlgorithm_def bindE_def publicKeyRefForSubKey_def classicalSubKey_def)
  have "entryVerifies env [?ref] ?bytes e"
    using signEntry_verifies [OF e m(1,2), of "[?sub]"] by simp
  then have "verifySync env \<lparr>en_signatures = [\<lparr>se_signatureB64 = sig, se_signedBy = by', se_algorithm = ''ed25519'', se_signedAt = toISOString 0\<rparr>],
      en_nonce = replicate 32 CHR ''0'', en_payloadSha256 = cy_sha256 env ?bytes\<rparr> ?bytes [?ref] Strict = Inr Verified"
    using shape eqs
    by (simp add: verifySync_def envelopeRefusal_def considered_def verifyLoop_all verifyEntry_iff del: verifyLoop.simps)
      (simp add: entryVerifies_def matchingKey_def)
  then show ?thesis
    using m shape eqs ref by (simp add: verifyManifest_def fingerprintPublicKey_def bindE_def Let_def fingerprintFromBytes_def)
qed

text \<open>What a build knows of its signature: there is one when a key was given, and it verifies.\<close>

definition signedAs :: "'z signEnv \<Rightarrow> buildOptions \<Rightarrow> releaseManifest \<Rightarrow> (string \<times> string) option \<Rightarrow> bool" where
  "signedAs env opts m s \<longleftrightarrow> (truthy (bo_signingKeyPem opts) \<longleftrightarrow> s \<noteq> None) \<and>
     (\<forall>v pub. s = Some v \<and> matchingPems env (the (bo_signingKeyPem opts)) pub (canonicalManifestBytes m) \<longrightarrow>
        fst v \<noteq> [] \<and> snd v \<noteq> [] \<and> verifyManifest env m (fst v) (snd v) pub = Inr ())"

lemma triple_result: "triple P m (\<lambda>_. P') E \<Longrightarrow> (\<And>x w w'. m w = (Inr x, w') \<Longrightarrow> Q x) \<Longrightarrow> triple P m (\<lambda>x w. P' w \<and> Q x) E"
  by (auto simp: triple_def split: prod.splits sum.splits)

lemma optionalSignature_triple:
  assumes "keeps I (optionalSignature env opts m)"
  shows "triple I (optionalSignature env opts m) (\<lambda>s w. I w \<and> signedAs (be_sign env) opts m s) (\<lambda>_. I)"
proof (rule triple_result [OF triple_keeps [OF assms]])
  fix s and w w' :: "'a bworld_scheme" assume "optionalSignature env opts m w = (Inr s, w')"
  then show "signedAs (be_sign env) opts m s"
    by (auto simp: optionalSignature_def signedAs_def bindM_Inr_iff ret_def readM_def split: if_splits dest: signManifest_verifies)
qed

section \<open>Rows\<close>

lemma shelf_distinct: "shelf R A P w \<Longrightarrow> distinct (map r_id R)"
  using releases.chk_unique [OF releases.ok_chk, of w] by (auto simp: shelf_def unique_on_def)

lemma artifact_create_triple:
  "triple (shelf R A P) (artifact_create rel c k sha sz uri ref)
     (\<lambda>r w. shelf R (A @ [r]) P w \<and> (af_releaseId r = rel \<and> af_component r = c \<and> af_kind r = k \<and> af_sha256 r = sha \<and> af_imageRef r = ref
        \<and> af_deletedAt r = None)) (\<lambda>_. shelf R A P)"
  unfolding triple_def
proof (intro allI impI)
  fix w :: "'a world_scheme" assume s: "shelf R A P w"
  then have q: "quiet w" by (simp add: shelf_def)
  have "db_ok (snd (artifact_create rel c k sha sz uri ref w))"
    by (rule keepsD [of db_ok]) (use s in \<open>auto simp: shelf_def intro: keeps_intros\<close>)
  with s show "case artifact_create rel c k sha sz uri ref w of
      (Inl e, s') \<Rightarrow> shelf R A P s'
    | (Inr r, w) \<Rightarrow> shelf R (A @ [r]) P w \<and> (af_releaseId r = rel \<and> af_component r = c \<and> af_kind r = k \<and> af_sha256 r = sha \<and> af_imageRef r = ref
        \<and> af_deletedAt r = None)"
    by (simp add: artifact_create_def artifacts.createRow_quiet [OF q] shelf_def split: option.splits)
qed

lemma release_create_triple:
  "triple (shelf R A P) (release_create o' p t sha st :: ('z, release) DB)
     (\<lambda>r w. shelf (R @ [r]) A P w \<and> (r_productId r = p \<and> r_tag r = t \<and> r_commitSha r = sha \<and> r_deletedAt r = None \<and> r_status r = orElse st RBuilding
        \<and> r_id r \<notin> r_id ` set R)) (\<lambda>_. shelf R A P)"
proof (rule triple_weaken [where E = "\<lambda>_. shelf R A P"])
  show "triple (shelf R A P) (release_create o' p t sha st :: ('z, release) DB)
     (\<lambda>r w. shelf (R @ [r]) A P w \<and> (r_productId r = p \<and> r_tag r = t \<and> r_commitSha r = sha \<and> r_deletedAt r = None \<and> r_status r = orElse st RBuilding)) (\<lambda>_. shelf R A P)"
    unfolding triple_def
  proof (intro allI impI)
    fix w :: "'z world_scheme" assume s: "shelf R A P w"
    then have q: "quiet w" by (simp add: shelf_def)
    have ok: "db_ok (snd (release_create o' p t sha st w))"
      by (rule keepsD [of db_ok]) (use s in \<open>auto simp: shelf_def intro: keeps_intros\<close>)
    with s show "case release_create o' p t sha st w of
        (Inl e, s') \<Rightarrow> shelf R A P s'
      | (Inr r, w) \<Rightarrow> shelf (R @ [r]) A P w \<and> (r_productId r = p \<and> r_tag r = t \<and> r_commitSha r = sha \<and> r_deletedAt r = None \<and> r_status r = orElse st RBuilding)"
      by (simp add: release_create_def releases.createRow_quiet [OF q] shelf_def split: option.splits)
  qed
qed (auto dest!: shelf_distinct)

text \<open>The row an update makes of the last one; the others have other ids.\<close>

definition patchedRelease :: "releasePatch \<Rightarrow> string \<Rightarrow> release \<Rightarrow> release" where
  "patchedRelease patch now r = r\<lparr>
        r_manifestSha256 := orElseNull (rp_manifestSha256 patch) (r_manifestSha256 r),
        r_signedBy := orElseNull (rp_signedBy patch) (r_signedBy r),
        r_signatureB64 := orElseNull (rp_signatureB64 patch) (r_signatureB64 r),
        r_builtAt := orElseNull (rp_builtAt patch) (r_builtAt r),
        r_builtByRunnerId := orElseNull (rp_builtByRunnerId patch) (r_builtByRunnerId r),
        r_status := orElse (rp_status patch) (r_status r),
        r_buildYamlJson := orElseNull (rp_buildYamlJson patch) (r_buildYamlJson r),
        r_updatedAt := now\<rparr>"

lemma patchedRelease_keys [simp]:
  "r_id (patchedRelease p n r) = r_id r" "r_productId (patchedRelease p n r) = r_productId r" "r_tag (patchedRelease p n r) = r_tag r"
  "r_deletedAt (patchedRelease p n r) = r_deletedAt r" "r_orgId (patchedRelease p n r) = r_orgId r" "r_commitSha (patchedRelease p n r) = r_commitSha r"
  by (simp_all add: patchedRelease_def)

lemma map_last_row:
  assumes "distinct (map k (xs @ [x]))"
  shows "map (\<lambda>r. if k r = k x then f r else r) (xs @ [x]) = xs @ [f x]"
  using assms by (induction xs) auto

lemma release_update_triple:
  assumes "r_deletedAt r = None" and "r_id r = i"
  shows "triple (shelf (R @ [r]) A P) (release_update i patch)
     (\<lambda>x w. shelf (R @ [x]) A P w \<and> (\<exists>now. x = patchedRelease patch now r)) E"
proof (rule triple_run)
  fix w :: "'z world_scheme" assume s: "shelf (R @ [r]) A P w"
  then have q: "quiet w" and ok: "db_ok w" and rows: "releases w = R @ [r]" by (simp_all add: shelf_def)
  have d: "distinct (map r_id (R @ [r]))" by (rule shelf_distinct [OF s])
  have f: "find (\<lambda>x. r_id x = i \<and> r_deletedAt x = None) (releases w) = Some r"
    using d assms rows by (auto simp: find_Some_iff nth_append intro!: exI [of _ "length R"]) (metis image_eqI nth_mem)
  let ?now = "toISOString (clocks w (clockN w))"
  have "releases_chk w (R @ [r]) = None" using releases.ok_chk [OF ok] rows by simp
  then have c: "releases_chk w (R @ [patchedRelease patch ?now r]) = None"
    using assms(1) by (auto simp: releases_chk_def firstViolation_def unique_on_def refs_def split: if_splits)
  have m: "map (\<lambda>x. if r_id x = i then g x else x) (releases w) = R @ [g r]" for g
    using map_last_row [OF d, of g] assms(2) rows by simp
  have "release_update i patch w = (Inr (patchedRelease patch ?now r),
      w\<lparr>clockN := Suc (clockN w), stmtN := Suc (Suc (stmtN w)), releases := R @ [patchedRelease patch ?now r]\<rparr>)"
    unfolding release_update_def
    by (subst releases.patchRow_quiet [OF q f]) (use c in \<open>simp_all add: m patchedRelease_def\<close>)
  moreover from this have "db_ok (w\<lparr>clockN := Suc (clockN w), stmtN := Suc (Suc (stmtN w)), releases := R @ [patchedRelease patch ?now r]\<rparr>)"
    using keepsD_eq [of db_ok "release_update i patch" w] ok by (auto intro: keeps_intros)
  ultimately show "\<exists>x w'. release_update i patch w = (Inr x, w') \<and> shelf (R @ [x]) A P w' \<and> (\<exists>now. x = patchedRelease patch now r)"
    using s by (auto simp: shelf_def)
qed

text \<open>The same releases, with every ready one as it was.\<close>

definition retired :: "release list \<Rightarrow> release list \<Rightarrow> bool" where
  "retired R R1 \<longleftrightarrow> map r_id R1 = map r_id R \<and> filter (\<lambda>r. r_status r = RReady) R1 = filter (\<lambda>r. r_status r = RReady) R"

lemma retired_refl [simp]: "retired R R"
  by (simp add: retired_def)

lemma filter_untouched_on:
  assumes "\<forall>r\<in>set t. q r \<longrightarrow> \<not> p r" and "\<forall>r\<in>set t. p r \<longrightarrow> \<not> q (f r)"
  shows "filter q (map (\<lambda>r. if p r then f r else r) t) = filter q t"
  using assms by (induction t) auto

lemma release_softDelete_triple:
  assumes "r \<in> set R" and "r_status r \<noteq> RReady"
  shows "triple (shelf R A P) (release_softDelete (r_id r) :: ('z, unit) DB)
    (\<lambda>_ w. \<exists>R1. shelf R1 A P w \<and> retired R R1) (\<lambda>_ w. \<exists>R1. shelf R1 A P w \<and> retired R R1)"
  unfolding triple_def
proof (intro allI impI)
  fix w :: "'z world_scheme" assume s: "shelf R A P w"
  then have q: "quiet w" "db_ok w" by (simp_all add: shelf_def)
  let ?now = "toISOString (clocks w (clockN w))"
  let ?R1 = "map (\<lambda>x. if r_id x = r_id r \<and> r_deletedAt x = None then x\<lparr>r_deletedAt := Some ?now, r_updatedAt := ?now\<rparr> else x) R"
  let ?w1 = "w\<lparr>clockN := Suc (clockN w), stmtN := Suc (stmtN w), releases := ?R1\<rparr>"
  have "x = r" if "x \<in> set R" "r_id x = r_id r" for x
    using shelf_distinct [OF s] that assms(1) by (auto simp: distinct_map inj_on_def)
  with assms(2) have "retired R ?R1"
    unfolding retired_def by (intro conjI map_update_key filter_untouched_on) auto
  moreover have run: "release_softDelete (r_id r) w = (fst (release_softDelete (r_id r) w), ?w1)"
    using s unfolding release_softDelete_def by (simp add: releases.softDeleteRow_quiet [OF q] shelf_def)
  moreover have "db_ok ?w1"
  proof -
    have "keeps db_ok (release_softDelete (r_id r) :: ('z, unit) DB)" by (intro keeps_intros)
    from keepsD [OF this q(2)] show ?thesis by (subst (asm) run) simp
  qed
  ultimately have "\<exists>R1. shelf R1 A P ?w1 \<and> retired R R1" using s by (auto simp: shelf_def intro!: exI [of _ ?R1])
  with run show "case release_softDelete (r_id r) w of (Inl e, s') \<Rightarrow> \<exists>R1. shelf R1 A P s' \<and> retired R R1
      | (Inr x, s') \<Rightarrow> \<exists>R1. shelf R1 A P s' \<and> retired R R1"
    by (cases "release_softDelete (r_id r) w") (simp split: sum.splits)
qed

section \<open>Every step of a build\<close>

lemma triple_foldM_acc:
  "(\<And>b x. x \<in> set xs \<Longrightarrow> triple (I b) (f b x) I E) \<Longrightarrow> triple (I b) (foldM f b xs) I E"
  by (induction xs arbitrary: b) (auto intro: triple_return triple_bindM)

text \<open>The rows and entries collected so far: what the release has stored.\<close>

definition collected :: "release list \<Rightarrow> artifact list \<Rightarrow> product list \<Rightarrow> string \<Rightarrow> artifact list \<times> manifestEntry list \<Rightarrow> 'z world_scheme \<Rightarrow> bool" where
  "collected R A P i acc w \<longleftrightarrow> shelf R (A @ fst acc) P w \<and> snd acc = map artifactEntry (fst acc)
     \<and> list_all (\<lambda>a. af_releaseId a = i \<and> af_deletedAt a = None) (fst acc)"

definition scattered :: "release list \<Rightarrow> artifact list \<Rightarrow> product list \<Rightarrow> 'z world_scheme \<Rightarrow> bool" where
  "scattered R A P w \<longleftrightarrow> (\<exists>rows. shelf R (A @ rows) P w)"

lemma collected_scattered: "collected R A P i acc w \<Longrightarrow> scattered R A P w"
  by (auto simp: collected_def scattered_def)

lemma collected_keeps: "(\<And>R A P. keeps (shelf R A P) m) \<Longrightarrow> keeps (collected R A P i acc) m"
  by (auto simp: keeps_def collected_def)

lemma capture_triple:
  "triple (collected R A P i (rows, entries)) (captureArtifact env o' i d c art)
     (\<lambda>(row, entry). collected R A P i (rows @ [row], entries @ [entry])) (\<lambda>_. scattered R A P)"
proof (cases art)
  case (BlobArtifact path produce)
  have "triple (collected R A P i (rows, entries)) (artifact_create i c ABlob (Some (bl_sha256 b)) (Some (bl_size b)) (Some (bl_uri b)) None)
     (\<lambda>row. collected R A P i (rows @ [row], entries @ [\<lparr>me_component = c, me_kind = BlobEntry, me_sha256 = Some (bl_sha256 b), me_imageRef = None\<rparr>]))
     (\<lambda>_. scattered R A P)" for b
    unfolding collected_def fst_conv snd_conv
    by (intro triple_pure, rule triple_weaken [OF artifact_create_triple]) (auto simp: artifactEntry_def scattered_def)
  then show ?thesis
    unfolding BlobArtifact captureArtifact_def buildArtifact.case Let_def
    by (intro triple_step [OF collected_keeps collected_scattered] triple_if triple_throw collected_scattered keeps_intros shelf_intros
        triple_bindM [OF _ triple_return]) auto
next
  case (ImageRefArtifact ref)
  show ?thesis
    unfolding ImageRefArtifact captureArtifact_def buildArtifact.case collected_def fst_conv snd_conv
    by (intro triple_pure, rule triple_bindM [OF _ triple_return], rule triple_weaken [OF artifact_create_triple])
      (auto simp: artifactEntry_def scattered_def)
qed

lemma component_triple:
  "triple (collected R A P i acc) (buildComponentStep env opts i acc c) (collected R A P i) (\<lambda>_. scattered R A P)"
proof -
  have "triple (collected R A P i acc) (captureAll env opts i component acc) (collected R A P i) (\<lambda>_. scattered R A P)" for component
    unfolding captureAll_def
    by (rule triple_foldM_acc) (auto intro!: triple_bindM [OF capture_triple] triple_return split: prod.splits)
  then show ?thesis
    unfolding buildComponentStep_def
    by (intro triple_step [OF collected_keeps collected_scattered] keeps_intros shelf_intros)
qed

text \<open>The release of a build, whatever was written into it.\<close>

definition ownRelease :: "release list \<Rightarrow> artifact list \<Rightarrow> product list \<Rightarrow> string \<Rightarrow> 'z world_scheme \<Rightarrow> bool" where
  "ownRelease R A P i w \<longleftrightarrow> (\<exists>r. scattered (R @ [r]) A P w \<and> r_id r = i \<and> r_deletedAt r = None)"

definition builtAs :: "'z buildEnv \<Rightarrow> buildOptions \<Rightarrow> product \<Rightarrow> release \<Rightarrow> buildResult \<Rightarrow> bool" where
  "builtAs env opts product rel r \<longleftrightarrow>
     br_manifest r = buildManifest (p_name product) (bo_tag opts) (bo_commitSha opts) (map artifactEntry (br_artifacts r)) \<and>
     br_manifestSha256 r = hashManifest (cy_sha256 (be_sign env)) (br_manifest r) \<and>
     list_all (\<lambda>a. af_releaseId a = r_id rel \<and> af_deletedAt a = None) (br_artifacts r) \<and>
     signedAs (be_sign env) opts (br_manifest r) (br_signature r) \<and>
     (\<exists>builtAt json now. br_release r = patchedRelease (readyPatch (br_manifestSha256 r) builtAt (runnerIdOf env opts) json (br_signature r)) now rel)"

lemma body_triple:
  assumes "silentSigner (be_sign env)" and "r_deletedAt rel = None"
  shows "triple (shelf (R @ [rel]) A P) (buildBody env opts product parsed rel)
    (\<lambda>r w. shelf (R @ [br_release r]) (A @ br_artifacts r) P w \<and> builtAs env opts product rel r) (\<lambda>_. ownRelease R A P (r_id rel))"
proof -
  have own: "collected (R @ [rel]) A P (r_id rel) acc w \<Longrightarrow> ownRelease R A P (r_id rel) w" for acc and w :: "'b world_scheme"
    using assms(2) by (auto simp: ownRelease_def dest!: collected_scattered)
  have finish: "triple (collected (R @ [rel]) A P (r_id rel) (rows, entries)) (bindM (release_update (r_id rel) patch) (\<lambda>finished.
      bindM (audit_append a b c d e g) (\<lambda>_. ret \<lparr>br_release = finished, br_manifest = m, br_manifestSha256 = h, br_artifacts = rows, br_signature = s\<rparr>)))
    (\<lambda>r w. shelf (R @ [br_release r]) (A @ br_artifacts r) P w \<and> builtAs env opts product rel r) (\<lambda>_. ownRelease R A P (r_id rel))"
    if "m = buildManifest (p_name product) (bo_tag opts) (bo_commitSha opts) entries" "h = hashManifest (cy_sha256 (be_sign env)) m"
      "patch = readyPatch h t (runnerIdOf env opts) json s" "signedAs (be_sign env) opts m s" for rows entries patch a b c d e g m h s t json
    unfolding collected_def fst_conv snd_conv
    apply (intro triple_pure)
    apply (rule triple_bindM [OF release_update_triple [OF assms(2) refl]])
    apply (rule triple_pure)
    apply (rule triple_step [OF shelf_audit])
    using assms(2) apply (force simp: ownRelease_def scattered_def)
    apply (rule triple_return)
    using that by (auto simp: builtAs_def)
  show ?thesis
    unfolding buildBody_def Let_def
  proof (rule triple_seq [where R = "collected (R @ [rel]) A P (r_id rel)" and E' = "\<lambda>_. scattered (R @ [rel]) A P"])
    show "triple (shelf (R @ [rel]) A P) (foldM (buildComponentStep env opts (r_id rel)) ([], []) (by_components parsed))
        (collected (R @ [rel]) A P (r_id rel)) (\<lambda>_. scattered (R @ [rel]) A P)"
      by (rule triple_weaken [OF triple_foldM_acc [OF component_triple]]) (auto simp: collected_def)
  next
    fix w :: "'b bworld_scheme" assume "scattered (R @ [rel]) A P w"
    then show "ownRelease R A P (r_id rel) w" using assms(2) by (auto simp: ownRelease_def)
  qed (rule triple_prod, hypsubst, rule triple_seq [OF optionalSignature_triple [OF collected_keeps]], rule shelf_optionalSignature [OF assms(1)],
      erule own, rule triple_pure, rule triple_step [OF collected_keeps own], rule shelf_env, assumption, rule finish [OF refl refl refl])
qed

lemma buildCatch_triple:
  "triple (ownRelease R A P (r_id rel)) (buildCatch opts rel e :: ('z, 'a) DB) Q
     (\<lambda>_ w. \<exists>r. scattered (R @ [r]) A P w \<and> r_id r = r_id rel \<and> r_deletedAt r = None \<and> r_status r = RFailed)"
proof -
  let ?F = "\<lambda>w :: 'z world_scheme. \<exists>r. scattered (R @ [r]) A P w \<and> r_id r = r_id rel \<and> r_deletedAt r = None \<and> r_status r = RFailed"
  have mark: "triple (ownRelease R A P (r_id rel)) (tryM (bindM (release_update (r_id rel) failedStatus) (\<lambda>_. ret ()))) (\<lambda>_. ?F) E" for E
  proof (rule triple_run)
    fix w :: "'z world_scheme" assume "ownRelease R A P (r_id rel) w"
    then obtain r rows where s: "shelf (R @ [r]) (A @ rows) P w" and r: "r_id r = r_id rel" "r_deletedAt r = None"
      by (auto simp: ownRelease_def scattered_def)
    have t: "triple (shelf (R @ [r]) (A @ rows) P) (release_update (r_id rel) failedStatus :: ('z, release) DB)
      (\<lambda>x w. shelf (R @ [x]) (A @ rows) P w \<and> (\<exists>now. x = patchedRelease failedStatus now r)) (\<lambda>_ _. False)"
      by (rule release_update_triple [OF r(2,1)])
    obtain x w' where u: "release_update (r_id rel) failedStatus w = (Inr x, w')" "shelf (R @ [x]) (A @ rows) P w'"
      "\<exists>now. x = patchedRelease failedStatus now r"
      by (rule tripleD [OF t s]) auto
    then have "r_id x = r_id rel \<and> r_deletedAt x = None \<and> r_status x = RFailed"
      using r by (auto simp: patchedRelease_def failedStatus_def)
    with u show "\<exists>x s'. tryM (bindM (release_update (r_id rel) failedStatus) (\<lambda>_. ret ())) w = (Inr x, s') \<and> ?F s'"
      by (auto simp: tryM_run bindM_run ret_run scattered_def)
  qed
  have "keeps ?F (audit_append a b c d e' f)" for a b c d e' f
    using shelf_audit by (fastforce simp: keeps_def scattered_def)
  then show ?thesis
    unfolding buildCatch_def by (intro triple_bindM [OF mark] triple_step triple_throw)
qed

text \<open>Before the try block: the old row of the tag retired, at most the new one added.\<close>

definition begun :: "release list \<Rightarrow> artifact list \<Rightarrow> product list \<Rightarrow> buildOptions \<Rightarrow> product \<Rightarrow> release \<Rightarrow> 'z world_scheme \<Rightarrow> bool" where
  "begun R A P opts product rel w \<longleftrightarrow> (\<exists>R1. shelf (R1 @ [rel]) A P w \<and> retired R R1) \<and> (r_deletedAt rel = None \<and>
     r_productId rel = bo_productId opts \<and> r_tag rel = bo_tag opts \<and> r_commitSha rel = bo_commitSha opts \<and>
     find (\<lambda>p. p_id p = bo_productId opts \<and> p_deletedAt p = None) P = Some product)"

definition unbegun :: "release list \<Rightarrow> artifact list \<Rightarrow> product list \<Rightarrow> 'z world_scheme \<Rightarrow> bool" where
  "unbegun R A P w \<longleftrightarrow> (\<exists>R1. retired R R1 \<and> (shelf R1 A P w \<or> (\<exists>r. shelf (R1 @ [r]) A P w \<and> r_status r = RBuilding)))"

lemma begin_row_triple:
  assumes "retired R R1" and "find (\<lambda>p. p_id p = bo_productId opts \<and> p_deletedAt p = None) P = Some product"
  shows "triple (shelf R1 A P) (bindM (release_create (bo_orgId opts) (bo_productId opts) (bo_tag opts) (bo_commitSha opts) (Some RBuilding)) (\<lambda>release.
      bindM (audit_append a b c d (r_id release) f) (\<lambda>_. ret (product, parsed, release))))
      (\<lambda>(product, parsed, rel). begun R A P opts product rel) (\<lambda>_. unbegun R A P)"
proof (rule triple_seq [OF release_create_triple])
  fix rel :: release
  let ?now = "shelf (R1 @ [rel]) A P"
  show "triple (\<lambda>w. ?now w \<and> (r_productId rel = bo_productId opts \<and> r_tag rel = bo_tag opts \<and> r_commitSha rel = bo_commitSha opts \<and>
      r_deletedAt rel = None \<and> r_status rel = orElse (Some RBuilding) RBuilding \<and> r_id rel \<notin> r_id ` set R1))
    (bindM (audit_append a b c d (r_id rel) f) (\<lambda>_. ret (product, parsed, rel)))
    (\<lambda>(product, parsed, rel). begun R A P opts product rel) (\<lambda>_. unbegun R A P)"
    by (intro triple_pure, rule triple_step [OF shelf_audit _ triple_return]) (use assms in \<open>auto simp: begun_def unbegun_def\<close>)
qed (use assms(1) in \<open>auto simp: unbegun_def\<close>)

lemma prepare_triple:
  "triple (shelf R A P) (buildPrepare env opts :: ('z, product \<times> buildYaml \<times> release) BM)
     (\<lambda>(product, parsed, rel). begun R A P opts product rel) (\<lambda>_. unbegun R A P)"
proof -
  have get: "triple (shelf R A P) (product_get (bo_productId opts) :: ('z bworld_scheme, err, product option) M)
      (\<lambda>x w. shelf R A P w \<and> x = find (\<lambda>p. p_id p = bo_productId opts \<and> p_deletedAt p = None) P) E" for E
    unfolding product_get_def by (rule triple_run) (auto simp: products.getLive_quiet shelf_def)
  have tag: "triple (shelf R A P) (release_getByTag (bo_productId opts) (bo_tag opts) :: ('z bworld_scheme, err, release option) M)
      (\<lambda>x w. shelf R A P w \<and> (\<forall>r. x = Some r \<longrightarrow> r \<in> set R)) E" for E
    unfolding release_getByTag_def by (rule triple_run) (auto simp: selectOne_quiet shelf_def dest: find_Some_D)
  show ?thesis
    unfolding buildPrepare_def
    apply (rule triple_bindM [OF get], rule triple_pure, rule triple_option)
     apply (rule triple_throw, force simp: unbegun_def)
    apply (rule triple_bindM [OF tag], rule triple_pure)
    apply (rule triple_bindM [where R = "\<lambda>_ w. \<exists>R1. shelf R1 A P w \<and> retired R R1"])
     apply (rule triple_option)
      apply (rule triple_return, force)
     apply (rule triple_if)
      apply (rule triple_throw, force simp: unbegun_def)
     apply (rule triple_weaken [OF release_softDelete_triple], simp, simp, assumption, assumption, force simp: unbegun_def)
    apply (rule triple_ex, rule triple_pure)
    apply (rule triple_step [OF shelf_readBuildYaml], force simp: unbegun_def)
    by (rule begin_row_triple) simp_all
qed

text \<open>Nothing is spawned or stored before the row of the build is there.\<close>

interpretation spawned: frame "ran :: 'z bworld_scheme \<Rightarrow> buildCall list"
  by unfold_locales simp_all

lemma prepare_spawns_nothing: "keeps (spawned.sees Q) (buildPrepare env opts)"
proof -
  have audit: "keeps (spawned.sees Q) (audit_append a b c d e f)" for a b c d e f
    unfolding audit_append_def by (rule spawned.frame_createRow) simp
  have create: "keeps (spawned.sees Q) (release_create a b c d e)" for a b c d e
    unfolding release_create_def by (rule spawned.frame_createRow) simp
  have remove: "keeps (spawned.sees Q) (release_softDelete i)" for i
    unfolding release_softDelete_def by (rule spawned.frame_softDeleteRow) simp
  show ?thesis
    unfolding buildPrepare_def product_get_def release_getByTag_def getLive_def readBuildYaml_def Let_def
    by (intro keeps_intros spawned.frame_select audit create remove)
qed

lemma prepared_spawns_nothing: "buildPrepare env opts w = (r, w') \<Longrightarrow> ran w' = ran w"
  using keepsD [OF prepare_spawns_nothing [of "\<lambda>h. h = ran w" env opts], of w] by (simp add: spawned.sees_def)

section \<open>Whole builds\<close>

definition buildSettled :: "'z buildEnv \<Rightarrow> buildOptions \<Rightarrow> release list \<Rightarrow> artifact list \<Rightarrow> product list \<Rightarrow> buildResult \<Rightarrow> 'y world_scheme \<Rightarrow> bool" where
  "buildSettled env opts R A P r w \<longleftrightarrow> (\<exists>R1 rel product. retired R R1 \<and> shelf (R1 @ [br_release r]) (A @ br_artifacts r) P w \<and>
     builtAs env opts product rel r \<and> r_deletedAt rel = None \<and>
     r_productId rel = bo_productId opts \<and> r_tag rel = bo_tag opts \<and> r_commitSha rel = bo_commitSha opts \<and>
     find (\<lambda>p. p_id p = bo_productId opts \<and> p_deletedAt p = None) P = Some product)"

definition leftFailed :: "release list \<Rightarrow> artifact list \<Rightarrow> product list \<Rightarrow> 'z world_scheme \<Rightarrow> bool" where
  "leftFailed R A P w \<longleftrightarrow> (\<exists>R1 r. retired R R1 \<and> scattered (R1 @ [r]) A P w \<and> r_status r = RFailed)"

lemma attempt_triple:
  assumes "silentSigner (be_sign env)"
  shows "triple (begun R A P opts product rel) (catchM (buildBody env opts product parsed rel) (buildCatch opts rel))
    (buildSettled env opts R A P) (\<lambda>_. leftFailed R A P)"
  unfolding begun_def
  apply (rule triple_pure, rule triple_ex, rule triple_pure)
  apply (rule triple_weaken [OF triple_catchM [OF body_triple [OF assms] buildCatch_triple]])
     apply (auto simp: buildSettled_def leftFailed_def)
  done

lemma runBuild_cases:
  assumes "shelf (releases w) (artifacts w) (products w) w" and "silentSigner (be_sign env)"
  shows "case runBuild env opts w of
      (Inr r, w') \<Rightarrow> buildSettled env opts (releases w) (artifacts w) (products w) r w'
    | (Inl e, w') \<Rightarrow> leftFailed (releases w) (artifacts w) (products w) w' \<or> unbegun (releases w) (artifacts w) (products w) w' \<and> ran w' = ran w"
proof (rule tripleD [OF prepare_triple [of _ _ _ env opts] assms(1)])
  fix x w1
  assume x: "buildPrepare env opts w = (Inr x, w1)" "(case x of (product, parsed, rel) \<Rightarrow> begun (releases w) (artifacts w) (products w) opts product rel) w1"
  obtain product parsed rel where xe: "x = (product, parsed, rel)" by (cases x)
  with x have "case catchM (buildBody env opts product parsed rel) (buildCatch opts rel) w1 of
      (Inr r, w') \<Rightarrow> buildSettled env opts (releases w) (artifacts w) (products w) r w' | (Inl e, w') \<Rightarrow> leftFailed (releases w) (artifacts w) (products w) w'"
    using attempt_triple [OF assms(2), unfolded triple_def, rule_format] by simp
  with x xe show ?thesis by (auto simp: runBuild_def bindM_run split: prod.splits sum.splits)
next
  fix e w1
  assume "buildPrepare env opts w = (Inl e, w1)" "unbegun (releases w) (artifacts w) (products w) w1"
  then show ?thesis by (simp add: runBuild_def bindM_run prepared_spawns_nothing)
qed

end
