(* ===== verification/Build_Verify.thy ===== *)
theory Build_Verify
  imports Build_Facts
begin

text \<open>
  The guarantees of whole builds: how a build settles its release, that a release built with a key
  verifies, and that verification notices every change of what was built.
\<close>

section \<open>How a build ends\<close>

lemma buildSettled_row:
  assumes "buildSettled env opts R A P r w"
  obtains kept product where "retired R kept" "map r_id kept = map r_id R" "filter (\<lambda>r. r_status r = RReady) kept = filter (\<lambda>r. r_status r = RReady) R"
    "shelf (kept @ [br_release r]) (A @ br_artifacts r) P w"
    "releases w = kept @ [br_release r]" "artifacts w = A @ br_artifacts r"
    "r_status (br_release r) = RReady" "r_productId (br_release r) = bo_productId opts" "r_tag (br_release r) = bo_tag opts"
    "r_commitSha (br_release r) = bo_commitSha opts" "r_deletedAt (br_release r) = None"
    "list_all (\<lambda>a. af_releaseId a = r_id (br_release r)) (br_artifacts r)" "list_all (\<lambda>a. af_deletedAt a = None) (br_artifacts r)"
    "br_manifest r = buildManifest (p_name product) (bo_tag opts) (bo_commitSha opts) (map artifactEntry (br_artifacts r))"
    "rm_artifacts (br_manifest r) = sort_key me_component (map artifactEntry (br_artifacts r))"
    "r_manifestSha256 (br_release r) = Some (cy_sha256 (be_sign env) (canonicalManifestBytes (br_manifest r)))"
    "signedAs (be_sign env) opts (br_manifest r) (br_signature r)"
    "\<And>v. br_signature r = Some v \<Longrightarrow> r_signatureB64 (br_release r) = Some (fst v) \<and> r_signedBy (br_release r) = Some (snd v)"
    "find (\<lambda>p. p_id p = bo_productId opts \<and> p_deletedAt p = None) P = Some product"
proof -
  from assms obtain kept rel product builtAt json now where s: "retired R kept" "shelf (kept @ [br_release r]) (A @ br_artifacts r) P w"
    "br_manifest r = buildManifest (p_name product) (bo_tag opts) (bo_commitSha opts) (map artifactEntry (br_artifacts r))"
    "br_manifestSha256 r = hashManifest (cy_sha256 (be_sign env)) (br_manifest r)"
    "list_all (\<lambda>a. af_releaseId a = r_id rel \<and> af_deletedAt a = None) (br_artifacts r)" "signedAs (be_sign env) opts (br_manifest r) (br_signature r)"
    "br_release r = patchedRelease (readyPatch (br_manifestSha256 r) builtAt (runnerIdOf env opts) json (br_signature r)) now rel"
    "r_deletedAt rel = None" "r_productId rel = bo_productId opts" "r_tag rel = bo_tag opts" "r_commitSha rel = bo_commitSha opts"
    "find (\<lambda>p. p_id p = bo_productId opts \<and> p_deletedAt p = None) P = Some product"
    unfolding buildSettled_def builtAs_def by blast
  show ?thesis
    by (rule that [of kept product])
      (use s in \<open>simp_all add: retired_def shelf_def buildManifest_sorts hashManifest_def readyPatch_def list_all_iff\<close>,
       simp_all add: patchedRelease_def)
qed

text \<open>
  C6. A build settles its release.  Whatever the commands of the build file do, \<open>runBuild\<close> keeps every
  release that was there (none disappears, and each ready one is the same row).  When it returns, one row was added, which
  is ready, names the product, the tag and the commit asked for and carries the hash of the canonical
  manifest of the artifact rows that were stored with it.  When it throws, either no row was added, no
  command was started and no artifact stored; or one row was added, marked failed; or its row is
  still building, and then again no command was started.
\<close>

theorem build_settles:
  assumes "quiet w" and "db_ok w" and "silentSigner (be_sign env)" and "runBuild env opts w = (res, w')"
  shows "\<exists>kept. map r_id kept = map r_id (releases w) \<and>
    filter (\<lambda>r. r_status r = RReady) kept = filter (\<lambda>r. r_status r = RReady) (releases w) \<and>
    (case res of
       Inr r \<Rightarrow> releases w' = kept @ [br_release r] \<and> artifacts w' = artifacts w @ br_artifacts r \<and>
         r_status (br_release r) = RReady \<and> r_productId (br_release r) = bo_productId opts \<and> r_tag (br_release r) = bo_tag opts \<and>
         r_commitSha (br_release r) = bo_commitSha opts \<and> list_all (\<lambda>a. af_releaseId a = r_id (br_release r)) (br_artifacts r) \<and>
         rm_artifacts (br_manifest r) = sort_key me_component (map artifactEntry (br_artifacts r)) \<and>
         r_manifestSha256 (br_release r) = Some (cy_sha256 (be_sign env) (canonicalManifestBytes (br_manifest r)))
     | Inl e \<Rightarrow> (releases w' = kept \<and> artifacts w' = artifacts w \<and> ran w' = ran w) \<or>
         (\<exists>r rows. releases w' = kept @ [r] \<and> r_status r = RFailed \<and> artifacts w' = artifacts w @ rows) \<or>
         (\<exists>r. releases w' = kept @ [r] \<and> r_status r = RBuilding \<and> artifacts w' = artifacts w \<and> ran w' = ran w))"
proof -
  have "shelf (releases w) (artifacts w) (products w) w" using assms(1,2) by (simp add: shelf_def)
  from runBuild_cases [OF this assms(3), of opts] have out: "case res of
      Inr r \<Rightarrow> buildSettled env opts (releases w) (artifacts w) (products w) r w'
    | Inl e \<Rightarrow> leftFailed (releases w) (artifacts w) (products w) w' \<or> unbegun (releases w) (artifacts w) (products w) w' \<and> ran w' = ran w"
    unfolding assms(4) by (cases res) simp_all
  show ?thesis
  proof (cases res)
    case (Inl e)
    with out show ?thesis by (auto simp: leftFailed_def unbegun_def scattered_def shelf_def retired_def)
  next
    case (Inr r)
    with out have "buildSettled env opts (releases w) (artifacts w) (products w) r w'" by simp
    then show ?thesis by (rule buildSettled_row) (rule exI, use Inr in \<open>simp del: map_eq_conv\<close>)
  qed
qed

section \<open>What was built verifies\<close>

lemma find_last_row: "k x = i \<Longrightarrow> p x \<Longrightarrow> distinct (map k (xs @ [x])) \<Longrightarrow> find (\<lambda>r. k r = i \<and> p r) (xs @ [x]) = Some x"
  by (induction xs) auto

lemma sort_key_map: "(\<And>x. g (f x) = h x) \<Longrightarrow> sort_key g (map f xs) = map f (sort_key h xs)"
proof (induction xs)
  case (Cons x xs)
  have "insort_key g (f x) (map f ys) = map f (insort_key h x ys)" for ys
    using Cons.prems by (induction ys) auto
  with Cons show ?case by simp
qed simp

lemma sorted_listing: "buildManifest p t c (map artifactEntry (orderBy af_component rows)) = buildManifest p t c (map artifactEntry rows)"
proof -
  have c: "me_component (artifactEntry a) = af_component a" for a by (simp add: artifactEntry_def)
  have "sort_key af_component (sort_key af_component rows) = sort_key af_component rows" by (rule sort_key_id_if_sorted) simp
  then have "rm_artifacts (buildManifest p t c (map artifactEntry (orderBy af_component rows))) = rm_artifacts (buildManifest p t c (map artifactEntry rows))"
    by (simp add: buildManifest_sorts orderBy_def sort_key_map [of me_component artifactEntry af_component, OF c])
  then show ?thesis by (simp add: buildManifest_def Let_def)
qed

lemma fresh_listing:
  assumes "db_ok w" and "i \<notin> r_id ` set (releases w)" and "list_all (\<lambda>a. af_releaseId a = i) rows" and "list_all (\<lambda>a. af_deletedAt a = None) rows"
  shows "filter (\<lambda>a. af_releaseId a = i \<and> af_deletedAt a = None) (artifacts w @ rows) = rows"
proof -
  have "refs af_releaseId (artifacts w) (map r_id (releases w))"
    using assms(1) by (simp add: db_ok_def artifacts_chk_def)
  then have "filter (\<lambda>a. af_releaseId a = i \<and> af_deletedAt a = None) (artifacts w) = []"
    using assms(2) by (auto simp: refs_def list_all_iff filter_empty_conv)
  moreover have "filter (\<lambda>a. af_releaseId a = i \<and> af_deletedAt a = None) rows = rows"
    using assms(3,4) by (induction rows) auto
  ultimately show ?thesis by simp
qed

text \<open>
  C7. A signed release verifies.  When a build that was given a signing key returns, \<open>runReleaseVerify\<close>
  on the id of the new release and the public half of that key says verified: the row carries the
  signature, the manifest it rebuilds from the artifact rows is the one that was hashed and signed, and
  the signature is accepted.  Of the primitives it is asked that a signature made with the private half
  verifies under the public one, that keys and base64 survive their encodings, and
  that neither signatures nor hashes are empty strings.
\<close>

theorem built_release_verifies:
  assumes "quiet w" and "db_ok w" and "silentSigner (be_sign env)" and "runBuild env opts w = (Inr r, w')"
    and "bo_signingKeyPem opts = Some privatePem" and "privatePem \<noteq> []"
    and "matchingPems (be_sign env) privatePem publicPem (canonicalManifestBytes (br_manifest r))"
  shows "\<exists>product w''. runReleaseVerify (be_sign env) (r_id (br_release r)) publicPem w'
    = (Inr \<lparr>rv_release = br_release r, rv_product = product, rv_verified = True, rv_reason = None\<rparr>, w'')"
proof -
  have "shelf (releases w) (artifacts w) (products w) w" using assms(1,2) by (simp add: shelf_def)
  from runBuild_cases [OF this assms(3), of opts]
  have "buildSettled env opts (releases w) (artifacts w) (products w) r w'" by (simp add: assms(4))
  then show ?thesis
  proof (rule buildSettled_row)
    fix kept product
    let ?r = "br_release r"
    assume ids: "map r_id kept = map r_id (releases w)" and sh: "shelf (kept @ [?r]) (artifacts w @ br_artifacts r) (products w) w'"
      and rel: "r_productId ?r = bo_productId opts" "r_tag ?r = bo_tag opts" "r_commitSha ?r = bo_commitSha opts" "r_deletedAt ?r = None"
      and rows: "list_all (\<lambda>a. af_releaseId a = r_id ?r) (br_artifacts r)" "list_all (\<lambda>a. af_deletedAt a = None) (br_artifacts r)"
      and man: "br_manifest r = buildManifest (p_name product) (bo_tag opts) (bo_commitSha opts) (map artifactEntry (br_artifacts r))"
      and hash: "r_manifestSha256 ?r = Some (cy_sha256 (be_sign env) (canonicalManifestBytes (br_manifest r)))"
      and sig: "signedAs (be_sign env) opts (br_manifest r) (br_signature r)"
        "\<And>v. br_signature r = Some v \<Longrightarrow> r_signatureB64 ?r = Some (fst v) \<and> r_signedBy ?r = Some (snd v)"
      and prod: "find (\<lambda>p. p_id p = bo_productId opts \<and> p_deletedAt p = None) (products w) = Some product"
    obtain v where v: "br_signature r = Some v" "fst v \<noteq> []" "snd v \<noteq> []" "verifyManifest (be_sign env) (br_manifest r) (fst v) (snd v) publicPem = Inr ()"
      using sig(1) assms(5-7) by (auto simp: signedAs_def truthy_def)
    have d: "distinct (map r_id (kept @ [?r]))" by (rule shelf_distinct [OF sh])
    then have "r_id ?r \<notin> r_id ` set (releases w)" using arg_cong [OF ids, of set] by auto
    note listing = fresh_listing [OF assms(2) this rows, unfolded filter_append]
    have q: "quiet w'" "releases w' = kept @ [?r]" "products w' = products w" "artifacts w' = artifacts w @ br_artifacts r"
      using sh by (simp_all add: shelf_def)
    have get: "release_get (r_id ?r) w' = (Inr (Some ?r), w'\<lparr>stmtN := Suc (stmtN w')\<rparr>)"
      unfolding release_get_def by (simp add: releases.getLive_quiet q find_last_row [of r_id ?r _ "\<lambda>r. r_deletedAt r = None", OF refl rel(4) d])
    show ?thesis
      using v rel sig(2) [OF v(1)] hash prod
      by (simp add: runReleaseVerify_def bindM_run get product_get_def products.getLive_quiet quiet_def [symmetric] q ret_run
          artifact_listForRelease_def selectAll_quiet listing sorted_listing map_append [symmetric] del: map_append) (simp add: man [symmetric] hashManifest_def ret_run truthy_def Let_def)
  qed
qed

section \<open>What verification notices\<close>

text \<open>The manifest the catalogue holds of a release and its product.\<close>

definition catalogued :: "'z world_scheme \<Rightarrow> releaseVerifyResult \<Rightarrow> releaseManifest" where
  "catalogued w v = buildManifest (p_name (rv_product v)) (r_tag (rv_release v)) (r_commitSha (rv_release v))
     (map artifactEntry (filter (\<lambda>a. af_releaseId a = r_id (rv_release v) \<and> af_deletedAt a = None) (artifacts w)))"

lemma selectAll_Inr: "selectAll get p ord w = (Inr xs, w') \<Longrightarrow> (\<And>w n. get (w\<lparr>stmtN := n\<rparr>) = get w) \<Longrightarrow> xs = ord (filter p (get w)) \<and> w' = tick w"
  by (auto simp: selectAll_def stmt_def readM_def split: option.splits)

lemma getLive_Inr:
  "getLive get rid del i w = (Inr x, w') \<Longrightarrow> (\<And>w n. get (w\<lparr>stmtN := n\<rparr>) = get w) \<Longrightarrow> x = find (\<lambda>r. rid r = i \<and> del r = None) (get w) \<and> w' = tick w"
  by (auto simp: getLive_def selectOne_def stmt_def readM_def split: option.splits)

lemma verified_catalogue:
  assumes "runReleaseVerify env i pub w = (Inr v, w')" and "rv_verified v"
  shows "verifyManifest env (catalogued w v) (the (r_signatureB64 (rv_release v))) (the (r_signedBy (rv_release v))) pub = Inr () \<and>
    (r_manifestSha256 (rv_release v) \<noteq> None \<longrightarrow> r_manifestSha256 (rv_release v) = Some (cy_sha256 env (canonicalManifestBytes (catalogued w v))))"
proof -
  from assms(1) obtain rel w1 product w2 where g: "release_get i w = (Inr (Some rel), w1)" "product_get (r_productId rel) w1 = (Inr (Some product), w2)"
    by (auto simp: runReleaseVerify_def bindM_Inr_iff throwM_def split: option.splits)
  then have w2: "artifacts w2 = artifacts w"
    unfolding release_get_def product_get_def by (auto dest!: getLive_Inr)
  from assms g obtain rows w3 where rows: "artifact_listForRelease (r_id rel) w2 = (Inr rows, w3)"
    and v: "v = \<lparr>rv_release = rel, rv_product = product, rv_verified = True, rv_reason = None\<rparr>"
    and ok: "verifyManifest env (buildManifest (p_name product) (r_tag rel) (r_commitSha rel) (map artifactEntry rows))
        (the (r_signatureB64 rel)) (the (r_signedBy rel)) pub = Inr ()"
      "r_manifestSha256 rel \<noteq> None \<longrightarrow>
        r_manifestSha256 rel = Some (hashManifest (cy_sha256 env) (buildManifest (p_name product) (r_tag rel) (r_commitSha rel) (map artifactEntry rows)))"
    by (auto simp: runReleaseVerify_def bindM_run ret_run Let_def split: if_splits sum.splits prod.splits)
  have "rows = orderBy af_component (filter (\<lambda>a. af_releaseId a = r_id rel \<and> af_deletedAt a = None) (artifacts w))"
    using rows w2 unfolding artifact_listForRelease_def by (auto dest!: selectAll_Inr)
  with ok show ?thesis
    by (simp add: catalogued_def v sorted_listing hashManifest_def)
qed

text \<open>
  C8. Verification notices what changed since the build.  Suppose a release is found verified at two moments,
  with the same manifest hash on its row, and the hash function does not collide on the two
  manifests the catalogue held.  Then the product had the same name and the release the same tag and commit
  both times, and its live artifact rows gave the same entries in the order of their components: no artifact was added, removed,
  replaced or renamed in between.
\<close>

theorem verified_release_unchanged:
  assumes "runReleaseVerify env i pub w1 = (Inr v1, w1')" and "rv_verified v1"
    and "runReleaseVerify env i pub w2 = (Inr v2, w2')" and "rv_verified v2"
    and "r_manifestSha256 (rv_release v1) = Some h" and "r_manifestSha256 (rv_release v2) = Some h"
    and "cy_sha256 env (canonicalManifestBytes (catalogued w1 v1)) = cy_sha256 env (canonicalManifestBytes (catalogued w2 v2)) \<Longrightarrow>
      canonicalManifestBytes (catalogued w1 v1) = canonicalManifestBytes (catalogued w2 v2)"
  shows "p_name (rv_product v1) = p_name (rv_product v2) \<and> r_tag (rv_release v1) = r_tag (rv_release v2) \<and>
    r_commitSha (rv_release v1) = r_commitSha (rv_release v2) \<and>
    map artifactEntry (orderBy af_component (filter (\<lambda>a. af_releaseId a = r_id (rv_release v1) \<and> af_deletedAt a = None) (artifacts w1)))
    = map artifactEntry (orderBy af_component (filter (\<lambda>a. af_releaseId a = r_id (rv_release v2) \<and> af_deletedAt a = None) (artifacts w2)))"
proof -
  have "cy_sha256 env (canonicalManifestBytes (catalogued w1 v1)) = cy_sha256 env (canonicalManifestBytes (catalogued w2 v2))"
    using verified_catalogue [OF assms(1,2)] verified_catalogue [OF assms(3,4)] assms(5,6) by simp
  from assms(7) [OF this] have eq: "catalogued w1 v1 = catalogued w2 v2"
    unfolding canonicalManifestBytes_def by (blast dest: canonicalize_determines manifestValue_determines)
  have c: "me_component (artifactEntry a) = af_component a" for a by (simp add: artifactEntry_def)
  have "p_name (rv_product v1) = p_name (rv_product v2) \<and> r_tag (rv_release v1) = r_tag (rv_release v2) \<and> r_commitSha (rv_release v1) = r_commitSha (rv_release v2)"
    using eq by (simp add: catalogued_def buildManifest_def Let_def)
  then show ?thesis
    using arg_cong [OF eq, of rm_artifacts]
    by (simp add: catalogued_def buildManifest_sorts orderBy_def sort_key_map [of me_component artifactEntry af_component, OF c])
qed

section \<open>A build in the lab\<close>

text \<open>One component whose command writes a file; the primitives tag the payload with the algorithm.\<close>

definition buildSigner :: "unit bworld_ext dworld_ext signEnv" where
  "buildSigner = \<lparr>cy_sha256 = (\<lambda>b. ''#'' @ b), cy_createPrivateKey = Inr, cy_createPublicKey = Inr, cy_publicOf = (\<lambda>k. k), cy_fromDer = Inr,
     cy_der = (\<lambda>k. k), cy_keyKind = (\<lambda>_. KeyEd25519), cy_base64 = (\<lambda>b. b), cy_unbase64 = (\<lambda>b. b),
     cy_sign = (\<lambda>alg k payload w. (Inr (alg @ payload), w)), cy_verify = (\<lambda>alg k payload sig. Inr (sig = alg @ payload)),
     cy_exists = (\<lambda>_. True), cy_read = (\<lambda>_. FileMissing), cy_parseDate = (\<lambda>_. Some 1700000003000)\<rparr>"

definition labBuild :: "int \<Rightarrow> unit buildEnv" where
  "labBuild code = \<lparr>be_readYaml = (\<lambda>_ _. Inr JNull),
     be_schema = (\<lambda>_. Inr \<lparr>by_components = [\<lparr>bc_name = ''api'', bc_build = \<lparr>bs_cwd = None, bs_command = ''make'', bs_args = None, bs_env = None\<rparr>,
       bc_artifacts = [BlobArtifact ''out.bin'' None]\<rparr>], by_verification = None, by_probes = None\<rparr>),
     be_json = (\<lambda>_. ''{}''), be_spawn = (\<lambda>_ _. Closed (Some code) ''make failed''), be_stat = (\<lambda>_ _. RegularFile),
     be_put = (\<lambda>_ _ _. Inr \<lparr>bl_uri = ''blob:1'', bl_sha256 = ''cafe'', bl_size = 3\<rparr>), be_windows = False, be_cwd = ''/'', be_hostPid = ''host:1'',
     be_keysDir = ''/keys'', be_freshNonce = (\<lambda>_. replicate 32 CHR ''0''), be_sign = buildSigner\<rparr>"

definition yardOptions :: buildOptions where
  "yardOptions = \<lparr>bo_orgId = ''o1'', bo_productId = ''p1'', bo_tag = ''v1'', bo_commitSha = ''c0ffee'', bo_workDir = ''/work'', bo_runnerId = None,
     bo_actor = None, bo_signingKeyPem = Some ''PEM''\<rparr>"

definition yard :: bworld where
  "yard = dworld.extend (world.extend (orgWorld\<lparr>ulids := (\<lambda>n. replicate (Suc n) CHR ''u''),
     products := [\<lparr>p_id = ''p1'', p_orgId = ''o1'', p_name = ''app'', p_repoUrl = ''https://example.test/app.git'',
       p_buildYamlPath = ''signalman.build.yaml'', p_createdAt = ''2023-11-14T22:13:20.000Z'',
       p_updatedAt = ''2023-11-14T22:13:20.000Z'', p_deletedAt = None\<rparr>]\<rparr>) (dworld.fields [])) (bworld.fields [])"

lemma yard_ok: "quiet yard" "db_ok yard"
  by (simp_all add: yard_def world.defs dworld.defs bworld.defs world_eval)

lemmas yard_eval = yard_def world.defs dworld.defs bworld.defs world_eval firstViolation_def labBuild_def yardOptions_def

lemmas yard_sql = stmt_def insertInto_def constrained_def createRow_def selectOne_def selectAll_def updateWhere_def patchRow_def getLive_def mappingErrors_def
 bindM_run ret_run throwM_run readM_run modifyM_run nowIso_run newId_run catchM_def

lemma yard_paths: "joinPaths [''/work'', ''signalman.build.yaml''] = ''/work/signalman.build.yaml''" "resolvePath ''/'' ''/work'' ''out.bin'' = ''/work/out.bin''" by code_simp+

lemma yard_component: "substituteComponent (buildVariables ''v1'' ''c0ffee'') \<lparr>bc_name = ''api'', bc_build = \<lparr>bs_cwd = None, bs_command = ''make'', bs_args = None, bs_env = None\<rparr>,
       bc_artifacts = [BlobArtifact ''out.bin'' None]\<rparr> = Inr \<lparr>bc_name = ''api'', bc_build = \<lparr>bs_cwd = None, bs_command = ''make'', bs_args = None, bs_env = None\<rparr>,
       bc_artifacts = [BlobArtifact ''out.bin'' None]\<rparr>" by code_simp

lemma buildSigner_sel:
  "cy_sha256 buildSigner b = ''#'' @ b" "cy_createPrivateKey buildSigner = Inr" "cy_createPublicKey buildSigner = Inr" "cy_publicOf buildSigner k = k"
  "cy_fromDer buildSigner = Inr" "cy_der buildSigner k = k" "cy_keyKind buildSigner k = KeyEd25519" "cy_base64 buildSigner b = b" "cy_unbase64 buildSigner b = b"
  "cy_sign buildSigner alg key payload w = (Inr (alg @ payload), w)" "cy_verify buildSigner alg key payload sig = Inr (sig = alg @ payload)"
  "cy_parseDate buildSigner ts = Some 1700000003000"
  by (simp_all add: buildSigner_def)

lemma canonicalManifestBytes_nonempty: "canonicalManifestBytes m \<noteq> []"
  by (simp add: canonicalManifestBytes_def manifestValue_def)

lemma yard_request: "payload \<noteq> [] \<Longrightarrow> \<bar>now - 1700000003000\<bar> \<le> 60000 \<Longrightarrow> lp_nonceLengthBytes p = 16 \<Longrightarrow> lp_clockSkewToleranceMs p = 60000 \<Longrightarrow>
  validateRequest buildSigner p now \<lparr>rq_keyId = ''inline'', rq_payload = payload, rq_nonce = replicate 32 CHR ''0'',
             rq_requestedAt = ts, rq_purpose = ''release.manifest.legacy'', rq_actor = LEGACY_ACTOR\<rparr> = Inr ()"
proof -
  have "trim ''release.manifest.legacy'' \<noteq> []" "isHex (replicate 32 CHR ''0'') 32" by code_simp+
  then show "payload \<noteq> [] \<Longrightarrow> \<bar>now - 1700000003000\<bar> \<le> 60000 \<Longrightarrow> lp_nonceLengthBytes p = 16 \<Longrightarrow> lp_clockSkewToleranceMs p = 60000 \<Longrightarrow> ?thesis"
  by (simp add: validateRequest_def LEGACY_ACTOR_def buildSigner_def)
qed

lemma yard_signs: assumes "\<bar>clocks w (Suc (clockN w)) - 1700000003000\<bar> \<le> 60000"
  shows "signManifest buildSigner ''/keys'' (replicate 32 CHR ''0'') m ''PEM'' w = (Inr (''ed25519'' @ canonicalManifestBytes m, ''#PEM''), w\<lparr>clockN := clockN w + 3\<rparr>)"
  using assms unfolding signManifest_def
  by (simp add: buildSigner_sel fromInlinePem_def bindE_def detectClassicalAlgorithm_def resolveForSign_def signing_def orThrow_def signSync_def bindM_run liftDb_def dateNow_run nowIso_run ret_run yard_request canonicalManifestBytes_nonempty 
    signEntry_def runSign_def SUPPORTED_ALGORITHMS_def classicalSubKey_def fingerprintFromBytes_def numeral_3_eq_3)

lemma yard_builds: "\<exists>r w'. runBuild (labBuild 0) yardOptions yard = (Inr r, w') \<and> map af_sha256 (br_artifacts r) = [Some ''cafe'']"
  by (simp add: runBuild_def buildPrepare_def product_get_def release_getByTag_def readBuildYaml_def Let_def release_create_def audit_append_def yard_sql yard_eval yard_paths validateBuildYaml_def
   duplicateIssues_def buildBody_def yard_component buildComponentStep_def throwing_def runComponentBuild_def runRawCommand_def produceStep_def captureAll_def captureArtifact_def putBlob_def artifact_create_def
   optionalSignature_def truthy_def yard_signs release_update_def readyPatch_def)

lemma yard_silent: "silentSigner (be_sign (labBuild c))"
  by (simp add: silentSigner_def labBuild_def buildSigner_sel)

lemma yard_keys: "matchingPems (be_sign (labBuild c)) ''PEM'' ''PEM'' payload"
  by (simp add: matchingPems_def labBuild_def buildSigner_sel soundKey_def soundCodec_def classicalSubKey_def SUPPORTED_ALGORITHMS_def)

lemma yard_tables: "releases yard = []" "artifacts yard = []"
  by (simp_all add: yard_eval)

theorem build_settles_witness:
  "\<exists>r w'. runBuild (labBuild 0) yardOptions yard = (Inr r, w') \<and> releases w' = [br_release r] \<and> r_status (br_release r) = RReady \<and>
     artifacts w' = br_artifacts r \<and> map af_sha256 (br_artifacts r) = [Some ''cafe'']"
proof -
  obtain r w' where run: "runBuild (labBuild 0) yardOptions yard = (Inr r, w')" "map af_sha256 (br_artifacts r) = [Some ''cafe'']"
    using yard_builds by (elim exE conjE)
  then show ?thesis using build_settles [OF yard_ok yard_silent run(1)] by (simp add: yard_tables)
qed

theorem built_release_verifies_witness:
  "\<exists>r w' product w''. runBuild (labBuild 0) yardOptions yard = (Inr r, w') \<and> map af_sha256 (br_artifacts r) = [Some ''cafe''] \<and>
     runReleaseVerify (be_sign (labBuild 0)) (r_id (br_release r)) ''PEM'' w'
       = (Inr \<lparr>rv_release = br_release r, rv_product = product, rv_verified = True, rv_reason = None\<rparr>, w'')"
proof -
  obtain r w' where run: "runBuild (labBuild 0) yardOptions yard = (Inr r, w')" "map af_sha256 (br_artifacts r) = [Some ''cafe'']"
    using yard_builds by (elim exE conjE)
  have "bo_signingKeyPem yardOptions = Some ''PEM''" "''PEM'' \<noteq> []" by (simp_all add: yardOptions_def)
  from built_release_verifies [OF yard_ok yard_silent run(1) this yard_keys] run show ?thesis by (elim exE) (intro exI conjI)
qed

text \<open>A catalogue with a signed release; later it also holds a withdrawn artifact.\<close>

definition shelfArtifact :: "string \<Rightarrow> string option \<Rightarrow> artifact" where
  "shelfArtifact i deleted = \<lparr>af_id = i, af_releaseId = ''r1'', af_component = ''api'', af_kind = ABlob, af_sha256 = Some ''cafe'', af_sizeBytes = Some 3,
     af_blobUri = Some ''blob:1'', af_imageRef = None, af_createdAt = ''2023-11-14T22:13:20.000Z'', af_updatedAt = ''2023-11-14T22:13:20.000Z'',
     af_deletedAt = deleted\<rparr>"

definition shelfManifest :: releaseManifest where
  "shelfManifest = buildManifest ''app'' ''v1'' ''c0ffee'' [artifactEntry (shelfArtifact ''a1'' None)]"

definition shelfRelease :: release where
  "shelfRelease = \<lparr>r_id = ''r1'', r_orgId = ''o1'', r_productId = ''p1'', r_tag = ''v1'', r_commitSha = ''c0ffee'',
     r_manifestSha256 = Some (hashManifest (cy_sha256 labSigner) shelfManifest), r_signedBy = Some ''PEM'',
     r_signatureB64 = Some (''ed25519'' @ canonicalManifestBytes shelfManifest), r_builtAt = None, r_builtByRunnerId = None, r_status = RReady,
     r_buildYamlJson = None, r_createdAt = ''2023-11-14T22:13:20.000Z'', r_updatedAt = ''2023-11-14T22:13:20.000Z'', r_deletedAt = None\<rparr>"

definition shelfWorld :: "artifact list \<Rightarrow> world" where
  "shelfWorld arts = orgWorld\<lparr>products := [\<lparr>p_id = ''p1'', p_orgId = ''o1'', p_name = ''app'', p_repoUrl = ''https://example.test/app.git'',
       p_buildYamlPath = ''signalman.build.yaml'', p_createdAt = ''2023-11-14T22:13:20.000Z'',
       p_updatedAt = ''2023-11-14T22:13:20.000Z'', p_deletedAt = None\<rparr>], releases := [shelfRelease], artifacts := arts\<rparr>"

lemma shelf_sha: "cy_sha256 labSigner b = b"
  by (simp add: labSigner_def)

lemma shelf_accepts: "verifyManifest labSigner shelfManifest (''ed25519'' @ canonicalManifestBytes shelfManifest) ''PEM'' ''PEM'' = Inr ()"
  by (simp add: verifyManifest_def fingerprintPublicKey_def bindE_def Let_def publicKeyRefFromPem_def detectClassicalAlgorithm_def fingerprintFromBytes_def
      verifySync_def envelopeRefusal_def considered_def verifyEntry_def matchingKey_def materializePublicKey_def runVerify_def SUPPORTED_ALGORITHMS_def lab_signing)

lemma shelf_verifies:
  assumes "filter (\<lambda>a. af_releaseId a = ''r1'' \<and> af_deletedAt a = None) arts = [shelfArtifact ''a1'' None]"
  shows "\<exists>v w'. runReleaseVerify labSigner ''r1'' ''PEM'' (shelfWorld arts) = (Inr v, w') \<and> rv_verified v \<and> rv_release v = shelfRelease \<and>
    p_name (rv_product v) = ''app''"
proof -
  have r: "r_id shelfRelease = ''r1''" "r_productId shelfRelease = ''p1''" "r_deletedAt shelfRelease = None" "r_tag shelfRelease = ''v1''" "r_commitSha shelfRelease = ''c0ffee''"
    "r_signedBy shelfRelease = Some ''PEM''" "r_signatureB64 shelfRelease = Some (''ed25519'' @ canonicalManifestBytes shelfManifest)"
    "r_manifestSha256 shelfRelease = Some (hashManifest (cy_sha256 labSigner) shelfManifest)"
    by (simp_all add: shelfRelease_def)
  have m: "buildManifest ''app'' ''v1'' ''c0ffee'' [artifactEntry (shelfArtifact ''a1'' None)] = shelfManifest" by (simp add: shelfManifest_def)
  show ?thesis
    by (simp add: runReleaseVerify_def release_get_def product_get_def artifact_listForRelease_def yard_sql shelfWorld_def orgWorld_def freshWorld_def r truthy_def
        assms orderBy_def m Let_def shelf_accepts [simplified])
qed

theorem verified_release_unchanged_witness:
  "\<exists>v1 w1' v2 w2'. runReleaseVerify labSigner ''r1'' ''PEM'' (shelfWorld [shelfArtifact ''a1'' None]) = (Inr v1, w1') \<and>
     runReleaseVerify labSigner ''r1'' ''PEM'' (shelfWorld [shelfArtifact ''a0'' (Some ''now''), shelfArtifact ''a1'' None]) = (Inr v2, w2') \<and>
     r_commitSha (rv_release v1) = r_commitSha (rv_release v2)"
proof -
  obtain v1 w1' where 1: "runReleaseVerify labSigner ''r1'' ''PEM'' (shelfWorld [shelfArtifact ''a1'' None]) = (Inr v1, w1')" "rv_verified v1" "rv_release v1 = shelfRelease"
    using shelf_verifies [of "[shelfArtifact ''a1'' None]"] by (auto simp: shelfArtifact_def)
  obtain v2 w2' where 2: "runReleaseVerify labSigner ''r1'' ''PEM'' (shelfWorld [shelfArtifact ''a0'' (Some ''now''), shelfArtifact ''a1'' None]) = (Inr v2, w2')"
    "rv_verified v2" "rv_release v2 = shelfRelease"
    using shelf_verifies [of "[shelfArtifact ''a0'' (Some ''now''), shelfArtifact ''a1'' None]"] by (auto simp: shelfArtifact_def)
  have h: "r_manifestSha256 (rv_release v1) = Some (canonicalManifestBytes shelfManifest)" "r_manifestSha256 (rv_release v2) = Some (canonicalManifestBytes shelfManifest)"
    using 1 2 by (simp_all add: shelfRelease_def hashManifest_def shelf_sha)
  show ?thesis
    using verified_release_unchanged [OF 1(1,2) 2(1,2) h] 1(1) 2(1) by (simp add: shelf_sha)
qed

end
