(* ===== verification/Tar.thy ===== *)
theory Tar
  imports Js
begin

unbundle bit_operations_syntax

text \<open>
  The streaming tar parser of the registry (\<open>registry/src/hf/tar.ts\<close>): the reader that cuts a stream of
  chunks into blocks, the numeric and text fields of a header, and the loop that hands every regular
  file to a callback.  A source is the list of its chunks and whether it fails or ends after them; a
  payload reaches the callback as the chunks that were written to it and how it ended.  Bytes are
  characters, and texts are their bytes.
\<close>

section \<open>The source\<close>

datatype hfFailure = HfError string string | StreamFailed string

definition uploadInvalid :: "string \<Rightarrow> hfFailure" where
  "uploadInvalid message = HfError ''UPLOAD_INVALID'' message"

record reader =
  rd_source :: "string list"
  rd_failure :: "string option"
  rd_leftover :: string
  rd_done :: bool

definition bufferedReader :: "string list \<Rightarrow> string option \<Rightarrow> reader" where
  "bufferedReader chunks failure = \<lparr>rd_source = chunks, rd_failure = failure, rd_leftover = [], rd_done = False\<rparr>"

function readExactly :: "nat \<Rightarrow> reader \<Rightarrow> hfFailure + string option \<times> reader" where
  "readExactly n rd =
     (if n \<le> length (rd_leftover rd) then Inr (Some (take n (rd_leftover rd)), rd\<lparr>rd_leftover := drop n (rd_leftover rd)\<rparr>)
      else if rd_done rd then Inr (None, rd)
      else case rd_source rd of
        [] \<Rightarrow> (case rd_failure rd of Some m \<Rightarrow> Inl (StreamFailed m) | None \<Rightarrow> Inr (None, rd\<lparr>rd_done := True\<rparr>))
      | chunk # rest \<Rightarrow> readExactly n (rd\<lparr>rd_leftover := rd_leftover rd @ chunk, rd_source := rest\<rparr>))"
  by pat_completeness auto

termination readExactly
  by (relation "measure (\<lambda>(n, rd). length (rd_source rd))") auto

declare readExactly.simps [simp del]

definition readUpTo :: "nat \<Rightarrow> reader \<Rightarrow> hfFailure + string option \<times> reader" where
  "readUpTo n rd =
     (if rd_leftover rd \<noteq> [] then
        let taken = min (length (rd_leftover rd)) n in
        Inr (Some (take taken (rd_leftover rd)), rd\<lparr>rd_leftover := drop taken (rd_leftover rd)\<rparr>)
      else if rd_done rd then Inr (None, rd)
      else case rd_source rd of
        [] \<Rightarrow> (case rd_failure rd of Some m \<Rightarrow> Inl (StreamFailed m) | None \<Rightarrow> Inr (None, rd\<lparr>rd_done := True\<rparr>))
      | chunk # rest \<Rightarrow>
          if length chunk \<le> n then Inr (Some chunk, rd\<lparr>rd_source := rest\<rparr>)
          else Inr (Some (take n chunk), rd\<lparr>rd_source := rest, rd_leftover := drop n chunk\<rparr>))"

definition drain :: "reader \<Rightarrow> hfFailure + unit" where
  "drain rd = (if rd_done rd then Inr () else case rd_failure rd of Some m \<Rightarrow> Inl (StreamFailed m) | None \<Rightarrow> Inr ())"

section \<open>Headers\<close>

definition BLOCK_SIZE :: nat where
  "BLOCK_SIZE = 512"

record parsedHeader =
  hd_name :: string
  hd_size :: int
  hd_type :: char
  hd_mode :: int
  hd_mtime :: int

definition byteOf :: "char \<Rightarrow> int" where
  "byteOf c = of_char c"

definition subarray :: "nat \<Rightarrow> nat \<Rightarrow> string \<Rightarrow> string" where
  "subarray a b block = take (b - a) (drop a block)"

definition readCString :: "string \<Rightarrow> string" where
  "readCString buf = takeWhile (\<lambda>c. c \<noteq> CHR 0x00) buf"

definition MAX_SAFE_INTEGER :: int where
  "MAX_SAFE_INTEGER = 2 ^ 53 - 1"

text \<open>The base-256 digits after the first byte, as long as the number stays exact.\<close>

fun base256 :: "int \<Rightarrow> string \<Rightarrow> hfFailure + int" where
  "base256 n [] = Inr n"
| "base256 n (b # bs) =
     (let n' = n * 256 + byteOf b in
      if n' > MAX_SAFE_INTEGER then Inl (uploadInvalid ''tar numeric field exceeds Number.MAX_SAFE_INTEGER'') else base256 n' bs)"

definition octalDigit :: "char \<Rightarrow> bool" where
  "octalDigit c \<longleftrightarrow> CHR ''0'' \<le> c \<and> c \<le> CHR ''7''"

definition octalValue :: "string \<Rightarrow> int" where
  "octalValue s = foldl (\<lambda>n c. n * 8 + (byteOf c - 48)) 0 s"

definition blankByte :: "char \<Rightarrow> bool" where
  "blankByte c \<longleftrightarrow> c = CHR 0x00 \<or> c = CHR 0x20"

definition trimField :: "string \<Rightarrow> string" where
  "trimField buf = dropWhile (\<lambda>c. c = CHR 0x20) (rev (dropWhile blankByte (rev buf)))"

definition parseOctal :: "string \<Rightarrow> hfFailure + int" where
  "parseOctal buf =
     (case buf of
        [] \<Rightarrow> Inr 0
      | b # bs \<Rightarrow>
          if byteOf b AND 0x80 \<noteq> 0 then
            bindE (base256 0 bs) (\<lambda>n. Inr (if byteOf b AND 0x40 \<noteq> 0 then - n else n))
          else
            let s = trimField buf in
            if s = [] then Inr 0
            else if \<not> list_all octalDigit s then Inl (uploadInvalid (''tar numeric field '' @ [CHR 0x27] @ s @ [CHR 0x27] @ '' is not octal''))
            else Inr (octalValue s))"

text \<open>The sum of the bytes of a block, with the eight bytes of the checksum itself read as spaces.\<close>

definition blockChecksum :: "string \<Rightarrow> int" where
  "blockChecksum block = sum_list (map (\<lambda>(i, c). if 148 \<le> i \<and> i < 156 then 0x20 else byteOf c) (enumerate 0 block))"

definition parseUstarHeader :: "string \<Rightarrow> hfFailure + parsedHeader" where
  "parseUstarHeader block =
     (if length block \<noteq> BLOCK_SIZE then
        Inl (uploadInvalid (''tar header block size '' @ showNat (length block) @ '' != '' @ showNat BLOCK_SIZE))
      else
        bindE (parseOctal (subarray 148 156 block)) (\<lambda>declaredChecksum.
        let computed = blockChecksum block in
        if computed \<noteq> declaredChecksum then
          Inl (uploadInvalid (''tar header checksum mismatch: declared '' @ showInt declaredChecksum @ '', computed '' @ showInt computed))
        else
          let name = readCString (subarray 0 100 block) in
          bindE (parseOctal (subarray 100 108 block)) (\<lambda>mode.
          bindE (parseOctal (subarray 124 136 block)) (\<lambda>size.
          bindE (parseOctal (subarray 136 148 block)) (\<lambda>mtime.
          let magic = subarray 257 263 block;
              prefix = readCString (subarray 345 500 block);
              fullName = (if startsWith magic ''ustar'' \<and> prefix \<noteq> [] then prefix @ ''/'' @ name else name) in
          Inr \<lparr>hd_name = fullName, hd_size = size, hd_type = block ! 156, hd_mode = mode, hd_mtime = mtime\<rparr>)))))"

definition isZeroBlock :: "string \<Rightarrow> bool" where
  "isZeroBlock block \<longleftrightarrow> list_all (\<lambda>c. c = CHR 0x00) block"

section \<open>The loop over the entries\<close>

record tarEntry =
  te_name :: string
  te_type :: char
  te_size :: int
  te_mode :: int
  te_mtime :: int

definition entryOf :: "parsedHeader \<Rightarrow> tarEntry" where
  "entryOf h = \<lparr>te_name = hd_name h, te_type = hd_type h, te_size = hd_size h, te_mode = hd_mode h, te_mtime = hd_mtime h\<rparr>"

text \<open>
  How the stream of a payload ends for its consumer: at its end, destroyed with an error, or never,
  when the source failed while it was read.
\<close>

datatype payloadEnd = Ended | Destroyed hfFailure | Stalled

type_synonym 's onEntry = "tarEntry \<Rightarrow> string list \<Rightarrow> payloadEnd \<Rightarrow> ('s, hfFailure, unit) M"

definition inQuotes :: "string \<Rightarrow> string" where
  "inQuotes s = [CHR 0x27] @ s @ [CHR 0x27]"

text \<open>What the loop does with an entry of a type: refuse it, step over it, or hand it on.\<close>

datatype entryFate = Refuse hfFailure | SkipEntry | HandOn

definition entryVerdict :: "parsedHeader \<Rightarrow> entryFate" where
  "entryVerdict h =
     (let t = hd_type h; entry = ''tar entry '' @ inQuotes (hd_name h) in
      if t = CHR ''L'' \<or> t = CHR ''K'' \<or> t = CHR ''x'' \<or> t = CHR ''g'' then
        Refuse (uploadInvalid (entry @ '' uses unsupported extended header type '' @ inQuotes [t] @ ''; re-tar with --format=ustar''))
      else if t = CHR ''2'' \<or> t = CHR ''1'' then
        Refuse (uploadInvalid (entry @ '' is a symlink / hardlink; reject per upload policy''))
      else if t = CHR ''3'' \<or> t = CHR ''4'' \<or> t = CHR ''6'' then
        Refuse (uploadInvalid (entry @ '' is a device file / FIFO; reject per upload policy''))
      else if t = CHR ''5'' then SkipEntry
      else if t \<noteq> CHR ''0'' \<and> t \<noteq> CHR 0x00 \<and> t \<noteq> CHR ''7'' then
        Refuse (uploadInvalid (entry @ '' has unknown typeflag '' @ inQuotes [t]))
      else HandOn)"

text \<open>The chunks written to a payload, and the reader after them; or how many bytes were missing, or the failure of the source.\<close>

datatype fed = FedAll "string list" reader | FedShort "string list" int | FedFailed "string list" hfFailure

lemma readUpTo_shrinks:
  assumes "readUpTo n rd = Inr (Some c, rd')" and "0 < n"
  shows "length (rd_leftover rd') + sum_list (map (\<lambda>c. Suc (length c)) (rd_source rd'))
    < length (rd_leftover rd) + sum_list (map (\<lambda>c. Suc (length c)) (rd_source rd))"
  using assms by (auto simp: readUpTo_def Let_def split: if_splits list.splits option.splits)

function feedPayload :: "int \<Rightarrow> string list \<Rightarrow> reader \<Rightarrow> fed" where
  "feedPayload remaining sent rd =
     (if remaining > 0 then
        (case readUpTo (nat remaining) rd of
           Inl e \<Rightarrow> FedFailed sent e
         | Inr (None, rd') \<Rightarrow> FedShort sent remaining
         | Inr (Some chunk, rd') \<Rightarrow> feedPayload (remaining - int (length chunk)) (sent @ [chunk]) rd')
      else FedAll sent rd)"
  by pat_completeness auto

termination feedPayload
  by (relation "measure (\<lambda>(remaining, sent, rd). length (rd_leftover rd) + sum_list (map (\<lambda>c. Suc (length c)) (rd_source rd)))")
    (auto dest!: readUpTo_shrinks)

declare feedPayload.simps [simp del]

text \<open>JavaScript's remainder has the sign of the dividend.\<close>

definition jsRem :: "int \<Rightarrow> int \<Rightarrow> int" where
  "jsRem a b = sgn a * (\<bar>a\<bar> mod \<bar>b\<bar>)"

text \<open>The bytes after a payload up to the next block.\<close>

definition skipPadding :: "parsedHeader \<Rightarrow> reader \<Rightarrow> hfFailure + reader" where
  "skipPadding h rd =
     (let tail = jsRem (hd_size h) (int BLOCK_SIZE) in
      if tail \<noteq> 0 then
        bindE (readExactly (nat (int BLOCK_SIZE - tail)) rd) (\<lambda>(padding, rd').
        case padding of
          None \<Rightarrow> Inl (uploadInvalid (''tar entry '' @ inQuotes (hd_name h) @ '' missing padding to block boundary''))
        | Some _ \<Rightarrow> Inr rd')
      else Inr rd)"

section \<open>What a reader still holds\<close>

definition held :: "reader \<Rightarrow> string" where
  "held rd = rd_leftover rd @ concat (rd_source rd)"

text \<open>A reader that has seen the end of its source has no chunk left, and the source did not fail.\<close>

definition readerOk :: "reader \<Rightarrow> bool" where
  "readerOk rd \<longleftrightarrow> (rd_done rd \<longrightarrow> rd_source rd = [] \<and> rd_failure rd = None)"

lemma held_bufferedReader [simp]: "held (bufferedReader chunks failure) = concat chunks" "readerOk (bufferedReader chunks failure)"
  "rd_failure (bufferedReader chunks failure) = failure"
  by (simp_all add: held_def bufferedReader_def readerOk_def)

lemma readExactly_enough:
  assumes "n \<le> length (held rd)" and "readerOk rd"
  shows "\<exists>rd'. readExactly n rd = Inr (Some (take n (held rd)), rd') \<and> held rd' = drop n (held rd) \<and> readerOk rd' \<and> rd_failure rd' = rd_failure rd"
  using assms
proof (induction n rd rule: readExactly.induct)
  case (1 n rd)
  show ?case
  proof (cases "n \<le> length (rd_leftover rd)")
    case True
    then show ?thesis using 1(3) by (subst readExactly.simps) (simp add: held_def readerOk_def)
  next
    case False
    then obtain chunk rest where src: "rd_source rd = chunk # rest"
      using 1(2) by (cases "rd_source rd") (auto simp: held_def)
    then have "\<not> rd_done rd" using 1(3) by (auto simp: readerOk_def)
    from 1(1) [OF False this src] show ?thesis
      using 1(2,3) False src \<open>\<not> rd_done rd\<close> by (subst readExactly.simps) (simp add: held_def readerOk_def)
  qed
qed

lemma readExactly_short:
  assumes "length (held rd) < n" and "readerOk rd"
  shows "case rd_failure rd of Some m \<Rightarrow> readExactly n rd = Inl (StreamFailed m) | None \<Rightarrow> \<exists>rd'. readExactly n rd = Inr (None, rd')"
  using assms
proof (induction n rd rule: readExactly.induct)
  case (1 n rd)
  from 1(2) have short: "\<not> n \<le> length (rd_leftover rd)" by (simp add: held_def)
  show ?case
  proof (cases "rd_done rd")
    case True
    then show ?thesis using 1(3) short by (subst readExactly.simps) (simp add: readerOk_def)
  next
    case False
    note step = 1(1) [OF short False] and prems = 1(2,3)
    show ?thesis
    proof (cases "rd_source rd")
      case Nil
      then show ?thesis using False short by (subst (1 2) readExactly.simps) (auto split: option.split)
    next
      case (Cons chunk rest)
      have "readExactly n rd = readExactly n (rd\<lparr>rd_leftover := rd_leftover rd @ chunk, rd_source := rest\<rparr>)"
        using Cons False short by (subst readExactly.simps) simp
      then show ?thesis unfolding \<open>readExactly n rd = _\<close> using step [OF Cons] prems Cons by (simp add: held_def readerOk_def)
    qed
  qed
qed

lemma readUpTo_enough:
  assumes "held rd \<noteq> [] \<or> rd_source rd \<noteq> []" and "readerOk rd" and "0 < n"
  shows "\<exists>c rd'. readUpTo n rd = Inr (Some c, rd') \<and> length c \<le> n \<and> held rd = c @ held rd' \<and> readerOk rd' \<and> rd_failure rd' = rd_failure rd"
  using assms by (auto simp: readUpTo_def held_def readerOk_def Let_def min_def split: list.split)

lemma readUpTo_short:
  assumes "held rd = []" and "rd_source rd = []" and "readerOk rd"
  shows "case rd_failure rd of Some m \<Rightarrow> readUpTo n rd = Inl (StreamFailed m) | None \<Rightarrow> \<exists>rd'. readUpTo n rd = Inr (None, rd')"
  using assms by (auto simp: readUpTo_def held_def readerOk_def split: option.split)

lemma feedPayload_spec:
  assumes "readerOk rd"
  shows "if nat remaining \<le> length (held rd)
    then \<exists>cs rd'. feedPayload remaining sent rd = FedAll (sent @ cs) rd' \<and> concat cs = take (nat remaining) (held rd) \<and>
      held rd' = drop (nat remaining) (held rd) \<and> readerOk rd' \<and> rd_failure rd' = rd_failure rd
    else \<exists>cs. concat cs = held rd \<and> (case rd_failure rd of
        Some m \<Rightarrow> feedPayload remaining sent rd = FedFailed (sent @ cs) (StreamFailed m)
      | None \<Rightarrow> feedPayload remaining sent rd = FedShort (sent @ cs) (remaining - int (length (held rd))))"
  using assms
proof (induction remaining sent rd rule: feedPayload.induct)
  case (1 remaining sent rd)
  show ?case
  proof (cases "remaining > 0")
    case False
    then show ?thesis using 1(2) by (subst feedPayload.simps) (auto intro!: exI [of _ "[]"])
  next
    case pos: True
    show ?thesis
    proof (cases "held rd = [] \<and> rd_source rd = []")
      case True
      then have "case rd_failure rd of Some m \<Rightarrow> readUpTo (nat remaining) rd = Inl (StreamFailed m) | None \<Rightarrow> \<exists>rd'. readUpTo (nat remaining) rd = Inr (None, rd')"
        using readUpTo_short 1(2) by blast
      then show ?thesis
        using pos True by (subst (1 2 3) feedPayload.simps) (auto intro!: exI [of _ "[]"] split: option.splits)
    next
      case False
      then obtain c rd' where c: "readUpTo (nat remaining) rd = Inr (Some c, rd')" "length c \<le> nat remaining" "held rd = c @ held rd'" "readerOk rd'"
        "rd_failure rd' = rd_failure rd"
        using readUpTo_enough [of rd "nat remaining"] 1(2) pos by auto
      have feed: "feedPayload remaining sent rd = feedPayload (remaining - int (length c)) (sent @ [c]) rd'"
        using c(1) pos by (subst feedPayload.simps) simp
      have nat: "nat (remaining - int (length c)) = nat remaining - length c" by simp
      note ih = 1(1) [OF pos c(1) refl refl c(4), unfolded nat c(5)]
      show ?thesis
      proof (cases "nat remaining \<le> length (held rd)")
        case True
        with c have "nat remaining - length c \<le> length (held rd')" by simp
        with ih obtain cs rd2 where "feedPayload (remaining - int (length c)) (sent @ [c]) rd' = FedAll ((sent @ [c]) @ cs) rd2"
          "concat cs = take (nat remaining - length c) (held rd')" "held rd2 = drop (nat remaining - length c) (held rd')" "readerOk rd2"
          "rd_failure rd2 = rd_failure rd" by auto
        with c True show ?thesis unfolding feed by (auto intro!: exI [of _ "c # cs"])
      next
        case False
        with c have "\<not> nat remaining - length c \<le> length (held rd')" by simp
        with ih obtain cs where "concat cs = held rd'" "case rd_failure rd of
            Some m \<Rightarrow> feedPayload (remaining - int (length c)) (sent @ [c]) rd' = FedFailed ((sent @ [c]) @ cs) (StreamFailed m)
          | None \<Rightarrow> feedPayload (remaining - int (length c)) (sent @ [c]) rd' = FedShort ((sent @ [c]) @ cs) (remaining - int (length c) - int (length (held rd')))"
          by auto
        with c False show ?thesis unfolding feed by (auto intro!: exI [of _ "c # cs"] split: option.splits)
      qed
    qed
  qed
qed

lemma readExactly_length:
  "readExactly n rd = Inr (Some b, rd') \<Longrightarrow> length (held rd') + n = length (held rd)"
proof (induction n rd rule: readExactly.induct)
  case (1 n rd)
  note ih = 1(1) and eq = 1(2)
  show ?case
    using eq ih by (subst (asm) readExactly.simps) (auto simp: held_def split: if_splits list.splits option.splits)
qed

lemma readUpTo_length: "readUpTo n rd = Inr (Some c, rd') \<Longrightarrow> length (held rd') \<le> length (held rd)"
  by (auto simp: readUpTo_def held_def Let_def split: if_splits list.splits option.splits)

lemma feedPayload_length: "feedPayload n sent rd = FedAll sent' rd' \<Longrightarrow> length (held rd') \<le> length (held rd)"
proof (induction n sent rd rule: feedPayload.induct)
  case (1 n sent rd)
  show ?case
  proof (cases "n > 0")
    case True
    with 1(2) obtain c rd1 where c: "readUpTo (nat n) rd = Inr (Some c, rd1)" "feedPayload (n - int (length c)) (sent @ [c]) rd1 = FedAll sent' rd'"
      by (subst (asm) feedPayload.simps) (auto split: sum.splits option.splits)
    from 1(1) [OF True c(1) refl refl c(2)] readUpTo_length [OF c(1)] show ?thesis by simp
  next
    case False
    with 1(2) show ?thesis by (subst (asm) feedPayload.simps) simp
  qed
qed

lemma skipPadding_length: "skipPadding h rd = Inr rd' \<Longrightarrow> length (held rd') \<le> length (held rd)"
  by (auto simp: skipPadding_def Let_def bindE_Inr split: if_splits option.splits dest: readExactly_length)

section \<open>Parsing an archive\<close>

definition truncatedEntry :: "parsedHeader \<Rightarrow> hfFailure" where
  "truncatedEntry h = uploadInvalid (''tar entry '' @ inQuotes (hd_name h) @ '' truncated'')"

definition truncatedPayload :: "parsedHeader \<Rightarrow> int \<Rightarrow> hfFailure" where
  "truncatedPayload h remaining = uploadInvalid (''tar entry '' @ inQuotes (hd_name h) @ '' truncated: expected '' @ showInt (hd_size h)
     @ '' bytes; saw '' @ showInt (hd_size h - remaining))"

function tarLoop :: "'s onEntry \<Rightarrow> reader \<Rightarrow> nat \<Rightarrow> ('s, hfFailure, unit) M" where
  "tarLoop onEntry rd zeroBlocksSeen =
     (case readExactly BLOCK_SIZE rd of
        Inl e \<Rightarrow> throwM e
      | Inr (None, rd1) \<Rightarrow> ret ()
      | Inr (Some block, rd1) \<Rightarrow>
          if isZeroBlock block then
            if zeroBlocksSeen + 1 \<ge> 2 then (case drain rd1 of Inl e \<Rightarrow> throwM e | Inr _ \<Rightarrow> ret ())
            else tarLoop onEntry rd1 (zeroBlocksSeen + 1)
          else (case parseUstarHeader block of
              Inl e \<Rightarrow> throwM e
            | Inr h \<Rightarrow> (case entryVerdict h of
                Refuse e \<Rightarrow> throwM e
              | SkipEntry \<Rightarrow> tarLoop onEntry rd1 0
              | HandOn \<Rightarrow> (case feedPayload (hd_size h) [] rd1 of
                  FedFailed sent e \<Rightarrow> bindM (tryM (onEntry (entryOf h) sent Stalled)) (\<lambda>_. throwM e)
                | FedShort sent remaining \<Rightarrow>
                    bindM (tryM (onEntry (entryOf h) sent (Destroyed (truncatedPayload h remaining)))) (\<lambda>_. throwM (truncatedEntry h))
                | FedAll sent rd2 \<Rightarrow>
                    bindM (onEntry (entryOf h) sent Ended) (\<lambda>_.
                    case skipPadding h rd2 of Inl e \<Rightarrow> throwM e | Inr rd3 \<Rightarrow> tarLoop onEntry rd3 0)))))"
  by pat_completeness auto

termination tarLoop
  by (relation "measure (\<lambda>(onEntry, rd, z). length (held rd))")
    (auto dest!: readExactly_length feedPayload_length skipPadding_length simp: BLOCK_SIZE_def)

declare tarLoop.simps [simp del]

definition parseUstarTar :: "string list \<Rightarrow> string option \<Rightarrow> 's onEntry \<Rightarrow> ('s, hfFailure, unit) M" where
  "parseUstarTar chunks failure onEntry = tarLoop onEntry (bufferedReader chunks failure) 0"

section \<open>The archive as one string\<close>

text \<open>The same archive read from all of its bytes at once.\<close>

definition endOfSource :: "string option \<Rightarrow> hfFailure option \<Rightarrow> ('s, hfFailure, unit) M" where
  "endOfSource failure otherwise = (case failure of
       Some m \<Rightarrow> throwM (StreamFailed m)
     | None \<Rightarrow> (case otherwise of Some e \<Rightarrow> throwM e | None \<Rightarrow> ret ()))"

definition paddingLength :: "parsedHeader \<Rightarrow> nat" where
  "paddingLength h = (let tail = jsRem (hd_size h) (int BLOCK_SIZE) in if tail \<noteq> 0 then nat (int BLOCK_SIZE - tail) else 0)"

function tarBytes :: "'s onEntry \<Rightarrow> string option \<Rightarrow> string \<Rightarrow> nat \<Rightarrow> ('s, hfFailure, unit) M" where
  "tarBytes onEntry failure bytes zeros =
     (if length bytes < BLOCK_SIZE then endOfSource failure None
      else if isZeroBlock (take BLOCK_SIZE bytes) then
        if zeros = 0 then tarBytes onEntry failure (drop BLOCK_SIZE bytes) 1 else endOfSource failure None
      else (case parseUstarHeader (take BLOCK_SIZE bytes) of
          Inl e \<Rightarrow> throwM e
        | Inr h \<Rightarrow> (case entryVerdict h of
            Refuse e \<Rightarrow> throwM e
          | SkipEntry \<Rightarrow> tarBytes onEntry failure (drop BLOCK_SIZE bytes) 0
          | HandOn \<Rightarrow>
              let content = drop BLOCK_SIZE bytes; n = nat (hd_size h) in
              if length content < n then
                bindM (tryM (onEntry (entryOf h) [content] (if failure = None then Destroyed (truncatedPayload h (hd_size h - int (length content))) else Stalled)))
                  (\<lambda>_. endOfSource failure (Some (truncatedEntry h)))
              else
                bindM (onEntry (entryOf h) [take n content] Ended) (\<lambda>_.
                if length content < n + paddingLength h then
                  endOfSource failure (Some (uploadInvalid (''tar entry '' @ inQuotes (hd_name h) @ '' missing padding to block boundary'')))
                else tarBytes onEntry failure (drop (n + paddingLength h) content) 0))))"
  by pat_completeness auto

termination tarBytes
  by (relation "measure (\<lambda>(onEntry, failure, bytes, zeros). length bytes)") (auto simp: BLOCK_SIZE_def)

declare tarBytes.simps [simp del]

text \<open>A callback that does not care how its payload was cut.\<close>

definition chunkBlind :: "'s onEntry \<Rightarrow> bool" where
  "chunkBlind onEntry \<longleftrightarrow> (\<forall>e cs ds k. concat cs = concat ds \<longrightarrow> onEntry e cs k = onEntry e ds k)"

end
