(* ===== verification/Tar_Facts.thy ===== *)
theory Tar_Facts
  imports Tar
begin

text \<open>
  How the source was cut into chunks does not matter: the streaming parser does with every chunking what
  the reading of all the bytes at once does.
\<close>

lemma skipPadding_spec:
  assumes "readerOk rd"
  shows "if paddingLength h \<le> length (held rd)
    then \<exists>rd'. skipPadding h rd = Inr rd' \<and> held rd' = drop (paddingLength h) (held rd) \<and> readerOk rd' \<and> rd_failure rd' = rd_failure rd
    else skipPadding h rd = Inl (case rd_failure rd of Some m \<Rightarrow> StreamFailed m
      | None \<Rightarrow> uploadInvalid (''tar entry '' @ inQuotes (hd_name h) @ '' missing padding to block boundary''))"
proof (cases "jsRem (hd_size h) (int BLOCK_SIZE) = 0")
  case True
  then show ?thesis using assms by (simp add: skipPadding_def paddingLength_def)
next
  case False
  then have p: "paddingLength h = nat (int BLOCK_SIZE - jsRem (hd_size h) (int BLOCK_SIZE))" by (simp add: paddingLength_def Let_def)
  show ?thesis
  proof (cases "paddingLength h \<le> length (held rd)")
    case True
    from readExactly_enough [OF this assms] True False show ?thesis by (auto simp: skipPadding_def Let_def bindE_def p)
  next
    case short: False
    with readExactly_short [of rd "paddingLength h"] assms False show ?thesis
      by (auto simp: skipPadding_def Let_def bindE_def p split: option.splits)
  qed
qed

lemma drain_spec: "readerOk rd \<Longrightarrow> (case drain rd of Inl e \<Rightarrow> throwM e | Inr _ \<Rightarrow> ret ()) = endOfSource (rd_failure rd) None"
  by (auto simp: drain_def endOfSource_def readerOk_def split: option.split)

text \<open>A file that is handed on: its payload, whatever its chunks, then the padding.\<close>

lemma handed_bytes:
  assumes "chunkBlind onEntry" and "readerOk rd"
    and again: "\<And>rd' z. length (held rd') \<le> length (held rd) \<Longrightarrow> readerOk rd' \<Longrightarrow> rd_failure rd' = rd_failure rd \<Longrightarrow>
      tarLoop onEntry rd' z = tarBytes onEntry (rd_failure rd) (held rd') z"
  shows "(case feedPayload (hd_size h) [] rd of
      FedFailed sent e \<Rightarrow> bindM (tryM (onEntry (entryOf h) sent Stalled)) (\<lambda>_. throwM e)
    | FedShort sent remaining \<Rightarrow>
        bindM (tryM (onEntry (entryOf h) sent (Destroyed (truncatedPayload h remaining)))) (\<lambda>_. throwM (truncatedEntry h))
    | FedAll sent rd2 \<Rightarrow>
        bindM (onEntry (entryOf h) sent Ended) (\<lambda>_.
        case skipPadding h rd2 of Inl e \<Rightarrow> throwM e | Inr rd3 \<Rightarrow> tarLoop onEntry rd3 0)) =
    (if length (held rd) < nat (hd_size h) then
      bindM (tryM (onEntry (entryOf h) [held rd] (if rd_failure rd = None then Destroyed (truncatedPayload h (hd_size h - int (length (held rd)))) else Stalled)))
        (\<lambda>_. endOfSource (rd_failure rd) (Some (truncatedEntry h)))
     else
      bindM (onEntry (entryOf h) [take (nat (hd_size h)) (held rd)] Ended) (\<lambda>_.
      if length (held rd) < nat (hd_size h) + paddingLength h then
        endOfSource (rd_failure rd) (Some (uploadInvalid (''tar entry '' @ inQuotes (hd_name h) @ '' missing padding to block boundary'')))
      else tarBytes onEntry (rd_failure rd) (drop (nat (hd_size h) + paddingLength h) (held rd)) 0))"
proof -
  let ?n = "nat (hd_size h)"
  have blind: "onEntry e cs k = onEntry e [concat cs] k" for e cs k
    using assms(1) unfolding chunkBlind_def by (metis concat.simps(1,2) append_Nil2)
  show ?thesis
  proof (cases "?n \<le> length (held rd)")
    case True
    with feedPayload_spec [OF assms(2), of "hd_size h" "[]"] obtain cs rd2 where f: "feedPayload (hd_size h) [] rd = FedAll cs rd2"
      "concat cs = take ?n (held rd)" "held rd2 = drop ?n (held rd)" "readerOk rd2" "rd_failure rd2 = rd_failure rd" by auto
    have pad: "(case skipPadding h rd2 of Inl e \<Rightarrow> throwM e | Inr rd3 \<Rightarrow> tarLoop onEntry rd3 0) =
        (if length (held rd) < ?n + paddingLength h
         then endOfSource (rd_failure rd) (Some (uploadInvalid (''tar entry '' @ inQuotes (hd_name h) @ '' missing padding to block boundary'')))
         else tarBytes onEntry (rd_failure rd) (drop (?n + paddingLength h) (held rd)) 0)"
      using skipPadding_spec [OF f(4), of h] True
      by (auto simp: f(3,5) endOfSource_def again less_diff_conv2 add.commute split: if_splits option.splits)
    show ?thesis using f True by (simp add: blind [of _ cs] pad)
  next
    case False
    with feedPayload_spec [OF assms(2), of "hd_size h" "[]", unfolded append_Nil] obtain cs where "concat cs = held rd" "case rd_failure rd of
        Some m \<Rightarrow> feedPayload (hd_size h) [] rd = FedFailed cs (StreamFailed m)
      | None \<Rightarrow> feedPayload (hd_size h) [] rd = FedShort cs (hd_size h - int (length (held rd)))" by auto
    with False show ?thesis by (auto simp: blind [of _ cs] endOfSource_def split: option.splits)
  qed
qed

lemma tarLoop_bytes:
  assumes "chunkBlind onEntry" and "readerOk rd"
  shows "tarLoop onEntry rd zeros = tarBytes onEntry (rd_failure rd) (held rd) zeros"
  using assms(2)
proof (induction "length (held rd)" arbitrary: rd zeros rule: less_induct)
  case less
  show ?case
  proof (cases "length (held rd) < BLOCK_SIZE")
    case True
    with readExactly_short [OF True less.prems] show ?thesis
      by (subst tarLoop.simps, subst tarBytes.simps) (auto simp: endOfSource_def split: option.splits)
  next
    case False
    then obtain rd1 where r: "readExactly BLOCK_SIZE rd = Inr (Some (take BLOCK_SIZE (held rd)), rd1)" "held rd1 = drop BLOCK_SIZE (held rd)"
      "readerOk rd1" "rd_failure rd1 = rd_failure rd"
      using readExactly_enough [of BLOCK_SIZE rd] less.prems by auto
    have shorter: "length (held rd1) < length (held rd)" using False by (simp add: r(2) BLOCK_SIZE_def)
    have again: "tarLoop onEntry rd' z = tarBytes onEntry (rd_failure rd) (held rd') z"
      if "length (held rd') \<le> length (held rd1)" "readerOk rd'" "rd_failure rd' = rd_failure rd" for rd' z
      using less.hyps [of rd' z] that shorter by simp
    have hand: "(case feedPayload (hd_size h) [] rd1 of
          FedFailed sent e \<Rightarrow> bindM (tryM (onEntry (entryOf h) sent Stalled)) (\<lambda>_. throwM e)
        | FedShort sent remaining \<Rightarrow>
            bindM (tryM (onEntry (entryOf h) sent (Destroyed (truncatedPayload h remaining)))) (\<lambda>_. throwM (truncatedEntry h))
        | FedAll sent rd2 \<Rightarrow>
            bindM (onEntry (entryOf h) sent Ended) (\<lambda>_.
            case skipPadding h rd2 of Inl e \<Rightarrow> throwM e | Inr rd3 \<Rightarrow> tarLoop onEntry rd3 0)) =
      (let content = drop BLOCK_SIZE (held rd); n = nat (hd_size h) in
        if length content < n then
          bindM (tryM (onEntry (entryOf h) [content] (if rd_failure rd = None then Destroyed (truncatedPayload h (hd_size h - int (length content))) else Stalled)))
            (\<lambda>_. endOfSource (rd_failure rd) (Some (truncatedEntry h)))
        else
          bindM (onEntry (entryOf h) [take n content] Ended) (\<lambda>_.
          if length content < n + paddingLength h then
            endOfSource (rd_failure rd) (Some (uploadInvalid (''tar entry '' @ inQuotes (hd_name h) @ '' missing padding to block boundary'')))
          else tarBytes onEntry (rd_failure rd) (drop (n + paddingLength h) content) 0))" for h
      unfolding r(2) [symmetric] Let_def using handed_bytes [OF assms(1) r(3), of h] again by (simp add: r(4))
    show ?thesis
      by (subst tarLoop.simps, subst tarBytes.simps)
        (use False r again [of rd1] hand in \<open>simp add: drain_spec [OF r(3)] split: sum.split entryFate.split\<close>)
  qed
qed

text \<open>
  C40. Chunks do not matter.  For a callback that does not look at how its payload was cut, the streaming
  parser has the same effects and the same outcome on every source with the same bytes that ends the
  same way: those of reading the whole archive as one string, one block after the other.  This holds
  for broken archives and failing sources too, so no header, payload or padding that straddles chunks is
  ever misread, and no error depends on the network.
\<close>

theorem tar_chunks_irrelevant:
  assumes "chunkBlind onEntry"
  shows "parseUstarTar chunks failure onEntry = tarBytes onEntry failure (concat chunks) 0"
  unfolding parseUstarTar_def using tarLoop_bytes [OF assms, of "bufferedReader chunks failure" 0] by simp

section \<open>Whole archives\<close>

text \<open>The bytes of a file in an archive: its header, its content, and zeros up to the next block.\<close>

definition member :: "parsedHeader \<times> string \<times> string \<Rightarrow> string" where
  "member = (\<lambda>(h, block, content). block @ content @ replicate ((BLOCK_SIZE - length content mod BLOCK_SIZE) mod BLOCK_SIZE) CHR 0x00)"

definition regularFile :: "parsedHeader \<times> string \<times> string \<Rightarrow> bool" where
  "regularFile = (\<lambda>(h, block, content). length block = BLOCK_SIZE \<and> \<not> isZeroBlock block \<and> parseUstarHeader block = Inr h \<and>
     entryVerdict h = HandOn \<and> hd_size h = int (length content))"

lemma paddingLength_nat: "hd_size h = int n \<Longrightarrow> paddingLength h = (BLOCK_SIZE - n mod BLOCK_SIZE) mod BLOCK_SIZE"
proof -
  assume n: "hd_size h = int n"
  have "jsRem (int n) (int BLOCK_SIZE) = int (n mod BLOCK_SIZE)"
    by (cases "n = 0") (simp_all add: jsRem_def zmod_int sgn_if)
  with n show ?thesis by (simp add: paddingLength_def Let_def BLOCK_SIZE_def nat_diff_distrib)
qed

lemma tarBytes_member:
  assumes "regularFile (h, block, content)"
  shows "tarBytes onEntry failure (member (h, block, content) @ later) z = bindM (onEntry (entryOf h) [content] Ended) (\<lambda>_. tarBytes onEntry failure later 0)"
proof -
  have h: "parseUstarHeader block = Inr h" "entryVerdict h = HandOn" "hd_size h = int (length content)" "length block = BLOCK_SIZE" "\<not> isZeroBlock block"
    using assms by (auto simp: regularFile_def)
  define bytes where "bytes = member (h, block, content) @ later"
  have "take BLOCK_SIZE bytes = block" "\<not> length bytes < BLOCK_SIZE" "drop BLOCK_SIZE bytes = content @ replicate (paddingLength h) CHR 0x00 @ later"
    using h(4) by (simp_all add: bytes_def member_def paddingLength_nat [OF h(3)])
  then show ?thesis
    unfolding bytes_def [symmetric] by (subst tarBytes.simps) (simp add: h(1-3,5) Let_def)
qed

lemma tarBytes_marker: "tarBytes onEntry None (replicate (2 * BLOCK_SIZE) CHR 0x00 @ later) 0 = ret ()"
proof -
  have z: "isZeroBlock (replicate n CHR 0x00)" for n by (simp add: isZeroBlock_def list_all_iff)
  have s: "replicate (2 * BLOCK_SIZE) CHR 0x00 = replicate BLOCK_SIZE CHR 0x00 @ replicate BLOCK_SIZE CHR 0x00"
    by (simp add: replicate_add [symmetric] mult_2)
  show ?thesis
    unfolding s by (subst tarBytes.simps, simp add: z, subst tarBytes.simps, simp add: z endOfSource_def)
qed


section \<open>A small archive\<close>

text \<open>One file named \<open>a\<close> with three bytes, and a callback that keeps what it was given.\<close>

definition labBlock :: string where
  "labBlock = ''a'' @ replicate 99 CHR 0x00 @ ''0000644'' @ replicate 17 CHR 0x00 @ ''00000000003'' @ [CHR 0x00] @ ''00000000000'' @ [CHR 0x00]
     @ ''003422'' @ [CHR 0x00] @ '' 0'' @ replicate 355 CHR 0x00"

definition labHeader :: parsedHeader where
  "labHeader = \<lparr>hd_name = ''a'', hd_size = 3, hd_type = CHR ''0'', hd_mode = 420, hd_mtime = 0\<rparr>"

definition keepEntry :: "(string \<times> string) list onEntry" where
  "keepEntry e cs k = (\<lambda>kept. (Inr (), kept @ [(te_name e, concat cs)]))"

definition labArchive :: string where
  "labArchive = member (labHeader, labBlock, ''xyz'') @ replicate (2 * BLOCK_SIZE) CHR 0x00"

lemma labBlock_parses: "parseUstarHeader labBlock = Inr labHeader"
  by code_simp

lemma keepEntry_blind: "chunkBlind keepEntry"
  by (simp add: chunkBlind_def keepEntry_def)

lemma labFile: "regularFile (labHeader, labBlock, ''xyz'')"
proof -
  have "length labBlock = BLOCK_SIZE" "\<not> isZeroBlock labBlock" by (simp_all add: labBlock_def BLOCK_SIZE_def isZeroBlock_def)
  moreover have "entryVerdict labHeader = HandOn" "hd_size labHeader = 3" by (simp_all add: entryVerdict_def labHeader_def Let_def)
  ultimately show ?thesis by (simp add: regularFile_def labBlock_parses)
qed

theorem tar_chunks_irrelevant_witness:
  "parseUstarTar [take 700 labArchive, [], drop 700 labArchive] (Some ''ECONNRESET'') keepEntry
     = tarBytes keepEntry (Some ''ECONNRESET'') labArchive 0"
  using tar_chunks_irrelevant [OF keepEntry_blind, of "[take 700 labArchive, [], drop 700 labArchive]" "Some ''ECONNRESET''"] by simp


end
