(* ===== verification/Cloud_Cost.thy ===== *)
theory Cloud_Cost
  imports Cloud_Types
begin

text \<open>
  The static price table (\<open>cloud/cost.ts\<close>).  The code multiplies binary doubles and rounds the product up,
  where the last bit decides a cent, so the products here are rounded like doubles: to 53 binary digits,
  ties to even.  Prices stay far from the ends of the range of doubles.
\<close>

section \<open>Doubles\<close>

fun bitLength :: "nat \<Rightarrow> nat" where
  "bitLength n = (if n = 0 then 0 else Suc (bitLength (n div 2)))"

declare bitLength.simps [simp del]

definition roundEven :: "rat \<Rightarrow> int" where
  "roundEven y = (let f = \<lfloor>y\<rfloor>; d = y - of_int f in if d < 1 / 2 \<or> (d = 1 / 2 \<and> even f) then f else f + 1)"

definition timesPow2 :: "rat \<Rightarrow> int \<Rightarrow> rat" where
  "timesPow2 x e = (if 0 \<le> e then x * 2 ^ nat e else x / 2 ^ nat (- e))"

text \<open>The double nearest to a positive number.\<close>

definition toDouble :: "rat \<Rightarrow> rat" where
  "toDouble x =
     (if x \<le> 0 then 0
      else case quotient_of x of (a, b) \<Rightarrow>
        let e = int (bitLength (nat a)) - int (bitLength (nat b)) - 53;
            e' = (if 2 ^ 53 \<le> timesPow2 x (- e) then e + 1 else e) in
        timesPow2 (of_int (roundEven (timesPow2 x (- e')))) e')"

section \<open>The tables\<close>

definition UNKNOWN_SKU_FALLBACK_CENTS_PER_HOUR :: rat where
  "UNKNOWN_SKU_FALLBACK_CENTS_PER_HOUR = 50"

definition DEFAULT_REGION_MULTIPLIER :: rat where
  "DEFAULT_REGION_MULTIPLIER = 1"

definition SKU_CENTS_PER_HOUR :: "(string \<times> rat) list" where
  "SKU_CENTS_PER_HOUR =
     [(''t3.micro'', 1), (''t3.small'', 2), (''t3.medium'', 4), (''t3.large'', 8), (''t3.xlarge'', 17), (''t3.2xlarge'', 33),
      (''m5.large'', 10), (''m5.xlarge'', 19), (''m5.2xlarge'', 38), (''m5.4xlarge'', 77), (''c5.large'', 9), (''c5.xlarge'', 17),
      (''c5.2xlarge'', 34), (''r5.large'', 13), (''r5.xlarge'', 25),
      (''Standard_B1s'', 1), (''Standard_B2s'', 4), (''Standard_B2ms'', 8), (''Standard_D2s_v3'', 10), (''Standard_D4s_v3'', 19),
      (''Standard_D8s_v3'', 38), (''Standard_D2as_v5'', 9), (''Standard_D4as_v5'', 18), (''Standard_F2s_v2'', 9), (''Standard_F4s_v2'', 17),
      (''Standard_E2s_v3'', 13), (''Standard_E4s_v3'', 25)]"

definition REGION_MULTIPLIERS :: "(string \<times> rat) list" where
  "REGION_MULTIPLIERS = map (\<lambda>(r, m). (r, toDouble m))
     [(''us-east-1'', 1), (''us-east-2'', 1), (''us-west-1'', 105 / 100), (''us-west-2'', 1), (''eu-west-1'', 105 / 100), (''eu-central-1'', 11 / 10),
      (''ap-southeast-1'', 115 / 100), (''ap-northeast-1'', 12 / 10),
      (''eastus'', 1), (''eastus2'', 1), (''westus2'', 1), (''northeurope'', 105 / 100), (''westeurope'', 11 / 10), (''southeastasia'', 115 / 100),
      (''japaneast'', 12 / 10)]"

text \<open>
  A lookup in an object literal also finds what every object inherits; those values are no numbers, and
  any product with them is NaN.
\<close>

definition OBJECT_PROTOTYPE :: "string list" where
  "OBJECT_PROTOTYPE = [''constructor'', ''__defineGetter__'', ''__defineSetter__'', ''hasOwnProperty'', ''__lookupGetter__'', ''__lookupSetter__'',
     ''isPrototypeOf'', ''propertyIsEnumerable'', ''toString'', ''valueOf'', ''__proto__'', ''toLocaleString'']"

definition tableNumber :: "(string \<times> rat) list \<Rightarrow> rat \<Rightarrow> string \<Rightarrow> rat option" where
  "tableNumber table fallback key = (case map_of table key of
       Some q \<Rightarrow> Some q | None \<Rightarrow> if key \<in> set OBJECT_PROTOTYPE then None else Some fallback)"

definition rateTimesMultiplier :: "string \<Rightarrow> string \<Rightarrow> rat option" where
  "rateTimesMultiplier sku region =
     (case (tableNumber SKU_CENTS_PER_HOUR UNKNOWN_SKU_FALLBACK_CENTS_PER_HOUR sku, tableNumber REGION_MULTIPLIERS DEFAULT_REGION_MULTIPLIER region) of
        (Some rate, Some multiplier) \<Rightarrow> Some (toDouble (rate * multiplier))
      | _ \<Rightarrow> None)"

text \<open>Estimates in cents; \<open>None\<close> is NaN.\<close>

definition estimateInstanceCostCents :: "string \<Rightarrow> string \<Rightarrow> int \<Rightarrow> int option" where
  "estimateInstanceCostCents sku region ttlMinutes =
     (if ttlMinutes \<le> 0 then Some 0
      else
        let hours = toDouble (of_int ttlMinutes / 60) in
        map_option (\<lambda>r. \<lceil>toDouble (r * hours)\<rceil>) (rateTimesMultiplier sku region))"

definition hourlyRateCents :: "string \<Rightarrow> string \<Rightarrow> int option" where
  "hourlyRateCents sku region = map_option ceiling (rateTimesMultiplier sku region)"

definition monthlyRateCents :: "string \<Rightarrow> string \<Rightarrow> int option" where
  "monthlyRateCents sku region = map_option (\<lambda>h. h * 730) (hourlyRateCents sku region)"

section \<open>Nothing is free\<close>

lemma bitLength_bounds: "0 < n \<Longrightarrow> 2 ^ (bitLength n - 1) \<le> n \<and> n < 2 ^ bitLength n \<and> 0 < bitLength n"
proof (induction n rule: bitLength.induct)
  case (1 n)
  show ?case
  proof (cases "n div 2 = 0")
    case True
    with 1(2) have "n = 1" by simp
    then show ?thesis by (simp add: bitLength.simps)
  next
    case False
    with 1 have ih: "2 ^ (bitLength (n div 2) - 1) \<le> n div 2" "n div 2 < 2 ^ bitLength (n div 2)" "0 < bitLength (n div 2)" by auto
    have b: "bitLength n = Suc (bitLength (n div 2))" using 1(2) by (subst bitLength.simps) simp
    have "2 * 2 ^ (bitLength (n div 2) - 1) = (2 :: nat) ^ bitLength (n div 2)" using ih(3) by (metis power_eq_if less_irrefl)
    then have "2 ^ bitLength (n div 2) \<le> n" using ih(1) by linarith
    moreover have "n < 2 * 2 ^ bitLength (n div 2)" using ih(2) by linarith
    ultimately show ?thesis by (simp add: b)
  qed
qed

lemma timesPow2_pos: "0 < x \<Longrightarrow> 0 < timesPow2 x e"
  by (simp add: timesPow2_def)

lemma timesPow2_diff: "timesPow2 x (int q - int p) = x * 2 ^ q / 2 ^ p"
  by (cases "p \<le> q") (simp_all add: timesPow2_def nat_diff_distrib power_diff)

lemma quotient_scaled:
  assumes "0 < a" and "0 < b" and "1 \<le> k"
  shows "1 \<le> timesPow2 (of_int a / of_int b) (int (bitLength (nat b)) + int k - int (bitLength (nat a)))"
proof -
  let ?A = "bitLength (nat a)" and ?B = "bitLength (nat b)"
  have "2 ^ ?A \<le> 2 * nat a" using bitLength_bounds [of "nat a"] assms(1) by (cases ?A) auto
  then have "(of_nat (2 ^ ?A) :: rat) \<le> of_nat (2 * nat a)" by (simp only: of_nat_le_iff)
  then have a: "(2 :: rat) ^ ?A \<le> 2 * of_int a" using assms(1) by simp
  have "nat b \<le> 2 ^ ?B" using bitLength_bounds [of "nat b"] assms(2) by auto
  then have "(of_nat (nat b) :: rat) \<le> of_nat (2 ^ ?B)" by (simp only: of_nat_le_iff)
  then have b: "of_int b \<le> (2 :: rat) ^ ?B" using assms(2) by simp
  have "of_int b * 2 ^ ?A \<le> (2 ^ ?B * (2 * of_int a) :: rat)" using a b assms by (intro mult_mono) auto
  also have "\<dots> \<le> of_int a * 2 ^ (?B + k)"
  proof -
    have "(2 :: rat) ^ 1 \<le> 2 ^ k" using assms(3) by (intro power_increasing) auto
    then show ?thesis using assms(1) by (simp add: power_add mult.assoc mult_left_mono)
  qed
  finally have "of_int b * 2 ^ ?A \<le> (of_int a * 2 ^ (?B + k) :: rat)" .
  then have "1 \<le> (of_int a / of_int b) * 2 ^ (?B + k) / (2 ^ ?A :: rat)" using assms(2) by (simp add: field_simps)
  then show ?thesis using timesPow2_diff [of "of_int a / of_int b" "?B + k" ?A] by simp
qed

lemma toDouble_pos: "0 < x \<Longrightarrow> 0 < toDouble x"
proof -
  assume x: "0 < x"
  obtain a b where q: "quotient_of x = (a, b)" by (cases "quotient_of x")
  then have b: "0 < b" and xab: "x = of_int a / of_int b" by (auto dest: quotient_of_denom_pos quotient_of_div)
  with x have a: "0 < a" by (simp add: zero_less_divide_iff)
  let ?e = "int (bitLength (nat a)) - int (bitLength (nat b)) - 53"
  let ?e' = "if 2 ^ 53 \<le> timesPow2 x (- ?e) then ?e + 1 else ?e"
  have "1 \<le> timesPow2 x (- ?e')"
    using quotient_scaled [OF a b, of 52] quotient_scaled [OF a b, of 53] by (simp add: xab algebra_simps)
  then have "1 \<le> \<lfloor>timesPow2 x (- ?e')\<rfloor>" by simp
  then have "1 \<le> roundEven (timesPow2 x (- ?e'))" by (auto simp: roundEven_def Let_def)
  then have "0 < timesPow2 (of_int (roundEven (timesPow2 x (- ?e')))) ?e'" by (intro timesPow2_pos) simp
  with x show ?thesis by (simp add: toDouble_def q Let_def)
qed

lemma estimate_positive:
  assumes "0 < ttl" and "estimateInstanceCostCents sku region ttl = Some c"
  shows "1 \<le> c"
proof -
  have tables: "list_all (\<lambda>p. 0 < snd p) SKU_CENTS_PER_HOUR" "list_all (\<lambda>p. 0 < snd p) REGION_MULTIPLIERS"
    unfolding SKU_CENTS_PER_HOUR_def REGION_MULTIPLIERS_def by (simp_all add: toDouble_pos)
  have pos: "list_all (\<lambda>p. 0 < snd p) t \<Longrightarrow> 0 < d \<Longrightarrow> tableNumber t d k = Some q \<Longrightarrow> 0 < q" for t d k q
    by (auto simp: tableNumber_def list_all_iff dest!: map_of_SomeD split: option.splits if_splits)
  from assms obtain r where r: "rateTimesMultiplier sku region = Some r" "c = \<lceil>toDouble (r * toDouble (of_int ttl / 60))\<rceil>"
    by (auto simp: estimateInstanceCostCents_def Let_def)
  from r(1) obtain rate m where t: "tableNumber SKU_CENTS_PER_HOUR 50 sku = Some rate" "tableNumber REGION_MULTIPLIERS 1 region = Some m" "r = toDouble (rate * m)"
    by (auto simp: rateTimesMultiplier_def UNKNOWN_SKU_FALLBACK_CENTS_PER_HOUR_def DEFAULT_REGION_MULTIPLIER_def split: option.splits)
  have "0 < rate" "0 < m" using pos [OF tables(1) _ t(1)] pos [OF tables(2) _ t(2)] by simp_all
  then have "0 < r" unfolding t(3) by (intro toDouble_pos) simp
  moreover have "0 < toDouble (of_int ttl / 60)" using assms(1) by (intro toDouble_pos) simp
  ultimately have "0 < toDouble (r * toDouble (of_int ttl / 60))" by (intro toDouble_pos) simp
  then show ?thesis by (simp add: r(2))
qed

end
