(* ===== verification/Cloud_Budget.thy ===== *)
theory Cloud_Budget
  imports Cloud_Cost Repos_Ops Frames
begin

text \<open>
  The gate in front of the cloud (\<open>cloud/budget.ts\<close>): what an organisation spent in the calendar month, in
  UTC, against its budget row.  The percentage at the end of the refusal message is left out.
\<close>

record budgetCheckResult =
  bk_warned :: bool
  bk_usageCents :: int
  bk_limitCents :: "int option"
  bk_estimatedCents :: "int option"
  bk_pctAfter :: "rat option"

definition monthBoundsUtc :: "int \<Rightarrow> string \<times> string" where
  "monthBoundsUtc at' =
     (toISOString (dateUTC_month (getUTCFullYear at') (getUTCMonth at')),
      toISOString (dateUTC_month (getUTCFullYear at') (getUTCMonth at' + 1)))"

definition cents :: "int \<Rightarrow> string" where
  "cents n = showInt n @ [CHR 0xC2, CHR 0xA2]"

definition budgetExceeded :: "string \<Rightarrow> int \<Rightarrow> int \<Rightarrow> int \<Rightarrow> err" where
  "budgetExceeded orgId usageCents estimatedCents limit = CloudBackendError ''budget_exceeded''
     (''org '' @ [CHR 0x27] @ orgId @ [CHR 0x27] @ '' would exceed budget: usage='' @ cents usageCents @ '' + estimate='' @ cents estimatedCents
       @ '' = '' @ cents (usageCents + estimatedCents) @ '' > limit='' @ cents limit)"

text \<open>The spend so far against the row.  An estimate of NaN compares false with every limit.\<close>

definition budgetVerdict :: "cloudOrgBudget \<Rightarrow> string \<Rightarrow> int option \<Rightarrow> int \<Rightarrow> ('z, budgetCheckResult) DB" where
  "budgetVerdict budget orgId estimatedCents usageCents =
     (case estimatedCents of
        None \<Rightarrow> ret \<lparr>bk_warned = False, bk_usageCents = usageCents, bk_limitCents = Some (cb_monthlyCentsLimit budget),
                    bk_estimatedCents = None, bk_pctAfter = None\<rparr>
      | Some est \<Rightarrow>
          let projected = usageCents + est;
              pctAfter = toDouble (toDouble (of_int projected / of_int (cb_monthlyCentsLimit budget)) * 100) in
          if projected > cb_monthlyCentsLimit budget then throwM (budgetExceeded orgId usageCents est (cb_monthlyCentsLimit budget))
          else ret \<lparr>bk_warned = (pctAfter \<ge> of_int (cb_softWarnPct budget)), bk_usageCents = usageCents,
                    bk_limitCents = Some (cb_monthlyCentsLimit budget), bk_estimatedCents = estimatedCents, bk_pctAfter = Some pctAfter\<rparr>)"

definition budgetCheck :: "string \<Rightarrow> int option \<Rightarrow> ('z, budgetCheckResult) DB" where
  "budgetCheck orgId estimatedCents =
     bindM (budget_get orgId) (\<lambda>b. case b of
       None \<Rightarrow> ret \<lparr>bk_warned = False, bk_usageCents = 0, bk_limitCents = None, bk_estimatedCents = estimatedCents, bk_pctAfter = Some 0\<rparr>
     | Some budget \<Rightarrow>
         bindM dateNow (\<lambda>now.
         bindM (usage_sumForRange orgId (fst (monthBoundsUtc now)) (snd (monthBoundsUtc now))) (budgetVerdict budget orgId estimatedCents)))"

definition configOrg :: "cloudInstanceConfig \<Rightarrow> string" where
  "configOrg config = orElse (ic_orgId config) ''default''"

definition configTtl :: "cloudInstanceConfig \<Rightarrow> int" where
  "configTtl config = orElse (ic_ttlMinutes config) DEFAULT_INSTANCE_TTL_MINUTES"

definition checkForConfig :: "cloudInstanceConfig \<Rightarrow> ('z, budgetCheckResult) DB" where
  "checkForConfig config =
     budgetCheck (configOrg config) (estimateInstanceCostCents (ic_instanceType config) (ic_region config) (configTtl config))"

text \<open>SQLite stores NaN as NULL, which the column refuses.\<close>

definition gateRecordStart :: "string \<Rightarrow> string \<Rightarrow> string \<Rightarrow> string \<Rightarrow> string \<Rightarrow> int \<Rightarrow> ('z, unit) DB" where
  "gateRecordStart orgId backend instanceId instanceType region ttlMinutes =
     bindM nowIso (\<lambda>startedAt.
     case estimateInstanceCostCents instanceType region ttlMinutes of
       Some est \<Rightarrow> bindM (usage_recordStart orgId backend instanceId instanceType region startedAt est) (\<lambda>_. ret ())
     | None \<Rightarrow> bindM newId (\<lambda>_. mappingErrors (stmt (throwM (SqliteErr 1299 ''NOT NULL constraint failed: cloud_org_usage.estimated_cents'')))))"

definition gateRecordTerminate :: "string \<Rightarrow> string \<Rightarrow> ('z, unit) DB" where
  "gateRecordTerminate orgId instanceId = bindM nowIso (\<lambda>now. usage_recordTerminate orgId instanceId now)"

end
