(* ===== verification/Cloud_Aws.thy ===== *)
theory Cloud_Aws
  imports Cloud_Budget
begin

text \<open>
  The EC2 backend (\<open>cloud/aws.ts\<close>): provisioning behind the budget gate, the tags of an instance, waiting for
  it to run, terminating and listing.  The AWS SDK is the record \<open>ec2Api\<close>; what it answers may depend on
  every call made before, which the state keeps as \<open>sent\<close>.
\<close>

section \<open>The SDK\<close>

record runInput =
  ri_imageId :: string
  ri_instanceType :: string
  ri_subnetId :: "string option"
  ri_securityGroupIds :: "string list option"
  ri_publicInterface :: "bool option"
  ri_tags :: "(string \<times> string) list"

record awsError =
  ae_name :: "string option"
  ae_code :: "string option"
  ae_message :: string

record ec2Instance =
  ei_instanceId :: "string option"
  ei_state :: "string option"
  ei_publicIp :: "string option"
  ei_privateIp :: "string option"
  ei_stateReason :: "string option"
  ei_tags :: "(string option \<times> string option) list"

datatype ec2Call =
    RunInstances string runInput
  | TerminateInstances string string
  | DescribeInstance string string
  | DescribeTagged string "(string \<times> string) list"

text \<open>A list reply: whether there is a further page, and the instances of all reservations.\<close>

record ec2Api =
  ec_run :: "ec2Call list \<Rightarrow> runInput \<Rightarrow> awsError + ec2Instance option"
  ec_terminate :: "ec2Call list \<Rightarrow> string \<Rightarrow> awsError + unit"
  ec_describe :: "ec2Call list \<Rightarrow> string \<Rightarrow> awsError + ec2Instance option"
  ec_list :: "ec2Call list \<Rightarrow> (string \<times> string) list \<Rightarrow> awsError + bool \<times> ec2Instance list"

record cworld = world +
  sent :: "ec2Call list"

type_synonym ('z, 'a) CM = "('z cworld_scheme, err, 'a) M"

text \<open>A backend: its client, region and limits, and whether a budget gate is wired.\<close>

record awsBackend =
  aw_client :: ec2Api
  aw_region :: string
  aw_pollTimeoutMs :: int
  aw_gate :: bool

definition callEc2 :: "ec2Call \<Rightarrow> (ec2Call list \<Rightarrow> awsError + 'a) \<Rightarrow> ('z, awsError + 'a) CM" where
  "callEc2 c f w = (Inr (f (sent w)), w\<lparr>sent := sent w @ [c]\<rparr>)"

section \<open>Errors and states\<close>

definition authCodes :: "string list" where
  "authCodes = [''UnauthorizedOperation'', ''AuthFailure'', ''InvalidClientTokenId'', ''RequestExpired'', ''SignatureDoesNotMatch'']"

definition mapAwsError :: "awsError \<Rightarrow> string \<Rightarrow> string \<Rightarrow> err" where
  "mapAwsError e defaultCode fallbackMessage =
     (let awsCode = (if ae_name e \<noteq> None then ae_name e else ae_code e);
          code = (if truthy awsCode \<and> the awsCode \<in> set authCodes then ''auth_failed'' else defaultCode) in
      CloudBackendError code (fallbackMessage
        @ (if truthy awsCode then '' (AWS code: '' @ the awsCode @ ''): '' else '': '') @ ae_message e))"

definition isAwsErrorCode :: "awsError \<Rightarrow> string \<Rightarrow> bool" where
  "isAwsErrorCode e awsCode \<longleftrightarrow> ae_name e = Some awsCode \<or> ae_code e = Some awsCode"

datatype cloudInstanceState = StPending | StRunning | StStopped | StTerminated | StUnknown

definition mapEc2State :: "string option \<Rightarrow> cloudInstanceState" where
  "mapEc2State s =
     (if s = Some ''pending'' then StPending
      else if s = Some ''running'' then StRunning
      else if s = Some ''stopping'' \<or> s = Some ''stopped'' then StStopped
      else if s = Some ''shutting-down'' \<or> s = Some ''terminated'' then StTerminated
      else StUnknown)"

section \<open>Tags\<close>

definition sentinelKeys :: "string list" where
  "sentinelKeys = [SIGNALMAN_MANAGED_TAG_KEY, SIGNALMAN_ORG_TAG_KEY, SIGNALMAN_TTL_MINUTES_TAG_KEY, SIGNALMAN_TTL_EXPIRES_AT_TAG_KEY]"

definition buildInstanceTags :: "cloudInstanceConfig \<Rightarrow> string \<Rightarrow> int \<Rightarrow> int \<Rightarrow> (string \<times> string) list" where
  "buildInstanceTags config orgId ttlMinutes now =
     (let expiresAtEpochSec = now div 1000 + ttlMinutes * 60 in
      [(''Name'', ic_name config), (SIGNALMAN_MANAGED_TAG_KEY, SIGNALMAN_MANAGED_TAG_VALUE), (SIGNALMAN_ORG_TAG_KEY, orgId),
       (SIGNALMAN_TTL_MINUTES_TAG_KEY, showInt ttlMinutes), (SIGNALMAN_TTL_EXPIRES_AT_TAG_KEY, showInt expiresAtEpochSec)]
      @ filter (\<lambda>(k, v). k \<notin> set sentinelKeys) (orElse (ic_tags config) []))"

section \<open>Instances\<close>

record cloudInstanceStatus =
  cs_handle :: cloudInstanceHandle
  cs_state :: cloudInstanceState
  cs_publicIp :: "string option"
  cs_privateIp :: "string option"
  cs_reason :: "string option"

definition getInstanceStatus :: "awsBackend \<Rightarrow> cloudInstanceHandle \<Rightarrow> ('z, cloudInstanceStatus) CM" where
  "getInstanceStatus b handle =
     bindM (callEc2 (DescribeInstance (aw_region b) (ch_id handle)) (\<lambda>h. ec_describe (aw_client b) h (ch_id handle))) (\<lambda>r. case r of
       Inl e \<Rightarrow>
         if isAwsErrorCode e ''InvalidInstanceID.NotFound'' then
           throwM (CloudBackendError ''instance_not_found'' (''AWS instance '' @ ch_id handle @ '' not found in region '' @ aw_region b))
         else throwM (mapAwsError e ''provision_failed'' ''DescribeInstances failed'')
     | Inr None \<Rightarrow> throwM (CloudBackendError ''instance_not_found''
         (''AWS instance '' @ ch_id handle @ '' not present in DescribeInstances response''))
     | Inr (Some i) \<Rightarrow> ret \<lparr>cs_handle = handle, cs_state = mapEc2State (ei_state i), cs_publicIp = ei_publicIp i, cs_privateIp = ei_privateIp i,
         cs_reason = ei_stateReason i\<rparr>)"

definition getInstanceIp :: "awsBackend \<Rightarrow> cloudInstanceHandle \<Rightarrow> ('z, string option) CM" where
  "getInstanceIp b handle = bindM (getInstanceStatus b handle) (\<lambda>s. ret (cs_publicIp s))"

definition notRunningInTime :: "awsBackend \<Rightarrow> cloudInstanceHandle \<Rightarrow> err" where
  "notRunningInTime b handle = CloudBackendError ''provision_failed''
     (''AWS instance '' @ ch_id handle @ '' did not reach running state within '' @ showInt (aw_pollTimeoutMs b) @ ''ms'')"

text \<open>
  The polling loop ends when the clock passes the deadline; the fuel stands for the rounds the clock
  leaves, and a loop that used all of it is still polling.
\<close>

fun pollUntilRunning :: "nat \<Rightarrow> awsBackend \<Rightarrow> cloudInstanceHandle \<Rightarrow> int \<Rightarrow> ('z, unit option) CM" where
  "pollUntilRunning 0 b handle deadline = ret None"
| "pollUntilRunning (Suc fuel) b handle deadline =
     bindM dateNow (\<lambda>now.
     if now < deadline then
       bindM (getInstanceStatus b handle) (\<lambda>status.
       if cs_state status = StRunning then ret (Some ())
       else if cs_state status = StTerminated then
         throwM (CloudBackendError ''provision_failed'' (''AWS instance '' @ ch_id handle @ '' entered terminated state during provisioning''
           @ (if truthy (cs_reason status) then '': '' @ the (cs_reason status) else [])))
       else
         bindM dateNow (\<lambda>now'.
         if deadline - now' \<le> 0 then throwM (notRunningInTime b handle)
         else pollUntilRunning fuel b handle deadline))
     else throwM (notRunningInTime b handle))"

definition waitUntilRunning :: "nat \<Rightarrow> awsBackend \<Rightarrow> cloudInstanceHandle \<Rightarrow> ('z, unit option) CM" where
  "waitUntilRunning fuel b handle = bindM dateNow (\<lambda>now. pollUntilRunning fuel b handle (now + aw_pollTimeoutMs b))"

definition invalidConfig :: "string \<Rightarrow> err" where
  "invalidConfig m = CloudBackendError ''invalid_config'' m"

definition runInputOf :: "cloudInstanceConfig \<Rightarrow> networkMode \<Rightarrow> (string \<times> string) list \<Rightarrow> runInput" where
  "runInputOf config mode tags =
     (let net = ic_network config;
          effectiveAssignPublicIp = (if mode = AwsSsm then Some False else Option.bind net in_assignPublicIp) in
      \<lparr>ri_imageId = ic_imageRef config, ri_instanceType = ic_instanceType config,
       ri_subnetId = Option.bind net in_subnetId, ri_securityGroupIds = Option.bind net in_securityGroupIds,
       ri_publicInterface = effectiveAssignPublicIp, ri_tags = tags\<rparr>)"

definition configMode :: "cloudInstanceConfig \<Rightarrow> networkMode" where
  "configMode config = orElse (Option.bind (ic_network config) in_mode) PublicMtls"

definition recordUsage :: "awsBackend \<Rightarrow> cloudInstanceConfig \<Rightarrow> string \<Rightarrow> ('z, unit) CM" where
  "recordUsage b config instanceId =
     (if aw_gate b then tryM (gateRecordStart (configOrg config) ''aws'' instanceId (ic_instanceType config) (aw_region b) (configTtl config)) else ret ())"

text \<open>What follows the checks of the configuration and of the budget.\<close>

definition launchInstance :: "nat \<Rightarrow> awsBackend \<Rightarrow> cloudInstanceConfig \<Rightarrow> ('z, cloudInstanceHandle option) CM" where
  "launchInstance fuel b config =
     bindM dateNow (\<lambda>now.
     let tags = buildInstanceTags config (configOrg config) (configTtl config) now; mode = configMode config in
     if mode = AzureBastion then
       throwM (invalidConfig (''AWS backend does not support network mode '' @ [CHR 0x27] @ ''azure_bastion'' @ [CHR 0x27] @ ''. Use ''
         @ [CHR 0x27] @ ''public_mtls'' @ [CHR 0x27] @ '' or '' @ [CHR 0x27] @ ''aws_ssm'' @ [CHR 0x27] @ ''.''))
     else
       let input = runInputOf config mode tags in
       bindM (callEc2 (RunInstances (aw_region b) input) (\<lambda>h. ec_run (aw_client b) h input)) (\<lambda>r. case r of
         Inl e \<Rightarrow> throwM (mapAwsError e ''provision_failed'' ''RunInstances failed'')
       | Inr i \<Rightarrow>
           (case Option.bind i ei_instanceId of
              None \<Rightarrow> throwM (CloudBackendError ''provision_failed'' ''RunInstances returned no instance id'')
            | Some iid \<Rightarrow>
                if iid = [] then throwM (CloudBackendError ''provision_failed'' ''RunInstances returned no instance id'')
                else
                  let handle = \<lparr>ch_id = iid, ch_backend = Aws, ch_name = ic_name config, ch_region = aw_region b, ch_tags = None,
                    ch_networkMode = Some mode\<rparr> in
                  bindM (waitUntilRunning fuel b handle) (\<lambda>running. case running of
                    None \<Rightarrow> ret None
                  | Some _ \<Rightarrow> bindM (recordUsage b config iid) (\<lambda>_. ret (Some handle))))))"

definition provisionInstance :: "nat \<Rightarrow> awsBackend \<Rightarrow> cloudInstanceConfig \<Rightarrow> ('z, cloudInstanceHandle option) CM" where
  "provisionInstance fuel b config =
     (if ic_imageRef config = [] then throwM (invalidConfig ''AWS provisionInstance requires image_ref (AMI id)'')
      else if ic_instanceType config = [] then throwM (invalidConfig ''AWS provisionInstance requires instance_type'')
      else if ic_region config \<noteq> aw_region b then
        throwM (invalidConfig (''AWS backend is scoped to region '' @ [CHR 0x27] @ aw_region b @ [CHR 0x27] @ '' but config requested ''
          @ [CHR 0x27] @ ic_region config @ [CHR 0x27] @ ''. Construct a separate AwsBackend per region (AWS SDK clients are region-scoped).''))
      else
        bindM (if aw_gate b then bindM (checkForConfig config) (\<lambda>_. ret ()) else ret ()) (\<lambda>_.
        launchInstance fuel b config))"

definition terminateInstance :: "awsBackend \<Rightarrow> cloudInstanceHandle \<Rightarrow> ('z, unit) CM" where
  "terminateInstance b handle =
     bindM (if aw_gate b then
         tryM (gateRecordTerminate (orElse (Option.bind (ch_tags handle) (\<lambda>t. map_of t ''signalman-org'')) ''default'') (ch_id handle))
       else ret ()) (\<lambda>_.
     bindM (callEc2 (TerminateInstances (aw_region b) (ch_id handle)) (\<lambda>h. ec_terminate (aw_client b) h (ch_id handle))) (\<lambda>r. case r of
       Inl e \<Rightarrow> if isAwsErrorCode e ''InvalidInstanceID.NotFound'' then ret ()
                else throwM (mapAwsError e ''terminate_failed'' ''TerminateInstances failed'')
     | Inr _ \<Rightarrow> ret ()))"

text \<open>
  The tags of an instance as an object: a key that comes again keeps its place and takes the new value,
  and an assignment of a text to \<open>__proto__\<close> does nothing.
\<close>

definition setTag :: "(string \<times> string) list \<Rightarrow> string \<times> string \<Rightarrow> (string \<times> string) list" where
  "setTag m kv = (if fst kv \<in> fst ` set m then map (\<lambda>p. if fst p = fst kv then kv else p) m else m @ [kv])"

definition addTag :: "(string \<times> string) list \<Rightarrow> string option \<times> string option \<Rightarrow> (string \<times> string) list" where
  "addTag m t = (if truthy (fst t) \<and> snd t \<noteq> None \<and> fst t \<noteq> Some ''__proto__'' then setTag m (the (fst t), the (snd t)) else m)"

definition tagMap :: "(string option \<times> string option) list \<Rightarrow> (string \<times> string) list" where
  "tagMap tags = foldl addTag [] tags"

definition handlesOf :: "awsBackend \<Rightarrow> ec2Instance list \<Rightarrow> cloudInstanceHandle list" where
  "handlesOf b is = map (\<lambda>i. let tags = tagMap (ei_tags i); iid = the (ei_instanceId i) in
       \<lparr>ch_id = iid, ch_backend = Aws, ch_name = orElse (map_of tags ''Name'') iid, ch_region = aw_region b, ch_tags = Some tags, ch_networkMode = None\<rparr>)
     (filter (\<lambda>i. truthy (ei_instanceId i)) is)"

definition tagFilters :: "(string \<times> string) list option \<Rightarrow> (string \<times> string) list" where
  "tagFilters wanted' = map (\<lambda>(k, v). (''tag:'' @ k, v)) ((SIGNALMAN_MANAGED_TAG_KEY, SIGNALMAN_MANAGED_TAG_VALUE) # orElse wanted' [])"

definition furtherPage :: "awsBackend \<Rightarrow> err" where
  "furtherPage b = CloudBackendError ''quota_exceeded''
     (''AWS DescribeInstances returned a NextToken in region '' @ aw_region b @ '': result exceeds one page. ''
       @ ''Narrow the filter (e.g. add an org tag) or wait for the v0.3.0-5 pagination follow-up.'')"

definition listInstances :: "awsBackend \<Rightarrow> (string \<times> string) list option \<Rightarrow> ('z, cloudInstanceHandle list) CM" where
  "listInstances b wanted' =
     (let filters = tagFilters wanted' in
      bindM (callEc2 (DescribeTagged (aw_region b) filters) (\<lambda>h. ec_list (aw_client b) h filters)) (\<lambda>r. case r of
        Inl e \<Rightarrow> throwM (mapAwsError e ''provision_failed'' ''DescribeInstances failed'')
      | Inr (nextToken, is) \<Rightarrow>
          if nextToken then throwM (furtherPage b)
          else ret (handlesOf b is)))"

end
