(* ===== verification/Cloud_Reaper.thy ===== *)
theory Cloud_Reaper
  imports Cloud_Aws
begin

text \<open>
  The reaper (\<open>cloud/reaper.ts\<close>): one sweep over the registered backends that terminates the instances whose
  deadline tag has passed.  The log lines and the timer around \<open>runOnce\<close> are left out.
\<close>

record terminateError =
  tx_id :: string
  tx_message :: string

record reaperBackendResult =
  rr_backend :: cloudProvider
  rr_inspected :: nat
  rr_malformed :: nat
  rr_noTtl :: nat
  rr_terminated :: nat
  rr_listError :: "string option"
  rr_terminateErrors :: "terminateError list"

record reaperRunResult =
  rn_startedAt :: string
  rn_finishedAt :: string
  rn_backends :: "reaperBackendResult list"
  rn_totalTerminated :: nat

text \<open>What the reaper uses of a backend.\<close>

record 'z sweepable =
  sw_name :: cloudProvider
  sw_list :: "('z cworld_scheme, err, cloudInstanceHandle list) M"
  sw_terminate :: "cloudInstanceHandle \<Rightarrow> ('z cworld_scheme, err, unit) M"

definition awsSweepable :: "awsBackend \<Rightarrow> 'z sweepable" where
  "awsSweepable b = \<lparr>sw_name = Aws, sw_list = listInstances b None, sw_terminate = terminateInstance b\<rparr>"

text \<open>
  The deadline of a handle: no tag, a tag that is no positive finite number, or a number of seconds.  A
  number that rounds to the double zero or to infinity is not one; within that range digits are kept exact.
\<close>

definition largestNumber :: rat where
  "largestNumber = 2 ^ 1024 - 2 ^ 970"

datatype deadline = NoTtl | MalformedTtl | ExpiresAt rat

definition handleDeadline :: "cloudInstanceHandle \<Rightarrow> deadline" where
  "handleDeadline h = (case Option.bind (ch_tags h) (\<lambda>t. map_of t SIGNALMAN_TTL_EXPIRES_AT_TAG_KEY) of
       None \<Rightarrow> NoTtl
     | Some tagValue \<Rightarrow> (case numberText tagValue of
         None \<Rightarrow> MalformedTtl
       | Some expiresAt \<Rightarrow> if expiresAt \<ge> largestNumber \<or> expiresAt \<le> 1 / 2 ^ 1075 then MalformedTtl else ExpiresAt expiresAt))"

definition reapHandle :: "'z sweepable \<Rightarrow> int \<Rightarrow> reaperBackendResult \<Rightarrow> cloudInstanceHandle \<Rightarrow> ('z, reaperBackendResult) CM" where
  "reapHandle b nowEpochSec result handle = (case handleDeadline handle of
       NoTtl \<Rightarrow> ret (result\<lparr>rr_noTtl := rr_noTtl result + 1\<rparr>)
     | MalformedTtl \<Rightarrow> ret (result\<lparr>rr_malformed := rr_malformed result + 1\<rparr>)
     | ExpiresAt expiresAt \<Rightarrow>
         if expiresAt > of_int nowEpochSec then ret result
         else catchM (bindM (sw_terminate b handle) (\<lambda>_. ret (result\<lparr>rr_terminated := rr_terminated result + 1\<rparr>)))
           (\<lambda>e. ret (result\<lparr>rr_terminateErrors := rr_terminateErrors result @ [\<lparr>tx_id = ch_id handle, tx_message = err_message e\<rparr>]\<rparr>)))"

definition sweepBackend :: "int \<Rightarrow> 'z sweepable \<Rightarrow> ('z, reaperBackendResult) CM" where
  "sweepBackend nowEpochSec b =
     (let result = \<lparr>rr_backend = sw_name b, rr_inspected = 0, rr_malformed = 0, rr_noTtl = 0, rr_terminated = 0, rr_listError = None,
        rr_terminateErrors = []\<rparr> in
      bindM (catchM (bindM (sw_list b) (\<lambda>hs. ret (Inr hs))) (\<lambda>e. ret (Inl (err_message e)))) (\<lambda>r. case r of
        Inl m \<Rightarrow> ret (result\<lparr>rr_listError := Some m\<rparr>)
      | Inr handles \<Rightarrow> foldM (reapHandle b nowEpochSec) (result\<lparr>rr_inspected := length handles\<rparr>) handles))"

definition sweepNext :: "int \<Rightarrow> reaperBackendResult list \<Rightarrow> 'z sweepable \<Rightarrow> ('z, reaperBackendResult list) CM" where
  "sweepNext nowEpochSec results b = bindM (sweepBackend nowEpochSec b) (\<lambda>r. ret (results @ [r]))"

definition runOnce :: "'z sweepable list \<Rightarrow> ('z, reaperRunResult) CM" where
  "runOnce backends =
     bindM nowIso (\<lambda>startedAt.
     bindM dateNow (\<lambda>now.
     bindM (foldM (sweepNext (now div 1000)) [] backends) (\<lambda>results.
     bindM nowIso (\<lambda>finishedAt.
     ret \<lparr>rn_startedAt = startedAt, rn_finishedAt = finishedAt, rn_backends = results,
          rn_totalTerminated = sum_list (map rr_terminated results)\<rparr>))))"

section \<open>What a sweep does\<close>

definition dueAt :: "int \<Rightarrow> cloudInstanceHandle \<Rightarrow> bool" where
  "dueAt nowEpochSec h \<longleftrightarrow> (case handleDeadline h of ExpiresAt t \<Rightarrow> t \<le> of_int nowEpochSec | _ \<Rightarrow> False)"

interpretation sdk: frame "sent :: 'z cworld_scheme \<Rightarrow> ec2Call list"
  by unfold_locales simp_all

lemma recordTerminate_sent: "sent (snd (tryM (gateRecordTerminate o' i) w)) = sent w"
proof -
  have "keeps (sdk.sees Q) (tryM (gateRecordTerminate o' i))" for Q
    unfolding gateRecordTerminate_def usage_recordTerminate_def
    by (intro keeps_intros sdk.frame_env sdk.frame_updateWhere) simp
  from keepsD [OF this [of "\<lambda>h. h = sent w"], of w] show ?thesis by (simp add: sdk.sees_def)
qed

lemma tryM_Inr: "fst (tryM m w) = Inr ()"
  by (auto simp: tryM_def catchM_def ret_def split: prod.splits sum.splits)

lemma terminate_sent: "sent (snd (terminateInstance b h (w :: 'a cworld_scheme))) = sent w @ [TerminateInstances (aw_region b) (ch_id h)]"
proof -
  define pre :: "('a, unit) CM" where "pre = (if aw_gate b then
      tryM (gateRecordTerminate (orElse (Option.bind (ch_tags h) (\<lambda>t. map_of t ''signalman-org'')) ''default'') (ch_id h)) else ret ())"
  have "fst (pre w) = Inr ()" "sent (snd (pre w)) = sent w"
    by (simp_all add: pre_def tryM_Inr recordTerminate_sent ret_def)
  then obtain w1 where "pre w = (Inr (), w1)" "sent w1 = sent w" by (cases "pre w") simp
  then show ?thesis
    unfolding terminateInstance_def pre_def [symmetric] by (simp add: bindM_run callEc2_def ret_run throwM_run split: sum.split)
qed

lemma reapHandle_run:
  obtains r' w' where "reapHandle (awsSweepable b) now r h w = (Inr r', w')"
    "sent w' = sent w @ (if dueAt now h then [TerminateInstances (aw_region b) (ch_id h)] else [])"
proof -
  obtain x w1 where t: "terminateInstance b h w = (x, w1)" "sent w1 = sent w @ [TerminateInstances (aw_region b) (ch_id h)]"
    using terminate_sent [of b h w] by (cases "terminateInstance b h w") simp
  show thesis
  proof (cases "dueAt now h")
    case True
    then obtain e where "handleDeadline h = ExpiresAt e" "\<not> e > of_int now" by (auto simp: dueAt_def split: deadline.splits)
    with t True show thesis
      by (cases x) (rule that [of _ w1], simp_all add: reapHandle_def awsSweepable_def catchM_def bindM_run ret_run)+
  next
    case False
    then show thesis
      by (cases "handleDeadline h") (rule that [of _ w], simp_all add: reapHandle_def dueAt_def ret_run)+
  qed
qed

lemma reapHandles_run:
  obtains r' w' where "foldM (reapHandle (awsSweepable b) now) r hs w = (Inr r', w')"
    "sent w' = sent w @ map (\<lambda>h. TerminateInstances (aw_region b) (ch_id h)) (filter (dueAt now) hs)"
proof (induction hs arbitrary: r w thesis)
  case Nil
  then show ?case by (simp add: ret_run)
next
  case (Cons h hs)
  obtain r1 w1 where s: "reapHandle (awsSweepable b) now r h w = (Inr r1, w1)"
    "sent w1 = sent w @ (if dueAt now h then [TerminateInstances (aw_region b) (ch_id h)] else [])" by (rule reapHandle_run)
  obtain r2 w2 where "foldM (reapHandle (awsSweepable b) now) r1 hs w1 = (Inr r2, w2)"
    "sent w2 = sent w1 @ map (\<lambda>h. TerminateInstances (aw_region b) (ch_id h)) (filter (dueAt now) hs)" by (rule Cons.IH)
  with s show ?case by (intro Cons.prems [of r2 w2]) (simp_all add: bindM_run)
qed

text \<open>The calls of a sweep: one listing per backend, and a termination for every listed instance whose deadline has passed.\<close>

fun sweepCalls :: "int \<Rightarrow> awsBackend list \<Rightarrow> ec2Call list \<Rightarrow> ec2Call list" where
  "sweepCalls now [] h = h"
| "sweepCalls now (b # bs) h = sweepCalls now bs (h @ [DescribeTagged (aw_region b) (tagFilters None)] @
     (case ec_list (aw_client b) h (tagFilters None) of
        Inr (False, is) \<Rightarrow> map (\<lambda>x. TerminateInstances (aw_region b) (ch_id x)) (filter (dueAt now) (handlesOf b is))
      | _ \<Rightarrow> []))"

lemma sweepBackend_run:
  obtains r w' where "sweepBackend now (awsSweepable b) w = (Inr r, w')" "sent w' = sweepCalls now [b] (sent w)"
proof -
  let ?w = "w\<lparr>sent := sent w @ [DescribeTagged (aw_region b) (tagFilters None)]\<rparr>"
  have list: "listInstances b None w = ((case ec_list (aw_client b) (sent w) (tagFilters None) of
      Inl e \<Rightarrow> Inl (mapAwsError e ''provision_failed'' ''DescribeInstances failed'')
    | Inr (nextToken, is) \<Rightarrow> if nextToken then Inl (furtherPage b) else Inr (handlesOf b is)), ?w)"
    by (simp add: listInstances_def bindM_run callEc2_def throwM_run ret_run Let_def split: sum.split prod.split)
  show thesis
  proof (cases "ec_list (aw_client b) (sent w) (tagFilters None)")
    case (Inl e)
    then show thesis
      by (intro that [of _ ?w]) (simp_all add: sweepBackend_def Let_def bindM_run catchM_def awsSweepable_def list ret_run)
  next
    case (Inr x)
    obtain token "is" where x: "x = (token, is)" by (cases x)
    show thesis
    proof (cases token)
      case True
      with Inr x show thesis
        by (intro that [of _ ?w]) (simp_all add: sweepBackend_def Let_def bindM_run catchM_def awsSweepable_def list ret_run)
    next
      case False
      define r0 where "r0 = \<lparr>rr_backend = Aws, rr_inspected = length (handlesOf b is), rr_malformed = 0, rr_noTtl = 0, rr_terminated = 0, rr_listError = None,
        rr_terminateErrors = []\<rparr>"
      obtain r' w' where "foldM (reapHandle (awsSweepable b) now) r0 (handlesOf b is) ?w = (Inr r', w')"
        "sent w' = sent ?w @ map (\<lambda>h. TerminateInstances (aw_region b) (ch_id h)) (filter (dueAt now) (handlesOf b is))" by (rule reapHandles_run)
      with False Inr x show thesis
        by (intro that [of r' w']) (simp_all add: sweepBackend_def Let_def bindM_run catchM_def list ret_run r0_def awsSweepable_def)
    qed
  qed
qed

lemma sweepCalls_append: "sweepCalls now (bs @ cs) h = sweepCalls now cs (sweepCalls now bs h)"
  by (induction now bs h rule: sweepCalls.induct) simp_all

lemma sweepAll_run:
  obtains rs w' where "foldM (sweepNext now) acc (map awsSweepable bs) w = (Inr (acc @ rs), w')"
    "sent w' = sweepCalls now bs (sent w)" "length rs = length bs"
proof (induction bs arbitrary: acc w thesis)
  case Nil
  then show ?case by (simp add: ret_run)
next
  case (Cons b bs)
  obtain r w1 where s: "sweepBackend now (awsSweepable b) w = (Inr r, w1)" "sent w1 = sweepCalls now [b] (sent w)" by (rule sweepBackend_run)
  obtain rs w2 where "foldM (sweepNext now) (acc @ [r]) (map awsSweepable bs) w1 = (Inr ((acc @ [r]) @ rs), w2)"
    "sent w2 = sweepCalls now bs (sent w1)" "length rs = length bs" by (rule Cons.IH)
  moreover have "sweepNext now acc (awsSweepable b) w = (Inr (acc @ [r]), w1)" using s by (simp add: sweepNext_def bindM_run ret_run)
  ultimately show ?case
    using s sweepCalls_append [of now "[b]" bs "sent w"] by (intro Cons.prems [of "r # rs" w2]) (simp_all add: bindM_run del: sweepCalls.simps)
qed

section \<open>The deadline of a provisioned instance\<close>

lemma map_of_setTag: "map_of (setTag m kv) = (map_of m)(fst kv \<mapsto> snd kv)"
proof (cases "fst kv \<in> fst ` set m")
  case True
  have "map_of (map (\<lambda>p. if fst p = fst kv then kv else p) m) k = (if k = fst kv \<and> map_of m k \<noteq> None then Some (snd kv) else map_of m k)" for k
    by (induction m) auto
  with True show ?thesis by (simp add: setTag_def fun_eq_iff map_of_eq_None_iff)
next
  case False
  then have "map_of m (fst kv) = None" by (simp add: map_of_eq_None_iff)
  with False show ?thesis by (cases kv) (auto simp: setTag_def map_add_def fun_eq_iff split: option.split)
qed

lemma tagMap_untouched:
  assumes "list_all (\<lambda>(k, v). k \<noteq> key) ts"
  shows "map_of (foldl addTag m (map (\<lambda>(k, v). (Some k, Some v)) ts)) key = map_of m key"
  using assms by (induction ts arbitrary: m) (auto simp: addTag_def map_of_setTag)

text \<open>The tags as a listing returns them.\<close>

definition echoed :: "(string \<times> string) list \<Rightarrow> (string option \<times> string option) list" where
  "echoed tags = map (\<lambda>(k, v). (Some k, Some v)) tags"

lemma provisioned_deadline_tag:
  "map_of (tagMap (echoed (buildInstanceTags config orgId ttl t))) SIGNALMAN_TTL_EXPIRES_AT_TAG_KEY = Some (showInt (t div 1000 + ttl * 60))"
proof -
  let ?own = "filter (\<lambda>(k, v). k \<notin> set sentinelKeys) (orElse (ic_tags config) [])"
  have "list_all (\<lambda>(k, v). k \<noteq> SIGNALMAN_TTL_EXPIRES_AT_TAG_KEY) ?own" by (auto simp: list_all_iff sentinelKeys_def)
  note own = tagMap_untouched [OF this]
  show ?thesis
    by (simp add: tagMap_def echoed_def buildInstanceTags_def Let_def own)
      (simp add: addTag_def map_of_setTag truthy_def SIGNALMAN_TTL_EXPIRES_AT_TAG_KEY_def SIGNALMAN_MANAGED_TAG_KEY_def SIGNALMAN_ORG_TAG_KEY_def
        SIGNALMAN_TTL_MINUTES_TAG_KEY_def)
qed

lemma provisioned_due:
  assumes "ch_tags h = Some (tagMap (echoed (buildInstanceTags config orgId ttl t)))"
  shows "dueAt now h \<longleftrightarrow> 0 < t div 1000 + ttl * 60 \<and> t div 1000 + ttl * 60 \<le> now \<and> of_int (t div 1000 + ttl * 60) < largestNumber"
proof -
  define d where "d = t div 1000 + ttl * 60"
  have tag: "map_of (tagMap (echoed (buildInstanceTags config orgId ttl t))) SIGNALMAN_TTL_EXPIRES_AT_TAG_KEY = Some (showInt d)"
    by (simp add: d_def provisioned_deadline_tag)
  have small: "of_int d \<le> (1 / 2 ^ 1075 :: rat) \<longleftrightarrow> d \<le> 0"
  proof
    assume "of_int d \<le> (1 / 2 ^ 1075 :: rat)"
    also have "(1 / 2 ^ 1075 :: rat) < 1" by simp
    finally show "d \<le> 0" by simp
  next
    assume "d \<le> 0"
    then have "of_int d \<le> (0 :: rat)" by simp
    also have "(0 :: rat) \<le> 1 / 2 ^ 1075" by simp
    finally show "of_int d \<le> (1 / 2 ^ 1075 :: rat)" .
  qed
  show ?thesis
    unfolding d_def [symmetric] dueAt_def handleDeadline_def assms bind.simps tag option.case numberText_showInt small by auto
qed

text \<open>
  C38. A sweep of the reaper terminates exactly what has expired.  Whatever the EC2 clients answer and whichever
  statements of the usage table fail, \<open>runOnce\<close> over EC2 backends returns, with one result per backend;
  it lists each backend once and asks for the termination of exactly those listed instances whose
  deadline tag is a positive number of seconds that has passed, each once and in the order listed: a
  backend that cannot be listed or a termination that fails keeps no other from its turn.  And an instance
  that carries the tags \<open>provisionInstance\<close> gave it is expired exactly from the second its time to live is
  over, whatever tags its owner added, as long as that second is a finite number.
\<close>

theorem reaper_terminates_exactly_expired:
  "(\<exists>r w'. runOnce (map awsSweepable bs) w = (Inr r, w') \<and> length (rn_backends r) = length bs \<and>
     sent w' = sweepCalls (clocks w (Suc (clockN w)) div 1000) bs (sent w)) \<and>
   (dueAt now (handle\<lparr>ch_tags := Some (tagMap (echoed (buildInstanceTags config orgId ttl t)))\<rparr>) \<longleftrightarrow>
     0 < t div 1000 + ttl * 60 \<and> t div 1000 + ttl * 60 \<le> now \<and> of_int (t div 1000 + ttl * 60) < largestNumber)"
proof (rule conjI [OF _ provisioned_due])
  let ?now = "clocks w (Suc (clockN w)) div 1000" and ?w = "w\<lparr>clockN := Suc (Suc (clockN w))\<rparr>"
  obtain rs w1 where "foldM (sweepNext ?now) [] (map awsSweepable bs) ?w = (Inr ([] @ rs), w1)" "sent w1 = sweepCalls ?now bs (sent ?w)" "length rs = length bs"
    by (rule sweepAll_run)
  then show "\<exists>r w'. runOnce (map awsSweepable bs) w = (Inr r, w') \<and> length (rn_backends r) = length bs \<and> sent w' = sweepCalls ?now bs (sent w)"
    by (simp add: runOnce_def bindM_run nowIso_run dateNow_def ret_run)
qed simp

end
