(* ===== verification/Cloud_Spend.thy ===== *)
theory Cloud_Spend
  imports Cloud_Reaper Store
begin

text \<open>
  What the budget gate in front of EC2 guarantees: over any sequence of provisionings and terminations
  in one calendar month, what an organisation is recorded to have spent stays within its budget.
\<close>

section \<open>Sequences of operations\<close>

definition spentIn :: "string \<Rightarrow> string \<times> string \<Rightarrow> cloudOrgUsage list \<Rightarrow> int" where
  "spentIn orgId month rows = sum_list (map cu_estimatedCents
     (filter (\<lambda>r. cu_orgId r = orgId \<and> cu_startedAt r \<ge> fst month \<and> cu_startedAt r < snd month) rows))"

datatype cloudOp =
    Provision nat awsBackend cloudInstanceConfig
  | Terminate awsBackend cloudInstanceHandle

fun opBackend :: "cloudOp \<Rightarrow> awsBackend" where
  "opBackend (Provision fuel b config) = b"
| "opBackend (Terminate b handle) = b"

fun runOp :: "cloudOp \<Rightarrow> ('z, unit) CM" where
  "runOp (Provision fuel b config) = bindM (provisionInstance fuel b config) (\<lambda>_. ret ())"
| "runOp (Terminate b handle) = terminateInstance b handle"

definition runOps :: "cloudOp list \<Rightarrow> ('z, unit) CM" where
  "runOps ops = foldM (\<lambda>_ op. tryM (runOp op)) () ops"

section \<open>What the ledger keeps\<close>

definition ledger ::
  "(nat \<Rightarrow> int) \<Rightarrow> cloudOrgBudget list \<Rightarrow> nat \<Rightarrow> (cloudOrgUsage list \<Rightarrow> bool) \<Rightarrow> 'z world_scheme \<Rightarrow> bool" where
  "ledger c bs n P w \<longleftrightarrow> clocks w = c \<and> cloudBudgets w = bs \<and> n \<le> clockN w \<and> P (cloudUsage w)"

lemma ledger_counters [simp]:
  "ledger c bs n P (w\<lparr>stmtN := k\<rparr>) = ledger c bs n P w"
  "ledger c bs n P (w\<lparr>ulidN := k\<rparr>) = ledger c bs n P w"
  "ledger c bs n P (v\<lparr>sent := h\<rparr>) = ledger c bs n P v"
  by (simp_all add: ledger_def)

lemma ledger_env: "keeps (ledger c bs n P) dateNow" "keeps (ledger c bs n P) nowIso" "keeps (ledger c bs n P) newId"
  by (simp_all add: keeps_def ledger_def dateNow_def nowIso_def newId_def bindM_def ret_def)

lemma ledger_call: "keeps (ledger c bs n P) (callEc2 a f)"
  by (simp add: keeps_def callEc2_def)

lemma ledger_now: "triple (ledger c bs n P) dateNow (\<lambda>t w. ledger c bs n P w \<and> (\<exists>k\<ge>n. t = c k)) E"
  by (rule triple_run) (auto simp: dateNow_def ledger_def)

lemma ledger_read: "triple (ledger c bs n P) (stmt (readM f)) (\<lambda>x w. ledger c bs n P w \<and> (\<exists>k. x = f (w\<lparr>stmtN := k\<rparr>))) (\<lambda>_. ledger c bs n P)"
  unfolding triple_def
proof (intro allI impI)
  fix w :: "'a world_scheme"
  assume "ledger c bs n P w"
  then show "case stmt (readM f) w of (Inr x, w') \<Rightarrow> ledger c bs n P w' \<and> (\<exists>k. x = f (w'\<lparr>stmtN := k\<rparr>)) | (Inl e, w') \<Rightarrow> ledger c bs n P w'"
    by (auto simp: stmt_def readM_def split: option.splits intro!: exI [of _ "Suc (stmtN w)"])
qed

lemma ledger_budget: "triple (ledger c bs n P) (budget_get o') (\<lambda>b w. ledger c bs n P w \<and> b = find (\<lambda>r. cb_orgId r = o') bs) (\<lambda>_. ledger c bs n P)"
  unfolding budget_get_def selectOne_def by (rule triple_weaken [OF ledger_read]) (auto simp: ledger_def)

lemma ledger_sum: "triple (ledger c bs n P) (usage_sumForRange o' a b) (\<lambda>s. ledger c bs n (\<lambda>u. P u \<and> s = spentIn o' (a, b) u)) (\<lambda>_. ledger c bs n P)"
  unfolding usage_sumForRange_def by (rule triple_weaken [OF ledger_read]) (auto simp: ledger_def spentIn_def)

lemma ledger_insert:
  assumes "\<And>u. P u \<Longrightarrow> Q u" and "\<And>u. P u \<Longrightarrow> Q (u @ [r])"
  shows "triple (ledger c bs n P) (insertInto cloudUsage cloudUsage_update cloudUsage_chk r) (\<lambda>_. ledger c bs n Q) (\<lambda>_. ledger c bs n Q)"
  using assms by (auto simp: triple_def insertInto_def stmt_def constrained_def ledger_def split: option.splits)

lemma ledger_update:
  assumes "\<And>u. P u \<Longrightarrow> P (map (\<lambda>r. if p r then f r else r) u)"
  shows "keeps (ledger c bs n P) (updateWhere cloudUsage cloudUsage_update cloudUsage_chk p f)"
  using assms by (auto simp: keeps_def updateWhere_def stmt_def constrained_def ledger_def split: option.splits)

section \<open>The gate\<close>

text \<open>The spend a check has let through, for the organisation it was made for.\<close>

definition afforded :: "string \<Rightarrow> string \<times> string \<Rightarrow> int \<Rightarrow> string \<Rightarrow> int option \<Rightarrow> cloudOrgUsage list \<Rightarrow> bool" where
  "afforded orgId month limit o' est u \<longleftrightarrow> (o' = orgId \<longrightarrow> (\<forall>e. est = Some e \<longrightarrow> spentIn orgId month u + e \<le> limit))"

lemma budgetVerdict_passes:
  assumes "o' = orgId \<Longrightarrow> y = b"
  shows "triple (ledger c bs n (\<lambda>u. P u \<and> s = spentIn o' month u)) (budgetVerdict y o' est s)
     (\<lambda>_. ledger c bs n (\<lambda>u. P u \<and> afforded orgId month (cb_monthlyCentsLimit b) o' est u)) (\<lambda>_. ledger c bs n P)"
  unfolding budgetVerdict_def Let_def
  by (intro triple_option triple_if triple_return triple_throw) (use assms in \<open>auto simp: ledger_def afforded_def\<close>)

lemma budgetCheck_passes:
  assumes month: "\<And>k. n \<le> k \<Longrightarrow> monthBoundsUtc (c k) = month"
    and budget: "find (\<lambda>r. cb_orgId r = orgId) bs = Some b"
  shows "triple (ledger c bs n P) (budgetCheck o' est)
     (\<lambda>_. ledger c bs n (\<lambda>u. P u \<and> afforded orgId month (cb_monthlyCentsLimit b) o' est u)) (\<lambda>_. ledger c bs n P)"
    (is "triple _ _ ?Q _")
  unfolding budgetCheck_def
proof (rule triple_bindM [OF ledger_budget], rule triple_pure, rule triple_option)
  fix x
  assume "x = find (\<lambda>r. cb_orgId r = o') bs" "x = None"
  then show "triple (ledger c bs n P) (ret \<lparr>bk_warned = False, bk_usageCents = 0, bk_limitCents = None, bk_estimatedCents = est, bk_pctAfter = Some 0\<rparr>)
      ?Q (\<lambda>_. ledger c bs n P)"
    using budget by (intro triple_return) (auto simp: ledger_def afforded_def)
next
  fix x y
  assume x: "x = find (\<lambda>r. cb_orgId r = o') bs" "x = Some y"
  show "triple (ledger c bs n P) (bindM dateNow (\<lambda>now.
      bindM (usage_sumForRange o' (fst (monthBoundsUtc now)) (snd (monthBoundsUtc now))) (budgetVerdict y o' est))) ?Q (\<lambda>_. ledger c bs n P)"
  proof (rule triple_bindM [OF ledger_now], rule triple_pure)
    fix now
    assume "\<exists>k\<ge>n. now = c k"
    then have m: "monthBoundsUtc now = (fst month, snd month)" using month by auto
    have "o' = orgId \<Longrightarrow> y = b" using x budget by simp
    from budgetVerdict_passes [OF this, where month = "(fst month, snd month)"]
    show "triple (ledger c bs n P) (bindM (usage_sumForRange o' (fst (monthBoundsUtc now)) (snd (monthBoundsUtc now))) (budgetVerdict y o' est)) ?Q (\<lambda>_. ledger c bs n P)"
      unfolding m fst_conv snd_conv by (intro triple_bindM [OF ledger_sum]) simp
  qed
qed

lemma spentIn_append: "spentIn orgId month (u @ [r]) = spentIn orgId month u + (if cu_orgId r = orgId \<and> fst month \<le> cu_startedAt r \<and> cu_startedAt r < snd month then cu_estimatedCents r else 0)"
  by (simp add: spentIn_def)

lemma recordStart_bounded:
  assumes "limit \<le> M" and est: "estimateInstanceCostCents ty region ttl = est"
  shows "triple (ledger c bs n (\<lambda>u. spentIn orgId month u \<le> M \<and> afforded orgId month limit o' est u)) (gateRecordStart o' be i ty region ttl)
     (\<lambda>_. ledger c bs n (\<lambda>u. spentIn orgId month u \<le> M)) (\<lambda>_. ledger c bs n (\<lambda>u. spentIn orgId month u \<le> M))"
    (is "triple ?P _ (\<lambda>_. ?Q) _")
proof -
  have weak: "?P w \<Longrightarrow> ?Q w" for w :: "'a world_scheme" by (simp add: ledger_def)
  have fails: "triple ?P (mappingErrors (stmt (throwM e))) (\<lambda>_ :: unit. ?Q) (\<lambda>_. ?Q)" for e
    unfolding mappingErrors_def
    by (rule triple_catchM [where R = "\<lambda>_. ?Q"]) (auto simp: triple_def stmt_def throwM_def ledger_def split: option.splits)
  have inserts: "triple ?P (mappingErrors (insertInto cloudUsage cloudUsage_update cloudUsage_chk r)) (\<lambda>_. ?Q) (\<lambda>_. ?Q)"
    if "cu_orgId r = o'" "est = Some (cu_estimatedCents r)" for r
    unfolding mappingErrors_def using that assms(1)
    by (intro triple_catchM [OF ledger_insert] triple_throw) (auto simp: spentIn_append afforded_def)
  show ?thesis
    unfolding gateRecordStart_def usage_recordStart_def Let_def est
    by (intro triple_step [OF ledger_env(2)] triple_step [OF ledger_env(3)] triple_option triple_seq [OF triple_step [OF ledger_env(3)]]
        triple_seq [OF inserts] triple_return fails) (simp_all add: weak)
qed

section \<open>Provisioning and terminating\<close>

lemma status_kept: "keeps (ledger c bs n P) (getInstanceStatus b h)"
  unfolding getInstanceStatus_def by (intro keeps_intros ledger_call)

lemma poll_kept: "keeps (ledger c bs n P) (pollUntilRunning fuel b h d)"
  by (induction fuel) (auto intro!: keeps_intros ledger_env status_kept)

lemma wait_kept: "keeps (ledger c bs n P) (waitUntilRunning fuel b h)"
  unfolding waitUntilRunning_def by (intro keeps_intros ledger_env poll_kept)

lemma triple_tryM:
  assumes "triple P m (\<lambda>_. Q) (\<lambda>_. Q)"
  shows "triple P (tryM m) (\<lambda>_. Q) E"
  unfolding triple_def
proof (intro allI impI)
  fix s
  assume "P s"
  then show "case tryM m s of (Inr x, s') \<Rightarrow> Q s' | (Inl e, s') \<Rightarrow> E e s'"
    by (rule tripleD [OF assms]) (simp_all only: tryM_run snd_conv prod.case sum.case)
qed

lemma launch_bounded:
  assumes "limit \<le> M" and "estimateInstanceCostCents (ic_instanceType config) (aw_region b) (configTtl config) = est"
  shows "triple (ledger c bs n (\<lambda>u. spentIn orgId month u \<le> M \<and> afforded orgId month limit (configOrg config) est u)) (launchInstance fuel b config)
     (\<lambda>_. ledger c bs n (\<lambda>u. spentIn orgId month u \<le> M)) (\<lambda>_. ledger c bs n (\<lambda>u. spentIn orgId month u \<le> M))"
    (is "triple ?P _ (\<lambda>_. ?Q) _")
proof -
  have weak: "?P w \<Longrightarrow> ?Q w" for w :: "'a cworld_scheme" by (simp add: ledger_def)
  have recorded: "triple ?P (recordUsage b config i) (\<lambda>_. ?Q) (\<lambda>_. ?Q)" for i
    unfolding recordUsage_def
    by (intro triple_if triple_tryM recordStart_bounded assms triple_return weak)
  have ends: "triple ?P (bindM (recordUsage b config i) (\<lambda>_. ret x)) (\<lambda>_. ?Q) (\<lambda>_. ?Q)" for i and x :: "cloudInstanceHandle option"
    by (rule triple_bindM [OF recorded]) (rule triple_ret)
  have finish: "triple ?P (bindM (waitUntilRunning fuel b h) (\<lambda>running. case running of
      None \<Rightarrow> ret None | Some _ \<Rightarrow> bindM (recordUsage b config i) (\<lambda>_. ret (Some h)))) (\<lambda>_. ?Q) (\<lambda>_. ?Q)" for h i
    by (intro triple_step [OF wait_kept] triple_option ends triple_return weak)
  show ?thesis
    unfolding launchInstance_def Let_def
    by (intro triple_step [OF ledger_env(1)] triple_if triple_throw triple_step [OF ledger_call] weak)
      (auto intro!: triple_throw finish weak split: sum.split option.split)
qed

lemma provision_bounded:
  assumes month: "\<And>k. n \<le> k \<Longrightarrow> monthBoundsUtc (c k) = month"
    and budget: "find (\<lambda>r. cb_orgId r = orgId) bs = Some budget" "cb_monthlyCentsLimit budget \<le> M"
    and gate: "aw_gate b"
  shows "triple (ledger c bs n (\<lambda>u. spentIn orgId month u \<le> M)) (provisionInstance fuel b config)
     (\<lambda>_. ledger c bs n (\<lambda>u. spentIn orgId month u \<le> M)) (\<lambda>_. ledger c bs n (\<lambda>u. spentIn orgId month u \<le> M))"
    (is "triple ?Q _ _ _")
  unfolding provisionInstance_def
proof (intro triple_if triple_throw)
  assume "\<not> ic_region config \<noteq> aw_region b"
  then have region: "ic_region config = aw_region b" by simp
  show "triple ?Q (bindM (if aw_gate b then bindM (checkForConfig config) (\<lambda>_. ret ()) else ret ()) (\<lambda>_. launchInstance fuel b config)) (\<lambda>_. ?Q) (\<lambda>_. ?Q)"
    unfolding if_P [OF gate] checkForConfig_def region
    by (rule triple_bindM [OF _ launch_bounded [OF budget(2) refl]], rule triple_bindM [OF _ triple_ret], rule budgetCheck_passes [OF _ budget(1)])
      (rule month)
qed

lemma spentIn_marked:
  assumes "\<And>r. cu_orgId (f r) = cu_orgId r \<and> cu_startedAt (f r) = cu_startedAt r \<and> cu_estimatedCents (f r) = cu_estimatedCents r"
  shows "spentIn orgId month (map (\<lambda>r. if p r then f r else r) u) = spentIn orgId month u"
  by (induction u) (auto simp: spentIn_def assms)

lemma terminate_kept: "keeps (ledger c bs n (\<lambda>u. spentIn orgId month u \<le> M)) (terminateInstance b h)"
  unfolding terminateInstance_def gateRecordTerminate_def usage_recordTerminate_def
  by (intro keeps_intros ledger_call ledger_env ledger_update) (auto intro!: keeps_intros simp: spentIn_marked split: sum.split)

lemma runOps_bounded:
  assumes "\<And>k. n \<le> k \<Longrightarrow> monthBoundsUtc (c k) = month"
    and "find (\<lambda>r. cb_orgId r = orgId) bs = Some budget" "cb_monthlyCentsLimit budget \<le> M"
    and gated: "list_all (\<lambda>op. aw_gate (opBackend op)) ops"
  shows "triple (ledger c bs n (\<lambda>u. spentIn orgId month u \<le> M)) (runOps ops) (\<lambda>_. ledger c bs n (\<lambda>u. spentIn orgId month u \<le> M)) (\<lambda>_ _. False)"
  unfolding runOps_def
proof (intro triple_foldM triple_tryM)
  fix op
  assume "op \<in> set ops"
  with gated have gate: "aw_gate (opBackend op)" by (simp add: list_all_iff)
  show "triple (ledger c bs n (\<lambda>u. spentIn orgId month u \<le> M)) (runOp op) (\<lambda>_. ledger c bs n (\<lambda>u. spentIn orgId month u \<le> M))
      (\<lambda>_. ledger c bs n (\<lambda>u. spentIn orgId month u \<le> M))"
  proof (cases op)
    case (Provision fuel b config)
    have "triple (ledger c bs n (\<lambda>u. spentIn orgId month u \<le> M)) (provisionInstance fuel b config) (\<lambda>_. ledger c bs n (\<lambda>u. spentIn orgId month u \<le> M))
        (\<lambda>_. ledger c bs n (\<lambda>u. spentIn orgId month u \<le> M))"
      using gate Provision by (intro provision_bounded [OF _ assms(2,3)] assms(1)) simp_all
    then show ?thesis unfolding Provision runOp.simps by (rule triple_bindM) (rule triple_ret)
  next
    case (Terminate b h)
    then show ?thesis using triple_keeps [OF terminate_kept] by simp
  qed
qed

text \<open>A refusal: the check of a provisioning that would exceed the budget fails before any call.\<close>

lemma readM_sent: "keeps (sdk.sees Q) (stmt (readM f))"
  by (rule sdk.frame_stmt) (simp add: readM_def)

lemma check_sent: "sent (snd (checkForConfig config (w :: 'a cworld_scheme))) = sent w"
proof -
  have "keeps (sdk.sees Q) (checkForConfig config)" for Q :: "_ \<Rightarrow> bool"
    unfolding checkForConfig_def budgetCheck_def budget_get_def usage_sumForRange_def budgetVerdict_def
    by (intro keeps_intros sdk.frame_env sdk.frame_select readM_sent)
  from keepsD [OF this [of "\<lambda>h. h = sent w"], of w] show ?thesis by (simp add: sdk.sees_def)
qed

lemma provision_refused:
  assumes month: "\<And>k. clockN w \<le> k \<Longrightarrow> monthBoundsUtc (clocks w k) = month"
    and budget: "find (\<lambda>r. cb_orgId r = configOrg config) (cloudBudgets w) = Some budget" and gate: "aw_gate b"
    and est: "estimateInstanceCostCents (ic_instanceType config) (ic_region config) (configTtl config) = Some est"
    and over: "cb_monthlyCentsLimit budget < spentIn (configOrg config) month (cloudUsage w) + est"
  shows "isl (fst (provisionInstance fuel b config w)) \<and> sent (snd (provisionInstance fuel b config w)) = sent w"
proof -
  have "ledger (clocks w) (cloudBudgets w) (clockN w) (\<lambda>u. u = cloudUsage w) w" by (simp add: ledger_def)
  note check = tripleD [OF budgetCheck_passes [where n = "clockN w" and c = "clocks w" and month = month and o' = "configOrg config" and est = "Some est",
      OF month budget] this, of "\<exists>e w'. checkForConfig config w = (Inl e, w')"]
  have "\<exists>e w'. checkForConfig config w = (Inl e, w')"
    using over by (rule_tac check) (auto simp: checkForConfig_def est ledger_def afforded_def)
  then show ?thesis
    using check_sent [of config w] gate by (auto simp: provisionInstance_def throwM_run bindM_run)
qed

section \<open>The budget\<close>

text \<open>An organisation with thirty cents a month, and an EC2 client whose instances run at once.\<close>

definition penWorld :: cworld where
  "penWorld = world.extend (freshWorld\<lparr>clocks := (\<lambda>_. 1700000000000),
     cloudBudgets := [\<lparr>cb_orgId = ''default'', cb_monthlyCentsLimit = 30, cb_softWarnPct = 80,
       cb_createdAt = ''2023-11-01T00:00:00.000Z'', cb_updatedAt = ''2023-11-01T00:00:00.000Z''\<rparr>]\<rparr>) (cworld.fields [])"

definition penInstance :: ec2Instance where
  "penInstance = \<lparr>ei_instanceId = Some ''i-1'', ei_state = Some ''running'', ei_publicIp = None, ei_privateIp = None, ei_stateReason = None, ei_tags = []\<rparr>"

definition penBackend :: awsBackend where
  "penBackend = \<lparr>aw_client = \<lparr>ec_run = (\<lambda>_ _. Inr (Some penInstance)), ec_terminate = (\<lambda>_ _. Inr ()), ec_describe = (\<lambda>_ _. Inr (Some penInstance)),
     ec_list = (\<lambda>_ _. Inr (False, []))\<rparr>, aw_region = ''us-east-1'', aw_pollTimeoutMs = 300000, aw_gate = True\<rparr>"

definition penConfig :: "int \<Rightarrow> cloudInstanceConfig" where
  "penConfig ttl = \<lparr>ic_region = ''us-east-1'', ic_instanceType = ''t3.large'', ic_imageRef = ''ami-1'', ic_name = ''pen'', ic_orgId = None,
     ic_ttlMinutes = Some ttl, ic_sshPublicKey = None, ic_tags = None, ic_network = None\<rparr>"

lemma pen_doubles: "toDouble 1 = 1" "toDouble 8 = 8" "toDouble 3 = 3" "toDouble 4 = 4" "toDouble 24 = 24" "toDouble 32 = 32"
  by code_simp+

lemma pen_estimates:
  "estimateInstanceCostCents ''t3.large'' ''us-east-1'' 180 = Some 24" "estimateInstanceCostCents ''t3.large'' ''us-east-1'' 60 = Some 8"
  "estimateInstanceCostCents ''t3.large'' ''us-east-1'' 240 = Some 32"
  by (simp_all add: estimateInstanceCostCents_def rateTimesMultiplier_def tableNumber_def SKU_CENTS_PER_HOUR_def REGION_MULTIPLIERS_def pen_doubles)

lemma pen_dates:
  "toISOString 1700000000000 = ''2023-11-14T22:13:20.000Z''"
  "monthBoundsUtc 1700000000000 = (''2023-11-01T00:00:00.000Z'', ''2023-12-01T00:00:00.000Z'')"
  by (simp_all add: monthBoundsUtc_def date_eval dateUTC_month_def)

lemmas pen_run = run_simps provisionInstance_def checkForConfig_def budgetCheck_def budget_get_def selectOne_def stmt_def dateNow_def
  usage_sumForRange_def configOrg_def configTtl_def launchInstance_def Let_def callEc2_def waitUntilRunning_def getInstanceStatus_def mapEc2State_def
  recordUsage_def gateRecordStart_def usage_recordStart_def mappingErrors_def insertInto_def constrained_def cloudUsage_chk_def firstViolation_def
  unique_on_def configMode_def

lemma pen_records:
  "map cu_estimatedCents (cloudUsage (snd (runOps [Provision 1 penBackend (penConfig 180), Provision 1 penBackend (penConfig 60)] penWorld))) = [24]"
  by (simp add: runOps_def pen_run penBackend_def penConfig_def penWorld_def penInstance_def world.defs cworld.defs freshWorld_def budgetVerdict_def pen_estimates pen_dates)

text \<open>
  C37. The budget holds.  Over any sequence of provisionings and terminations through EC2 backends that
  have the gate wired, with every clock reading in one calendar month, whatever the EC2 clients answer,
  however long the polls last and whichever statements fail, what the usage table records for an
  organisation with a budget row in that month never grows beyond the limit of the row (a spend that was
  beyond it before does not grow).  And a single provisioning whose estimate would take the spend over the
  limit fails without one call to EC2.
\<close>

theorem month_budget_holds:
  assumes "list_all (\<lambda>op. aw_gate (opBackend op)) ops"
    and "\<forall>k. clockN w \<le> k \<longrightarrow> monthBoundsUtc (clocks w k) = month"
    and "find (\<lambda>r. cb_orgId r = orgId) (cloudBudgets w) = Some budget"
  shows "spentIn orgId month (cloudUsage (snd (runOps ops w))) \<le> max (spentIn orgId month (cloudUsage w)) (cb_monthlyCentsLimit budget) \<and>
    (aw_gate b \<and> configOrg config = orgId \<and>
     estimateInstanceCostCents (ic_instanceType config) (ic_region config) (configTtl config) = Some est \<and>
     cb_monthlyCentsLimit budget < spentIn orgId month (cloudUsage w) + est \<longrightarrow>
       isl (fst (provisionInstance fuel b config w)) \<and> sent (snd (provisionInstance fuel b config w)) = sent w)"
proof (intro conjI [OF _ impI])
  let ?M = "max (spentIn orgId month (cloudUsage w)) (cb_monthlyCentsLimit budget)"
  have "triple (ledger (clocks w) (cloudBudgets w) (clockN w) (\<lambda>u. spentIn orgId month u \<le> ?M)) (runOps ops)
      (\<lambda>_. ledger (clocks w) (cloudBudgets w) (clockN w) (\<lambda>u. spentIn orgId month u \<le> ?M)) (\<lambda>_ _. False)"
    using assms(1,2) by (intro runOps_bounded [OF _ assms(3)]) simp_all
  moreover have "ledger (clocks w) (cloudBudgets w) (clockN w) (\<lambda>u. spentIn orgId month u \<le> ?M) w" by (simp add: ledger_def)
  ultimately show "spentIn orgId month (cloudUsage (snd (runOps ops w))) \<le> ?M" by (rule tripleD) (simp_all add: ledger_def)
next
  assume r: "aw_gate b \<and> configOrg config = orgId \<and>
     estimateInstanceCostCents (ic_instanceType config) (ic_region config) (configTtl config) = Some est \<and>
     cb_monthlyCentsLimit budget < spentIn orgId month (cloudUsage w) + est"
  show "isl (fst (provisionInstance fuel b config w)) \<and> sent (snd (provisionInstance fuel b config w)) = sent w"
    by (rule provision_refused [where month = month and budget = budget and est = est]) (use assms(2,3) r in auto)
qed

theorem month_budget_holds_witness:
  "spentIn ''default'' (monthBoundsUtc 1700000000000) (cloudUsage (snd (runOps [Provision 1 penBackend (penConfig 180), Provision 1 penBackend (penConfig 60)] penWorld))) \<le> 30 \<and>
   map cu_estimatedCents (cloudUsage (snd (runOps [Provision 1 penBackend (penConfig 180), Provision 1 penBackend (penConfig 60)] penWorld))) = [24] \<and>
   isl (fst (provisionInstance 1 penBackend (penConfig 240) penWorld)) \<and> sent (snd (provisionInstance 1 penBackend (penConfig 240) penWorld)) = []"
  using month_budget_holds [where w = penWorld and ops = "[Provision 1 penBackend (penConfig 180), Provision 1 penBackend (penConfig 60)]"
      and month = "monthBoundsUtc 1700000000000" and orgId = "''default''" and b = penBackend and config = "penConfig 240" and fuel = 1 and est = 32] pen_records
  by (simp add: pen_estimates) (simp add: penWorld_def penBackend_def penConfig_def spentIn_def configOrg_def configTtl_def world.defs cworld.defs freshWorld_def pen_estimates)

end
