(* ===== verification/Spec2Isabelle.thy ===== *)
theory Spec2Isabelle
  imports Job_Queue Hypervisor_Backend Http_Auth Promotion_Facts Slots Build_Verify Tar_Facts Cloud_Spend
begin

text \<open>
  Verification library for Signalman.
\<close>

end
